(* ===== verification/Prelude.thy ===== *)
theory Prelude
  imports Main "HOL-Library.List_Lexorder" "HOL-Library.Code_Target_Nat"
begin

text \<open>
  Shared vocabulary of the development: Python strings as lists of Unicode code points,
  exceptions as the left side of a sum, and the row-list reading of SQL tables
  (\<open>INSERT\<close>, \<open>UPDATE \<dots> WHERE\<close>, \<open>DELETE \<dots> WHERE\<close>, \<open>UNIQUE\<close>) that the durable stores
  of the worker and of the gateway use. A table is the list of its rows in rowid order:
  SQLite gives a new row a rowid above every existing one, so \<open>ORDER BY rowid\<close> is the
  list order and an insertion appends.
\<close>

named_theorems table_simps "rewrite rules for rows of a table"
named_theorems table_intros "uniqueness of keys is kept by table operations"

section \<open>Strings\<close>

text \<open>
  A Python \<open>str\<close> is a sequence of code points and \<open>len\<close> counts them; a \<open>bytes\<close> value is a
  list of numbers below 256. \<open>lit\<close> embeds an ASCII literal.
\<close>

type_synonym str = "nat list"
type_synonym bytes = "nat list"

definition lit :: "string \<Rightarrow> str" where
  "lit s = map of_char s"

lemma of_char_nat_eq_iff: "(of_char c :: nat) = of_char d \<longleftrightarrow> c = d"
  by (rule of_char_eq_iff)

lemma lit_eq_iff [simp]: "lit s = lit t \<longleftrightarrow> s = t"
proof -
  have "inj (of_char :: char \<Rightarrow> nat)" by (auto intro: injI simp: of_char_nat_eq_iff)
  then show ?thesis by (simp add: lit_def inj_map_eq_map)
qed

lemma lit_Nil_iff [simp]: "lit s = [] \<longleftrightarrow> s = []" "[] = lit s \<longleftrightarrow> s = []"
  by (simp_all add: lit_def)

lemma length_lit [simp]: "length (lit s) = length s"
  by (simp add: lit_def)

text \<open>Python's \<open>x or None\<close> on an optional string: the empty string is falsy.\<close>

definition or_none :: "str option \<Rightarrow> str option" where
  "or_none x = (case x of Some (c # cs) \<Rightarrow> Some (c # cs) | _ \<Rightarrow> None)"

lemma or_none_Some [simp]: "or_none (Some s) = (if s = [] then None else Some s)"
  by (cases s) (simp_all add: or_none_def)

lemma or_none_None [simp]: "or_none None = None"
  by (simp add: or_none_def)

text \<open>\<open>sep.join(parts)\<close>.\<close>

fun join :: "'a list \<Rightarrow> 'a list list \<Rightarrow> 'a list" where
  "join sep [] = []"
| "join sep [x] = x"
| "join sep (x # y # ys) = x @ sep @ join sep (y # ys)"

lemma join_Cons: "xs \<noteq> [] \<Longrightarrow> join sep (x # xs) = x @ sep @ join sep xs"
  by (cases xs) auto

text \<open>\<open>value.strip(chars)\<close> with the characters given by a predicate, and its one-sided forms.\<close>

definition lstrip_by :: "('a \<Rightarrow> bool) \<Rightarrow> 'a list \<Rightarrow> 'a list" where
  "lstrip_by p xs = dropWhile p xs"

definition rstrip_by :: "('a \<Rightarrow> bool) \<Rightarrow> 'a list \<Rightarrow> 'a list" where
  "rstrip_by p xs = rev (dropWhile p (rev xs))"

definition strip_by :: "('a \<Rightarrow> bool) \<Rightarrow> 'a list \<Rightarrow> 'a list" where
  "strip_by p xs = rstrip_by p (lstrip_by p xs)"

section \<open>Results\<close>

text \<open>A call that may raise returns \<open>Inl e\<close> for the exception and \<open>Inr x\<close> for the value.\<close>

definition is_ok :: "'e + 'a \<Rightarrow> bool" where
  "is_ok r = (case r of Inl _ \<Rightarrow> False | Inr _ \<Rightarrow> True)"

lemma is_ok_simps [simp]: "\<not> is_ok (Inl e)" "is_ok (Inr x)"
  by (simp_all add: is_ok_def)

lemma is_ok_iff: "is_ok r \<longleftrightarrow> (\<exists>x. r = Inr x)"
  by (cases r) auto

fun map_err :: "('a \<Rightarrow> 'e + 'b) \<Rightarrow> 'a list \<Rightarrow> 'e + 'b list" where
  "map_err f [] = Inr []"
| "map_err f (x # xs) =
     (case f x of Inl e \<Rightarrow> Inl e
      | Inr y \<Rightarrow> (case map_err f xs of Inl e \<Rightarrow> Inl e | Inr ys \<Rightarrow> Inr (y # ys)))"

text \<open>
  A statement that may raise, followed by the rest of the body; \<open>demand\<close> is
  \<open>if not condition: raise e\<close>, and \<open>or_raise\<close> a callee's failure turned into \<open>e\<close>.
\<close>

definition and_then :: "'e + 'a \<Rightarrow> ('a \<Rightarrow> 'e + 'b) \<Rightarrow> 'e + 'b" where
  "and_then r f = (case r of Inl e \<Rightarrow> Inl e | Inr x \<Rightarrow> f x)"

definition demand :: "'e \<Rightarrow> bool \<Rightarrow> 'e + 'b \<Rightarrow> 'e + 'b" where
  "demand e condition rest = (if condition then rest else Inl e)"

definition or_raise :: "'e \<Rightarrow> 'a option \<Rightarrow> 'e + 'a" where
  "or_raise e x = (case x of None \<Rightarrow> Inl e | Some y \<Rightarrow> Inr y)"

lemma and_then_simps [simp]: "and_then (Inl e) f = Inl e" "and_then (Inr x) f = f x"
  by (simp_all add: and_then_def)

lemma and_then_Inr: "and_then r f = Inr y \<longleftrightarrow> (\<exists>x. r = Inr x \<and> f x = Inr y)"
  by (cases r) simp_all

lemma and_then_Inl: "and_then r f = Inl e \<longleftrightarrow> r = Inl e \<or> (\<exists>x. r = Inr x \<and> f x = Inl e)"
  by (cases r) simp_all

lemma demand_simps [simp]: "demand e True r = r" "demand e False r = Inl e"
  by (simp_all add: demand_def)

lemma demand_Inr [simp]: "demand e c r = Inr y \<longleftrightarrow> c \<and> r = Inr y"
  by (simp add: demand_def)

lemma demand_Inl: "demand e c r = Inl e' \<longleftrightarrow> (if c then r = Inl e' else e' = e)"
  by (auto simp: demand_def)

lemma or_raise_simps [simp]: "or_raise e None = Inl e" "or_raise e (Some x) = Inr x"
  by (simp_all add: or_raise_def)

lemma or_raise_Inr [simp]: "or_raise e x = Inr y \<longleftrightarrow> x = Some y"
  by (cases x) simp_all

lemma or_raise_Inl: "or_raise e x = Inl e' \<longleftrightarrow> x = None \<and> e' = e"
  by (cases x) auto

text \<open>Two different inputs with one digest.\<close>

definition collides :: "('a \<Rightarrow> 'b) \<Rightarrow> bool" where
  "collides f \<longleftrightarrow> (\<exists>x y. x \<noteq> y \<and> f x = f y)"

lemma collidesI: "f x = f y \<Longrightarrow> x \<noteq> y \<Longrightarrow> collides f"
  by (auto simp: collides_def)

text \<open>
  The exceptions the worker's components raise, as far as their callers tell them apart: a
  typed error with its code, message and retry flag (\<open>DocumentStoreError\<close>, \<open>ComputeError\<close>,
  \<open>ModelControllerError\<close>), the family \<open>KeyError\<close>, \<open>TypeError\<close>, \<open>ValueError\<close>, and anything else.
\<close>

datatype exn = Coded str str bool | Value_Error | Other_Error

definition coded :: "string \<Rightarrow> string \<Rightarrow> bool \<Rightarrow> exn" where
  "coded code message retryable = Coded (lit code) (lit message) retryable"

section \<open>Tables\<close>

definition unique_by :: "('r \<Rightarrow> 'k) \<Rightarrow> 'r list \<Rightarrow> bool" where
  "unique_by k rows \<longleftrightarrow> distinct (map k rows)"

definition update_where :: "('r \<Rightarrow> bool) \<Rightarrow> ('r \<Rightarrow> 'r) \<Rightarrow> 'r list \<Rightarrow> 'r list" where
  "update_where p f rows = map (\<lambda>r. if p r then f r else r) rows"

definition delete_where :: "('r \<Rightarrow> bool) \<Rightarrow> 'r list \<Rightarrow> 'r list" where
  "delete_where p rows = filter (\<lambda>r. \<not> p r) rows"

definition count_where :: "('r \<Rightarrow> bool) \<Rightarrow> 'r list \<Rightarrow> nat" where
  "count_where p rows = length (filter p rows)"

text \<open>
  An \<open>UPDATE\<close> that may touch a \<open>UNIQUE\<close> key runs row by row in rowid order and raises
  \<open>IntegrityError\<close> (here \<open>None\<close>) as soon as a new key meets another row's key.
\<close>

fun update_unique_from ::
  "('r \<Rightarrow> 'k) \<Rightarrow> ('r \<Rightarrow> bool) \<Rightarrow> ('r \<Rightarrow> 'r) \<Rightarrow> 'r list \<Rightarrow> 'r list \<Rightarrow> 'r list option" where
  "update_unique_from k p f finished [] = Some finished"
| "update_unique_from k p f finished (r # rest) =
     (if p r
      then if k (f r) \<in> k ` (set finished \<union> set rest) then None
           else update_unique_from k p f (finished @ [f r]) rest
      else update_unique_from k p f (finished @ [r]) rest)"

definition update_unique ::
  "('r \<Rightarrow> 'k) \<Rightarrow> ('r \<Rightarrow> bool) \<Rightarrow> ('r \<Rightarrow> 'r) \<Rightarrow> 'r list \<Rightarrow> 'r list option" where
  "update_unique k p f rows = update_unique_from k p f [] rows"

lemma set_update_where [table_simps]:
  "set (update_where p f rows) = (\<lambda>r. if p r then f r else r) ` set rows"
  by (simp add: update_where_def)

lemma set_delete_where [table_simps]: "set (delete_where p rows) = {r \<in> set rows. \<not> p r}"
  by (auto simp: delete_where_def)

lemma update_where_Nil [simp]: "update_where p f [] = []"
  and update_where_Cons [simp]:
    "update_where p f (r # rows) = (if p r then f r else r) # update_where p f rows"
  and update_where_append [simp]:
    "update_where p f (xs @ ys) = update_where p f xs @ update_where p f ys"
  by (simp_all add: update_where_def)

lemma length_update_where [simp]: "length (update_where p f rows) = length rows"
  by (simp add: update_where_def)

lemma map_update_where:
  "(\<And>r. p r \<Longrightarrow> g (f r) = g r) \<Longrightarrow> map g (update_where p f rows) = map g rows"
  by (simp add: update_where_def)

lemma update_where_idle: "(\<And>r. r \<in> set rows \<Longrightarrow> \<not> p r) \<Longrightarrow> update_where p f rows = rows"
  by (induction rows) auto

lemma delete_where_idle: "(\<And>r. r \<in> set rows \<Longrightarrow> \<not> p r) \<Longrightarrow> delete_where p rows = rows"
  by (induction rows) (auto simp: delete_where_def)

lemma count_where_0_iff: "count_where p rows = 0 \<longleftrightarrow> (\<forall>r\<in>set rows. \<not> p r)"
  by (auto simp: count_where_def filter_empty_conv)

lemma count_where_append [simp]: "count_where p (xs @ ys) = count_where p xs + count_where p ys"
  and count_where_Cons [simp]: "count_where p (x # xs) = (if p x then 1 else 0) + count_where p xs"
  and count_where_Nil [simp]: "count_where p [] = 0"
  by (simp_all add: count_where_def)

lemma unique_by_Nil [simp]: "unique_by k []"
  and unique_by_Cons [simp]:
    "unique_by k (r # rows) \<longleftrightarrow> k r \<notin> k ` set rows \<and> unique_by k rows"
  by (simp_all add: unique_by_def)

lemma unique_by_append:
  "unique_by k (xs @ ys) \<longleftrightarrow> unique_by k xs \<and> unique_by k ys \<and> k ` set xs \<inter> k ` set ys = {}"
  by (auto simp: unique_by_def)

lemma unique_by_insert [table_intros]:
  "unique_by k rows \<Longrightarrow> k r \<notin> k ` set rows \<Longrightarrow> unique_by k (rows @ [r])"
  by (auto simp: unique_by_def)

lemma unique_by_delete [table_intros]: "unique_by k rows \<Longrightarrow> unique_by k (delete_where p rows)"
  by (simp add: unique_by_def delete_where_def distinct_map_filter)

lemma unique_by_update [table_intros]:
  "unique_by k rows \<Longrightarrow> (\<And>r. p r \<Longrightarrow> k (f r) = k r) \<Longrightarrow> unique_by k (update_where p f rows)"
  by (simp add: unique_by_def map_update_where)

lemma unique_byD:
  "unique_by k rows \<Longrightarrow> r \<in> set rows \<Longrightarrow> r' \<in> set rows \<Longrightarrow> k r = k r' \<Longrightarrow> r = r'"
  by (auto simp: unique_by_def distinct_map inj_on_def)

lemma unique_by_split:
  assumes "unique_by k (us @ x # vs)" "e \<in> set us \<union> set vs" shows "k e \<noteq> k x"
proof -
  have "k x \<notin> k ` set us" "k x \<notin> k ` set vs" using assms(1) by (auto simp: unique_by_append)
  then show ?thesis using assms(2) by (metis Un_iff image_eqI)
qed

lemma find_by_key:
  "unique_by k rows \<Longrightarrow> r \<in> set rows \<Longrightarrow> find (\<lambda>x. k x = k r) rows = Some r"
  by (induction rows) auto

lemma find_SomeD: "find p rows = Some r \<Longrightarrow> r \<in> set rows \<and> p r"
  by (induction rows) (auto split: if_splits)

lemma find_Some_first:
  "find p rows = Some r \<Longrightarrow> \<exists>us vs. rows = us @ r # vs \<and> (\<forall>u\<in>set us. \<not> p u)"
proof (induction rows)
  case (Cons x xs)
  show ?case
  proof (cases "p x")
    case True
    with Cons.prems show ?thesis by (intro exI [of _ "[]"] exI [of _ xs]) auto
  next
    case False
    with Cons obtain us vs where "xs = us @ r # vs" "\<forall>u\<in>set us. \<not> p u" by auto
    with False show ?thesis by (intro exI [of _ "x # us"] exI [of _ vs]) auto
  qed
qed simp

lemma find_ex: "r \<in> set rows \<Longrightarrow> p r \<Longrightarrow> \<exists>r'. find p rows = Some r'"
  by (induction rows) auto

lemma find_append: "find p (xs @ ys) = (case find p xs of Some r \<Rightarrow> Some r | None \<Rightarrow> find p ys)"
  by (induction xs) auto

lemma find_update_where_other:
  "(\<And>r. p r \<Longrightarrow> q (f r) = q r) \<Longrightarrow>
     find q (update_where p f rows) =
       map_option (\<lambda>r. if p r then f r else r) (find q rows)"
  by (induction rows) auto

lemma update_unique_from_Some:
  "update_unique_from k p f finished rest = Some rows' \<Longrightarrow> rows' = finished @ update_where p f rest"
  by (induction k p f finished rest rule: update_unique_from.induct) (auto split: if_splits)

lemma update_unique_Some: "update_unique k p f rows = Some rows' \<Longrightarrow> rows' = update_where p f rows"
  using update_unique_from_Some [of k p f "[]"] by (simp add: update_unique_def)

lemma update_unique_from_unique:
  "update_unique_from k p f finished rest = Some rows' \<Longrightarrow> unique_by k (finished @ rest) \<Longrightarrow>
     unique_by k rows'"
proof (induction k p f finished rest rule: update_unique_from.induct)
  case (2 k p f finished r rest)
  then show ?case by (auto simp: unique_by_append image_Un split: if_splits)
qed simp

lemma update_unique_unique [table_intros]:
  "update_unique k p f rows = Some rows' \<Longrightarrow> unique_by k rows \<Longrightarrow> unique_by k rows'"
  using update_unique_from_unique [of k p f "[]"] by (simp add: update_unique_def)

text \<open>
  The update succeeds when every changed row moves to a key that no row holds and that
  distinct rows do not share.
\<close>

lemma update_unique_from_ok:
  assumes "\<And>r. r \<in> set rest \<Longrightarrow> p r \<Longrightarrow> k (f r) \<notin> k ` (set finished \<union> (set rest - {r}))"
    and "inj_on (\<lambda>r. k (f r)) {r \<in> set rest. p r}" and "distinct rest"
  shows "update_unique_from k p f finished rest = Some (finished @ update_where p f rest)"
  using assms
proof (induction rest arbitrary: finished)
  case (Cons r rest)
  let ?r = "if p r then f r else r"
  have fresh: "k (f x) \<notin> k ` (set (finished @ [?r]) \<union> (set rest - {x}))"
    if "x \<in> set rest" "p x" for x
  proof -
    have "k (f x) \<noteq> k ?r"
    proof (cases "p r")
      case True
      have "x \<noteq> r" using that Cons.prems(3) by auto
      with True that Cons.prems(2) show ?thesis by (auto simp: inj_on_def)
    next
      case False
      have "x \<noteq> r" using that Cons.prems(3) by auto
      with False that Cons.prems(1) [of x] show ?thesis by auto
    qed
    with that Cons.prems(1) [of x] show ?thesis by auto
  qed
  have "update_unique_from k p f (finished @ [?r]) rest
        = Some ((finished @ [?r]) @ update_where p f rest)"
  proof (rule Cons.IH)
    show "k (f x) \<notin> k ` (set (finished @ [?r]) \<union> (set rest - {x}))"
      if "x \<in> set rest" "p x" for x by (rule fresh [OF that])
    show "inj_on (\<lambda>r. k (f r)) {r \<in> set rest. p r}"
      using Cons.prems(2) by (auto simp: inj_on_def)
    show "distinct rest" using Cons.prems(3) by simp
  qed
  moreover have "p r \<Longrightarrow> k (f r) \<notin> k ` (set finished \<union> set rest)"
    using Cons.prems(1) [of r] Cons.prems(3) by (simp add: Diff_triv)
  ultimately show ?case by auto
qed simp

lemma update_unique_ok:
  assumes "\<And>r. r \<in> set rows \<Longrightarrow> p r \<Longrightarrow> k (f r) \<notin> k ` (set rows - {r})"
    and "inj_on (\<lambda>r. k (f r)) {r \<in> set rows. p r}" and "distinct rows"
  shows "update_unique k p f rows = Some (update_where p f rows)"
  using update_unique_from_ok [of rows p k f "[]"] assms by (simp add: update_unique_def)

lemma unique_by_distinct: "unique_by k rows \<Longrightarrow> distinct rows"
  by (simp add: unique_by_def distinct_map)

lemma update_unique_same_key:
  assumes "unique_by k rows" "\<And>r. p r \<Longrightarrow> k (f r) = k r"
  shows "update_unique k p f rows = Some (update_where p f rows)"
proof (rule update_unique_ok)
  show "k (f r) \<notin> k ` (set rows - {r})" if "r \<in> set rows" "p r" for r
    using assms that by (auto dest: unique_byD)
  show "inj_on (\<lambda>r. k (f r)) {r \<in> set rows. p r}"
    using assms by (auto simp: inj_on_def dest: unique_byD)
  show "distinct rows" using assms(1) by (rule unique_by_distinct)
qed

end
