(* ===== verification/Json.thy ===== *)
theory Json
  imports Prelude
begin

text \<open>
  Canonical JSON (\<open>canonical_json\<close>, \<open>novo_chat/protocol.py\<close>): the byte string that every
  checksum, idempotency fingerprint and HMAC of the system covers. JSON values with their
  serialisation, UTF-8, and the proof that the bytes determine the value up to the order of
  object keys, so that a signature cannot be moved from one document to another.
  Floats are not among the values: no signed or checksummed document holds one.
\<close>

section \<open>Values and serialisation\<close>

datatype json =
    JNull
  | JBool bool
  | JInt int
  | JStr str
  | JArr "json list"
  | JObj "(str \<times> json) list"

text \<open>\<open>json.dumps(..., sort_keys=True)\<close> orders the items of every object by key.\<close>

primrec sort_keys :: "json \<Rightarrow> json" where
  "sort_keys JNull = JNull"
| "sort_keys (JBool b) = JBool b"
| "sort_keys (JInt i) = JInt i"
| "sort_keys (JStr s) = JStr s"
| "sort_keys (JArr xs) = JArr (map sort_keys xs)"
| "sort_keys (JObj kvs) = JObj (sort_key fst (map (map_prod id sort_keys) kvs))"

text \<open>The escapes of \<open>ensure_ascii=False\<close>: quote, backslash and the C0 controls.\<close>

definition hex_digit :: "nat \<Rightarrow> nat" where
  "hex_digit d = (if d < 10 then 48 + d else 87 + d)"

definition escape_char :: "nat \<Rightarrow> str" where
  "escape_char c =
     (if c = 34 then [92, 34]
      else if c = 92 then [92, 92]
      else if c = 10 then [92, 110]
      else if c = 13 then [92, 114]
      else if c = 9 then [92, 116]
      else if c = 12 then [92, 102]
      else if c = 8 then [92, 98]
      else if c < 32 then [92, 117, 48, 48, hex_digit (c div 16), hex_digit (c mod 16)]
      else [c])"

definition render_str :: "str \<Rightarrow> str" where
  "render_str s = 34 # concat (map escape_char s) @ [34]"

fun render_nat :: "nat \<Rightarrow> str" where
  "render_nat n = (if n < 10 then [48 + n] else render_nat (n div 10) @ [48 + n mod 10])"

declare render_nat.simps [simp del]

definition render_int :: "int \<Rightarrow> str" where
  "render_int i = (if i < 0 then 45 # render_nat (nat (- i)) else render_nat (nat i))"

text \<open>\<open>separators=(",", ":")\<close>: no insignificant spaces.\<close>

fun render :: "json \<Rightarrow> str" where
  "render JNull = lit ''null''"
| "render (JBool b) = (if b then lit ''true'' else lit ''false'')"
| "render (JInt i) = render_int i"
| "render (JStr s) = render_str s"
| "render (JArr xs) = 91 # join [44] (map render xs) @ [93]"
| "render (JObj kvs) = 123 # join [44] (map (\<lambda>(k, v). render_str k @ 58 # render v) kvs) @ [125]"

section \<open>UTF-8\<close>

definition utf8_char :: "nat \<Rightarrow> bytes option" where
  "utf8_char c =
     (if c < 128 then Some [c]
      else if c < 2048 then Some [192 + c div 64, 128 + c mod 64]
      else if c < 65536
        then (if 55296 \<le> c \<and> c < 57344 then None
              else Some [224 + c div 4096, 128 + c div 64 mod 64, 128 + c mod 64])
      else if c < 1114112
        then Some [240 + c div 262144, 128 + c div 4096 mod 64, 128 + c div 64 mod 64, 128 + c mod 64]
      else None)"

text \<open>\<open>str.encode("utf-8")\<close>; \<open>None\<close> is the \<open>UnicodeEncodeError\<close> of a lone surrogate.\<close>

fun utf8_encode :: "str \<Rightarrow> bytes option" where
  "utf8_encode [] = Some []"
| "utf8_encode (c # cs) =
     (case utf8_char c of None \<Rightarrow> None
      | Some b \<Rightarrow> map_option (\<lambda>bs. b @ bs) (utf8_encode cs))"

definition is_cont :: "nat \<Rightarrow> bool" where
  "is_cont b \<longleftrightarrow> 128 \<le> b \<and> b < 192"

text \<open>Strict decoding: overlong forms, surrogates and truncated sequences are refused.\<close>

fun utf8_next :: "bytes \<Rightarrow> (nat \<times> bytes) option" where
  "utf8_next [] = None"
| "utf8_next (b # bs) =
     (if b < 128 then Some (b, bs)
      else if 194 \<le> b \<and> b < 224 then
        (case bs of c1 # r \<Rightarrow>
           (if is_cont c1 then Some ((b - 192) * 64 + (c1 - 128), r) else None)
         | _ \<Rightarrow> None)
      else if 224 \<le> b \<and> b < 240 then
        (case bs of c1 # c2 # r \<Rightarrow>
           (let c = (b - 224) * 4096 + (c1 - 128) * 64 + (c2 - 128)
            in if is_cont c1 \<and> is_cont c2 \<and> 2048 \<le> c \<and> \<not> (55296 \<le> c \<and> c < 57344)
               then Some (c, r) else None)
         | _ \<Rightarrow> None)
      else if 240 \<le> b \<and> b < 245 then
        (case bs of c1 # c2 # c3 # r \<Rightarrow>
           (let c = (b - 240) * 262144 + (c1 - 128) * 4096 + (c2 - 128) * 64 + (c3 - 128)
            in if is_cont c1 \<and> is_cont c2 \<and> is_cont c3 \<and> 65536 \<le> c \<and> c < 1114112
               then Some (c, r) else None)
         | _ \<Rightarrow> None)
      else None)"

lemma utf8_next_shorter: "utf8_next bs = Some (c, r) \<Longrightarrow> length r < length bs"
  by (cases bs) (auto split: if_splits list.splits simp: Let_def)

function utf8_decode :: "bytes \<Rightarrow> str option" where
  "utf8_decode bs =
     (if bs = [] then Some []
      else (case utf8_next bs of None \<Rightarrow> None
            | Some (c, r) \<Rightarrow> map_option (\<lambda>cs. c # cs) (utf8_decode r)))"
  by pat_completeness auto
termination
  by (relation "measure length") (auto dest: utf8_next_shorter)

declare utf8_decode.simps [simp del]

text \<open>
  \<open>canonical_json\<close>: the text of the sorted value, as UTF-8. \<open>None\<close> is its \<open>ValueError\<close>.
\<close>

definition canonical_json :: "json \<Rightarrow> bytes option" where
  "canonical_json v = utf8_encode (render (sort_keys v))"

section \<open>UTF-8 is decoded back\<close>

lemma utf8_next_char: "utf8_char c = Some b \<Longrightarrow> utf8_next (b @ r) = Some (c, r)"
proof -
  assume a: "utf8_char c = Some b"
  have "c < 1114112" using a by (auto simp: utf8_char_def split: if_splits)
  then consider "c < 128" | "128 \<le> c" "c < 2048" | "2048 \<le> c" "c < 65536" | "65536 \<le> c" "c < 1114112"
    by (cases "c < 128"; cases "c < 2048"; cases "c < 65536"; simp)
  then show ?thesis
  proof cases
    case 1
    with a show ?thesis by (auto simp: utf8_char_def)
  next
    case 2
    then have "2 \<le> c div 64" "c div 64 < 32" by (simp_all add: less_mult_imp_div_less div_le_mono [of 128 c 64, simplified])
    moreover have "c div 64 * 64 + c mod 64 = c" by simp
    ultimately show ?thesis using a 2 by (auto simp: utf8_char_def is_cont_def)
  next
    case 3
    then have "c div 4096 < 16" by (simp add: less_mult_imp_div_less)
    moreover have "c div 4096 * 4096 + c div 64 mod 64 * 64 + c mod 64 = c"
      by (metis (no_types, lifting) div_mult2_eq mod_mult2_eq mult_div_mod_eq
          add.assoc add.commute mult.commute numeral_times_numeral semiring_norm(11,12,13))
    ultimately show ?thesis using a 3 by (auto simp: utf8_char_def is_cont_def Let_def split: if_splits)
  next
    case 4
    then have "c div 262144 < 5" by (simp add: less_mult_imp_div_less)
    moreover have "c div 4096 * 64 + c div 64 mod 64 = c div 64"
      "c div 262144 * 64 + c div 4096 mod 64 = c div 4096"
      using div_mult_mod_eq [of "c div 64" 64] div_mult_mod_eq [of "c div 4096" 64]
      by (simp_all add: div_mult2_eq [of c 64 64, simplified, symmetric]
          div_mult2_eq [of c 4096 64, simplified, symmetric])
    then have "c div 262144 * 262144 + c div 4096 mod 64 * 4096 + c div 64 mod 64 * 64 + c mod 64 = c"
      using div_mult_mod_eq [of c 64] by linarith
    ultimately show ?thesis using a 4 by (auto simp: utf8_char_def is_cont_def Let_def split: if_splits)
  qed
qed

lemma utf8_char_nonempty: "utf8_char c = Some b \<Longrightarrow> b \<noteq> []"
  by (auto simp: utf8_char_def split: if_splits)

lemma utf8_round_trip: "utf8_encode s = Some bs \<Longrightarrow> utf8_decode bs = Some s"
proof (induction s arbitrary: bs)
  case Nil
  then show ?case by (simp add: utf8_decode.simps)
next
  case (Cons c s)
  then obtain b r where b: "utf8_char c = Some b" and r: "utf8_encode s = Some r" "bs = b @ r"
    by (auto split: option.splits)
  with utf8_next_char [OF b, of r] utf8_char_nonempty [OF b] Cons.IH [OF r(1)] show ?case
    by (subst utf8_decode.simps) auto
qed

lemma utf8_encode_inject: "utf8_encode s = Some bs \<Longrightarrow> utf8_encode t = Some bs \<Longrightarrow> s = t"
  using utf8_round_trip [of s bs] utf8_round_trip [of t bs] by simp

section \<open>The serialisation is unambiguous\<close>

text \<open>
  Numbers are the only values that do not end themselves, so two renderings are compared
  up to a rest that does not go on with a digit: a comma, a closing bracket or the end.
\<close>

definition stops :: "str \<Rightarrow> bool" where
  "stops x \<longleftrightarrow> (case x of [] \<Rightarrow> True | c # _ \<Rightarrow> c = 44 \<or> c = 93 \<or> c = 125)"

lemma stops_simps [simp]: "stops []" "stops (c # x) \<longleftrightarrow> c = 44 \<or> c = 93 \<or> c = 125"
  by (simp_all add: stops_def)

definition digit :: "nat \<Rightarrow> bool" where
  "digit c \<longleftrightarrow> 48 \<le> c \<and> c < 58"

definition nat_of_digits :: "str \<Rightarrow> nat" where
  "nat_of_digits ds = foldl (\<lambda>n d. 10 * n + (d - 48)) 0 ds"

lemma render_nat_digits: "\<forall>d\<in>set (render_nat n). digit d"
proof (induction n rule: render_nat.induct)
  case (1 n)
  then show ?case by (subst render_nat.simps) (auto simp: digit_def)
qed

lemma render_nat_nonempty: "render_nat n \<noteq> []"
  by (subst render_nat.simps) simp

lemma nat_of_digits_render_nat [simp]: "nat_of_digits (render_nat n) = n"
proof (induction n rule: render_nat.induct)
  case (1 n)
  show ?case
  proof (cases "n < 10")
    case True
    then show ?thesis by (simp add: render_nat.simps [of n] nat_of_digits_def)
  next
    case False
    with 1 have "nat_of_digits (render_nat (n div 10)) = n div 10" by simp
    with False show ?thesis by (simp add: render_nat.simps [of n] nat_of_digits_def)
  qed
qed

lemma digits_then_stop:
  assumes "\<forall>d\<in>set a. digit d" "\<forall>d\<in>set b. digit d" "stops x" "stops y" "a @ x = b @ y"
  shows "a = b \<and> x = y"
proof -
  have tw: "takeWhile digit (a @ x) = a" if "\<forall>d\<in>set a. digit d" "stops x" for a x
    using that by (cases x) (auto simp: takeWhile_append digit_def)
  from tw [of a x] tw [of b y] assms have "a = b" by metis
  with assms(5) show ?thesis by simp
qed

lemma render_nat_unambiguous:
  "render_nat m @ x = render_nat n @ y \<Longrightarrow> stops x \<Longrightarrow> stops y \<Longrightarrow> m = n \<and> x = y"
  using digits_then_stop [OF render_nat_digits render_nat_digits]
  by (metis nat_of_digits_render_nat)

lemma render_nat_no_sign: "render_nat n @ x \<noteq> 45 # y"
  using render_nat_digits [of n] render_nat_nonempty [of n]
  by (cases "render_nat n") (auto simp: digit_def)

lemma render_int_unambiguous:
  assumes "render_int i @ x = render_int j @ y" "stops x" "stops y"
  shows "i = j \<and> x = y"
  using assms render_nat_no_sign render_nat_no_sign [symmetric]
  by (auto simp: render_int_def dest!: render_nat_unambiguous split: if_splits)

subsection \<open>Strings\<close>

definition unhex :: "nat \<Rightarrow> nat" where
  "unhex d = (if d < 58 then d - 48 else d - 87)"

lemma unhex_hex_digit: "d < 16 \<Longrightarrow> unhex (hex_digit d) = d"
  by (auto simp: unhex_def hex_digit_def)

text \<open>Reads one escaped character back; a bare quote is the end of the string.\<close>

definition unescape :: "str \<Rightarrow> (nat \<times> str) option" where
  "unescape s =
     (case s of [] \<Rightarrow> None
      | c # r \<Rightarrow>
          if c = 34 then None
          else if c \<noteq> 92 then Some (c, r)
          else (case r of [] \<Rightarrow> None
                | e # r' \<Rightarrow>
                    if e = 117
                    then (case r' of _ # _ # h # l # r'' \<Rightarrow> Some (unhex h * 16 + unhex l, r'') | _ \<Rightarrow> None)
                    else Some (if e = 110 then 10 else if e = 114 then 13 else if e = 116 then 9
                               else if e = 102 then 12 else if e = 98 then 8 else e, r')))"

lemma unescape_escape_char: "unescape (escape_char c @ r) = Some (c, r)"
proof (cases "c < 32")
  case True
  then have "c div 16 < 16" by (simp add: less_mult_imp_div_less)
  with True show ?thesis by (auto simp: escape_char_def unescape_def unhex_hex_digit)
next
  case False
  then show ?thesis by (auto simp: escape_char_def unescape_def)
qed

lemma unescape_quote: "unescape (34 # r) = None"
  by (simp add: unescape_def)

lemma escaped_unambiguous:
  "concat (map escape_char s) @ 34 # x = concat (map escape_char t) @ 34 # y \<Longrightarrow> s = t \<and> x = y"
proof (induction s arbitrary: t)
  case Nil
  then show ?case
  proof (cases t)
    case (Cons d t')
    with Nil have "unescape (34 # x) = unescape (escape_char d @ concat (map escape_char t') @ 34 # y)"
      by simp
    then show ?thesis by (simp add: unescape_escape_char unescape_quote)
  qed simp
next
  case (Cons c s)
  show ?case
  proof (cases t)
    case Nil
    with Cons.prems have "unescape (escape_char c @ concat (map escape_char s) @ 34 # x) = unescape (34 # y)"
      by simp
    then show ?thesis by (simp add: unescape_escape_char unescape_quote)
  next
    case (Cons d t')
    with Cons.prems have "unescape (escape_char c @ concat (map escape_char s) @ 34 # x)
        = unescape (escape_char d @ concat (map escape_char t') @ 34 # y)"
      by simp
    then have "c = d \<and> concat (map escape_char s) @ 34 # x = concat (map escape_char t') @ 34 # y"
      by (simp add: unescape_escape_char)
    with Cons.IH [of t'] Cons show ?thesis by simp
  qed
qed

lemma render_str_unambiguous: "render_str s @ x = render_str t @ y \<Longrightarrow> s = t \<and> x = y"
  by (auto simp: render_str_def dest: escaped_unambiguous)

subsection \<open>Lists, objects, values\<close>

text \<open>
  Comma-separated items between brackets: unambiguous when every item is, up to a stop,
  and no item begins with the closing bracket.
\<close>

lemma items_unambiguous:
  assumes item: "\<And>a b x y. a \<in> set as \<Longrightarrow> stops x \<Longrightarrow> stops y \<Longrightarrow> f a @ x = f b @ y \<Longrightarrow> a = b \<and> x = y"
    and no_end: "\<And>a x y. f a @ x \<noteq> e # y" and e: "e = 93 \<or> e = 125"
    and eq: "join [44] (map f as) @ e # x = join [44] (map f bs) @ e # y"
  shows "as = bs \<and> x = y"
  using item eq
proof (induction as arbitrary: bs)
  case Nil
  show ?case
  proof (cases bs)
    case (Cons b bs')
    then have "\<exists>z. join [44] (map f bs) @ e # y = f b @ z" by (cases bs') auto
    with Nil no_end show ?thesis by (metis append_Nil join.simps(1) list.simps(8))
  qed (use Nil in simp)
next
  case (Cons a as)
  show ?case
  proof (cases bs)
    case Nil
    have "\<exists>z. join [44] (map f (a # as)) @ e # x = f a @ z" by (cases as) auto
    with Nil Cons.prems(2) no_end show ?thesis by (metis append_Nil join.simps(1) list.simps(8))
  next
    case bs: (Cons b bs')
    let ?rest = "\<lambda>cs z. (if cs = [] then e # z else 44 # join [44] (map f cs) @ e # z)"
    have split: "join [44] (map f (c # cs)) @ e # z = f c @ ?rest cs z" for c cs z
      by (cases cs) auto
    have st: "stops (?rest cs z)" for cs z using e by auto
    from Cons.prems(2) bs have "f a @ ?rest as x = f b @ ?rest bs' y"
      by (simp only: split)
    from Cons.prems(1) [OF _ st st this]
    have ab: "a = b" and rest: "?rest as x = ?rest bs' y" by auto
    from rest e have "as = [] \<longleftrightarrow> bs' = []" by (auto split: if_splits)
    with rest have "join [44] (map f as) @ e # x = join [44] (map f bs') @ e # y"
      by (auto split: if_splits)
    with Cons.IH [of bs'] Cons.prems(1) ab bs show ?thesis by auto
  qed
qed

fun starts :: "json \<Rightarrow> nat \<Rightarrow> bool" where
  "starts JNull c = (c = 110)"
| "starts (JBool b) c = (c = (if b then 116 else 102))"
| "starts (JInt _) c = (c = 45 \<or> digit c)"
| "starts (JStr _) c = (c = 34)"
| "starts (JArr _) c = (c = 91)"
| "starts (JObj _) c = (c = 123)"

fun same_kind :: "json \<Rightarrow> json \<Rightarrow> bool" where
  "same_kind JNull b = (b = JNull)"
| "same_kind (JBool p) b = (b = JBool p)"
| "same_kind (JInt _) b = (\<exists>j. b = JInt j)"
| "same_kind (JStr _) b = (\<exists>t. b = JStr t)"
| "same_kind (JArr _) b = (\<exists>t. b = JArr t)"
| "same_kind (JObj _) b = (\<exists>t. b = JObj t)"

lemma render_head: "\<exists>c r. render v = c # r \<and> starts v c"
proof (cases v)
  case (JInt i)
  then show ?thesis
    using render_nat_digits [of "nat i"] render_nat_nonempty [of "nat i"]
    by (cases "render_nat (nat i)") (auto simp: render_int_def)
qed (auto simp: lit_def render_str_def)

lemma starts_same_kind: "starts a c \<Longrightarrow> starts b c \<Longrightarrow> same_kind a b"
  by (cases a; cases b) (auto simp: digit_def split: if_splits)

lemma render_same_kind: "render a @ x = render b @ y \<Longrightarrow> same_kind a b"
  using render_head [of a] render_head [of b] by (metis append_Cons list.inject starts_same_kind)

lemma starts_no_close: "starts v c \<Longrightarrow> c \<noteq> 93"
  by (cases v) (auto simp: digit_def split: if_splits)

lemma render_no_close: "render v @ x \<noteq> 93 # y"
  using render_head [of v] by (metis append_Cons list.inject starts_no_close)

lemma render_unambiguous:
  "stops x \<Longrightarrow> stops y \<Longrightarrow> render a @ x = render b @ y \<Longrightarrow> a = b \<and> x = y"
proof (induction a arbitrary: b x y)
  case (JInt i)
  then obtain j where "b = JInt j" using render_same_kind [OF JInt.prems(3)] by auto
  with JInt.prems render_int_unambiguous [of i x j y] show ?case by simp
next
  case (JStr s)
  then obtain t where "b = JStr t" using render_same_kind [OF JStr.prems(3)] by auto
  with JStr.prems render_str_unambiguous [of s x t y] show ?case by simp
next
  case (JArr as)
  then obtain bs where b: "b = JArr bs" using render_same_kind [OF JArr.prems(3)] by auto
  with JArr.prems(3) have eq: "join [44] (map render as) @ 93 # x = join [44] (map render bs) @ 93 # y"
    by simp
  have "as = bs \<and> x = y"
    by (rule items_unambiguous [where f = render and e = 93, OF JArr.IH render_no_close _ eq]) simp_all
  with b show ?case by simp
next
  case (JObj kvs)
  let ?f = "\<lambda>(k, v). render_str k @ 58 # render v"
  obtain bs where b: "b = JObj bs" using render_same_kind [OF JObj.prems(3)] by auto
  with JObj.prems(3) have eq: "join [44] (map ?f kvs) @ 125 # x = join [44] (map ?f bs) @ 125 # y"
    by simp
  have item: "kv = kv' \<and> x = y"
    if "kv \<in> set kvs" "stops x" "stops y" "?f kv @ x = ?f kv' @ y" for kv kv' x y
  proof -
    obtain k v k' v' where kv: "kv = (k, v)" "kv' = (k', v')" by fastforce
    with that(4) have "render_str k @ 58 # render v @ x = render_str k' @ 58 # render v' @ y" by simp
    from render_str_unambiguous [OF this] have "k = k'" "render v @ x = render v' @ y" by auto
    with JObj.IH [of kv v x y v'] that kv show ?thesis by auto
  qed
  have no_end: "?f kv @ x \<noteq> 125 # y" for kv x y
    by (cases kv) (simp add: render_str_def)
  have "kvs = bs \<and> x = y"
    by (rule items_unambiguous [where f = ?f and e = 125, OF item no_end _ eq]) simp_all
  with b show ?case by simp
next
  case JNull
  then show ?case using render_same_kind [OF JNull.prems(3)] by auto
next
  case (JBool p)
  then show ?case using render_same_kind [OF JBool.prems(3)] by auto
qed

lemma render_inject: "render a = render b \<Longrightarrow> a = b"
  using render_unambiguous [of "[]" "[]" a b] by simp

lemma canonical_json_inject:
  "canonical_json a = Some bs \<Longrightarrow> canonical_json b = Some bs \<Longrightarrow> sort_keys a = sort_keys b"
  unfolding canonical_json_def by (blast dest: utf8_encode_inject render_inject)

text \<open>Objects that sort to the same value have the same (sorted) value under every key.\<close>

lemma sort_keys_fields:
  assumes "sort_keys (JObj a) = sort_keys (JObj b)" "distinct (map fst a)" "distinct (map fst b)"
  shows "map_option sort_keys (map_of a k) = map_option sort_keys (map_of b k)"
proof -
  let ?s = "\<lambda>kvs. map (map_prod id sort_keys) kvs"
  have "set (sort_key fst (?s a)) = set (sort_key fst (?s b))" using assms(1) by simp
  then have same: "set (?s a) = set (?s b)" by (simp only: set_sort)
  have dist: "distinct (map fst (?s a))" "distinct (map fst (?s b))"
    using assms(2,3) by (simp_all add: comp_def)
  have "map_of (?s a) k = Some y \<longleftrightarrow> map_of (?s b) k = Some y" for y
    unfolding map_of_eq_Some_iff [OF dist(1)] map_of_eq_Some_iff [OF dist(2)] same ..
  then have "map_of (?s a) k = map_of (?s b) k"
    by (metis option.exhaust)
  moreover have "map_of (?s kvs) k = map_option sort_keys (map_of kvs k)" for kvs
    by (induction kvs) auto
  ultimately show ?thesis by metis
qed

text \<open>
  Canonical JSON is unambiguous. Two values with the same canonical bytes are the same up
  to the order of object keys, so a digest of the bytes identifies the value.
\<close>

theorem canonical_json_unambiguous:
  assumes "canonical_json a = Some bs" "canonical_json b = Some bs"
  shows "sort_keys a = sort_keys b"
  using assms by (rule canonical_json_inject)

theorem canonical_json_unambiguous_witness:
  "sort_keys (JObj [(lit ''b'', JInt 1), (lit ''a'', JNull)]) = sort_keys (JObj [(lit ''a'', JNull), (lit ''b'', JInt 1)])"
proof -
  have "canonical_json (JObj [(lit ''b'', JInt 1), (lit ''a'', JNull)]) = utf8_encode (lit ''{\"a\":null,\"b\":1}'')"
    "canonical_json (JObj [(lit ''a'', JNull), (lit ''b'', JInt 1)]) = utf8_encode (lit ''{\"a\":null,\"b\":1}'')"
    "utf8_encode (lit ''{\"a\":null,\"b\":1}'') \<noteq> None" by code_simp+
  then show ?thesis using canonical_json_unambiguous by fastforce
qed

end
