(* ===== verification/PyText.thy ===== *)
theory PyText
  imports Json
begin

text \<open>
  The Python text primitives the validators rest on: ASCII character classes of the
  regular expressions, \<open>int(text, base)\<close>, and \<open>uuid.UUID\<close>. Header values reach the program
  as Latin-1 text (code points below 256), which is the range \<open>int\<close> and \<open>lower\<close> are
  modelled on; a code point above it is no digit, no space and no letter here.
\<close>

section \<open>Character classes\<close>

definition is_upper :: "nat \<Rightarrow> bool" where "is_upper c \<longleftrightarrow> 65 \<le> c \<and> c \<le> 90"
definition is_lower :: "nat \<Rightarrow> bool" where "is_lower c \<longleftrightarrow> 97 \<le> c \<and> c \<le> 122"
definition is_digit :: "nat \<Rightarrow> bool" where "is_digit c \<longleftrightarrow> 48 \<le> c \<and> c \<le> 57"

definition is_alnum :: "nat \<Rightarrow> bool" where
  "is_alnum c \<longleftrightarrow> is_upper c \<or> is_lower c \<or> is_digit c"

definition is_lower_hex :: "nat \<Rightarrow> bool" where
  "is_lower_hex c \<longleftrightarrow> is_digit c \<or> (97 \<le> c \<and> c \<le> 102)"

lemmas char_class_defs = is_upper_def is_lower_def is_digit_def is_alnum_def is_lower_hex_def

text \<open>A class for the first character, a class and a maximal count for the others.\<close>

definition token :: "(nat \<Rightarrow> bool) \<Rightarrow> (nat \<Rightarrow> bool) \<Rightarrow> nat \<Rightarrow> str \<Rightarrow> bool" where
  "token first rest n s =
     (case s of [] \<Rightarrow> False | c # cs \<Rightarrow> first c \<and> length cs \<le> n \<and> list_all rest cs)"

lemma token_nonempty: "token p q n s \<Longrightarrow> s \<noteq> []"
  by (auto simp: token_def)

lemma token_length: "token p q n s \<Longrightarrow> length s \<le> Suc n"
  by (auto simp: token_def split: list.splits)

text \<open>\<open>text.lower()\<close> on Latin-1.\<close>

definition lower_char :: "nat \<Rightarrow> nat" where
  "lower_char c = (if is_upper c \<or> (192 \<le> c \<and> c \<le> 222 \<and> c \<noteq> 215) then c + 32 else c)"

definition upper_ascii :: "str \<Rightarrow> str" where
  "upper_ascii s = map (\<lambda>c. if is_lower c then c - 32 else c) s"

definition lower :: "str \<Rightarrow> str" where
  "lower s = map lower_char s"

lemma lower_char_idem: "lower_char (lower_char c) = lower_char c"
  by (auto simp: lower_char_def is_upper_def)

lemma lower_idem [simp]: "lower (lower s) = lower s"
  by (simp add: lower_def lower_char_idem)

section \<open>\<open>int(text, base)\<close>\<close>

definition is_int_space :: "nat \<Rightarrow> bool" where
  "is_int_space c \<longleftrightarrow> (9 \<le> c \<and> c \<le> 13) \<or> c = 32 \<or> c = 133 \<or> c = 160"

definition digit_value :: "nat \<Rightarrow> nat option" where
  "digit_value c =
     (if is_digit c then Some (c - 48)
      else if is_lower c then Some (c - 87)
      else if is_upper c then Some (c - 55)
      else None)"

text \<open>
  Digits with single underscores between them. The flag says that the last character read
  was an underscore (or that nothing was read yet), after which only a digit may follow.
\<close>

fun int_digits :: "nat \<Rightarrow> nat \<Rightarrow> bool \<Rightarrow> nat \<Rightarrow> nat \<Rightarrow> str \<Rightarrow> (nat \<times> nat) option" where
  "int_digits base limit gap n k [] = (if gap \<or> limit < k then None else Some (n, k))"
| "int_digits base limit gap n k (c # cs) =
     (if c = 95 then (if gap then None else int_digits base limit True n k cs)
      else (case digit_value c of
              None \<Rightarrow> None
            | Some d \<Rightarrow> (if d < base then int_digits base limit False (base * n + d) (Suc k) cs else None)))"

definition strip_hex_prefix :: "str \<Rightarrow> str" where
  "strip_hex_prefix s =
     (case s of a # b # r \<Rightarrow>
        (if a = 48 \<and> (b = 120 \<or> b = 88)
         then (case r of c # r' \<Rightarrow> (if c = 95 then r' else r) | [] \<Rightarrow> r)
         else s)
      | _ \<Rightarrow> s)"

text \<open>
  \<open>None\<close> is \<open>ValueError\<close>. Base 10 refuses more than 4300 digits, the interpreter's limit;
  base 16 is a power of two and has none.
\<close>

definition py_int :: "nat \<Rightarrow> str \<Rightarrow> int option" where
  "py_int base s =
     (let t = strip_by is_int_space s;
          neg = (t \<noteq> [] \<and> hd t = 45);
          u = (if t \<noteq> [] \<and> (hd t = 45 \<or> hd t = 43) then tl t else t);
          v = (if base = 16 then strip_hex_prefix u else u);
          limit = (if base = 16 then length v else 4300)
      in case int_digits base limit True 0 0 v of
           None \<Rightarrow> None
         | Some (n, _) \<Rightarrow> Some (if neg then - int n else int n))"

section \<open>UUIDs\<close>

text \<open>\<open>text.replace(old, "")\<close> for a nonempty \<open>old\<close>: left to right, without overlap.\<close>

function remove_all :: "'a list \<Rightarrow> 'a list \<Rightarrow> 'a list" where
  "remove_all old s =
     (if old = [] \<or> s = [] then s
      else if take (length old) s = old then remove_all old (drop (length old) s)
      else hd s # remove_all old (tl s))"
  by pat_completeness auto
termination
  by (relation "measure (\<lambda>(old, s). length s)") auto

declare remove_all.simps [simp del]

definition uuid_parse :: "str \<Rightarrow> nat option" where
  "uuid_parse s =
     (let h = filter (\<lambda>c. c \<noteq> 45)
                (strip_by (\<lambda>c. c = 123 \<or> c = 125)
                  (remove_all (lit ''uuid:'') (remove_all (lit ''urn:'') s)))
      in if length h \<noteq> 32 then None
         else (case py_int 16 h of
                 None \<Rightarrow> None
               | Some i \<Rightarrow> (if 0 \<le> i \<and> i < 2 ^ 128 then Some (nat i) else None)))"

text \<open>\<open>UUID.version\<close>: bits 76 to 79, for the RFC 4122 variant (bit 63 set, bit 62 clear).\<close>

definition uuid_version :: "nat \<Rightarrow> nat option" where
  "uuid_version i =
     (if i div 2 ^ 63 mod 2 = 1 \<and> i div 2 ^ 62 mod 2 = 0 then Some (i div 2 ^ 76 mod 16) else None)"

fun hex_fixed :: "nat \<Rightarrow> nat \<Rightarrow> str" where
  "hex_fixed 0 i = []"
| "hex_fixed (Suc k) i = hex_fixed k (i div 16) @ [hex_digit (i mod 16)]"

definition uuid_text :: "nat \<Rightarrow> str" where
  "uuid_text i =
     (let h = hex_fixed 32 i
      in take 8 h @ [45] @ take 4 (drop 8 h) @ [45] @ take 4 (drop 12 h) @ [45]
         @ take 4 (drop 16 h) @ [45] @ drop 20 h)"

lemma length_hex_fixed [simp]: "length (hex_fixed k i) = k"
  by (induction k arbitrary: i) auto

lemma hex_digit_lower_hex: "d < 16 \<Longrightarrow> is_lower_hex (hex_digit d)"
  by (auto simp: hex_digit_def char_class_defs)

lemma digit_value_hex_digit: "d < 16 \<Longrightarrow> digit_value (hex_digit d) = Some d"
  by (auto simp: digit_value_def hex_digit_def char_class_defs)

lemma hex_fixed_lower_hex: "list_all is_lower_hex (hex_fixed k i)"
  by (induction k arbitrary: i) (auto simp: hex_digit_lower_hex)

lemma int_digits_hex:
  "list_all is_lower_hex xs \<Longrightarrow> (xs = [] \<Longrightarrow> \<not> gap) \<Longrightarrow> k + length xs \<le> l \<Longrightarrow>
     int_digits 16 l gap n k xs =
       Some (foldl (\<lambda>n c. 16 * n + the (digit_value c)) n xs, k + length xs)"
proof (induction xs arbitrary: gap n k)
  case (Cons c xs)
  then obtain d where "digit_value c = Some d" "d < 16" "c \<noteq> 95"
    by (auto simp: digit_value_def char_class_defs)
  with Cons show ?case by simp
qed simp

lemma hex_fixed_value:
  "foldl (\<lambda>n c. 16 * n + the (digit_value c)) n (hex_fixed k i) = 16 ^ k * n + i mod 16 ^ k"
proof (induction k arbitrary: i n)
  case (Suc k)
  have "i mod 16 ^ Suc k = 16 * (i div 16 mod 16 ^ k) + i mod 16"
    by (simp add: mod_mult2_eq)
  with Suc [of n "i div 16"] show ?case by (simp add: digit_value_hex_digit)
qed simp

lemma strip_by_idle: "(\<And>c. c \<in> set s \<Longrightarrow> \<not> p c) \<Longrightarrow> strip_by p s = s"
proof -
  assume "\<And>c. c \<in> set s \<Longrightarrow> \<not> p c"
  then have "dropWhile p s = s" "dropWhile p (rev s) = rev s"
    using last_in_set [of s] hd_in_set [of s] by (auto simp: dropWhile_eq_self_iff hd_rev)
  then show ?thesis by (simp add: strip_by_def lstrip_by_def rstrip_by_def)
qed

lemma remove_all_absent: "old \<noteq> [] \<Longrightarrow> hd old \<notin> set s \<Longrightarrow> remove_all old s = s"
proof (induction s)
  case (Cons c s)
  then have "take (length old) (c # s) \<noteq> old" by (cases old) auto
  with Cons show ?case by (subst remove_all.simps) auto
qed (simp add: remove_all.simps)

lemma set_lower_hex: "list_all is_lower_hex h \<Longrightarrow> c \<in> set h \<Longrightarrow> is_lower_hex c"
  by (simp add: list_all_iff)

lemma py_int_hex_fixed:
  assumes "0 < k" shows "py_int 16 (hex_fixed k i) = Some (int (i mod 16 ^ k))"
proof -
  let ?h = "hex_fixed k i"
  have hex: "\<And>c. c \<in> set ?h \<Longrightarrow> is_lower_hex c" by (rule set_lower_hex [OF hex_fixed_lower_hex])
  have ne: "?h \<noteq> []" using assms by (metis length_greater_0_conv length_hex_fixed)
  then obtain a r where h: "?h = a # r" by (cases ?h) auto
  have "strip_by is_int_space ?h = ?h"
    by (rule strip_by_idle) (use hex in \<open>force simp: is_int_space_def char_class_defs\<close>)
  moreover have "hd ?h \<noteq> 45" "hd ?h \<noteq> 43"
    using hex [of "hd ?h"] ne by (auto simp: char_class_defs)
  moreover have "strip_hex_prefix ?h = ?h"
  proof (cases r)
    case (Cons b r')
    then have "is_lower_hex b" using hex h by auto
    then have "b \<noteq> 120" "b \<noteq> 88" by (auto simp: char_class_defs)
    with h Cons show ?thesis by (simp add: strip_hex_prefix_def)
  qed (simp add: strip_hex_prefix_def h)
  ultimately show ?thesis
    using int_digits_hex [OF hex_fixed_lower_hex, of k i True 0 "length ?h" 0] ne
    by (simp add: py_int_def Let_def hex_fixed_value)
qed

text \<open>The canonical text of a 128-bit number is parsed back to the number.\<close>

lemma uuid_round_trip: "i < 2 ^ 128 \<Longrightarrow> uuid_parse (uuid_text i) = Some i"
proof -
  assume i: "i < 2 ^ 128"
  let ?h = "hex_fixed 32 i"
  have chars: "is_lower_hex c \<or> c = 45" if "c \<in> set (uuid_text i)" for c
    using that set_lower_hex [OF hex_fixed_lower_hex, of c 32 i]
    by (auto simp: uuid_text_def Let_def dest!: in_set_takeD in_set_dropD)
  have ne: "c \<noteq> 117 \<and> c \<noteq> 123 \<and> c \<noteq> 125" if "c \<in> set (uuid_text i)" for c
    using chars [OF that] by (auto simp: char_class_defs)
  have "remove_all (lit ''urn:'') (uuid_text i) = uuid_text i"
    "remove_all (lit ''uuid:'') (uuid_text i) = uuid_text i"
    using ne [of 117] by (auto intro!: remove_all_absent simp: lit_def)
  moreover have "strip_by (\<lambda>c. c = 123 \<or> c = 125) (uuid_text i) = uuid_text i"
    by (rule strip_by_idle) (use ne in blast)
  moreover have "filter (\<lambda>c. c \<noteq> 45) (uuid_text i) = ?h"
  proof -
    have keep: "filter (\<lambda>c. c \<noteq> 45) xs = xs" if "set xs \<subseteq> set ?h" for xs
    proof (rule filter_True, rule ballI)
      fix c assume "c \<in> set xs"
      with that have "is_lower_hex c" by (meson hex_fixed_lower_hex set_lower_hex subsetD)
      then show "c \<noteq> 45" by (auto simp: char_class_defs)
    qed
    have sub: "set (take n xs) \<subseteq> set ?h" "set (drop n xs) \<subseteq> set ?h" if "set xs \<subseteq> set ?h" for n xs
      using that by (auto dest: in_set_takeD in_set_dropD)
    have "take 8 ?h @ take 4 (drop 8 ?h) @ take 4 (drop 12 ?h) @ take 4 (drop 16 ?h) @ drop 20 ?h = ?h"
      using append_take_drop_id [of 4 "drop 16 ?h"] append_take_drop_id [of 4 "drop 12 ?h"]
        append_take_drop_id [of 4 "drop 8 ?h"] append_take_drop_id [of 8 ?h]
      by (simp del: append_take_drop_id)
    then show ?thesis
      by (simp add: uuid_text_def Let_def keep sub)
  qed
  ultimately show ?thesis
    using i py_int_hex_fixed [of 32 i] by (simp add: uuid_parse_def)
qed

end
