(* ===== verification/Url.thy ===== *)
theory Url
  imports PyText "HOL-Library.Product_Lexorder" "HOL-Library.Multiset"
begin

text \<open>
  URL paths and queries (\<open>canonicalize_path\<close>, \<open>canonicalize_query\<close> and
  \<open>validate_same_origin_path\<close> of \<open>novo_chat/protocol.py\<close>) over the percent coding of
  \<open>urllib.parse\<close>: \<open>unquote\<close> decodes each ASCII run as UTF-8 and leaves other characters,
  \<open>quote\<close> encodes every byte that is not safe. The lemmas show that a canonical path is a
  fixed point, that the canonical query does not depend on the order of its pairs, and that
  an accepted source path cannot be read as an authority after decoding.
\<close>

section \<open>Percent coding\<close>

definition hex_value :: "nat \<Rightarrow> nat option" where
  "hex_value c = (case digit_value c of Some d \<Rightarrow> (if d < 16 then Some d else None) | None \<Rightarrow> None)"

text \<open>\<open>unquote_to_bytes\<close> of an ASCII run: a percent sign without two hex digits stays.\<close>

fun pct_bytes :: "str \<Rightarrow> bytes" where
  "pct_bytes (p # a # b # r) =
     (if p = 37
      then (case (hex_value a, hex_value b) of
              (Some h, Some l) \<Rightarrow> (h * 16 + l) # pct_bytes r
            | _ \<Rightarrow> p # pct_bytes (a # b # r))
      else p # pct_bytes (a # b # r))"
| "pct_bytes s = s"

function unquote :: "str \<Rightarrow> str option" where
  "unquote s =
     (if s = [] then Some []
      else if hd s < 128
        then (let run = takeWhile (\<lambda>c. c < 128) s
              in case utf8_decode (pct_bytes run) of None \<Rightarrow> None
                 | Some d \<Rightarrow> map_option (\<lambda>r. d @ r) (unquote (dropWhile (\<lambda>c. c < 128) s)))
      else map_option (\<lambda>r. hd s # r) (unquote (tl s)))"
  by pat_completeness auto
termination
proof (relation "measure length")
  fix s :: str and run x2
  assume "s \<noteq> []" "hd s < 128"
  then have "dropWhile (\<lambda>c. c < 128) s = dropWhile (\<lambda>c. c < 128) (tl s)" by (cases s) auto
  then show "(dropWhile (\<lambda>c. c < 128) s, s) \<in> measure length"
    using \<open>s \<noteq> []\<close> length_dropWhile_le [of "\<lambda>c. c < 128" "tl s"] by (cases s) auto
qed auto

declare unquote.simps [simp del]

definition always_safe :: "nat \<Rightarrow> bool" where
  "always_safe c \<longleftrightarrow> is_alnum c \<or> c = 95 \<or> c = 46 \<or> c = 45 \<or> c = 126"

definition upper_hex_digit :: "nat \<Rightarrow> nat" where
  "upper_hex_digit d = (if d < 10 then 48 + d else 55 + d)"

definition quote_byte :: "(nat \<Rightarrow> bool) \<Rightarrow> nat \<Rightarrow> str" where
  "quote_byte safe b =
     (if always_safe b \<or> safe b then [b]
      else [37, upper_hex_digit (b div 16), upper_hex_digit (b mod 16)])"

definition quote :: "(nat \<Rightarrow> bool) \<Rightarrow> str \<Rightarrow> str option" where
  "quote safe s = map_option (\<lambda>bs. concat (map (quote_byte safe) bs)) (utf8_encode s)"

text \<open>\<open>text.split(sep)\<close> for a one-character separator.\<close>

fun split_on :: "'a \<Rightarrow> 'a list \<Rightarrow> 'a list list" where
  "split_on c [] = [[]]"
| "split_on c (x # xs) =
     (if x = c then [] # split_on c xs
      else (case split_on c xs of [] \<Rightarrow> [[x]] | p # ps \<Rightarrow> (x # p) # ps))"

section \<open>Paths\<close>

definition safe_path_char :: "nat \<Rightarrow> bool" where "safe_path_char c \<longleftrightarrow> c = 47"

text \<open>\<open>canonicalize_path\<close>; \<open>None\<close> is its \<open>ValueError\<close> (of which \<open>UnicodeError\<close> is one).\<close>

definition canonicalize_path :: "str \<Rightarrow> str option" where
  "canonicalize_path path =
     (if \<not> (path \<noteq> [] \<and> hd path = 47) \<or> 63 \<in> set path \<or> 35 \<in> set path \<or> 92 \<in> set path then None
      else case unquote path of
        None \<Rightarrow> None
      | Some decoded \<Rightarrow>
          if \<exists>c\<in>set decoded. c < 32 then None
          else if \<exists>seg\<in>set (split_on 47 decoded). seg = lit ''.'' \<or> seg = lit ''..'' then None
          else quote safe_path_char decoded)"

text \<open>\<open>validate_same_origin_path\<close>, which returns its argument; \<open>False\<close> is \<open>ValueError\<close>.\<close>

fun has_encoded_separator :: "str \<Rightarrow> bool" where
  "has_encoded_separator (p # a # b # r) =
     (p = 37 \<and> (a = 50 \<and> (b = 102 \<or> b = 70) \<or> a = 53 \<and> (b = 99 \<or> b = 67))
      \<or> has_encoded_separator (a # b # r))"
| "has_encoded_separator s = False"

text \<open>
  \<open>urlsplit\<close> drops tabs and line breaks before it looks for a scheme or an authority. The
  value begins with a slash, so there is no scheme; an authority appears only when the rest
  begins with a second slash.
\<close>

definition valid_same_origin_path :: "str \<Rightarrow> bool" where
  "valid_same_origin_path value =
     (if \<not> (value \<noteq> [] \<and> hd value = 47) \<or> take 2 value = [47, 47] \<or> 92 \<in> set value
         \<or> has_encoded_separator value then False
      else if take 2 (filter (\<lambda>c. c \<noteq> 9 \<and> c \<noteq> 10 \<and> c \<noteq> 13) value) = [47, 47] then False
      else case unquote value of
        None \<Rightarrow> False
      | Some decoded \<Rightarrow> 92 \<notin> set decoded \<and> (\<forall>c\<in>set decoded. 32 \<le> c \<and> c \<noteq> 127))"

section \<open>Queries\<close>

text \<open>
  \<open>parse_qsl(query, keep_blank_values=True)\<close>: pairs between ampersands, empty pieces skipped,
  a missing \<open>=\<close> gives an empty value, and \<open>+\<close> is a space.
\<close>

definition plus_space :: "str \<Rightarrow> str" where
  "plus_space s = map (\<lambda>c. if c = 43 then 32 else c) s"

definition parse_pair :: "str \<Rightarrow> (str \<times> str) option" where
  "parse_pair piece =
     (let k = takeWhile (\<lambda>c. c \<noteq> 61) piece; v = drop (Suc (length k)) piece
      in case unquote (plus_space k) of
           None \<Rightarrow> None
         | Some k' \<Rightarrow> map_option (\<lambda>v'. (k', v')) (unquote (plus_space v)))"

fun option_list :: "'a option list \<Rightarrow> 'a list option" where
  "option_list [] = Some []"
| "option_list (x # xs) = (case x of None \<Rightarrow> None | Some y \<Rightarrow> map_option (\<lambda>ys. y # ys) (option_list xs))"

definition parse_qsl :: "str \<Rightarrow> (str \<times> str) list option" where
  "parse_qsl query = option_list (map parse_pair (filter (\<lambda>p. p \<noteq> []) (split_on 38 query)))"

definition no_safe :: "nat \<Rightarrow> bool" where "no_safe c \<longleftrightarrow> False"

definition quote_pair :: "str \<times> str \<Rightarrow> (str \<times> str) option" where
  "quote_pair kv =
     (case quote no_safe (fst kv) of
        None \<Rightarrow> None
      | Some k \<Rightarrow> map_option (\<lambda>v. (k, v)) (quote no_safe (snd kv)))"

definition render_pairs :: "(str \<times> str) list \<Rightarrow> str" where
  "render_pairs kvs = join [38] (map (\<lambda>(k, v). k @ 61 # v) kvs)"

text \<open>The last lines of \<open>canonicalize_query\<close>, on the pairs its other branches build.\<close>

definition canonical_pairs :: "(str \<times> str) list \<Rightarrow> str option" where
  "canonical_pairs pairs = map_option (\<lambda>enc. render_pairs (sort enc)) (option_list (map quote_pair pairs))"

text \<open>
  \<open>canonicalize_query\<close> of a query string, and of the raw query bytes the worker passes,
  which must be ASCII.
\<close>

definition canonicalize_query :: "str \<Rightarrow> str option" where
  "canonicalize_query query =
     (case parse_qsl query of None \<Rightarrow> None | Some pairs \<Rightarrow> canonical_pairs pairs)"

definition canonicalize_query_bytes :: "bytes \<Rightarrow> str option" where
  "canonicalize_query_bytes query =
     (if list_all (\<lambda>b. b < 128) query then canonicalize_query query else None)"

section \<open>Percent coding is undone\<close>

lemma pct_bytes_Cons: "p \<noteq> 37 \<Longrightarrow> pct_bytes (p # s) = p # pct_bytes s"
  by (cases "(p # s)" rule: pct_bytes.cases) auto

lemma pct_bytes_percent:
  "hex_value a = Some h \<Longrightarrow> hex_value b = Some l \<Longrightarrow>
     pct_bytes (37 # a # b # r) = (h * 16 + l) # pct_bytes r"
  by simp

lemma hex_value_upper: "d < 16 \<Longrightarrow> hex_value (upper_hex_digit d) = Some d"
  by (auto simp: hex_value_def digit_value_def upper_hex_digit_def char_class_defs)

lemma upper_hex_digit_ascii: "d < 16 \<Longrightarrow> upper_hex_digit d < 128 \<and> is_alnum (upper_hex_digit d)"
  by (auto simp: upper_hex_digit_def char_class_defs)

definition byte_list :: "bytes \<Rightarrow> bool" where
  "byte_list bs \<longleftrightarrow> (\<forall>b\<in>set bs. b < 256)"

lemma utf8_char_bytes: "utf8_char c = Some b \<Longrightarrow> byte_list b"
proof -
  assume a: "utf8_char c = Some b"
  have m: "n mod 64 < 64" for n :: nat by simp
  have d: "c < 2048 \<Longrightarrow> c div 64 < 32" "c < 65536 \<Longrightarrow> c div 4096 < 16" "c < 1114112 \<Longrightarrow> c div 262144 < 5"
    by (simp_all add: less_mult_imp_div_less)
  show ?thesis
    using a d m [of c] m [of "c div 64"] m [of "c div 4096"]
    by (auto simp: utf8_char_def byte_list_def split: if_splits)
qed

lemma utf8_encode_bytes: "utf8_encode s = Some bs \<Longrightarrow> byte_list bs"
proof (induction s arbitrary: bs)
  case (Cons c s)
  then show ?case
    using utf8_char_bytes [of c] by (fastforce simp: byte_list_def split: option.splits)
qed (simp add: byte_list_def)

lemma pct_bytes_quote:
  assumes "byte_list bs" "\<not> safe 37"
  shows "pct_bytes (concat (map (quote_byte safe) bs)) = bs"
  using assms(1)
proof (induction bs)
  case (Cons b bs)
  then have b: "b < 256" and IH: "pct_bytes (concat (map (quote_byte safe) bs)) = bs"
    by (auto simp: byte_list_def)
  show ?case
  proof (cases "always_safe b \<or> safe b")
    case True
    with assms(2) have "b \<noteq> 37" by (auto simp: always_safe_def char_class_defs)
    moreover from True have "quote_byte safe b = [b]" by (simp add: quote_byte_def)
    ultimately show ?thesis using IH by (simp add: pct_bytes_Cons)
  next
    case False
    from b have "b div 16 < 16" by (simp add: less_mult_imp_div_less)
    moreover from False have
      "quote_byte safe b = [37, upper_hex_digit (b div 16), upper_hex_digit (b mod 16)]"
      by (simp add: quote_byte_def)
    ultimately show ?thesis
      using IH by (simp add: pct_bytes_percent hex_value_upper del: pct_bytes.simps)
  qed
qed simp

definition quoted_char :: "(nat \<Rightarrow> bool) \<Rightarrow> nat \<Rightarrow> bool" where
  "quoted_char safe c \<longleftrightarrow> always_safe c \<or> safe c \<or> c = 37"

lemma quote_byte_chars: "b < 256 \<Longrightarrow> c \<in> set (quote_byte safe b) \<Longrightarrow> quoted_char safe c"
proof -
  assume b: "b < 256" and c: "c \<in> set (quote_byte safe b)"
  from b have "b div 16 < 16" "b mod 16 < 16" by (simp_all add: less_mult_imp_div_less)
  with c show ?thesis
    by (auto simp: quote_byte_def quoted_char_def always_safe_def upper_hex_digit_ascii split: if_splits)
qed

lemma quote_chars:
  assumes "quote safe s = Some q" "c \<in> set q" shows "quoted_char safe c"
proof -
  obtain bs where bs: "utf8_encode s = Some bs" "q = concat (map (quote_byte safe) bs)"
    using assms(1) by (auto simp: quote_def)
  then obtain b where "b \<in> set bs" "c \<in> set (quote_byte safe b)" using assms(2) by auto
  with utf8_encode_bytes [OF bs(1)] quote_byte_chars show ?thesis by (auto simp: byte_list_def)
qed

lemma unquote_ascii:
  assumes "\<forall>c\<in>set q. c < 128" shows "unquote q = utf8_decode (pct_bytes q)"
proof (cases "q = []")
  case True
  then show ?thesis by (simp add: unquote.simps utf8_decode.simps)
next
  case False
  have tw: "takeWhile (\<lambda>c. c < 128) q = q" "dropWhile (\<lambda>c. c < 128) q = []"
    using assms by (simp_all add: takeWhile_eq_all_conv)
  have "hd q < 128" using False assms by simp
  with False show ?thesis
    by (subst unquote.simps) (simp add: tw unquote.simps [of "[]"] split: option.splits)
qed

lemma unquote_quote:
  assumes q: "quote safe s = Some q" and safe: "\<And>c. safe c \<Longrightarrow> c < 128 \<and> c \<noteq> 37"
  shows "unquote q = Some s"
proof -
  obtain bs where bs: "utf8_encode s = Some bs" "q = concat (map (quote_byte safe) bs)"
    using q by (auto simp: quote_def)
  have "c < 128" if "c \<in> set q" for c
    using quote_chars [OF q that] safe [of c] by (auto simp: quoted_char_def always_safe_def char_class_defs)
  then have "unquote q = utf8_decode (pct_bytes q)" by (simp add: unquote_ascii)
  also have "pct_bytes q = bs"
    using pct_bytes_quote [OF utf8_encode_bytes [OF bs(1)], of safe] safe [of 37] bs(2) by blast
  finally show ?thesis using utf8_round_trip [OF bs(1)] by simp
qed

lemma quote_hd_slash:
  assumes "quote safe_path_char s = Some q" "s \<noteq> []" "hd s = 47"
  shows "q \<noteq> [] \<and> hd q = 47"
proof -
  obtain r where "s = 47 # r" using assms(2,3) by (cases s) auto
  with assms(1) show ?thesis
    by (auto simp: quote_def utf8_char_def quote_byte_def safe_path_char_def)
qed

section \<open>Canonical paths\<close>

lemma canonicalize_path_Some:
  "canonicalize_path p = Some q \<Longrightarrow>
     \<exists>d. unquote p = Some d \<and> quote safe_path_char d = Some q \<and> (\<forall>c\<in>set d. 32 \<le> c)
       \<and> lit ''.'' \<notin> set (split_on 47 d) \<and> lit ''..'' \<notin> set (split_on 47 d)"
  by (auto simp: canonicalize_path_def not_less split: if_splits option.splits)

lemma utf8_decode_Cons_ascii: "b < 128 \<Longrightarrow> utf8_decode (b # bs) = map_option (\<lambda>cs. b # cs) (utf8_decode bs)"
  by (subst utf8_decode.simps) simp

lemma unquote_Cons_ascii:
  assumes "c < 128" "c \<noteq> 37" shows "unquote (c # s) = map_option (\<lambda>d. c # d) (unquote s)"
proof -
  let ?p = "\<lambda>c. c < (128::nat)"
  have "unquote (c # s) = (case utf8_decode (pct_bytes (c # takeWhile ?p s)) of None \<Rightarrow> None
      | Some d \<Rightarrow> map_option (\<lambda>r. d @ r) (unquote (dropWhile ?p s)))"
    using assms(1) by (subst unquote.simps) (simp add: Let_def cong: option.case_cong)
  also have "\<dots> = (case map_option (\<lambda>cs. c # cs) (utf8_decode (pct_bytes (takeWhile ?p s))) of None \<Rightarrow> None
      | Some d \<Rightarrow> map_option (\<lambda>r. d @ r) (unquote (dropWhile ?p s)))"
    using assms by (simp add: pct_bytes_Cons utf8_decode_Cons_ascii)
  also have "\<dots> = map_option (\<lambda>d. c # d) (unquote s)"
  proof (cases "s = [] \<or> 128 \<le> hd s")
    case True
    then have "takeWhile ?p s = []" "dropWhile ?p s = s" by (cases s; auto)+
    moreover have "(@) [c] = (#) c" by (simp add: fun_eq_iff)
    ultimately show ?thesis by (simp add: utf8_decode.simps option.map_comp comp_def)
  next
    case False
    have "(@) (c # x) = (\<lambda>r. c # x @ r)" for x by (simp add: fun_eq_iff)
    with False show ?thesis
      by (subst (2) unquote.simps) (auto simp: Let_def option.map_comp comp_def split: option.splits)
  qed
  finally show ?thesis .
qed

lemma unquote_hd_slash: "unquote (47 # s) = Some d \<Longrightarrow> \<exists>d'. d = 47 # d'"
  by (auto simp: unquote_Cons_ascii)

lemma canonicalize_path_idem:
  assumes "canonicalize_path p = Some q" shows "canonicalize_path q = Some q"
proof -
  obtain d where d: "unquote p = Some d" "quote safe_path_char d = Some q" "\<forall>c\<in>set d. 32 \<le> c"
    "lit ''.'' \<notin> set (split_on 47 d)" "lit ''..'' \<notin> set (split_on 47 d)"
    using canonicalize_path_Some [OF assms] by blast
  from assms obtain p' where "p = 47 # p'" by (cases p) (auto simp: canonicalize_path_def split: if_splits)
  with d(1) obtain d' where "d = 47 # d'" using unquote_hd_slash by blast
  with d(2) have q: "q \<noteq> []" "hd q = 47" using quote_hd_slash by auto
  have "63 \<notin> set q" "35 \<notin> set q" "92 \<notin> set q"
    using quote_chars [OF d(2), of 63] quote_chars [OF d(2), of 35] quote_chars [OF d(2), of 92]
    by (auto simp: quoted_char_def always_safe_def safe_path_char_def char_class_defs)
  moreover have "unquote q = Some d"
    by (rule unquote_quote [OF d(2)]) (simp add: safe_path_char_def)
  ultimately show ?thesis
    using q d by (auto simp: canonicalize_path_def)
qed

section \<open>Source paths name no authority\<close>

lemma utf8_next_ascii: "utf8_next (b # bs) = Some (c, r) \<Longrightarrow> c < 128 \<Longrightarrow> b = c"
  by (auto simp: Let_def split: if_splits list.splits)

lemma utf8_decode_hd: "utf8_decode (b # bs) = Some (c # cs) \<Longrightarrow> c < 128 \<Longrightarrow> b = c"
  by (subst (asm) utf8_decode.simps) (auto split: option.splits simp del: utf8_next.simps dest: utf8_next_ascii)

lemma utf8_decode_nonempty: "utf8_decode (b # bs) = Some d \<Longrightarrow> d \<noteq> []"
  by (subst (asm) utf8_decode.simps) (auto split: option.splits simp del: utf8_next.simps)

lemma hex_value_cases:
  "hex_value a = Some 2 \<Longrightarrow> a = 50" "hex_value a = Some 15 \<Longrightarrow> a = 102 \<or> a = 70"
  "hex_value a = Some h \<Longrightarrow> h < 16"
  by (auto simp: hex_value_def digit_value_def char_class_defs split: if_splits option.splits)

lemma pct_bytes_nonempty: "pct_bytes (p # s) \<noteq> []"
  by (cases "p # s" rule: pct_bytes.cases) (auto split: option.splits)

lemma pct_bytes_hd_slash:
  assumes "pct_bytes (37 # s) = 47 # r"
  shows "\<exists>b t. s = 50 # b # t \<and> (b = 102 \<or> b = 70)"
proof (cases "(37::nat) # s" rule: pct_bytes.cases)
  case (1 p a b t)
  with assms obtain h l where hl: "hex_value a = Some h" "hex_value b = Some l" "h * 16 + l = 47"
    by (auto split: option.splits)
  then have "l < 16" by (simp add: hex_value_cases(3))
  with hl(3) have "h = 2" by linarith
  moreover from this hl(3) have "l = 15" by simp
  ultimately have "h = 2" "l = 15" by simp_all
  with hl hex_value_cases(1) [of a] hex_value_cases(2) [of b] 1 show ?thesis by auto
qed (use assms in auto)

lemma unquote_second:
  assumes w: "w = [] \<or> hd w \<noteq> 47" and sep: "\<not> has_encoded_separator (47 # w)" and u: "unquote w = Some d"
  shows "d = [] \<or> hd d \<noteq> 47"
proof (cases w)
  case (Cons c s)
  let ?run = "takeWhile (\<lambda>c. c < 128) s"
  consider "128 \<le> c" | "c < 128" "c \<noteq> 37" | "c = 37" by linarith
  then show ?thesis
  proof cases
    case 1
    with Cons u w show ?thesis by (subst (asm) unquote.simps) auto
  next
    case 2
    with Cons u w show ?thesis by (auto simp: unquote_Cons_ascii)
  next
    case 3
    with Cons u obtain e r where e: "utf8_decode (pct_bytes (37 # ?run)) = Some e" "d = e @ r"
      by (subst (asm) unquote.simps) (auto simp: Let_def split: option.splits)
    obtain b0 bs where b0: "pct_bytes (37 # ?run) = b0 # bs"
      using pct_bytes_nonempty [of 37 ?run] by (cases "pct_bytes (37 # ?run)") auto
    with e obtain c0 cs where c0: "e = c0 # cs" by (cases e) (auto dest: utf8_decode_nonempty)
    have "c0 \<noteq> 47"
    proof
      assume "c0 = 47"
      with e b0 c0 have "b0 = 47" by (auto dest: utf8_decode_hd)
      with b0 obtain b t where run: "?run = 50 # b # t" "b = 102 \<or> b = 70"
        using pct_bytes_hd_slash by blast
      then obtain t' where "s = 50 # b # t'"
        by (cases s; cases "tl s") (auto split: if_splits)
      with sep Cons 3 run(2) show False by auto
    qed
    with e c0 show ?thesis by simp
  qed
qed (use u in \<open>simp add: unquote.simps\<close>)

lemma same_origin_path_decoded:
  assumes "valid_same_origin_path v"
  obtains d where "unquote v = Some (47 # d)" "d = [] \<or> hd d \<noteq> 47"
    "92 \<notin> set (47 # d)" "\<forall>c\<in>set (47 # d). 32 \<le> c \<and> c \<noteq> 127"
proof -
  from assms obtain w where w: "v = 47 # w" "take 2 v \<noteq> [47, 47]" "\<not> has_encoded_separator v"
    by (cases v) (auto simp: valid_same_origin_path_def split: if_splits)
  then have v: "v = 47 # w" "w = [] \<or> hd w \<noteq> 47" "\<not> has_encoded_separator v"
    by (cases w; simp)+
  from assms obtain e where e: "unquote v = Some e" "92 \<notin> set e" "\<forall>c\<in>set e. 32 \<le> c \<and> c \<noteq> 127"
    by (auto simp: valid_same_origin_path_def split: if_splits option.splits)
  with v obtain d where d: "unquote w = Some d" "e = 47 # d" by (auto simp: unquote_Cons_ascii)
  show thesis
    using that [of d] unquote_second [OF v(2) _ d(1)] v d e by auto
qed

section \<open>The canonical query does not depend on the order of the pairs\<close>

lemma option_list_Some: "option_list xs = Some ys \<longleftrightarrow> xs = map Some ys"
  by (induction xs arbitrary: ys) (auto split: option.splits)

lemma option_list_None: "option_list xs = None \<longleftrightarrow> None \<in> set xs"
  by (induction xs) (auto split: option.splits)

lemma canonical_pairs_perm:
  assumes "mset ps = mset qs" shows "canonical_pairs ps = canonical_pairs qs"
proof (cases "option_list (map quote_pair ps)")
  case None
  then have "None \<in> quote_pair ` set qs"
    using assms by (metis option_list_None set_map set_mset_mset)
  with None show ?thesis
    by (metis canonical_pairs_def option_list_None set_map)
next
  case (Some es)
  then have es: "map quote_pair ps = map Some es" by (simp add: option_list_Some)
  let ?fs = "map (the \<circ> quote_pair) qs"
  have "None \<notin> quote_pair ` set qs"
    using assms Some by (metis option_list_None option.distinct(1) set_map set_mset_mset)
  then have qs: "map quote_pair qs = map Some ?fs" by (auto simp: comp_def) (metis image_eqI not_None_eq option.sel)
  have "mset ?fs = image_mset the (image_mset quote_pair (mset ps))"
    using assms by (simp add: image_mset.compositionality)
  also have "image_mset quote_pair (mset ps) = image_mset Some (mset es)"
    using es by (metis mset_map)
  finally have "sort ?fs = sort es"
    by (simp add: image_mset.compositionality comp_def properties_for_sort)
  moreover have "option_list (map quote_pair qs) = Some ?fs" using qs option_list_Some by blast
  ultimately show ?thesis using Some by (simp add: canonical_pairs_def)
qed

section \<open>Properties\<close>

text \<open>
  The canonical path is a normal form of what the path denotes. It is a fixed point of
  canonicalisation, it decodes to the same path, and two accepted paths have the same canonical form
  exactly when they decode to the same path, so that a signature over the canonical form covers
  exactly one decoded path.
\<close>

theorem canonical_path_normal_form:
  assumes "canonicalize_path p = Some q" "canonicalize_path p' = Some q'"
  shows "canonicalize_path q = Some q \<and> unquote q = unquote p \<and> (q = q' \<longleftrightarrow> unquote p = unquote p')"
proof -
  obtain d where d: "unquote p = Some d" "quote safe_path_char d = Some q"
    using canonicalize_path_Some [OF assms(1)] by blast
  obtain d' where d': "unquote p' = Some d'" "quote safe_path_char d' = Some q'"
    using canonicalize_path_Some [OF assms(2)] by blast
  have "unquote q = Some d" by (rule unquote_quote [OF d(2)]) (simp add: safe_path_char_def)
  moreover have "unquote q' = Some d'" by (rule unquote_quote [OF d'(2)]) (simp add: safe_path_char_def)
  ultimately show ?thesis
    using canonicalize_path_idem [OF assms(1)] d d' by auto
qed

theorem canonical_path_normal_form_witness:
  "unquote (lit ''/v1/a%20b'') = unquote (lit ''/v1/a b'')"
proof -
  have "canonicalize_path (lit ''/v1/a b'') = Some (lit ''/v1/a%20b'')"
    "canonicalize_path (lit ''/v1/%61%20b'') = Some (lit ''/v1/a%20b'')" by code_simp+
  from canonical_path_normal_form [OF this] show ?thesis by simp
qed

text \<open>
  An accepted source path names this origin. Whatever percent coding it uses, it decodes to
  a path with one leading slash, not two, without backslash or control character: no reader
  can take its beginning for an authority.
\<close>

theorem same_origin_path_safe:
  assumes "valid_same_origin_path v"
  shows "\<exists>d. unquote v = Some (47 # d) \<and> (d = [] \<or> hd d \<noteq> 47) \<and> 92 \<notin> set d
    \<and> (\<forall>c\<in>set d. 32 \<le> c \<and> c \<noteq> 127)"
  using same_origin_path_decoded [OF assms] by (metis list.set_intros(2))

theorem same_origin_path_safe_witness:
  "\<exists>d. unquote (lit ''/notes/%41?page=1'') = Some (47 # d) \<and> (d = [] \<or> hd d \<noteq> 47)"
proof -
  have "valid_same_origin_path (lit ''/notes/%41?page=1'')" by code_simp
  from same_origin_path_safe [OF this] show ?thesis by blast
qed

text \<open>
  The canonical query does not depend on the order in which the parameters are given,
  equal names included.
\<close>

theorem canonical_query_order_free:
  assumes "parse_qsl a = Some ps" "parse_qsl b = Some qs" "mset ps = mset qs"
  shows "canonicalize_query a = canonicalize_query b"
  using canonical_pairs_perm [OF assms(3)] assms(1,2) by (simp add: canonicalize_query_def)

theorem canonical_query_order_free_witness:
  "canonicalize_query (lit ''b=2&a=1&b=1'') = canonicalize_query (lit ''b=1&b=2&a=1'')"
proof -
  have "parse_qsl (lit ''b=2&a=1&b=1'') = Some [(lit ''b'', lit ''2''), (lit ''a'', lit ''1''), (lit ''b'', lit ''1'')]"
    "parse_qsl (lit ''b=1&b=2&a=1'') = Some [(lit ''b'', lit ''1''), (lit ''b'', lit ''2''), (lit ''a'', lit ''1'')]"
    by code_simp+
  then show ?thesis by (rule canonical_query_order_free) simp
qed

end
