(* ===== verification/Protocol.thy ===== *)
theory Protocol
  imports Url
begin

text \<open>
  The wire vocabulary of \<open>novo_chat/protocol.py\<close>: the enumerations, the typed documents with
  the checks of their validators, their canonical JSON form and the page checksum. A document
  is a record of its fields; \<open>\<dots>_ok\<close> says that the field constraints and validators of the
  class accept it. Pydantic itself (parsing, coercion, whitespace stripping before the
  checks) is outside the repository and not modelled.
\<close>

section \<open>Enumerations\<close>

datatype job_operation = INGEST_BATCH | INGEST_FINALIZE | INDEX_REBUILD | QUERY | MODEL_START | MODEL_STOP

datatype job_state = QUEUED | RUNNING | SUCCEEDED | FAILED | CANCELED

datatype query_strategy = HYBRID | LEXICAL | SEMANTIC

datatype model_runtime_state = STOPPED | STARTING | READY | DRAINING | STOPPING | MODEL_FAILED | UNAVAILABLE

fun operation_value :: "job_operation \<Rightarrow> str" where
  "operation_value INGEST_BATCH = lit ''ingest_batch''"
| "operation_value INGEST_FINALIZE = lit ''ingest_finalize''"
| "operation_value INDEX_REBUILD = lit ''index_rebuild''"
| "operation_value QUERY = lit ''query''"
| "operation_value MODEL_START = lit ''model_start''"
| "operation_value MODEL_STOP = lit ''model_stop''"

fun model_state_value :: "model_runtime_state \<Rightarrow> str" where
  "model_state_value STOPPED = lit ''stopped''"
| "model_state_value STARTING = lit ''starting''"
| "model_state_value READY = lit ''ready''"
| "model_state_value DRAINING = lit ''draining''"
| "model_state_value STOPPING = lit ''stopping''"
| "model_state_value MODEL_FAILED = lit ''failed''"
| "model_state_value UNAVAILABLE = lit ''unavailable''"

lemma operation_value_inject [simp]: "operation_value a = operation_value b \<longleftrightarrow> a = b"
  by (cases a; cases b) simp_all

section \<open>Identifiers\<close>

definition safe_token :: "str \<Rightarrow> bool" where
  "safe_token = token is_alnum (\<lambda>c. is_alnum c \<or> c = 46 \<or> c = 95 \<or> c = 58 \<or> c = 45) 191"

definition safe_key_id :: "str \<Rightarrow> bool" where
  "safe_key_id = token is_alnum (\<lambda>c. is_alnum c \<or> c = 46 \<or> c = 95 \<or> c = 45) 63"

definition safe_environment :: "str \<Rightarrow> bool" where
  "safe_environment =
     token (\<lambda>c. is_lower c \<or> is_digit c) (\<lambda>c. is_lower c \<or> is_digit c \<or> c = 45) 31"

definition hex_signature :: "str \<Rightarrow> bool" where
  "hex_signature s \<longleftrightarrow> length s = 64 \<and> list_all is_lower_hex s"

text \<open>\<open>_validate_safe_token\<close>: a lone asterisk is refused as well, which the pattern already does.\<close>

definition validate_safe_token :: "str \<Rightarrow> bool" where
  "validate_safe_token value \<longleftrightarrow> safe_token value \<and> value \<noteq> [42]"

definition validate_query_text :: "str \<Rightarrow> bool" where
  "validate_query_text value \<longleftrightarrow>
     \<not> (\<exists>c\<in>set value. (c < 32 \<and> c \<noteq> 9 \<and> c \<noteq> 10 \<and> c \<noteq> 13) \<or> c = 127)"

text \<open>\<open>validate_request_id\<close>: the canonical text of a version-4 UUID, or \<open>ValueError\<close>.\<close>

definition validate_request_id :: "str \<Rightarrow> str option" where
  "validate_request_id value =
     (case uuid_parse value of
        None \<Rightarrow> None
      | Some i \<Rightarrow> (if uuid_version i = Some 4 then Some (uuid_text i) else None))"

lemma uuid_parse_bound: "uuid_parse s = Some i \<Longrightarrow> i < 2 ^ 128"
  by (auto simp: uuid_parse_def Let_def split: if_splits option.splits)

lemma validate_request_id_idem:
  "validate_request_id s = Some r \<Longrightarrow> validate_request_id r = Some r"
proof -
  assume "validate_request_id s = Some r"
  then obtain i where i: "uuid_parse s = Some i" "uuid_version i = Some 4" "r = uuid_text i"
    by (auto simp: validate_request_id_def split: option.splits if_splits)
  then show ?thesis
    unfolding validate_request_id_def by (simp only: uuid_round_trip [OF uuid_parse_bound [OF i(1)]] i(3) option.case)
      (simp add: i(2))
qed

section \<open>Notebook scopes and job requests\<close>

record notebook_scope =
  notebook_id :: str
  content_revision :: str
  index_schema_version :: str

definition scope_ok :: "notebook_scope \<Rightarrow> bool" where
  "scope_ok s \<longleftrightarrow>
     validate_safe_token (notebook_id s) \<and> length (notebook_id s) \<le> 192
     \<and> validate_safe_token (content_revision s) \<and> length (content_revision s) \<le> 256
     \<and> validate_safe_token (index_schema_version s) \<and> length (index_schema_version s) \<le> 128"

definition scope_json :: "notebook_scope \<Rightarrow> json" where
  "scope_json s = JObj
     [(lit ''notebookId'', JStr (notebook_id s)),
      (lit ''contentRevision'', JStr (content_revision s)),
      (lit ''indexSchemaVersion'', JStr (index_schema_version s))]"

record job_request =
  request_id :: str
  idempotency_key :: str
  actor_user_id :: str
  scope :: "notebook_scope list"

definition unique_notebooks :: "notebook_scope list \<Rightarrow> bool" where
  "unique_notebooks scopes \<longleftrightarrow> distinct (map notebook_id scopes)"

definition job_request_ok :: "'a job_request_scheme \<Rightarrow> bool" where
  "job_request_ok r \<longleftrightarrow>
     validate_request_id (request_id r) = Some (request_id r)
     \<and> 8 \<le> length (idempotency_key r) \<and> length (idempotency_key r) \<le> 192
     \<and> validate_safe_token (idempotency_key r)
     \<and> 1 \<le> length (actor_user_id r) \<and> length (actor_user_id r) \<le> 192
     \<and> validate_safe_token (actor_user_id r)
     \<and> length (scope r) \<le> 256 \<and> list_all scope_ok (scope r) \<and> unique_notebooks (scope r)"

section \<open>Pages\<close>

record attachment =
  attachment_id :: str
  attachment_name :: str
  mime_type :: str
  attachment_size :: int
  block_type :: "str option"
  attachment_created_at :: "str option"

record page_document =
  page_id :: str
  title :: str
  page_text :: str
  page_status :: "str option"
  page_created_at :: "str option"
  page_updated_at :: "str option"
  tags :: "str list"
  attachments :: "attachment list"
  source_url :: str

definition at_most :: "nat \<Rightarrow> str option \<Rightarrow> bool" where
  "at_most n x \<longleftrightarrow> (case x of None \<Rightarrow> True | Some s \<Rightarrow> length s \<le> n)"

definition attachment_ok :: "attachment \<Rightarrow> bool" where
  "attachment_ok a \<longleftrightarrow>
     validate_safe_token (attachment_id a) \<and> length (attachment_id a) \<le> 192
     \<and> 1 \<le> length (attachment_name a) \<and> length (attachment_name a) \<le> 1024
     \<and> length (mime_type a) \<le> 255 \<and> 0 \<le> attachment_size a
     \<and> at_most 128 (block_type a) \<and> at_most 64 (attachment_created_at a)"

definition page_ok :: "page_document \<Rightarrow> bool" where
  "page_ok p \<longleftrightarrow>
     validate_safe_token (page_id p) \<and> length (page_id p) \<le> 192
     \<and> length (title p) \<le> 4096 \<and> length (page_text p) \<le> 2000000
     \<and> at_most 128 (page_status p) \<and> at_most 64 (page_created_at p) \<and> at_most 64 (page_updated_at p)
     \<and> length (tags p) \<le> 256 \<and> length (attachments p) \<le> 1024 \<and> list_all attachment_ok (attachments p)
     \<and> 1 \<le> length (source_url p) \<and> length (source_url p) \<le> 2048 \<and> valid_same_origin_path (source_url p)"

text \<open>\<open>model_dump(mode="json", by_alias=True)\<close>: camelCase names, \<open>None\<close> as \<open>null\<close>.\<close>

definition opt_json :: "str option \<Rightarrow> json" where
  "opt_json x = (case x of None \<Rightarrow> JNull | Some s \<Rightarrow> JStr s)"

definition attachment_json :: "attachment \<Rightarrow> json" where
  "attachment_json a = JObj
     [(lit ''attachmentId'', JStr (attachment_id a)),
      (lit ''name'', JStr (attachment_name a)),
      (lit ''mimeType'', JStr (mime_type a)),
      (lit ''size'', JInt (attachment_size a)),
      (lit ''blockType'', opt_json (block_type a)),
      (lit ''createdAt'', opt_json (attachment_created_at a))]"

definition page_json :: "page_document \<Rightarrow> json" where
  "page_json p = JObj
     [(lit ''pageId'', JStr (page_id p)),
      (lit ''title'', JStr (title p)),
      (lit ''text'', JStr (page_text p)),
      (lit ''status'', opt_json (page_status p)),
      (lit ''createdAt'', opt_json (page_created_at p)),
      (lit ''updatedAt'', opt_json (page_updated_at p)),
      (lit ''tags'', JArr (map JStr (tags p))),
      (lit ''attachments'', JArr (map attachment_json (attachments p))),
      (lit ''sourceUrl'', JStr (source_url p))]"

text \<open>
  \<open>ingest_pages_checksum\<close> and its alias \<open>document_pages_checksum\<close>. \<open>sha\<close> is the hex digest
  of \<open>hashlib.sha256\<close>; \<open>None\<close> is the \<open>ValueError\<close> of \<open>canonical_json\<close>.
\<close>

definition ingest_pages_checksum :: "(bytes \<Rightarrow> str) \<Rightarrow> page_document list \<Rightarrow> str option" where
  "ingest_pages_checksum sha pages =
     map_option (\<lambda>b. lit ''sha256:'' @ sha b) (canonical_json (JArr (map page_json pages)))"

definition document_pages_checksum :: "(bytes \<Rightarrow> str) \<Rightarrow> page_document list \<Rightarrow> str option" where
  "document_pages_checksum sha pages = ingest_pages_checksum sha pages"

section \<open>The request kinds\<close>

record ingest_batch_request = job_request +
  batch_number :: int
  batch_checksum :: str
  pages :: "page_document list"

record ingest_finalize_request = job_request +
  document_checksum :: str
  page_count :: int
  batch_count :: int

record rebuild_request = job_request +
  force :: bool

record query_request = job_request +
  question :: str
  retrieval_question :: "str option"
  query_model :: str
  strategy :: query_strategy
  max_sources :: int
  retrieval_top_k :: int

record model_job_request = job_request +
  model :: str

definition checksum_text :: "str \<Rightarrow> bool" where
  "checksum_text s \<longleftrightarrow> take 7 s = lit ''sha256:'' \<and> hex_signature (drop 7 s)"

definition ingest_batch_ok :: "ingest_batch_request \<Rightarrow> bool" where
  "ingest_batch_ok r \<longleftrightarrow> job_request_ok r
     \<and> 0 \<le> batch_number r \<and> batch_number r \<le> 1000000 \<and> checksum_text (batch_checksum r)
     \<and> 1 \<le> length (pages r) \<and> length (pages r) \<le> 250 \<and> list_all page_ok (pages r)
     \<and> length (scope r) = 1"

definition ingest_finalize_ok :: "ingest_finalize_request \<Rightarrow> bool" where
  "ingest_finalize_ok r \<longleftrightarrow> job_request_ok r
     \<and> checksum_text (document_checksum r) \<and> 0 \<le> page_count r \<and> page_count r \<le> 10000000
     \<and> 0 \<le> batch_count r \<and> batch_count r \<le> 1000000 \<and> length (scope r) = 1"

definition rebuild_ok :: "rebuild_request \<Rightarrow> bool" where
  "rebuild_ok r \<longleftrightarrow> job_request_ok r \<and> scope r \<noteq> []"

definition query_ok :: "query_request \<Rightarrow> bool" where
  "query_ok r \<longleftrightarrow> job_request_ok r
     \<and> 1 \<le> length (question r) \<and> length (question r) \<le> 32000 \<and> validate_query_text (question r)
     \<and> (case retrieval_question r of None \<Rightarrow> True
        | Some q \<Rightarrow> 1 \<le> length q \<and> length q \<le> 32000 \<and> validate_query_text q)
     \<and> validate_safe_token (query_model r) \<and> length (query_model r) \<le> 192
     \<and> 1 \<le> max_sources r \<and> max_sources r \<le> 100
     \<and> 1 \<le> retrieval_top_k r \<and> retrieval_top_k r \<le> 32
     \<and> scope r \<noteq> []"

definition model_job_ok :: "model_job_request \<Rightarrow> bool" where
  "model_job_ok r \<longleftrightarrow> job_request_ok r
     \<and> validate_safe_token (model r) \<and> length (model r) \<le> 192 \<and> scope r = []"

section \<open>Properties\<close>

lemma opt_json_sorted: "sort_keys (opt_json x) = opt_json x"
  by (simp add: opt_json_def split: option.splits)

lemma opt_json_inject [simp]: "opt_json x = opt_json y \<longleftrightarrow> x = y"
  by (auto simp: opt_json_def split: option.splits)

lemma attachment_json_inject:
  assumes "sort_keys (attachment_json a) = sort_keys (attachment_json b)" shows "a = (b :: attachment)"
proof -
  define fields where "fields = (\<lambda>a :: attachment.
     [(lit ''attachmentId'', JStr (attachment_id a)), (lit ''name'', JStr (attachment_name a)),
      (lit ''mimeType'', JStr (mime_type a)), (lit ''size'', JInt (attachment_size a)),
      (lit ''blockType'', opt_json (block_type a)), (lit ''createdAt'', opt_json (attachment_created_at a))])"
  have dist: "distinct (map fst (fields a))" for a by (simp add: fields_def)
  have doc: "sort_keys (JObj (fields a)) = sort_keys (JObj (fields b))"
    using assms by (simp add: attachment_json_def fields_def)
  note eq = sort_keys_fields [OF doc dist dist]
  show ?thesis
    using eq [of "lit ''attachmentId''"] eq [of "lit ''name''"] eq [of "lit ''mimeType''"]
      eq [of "lit ''size''"] eq [of "lit ''blockType''"] eq [of "lit ''createdAt''"]
    by (simp add: fields_def opt_json_sorted)
qed

lemma map_eq_inject: "map f xs = map f ys \<Longrightarrow> (\<And>x y. f x = f y \<Longrightarrow> x = y) \<Longrightarrow> xs = ys"
  by (metis injI inj_map_eq_map)

lemma page_json_inject:
  assumes "sort_keys (page_json p) = sort_keys (page_json q)" shows "p = (q :: page_document)"
proof -
  define fields where "fields = (\<lambda>p :: page_document.
     [(lit ''pageId'', JStr (page_id p)), (lit ''title'', JStr (title p)), (lit ''text'', JStr (page_text p)),
      (lit ''status'', opt_json (page_status p)), (lit ''createdAt'', opt_json (page_created_at p)),
      (lit ''updatedAt'', opt_json (page_updated_at p)), (lit ''tags'', JArr (map JStr (tags p))),
      (lit ''attachments'', JArr (map attachment_json (attachments p))),
      (lit ''sourceUrl'', JStr (source_url p))])"
  have dist: "distinct (map fst (fields p))" for p by (simp add: fields_def)
  have doc: "sort_keys (JObj (fields p)) = sort_keys (JObj (fields q))"
    using assms by (simp add: page_json_def fields_def)
  note eq = sort_keys_fields [OF doc dist dist]
  have "map (sort_keys \<circ> JStr) (tags p) = map (sort_keys \<circ> JStr) (tags q)"
    using eq [of "lit ''tags''"] by (simp add: fields_def)
  then have "tags p = tags q" by (rule map_eq_inject) simp
  moreover have "map (sort_keys \<circ> attachment_json) (attachments p) = map (sort_keys \<circ> attachment_json) (attachments q)"
    using eq [of "lit ''attachments''"] by (simp add: fields_def)
  then have "attachments p = attachments q" by (rule map_eq_inject) (simp add: attachment_json_inject)
  ultimately show ?thesis
    using eq [of "lit ''pageId''"] eq [of "lit ''title''"] eq [of "lit ''text''"]
      eq [of "lit ''status''"] eq [of "lit ''createdAt''"] eq [of "lit ''updatedAt''"]
      eq [of "lit ''sourceUrl''"]
    by (simp add: fields_def opt_json_sorted)
qed

text \<open>
  The page checksum identifies the pages. Two page lists with the same checksum are equal,
  field by field and in order, or two different byte strings with the same digest are at hand.
\<close>

theorem checksum_identifies_pages:
  assumes "ingest_pages_checksum sha ps = Some c" "ingest_pages_checksum sha qs = Some c"
  shows "ps = qs \<or> collides sha"
proof -
  obtain m m' where m: "canonical_json (JArr (map page_json ps)) = Some m"
    "canonical_json (JArr (map page_json qs)) = Some m'" "sha m = sha m'"
    using assms by (auto simp: ingest_pages_checksum_def)
  show ?thesis
  proof (cases "m = m'")
    case True
    from canonical_json_inject [OF m(1) m(2) [folded True]]
    have "map (sort_keys \<circ> page_json) ps = map (sort_keys \<circ> page_json) qs" by simp
    then have "ps = qs" by (rule map_eq_inject) (simp add: page_json_inject)
    then show ?thesis ..
  next
    case False
    then show ?thesis using collidesI [of sha, OF m(3)] by simp
  qed
qed

theorem checksum_identifies_pages_witness:
  "[] = ([] :: page_document list) \<or> collides (\<lambda>b :: bytes. lit ''d'')"
proof -
  have "ingest_pages_checksum (\<lambda>b. lit ''d'') [] = Some (lit ''sha256:d'')" by code_simp
  from checksum_identifies_pages [OF this this] show ?thesis .
qed

text \<open>
  A validated request ID is in canonical form, the 36-character lower-case text of a
  128-bit number of version 4, and validating it again changes nothing.
\<close>

theorem request_id_canonical:
  assumes "validate_request_id s = Some r"
  shows "validate_request_id r = Some r \<and> length r = 36 \<and> (\<forall>c\<in>set r. is_lower_hex c \<or> c = 45)
    \<and> (\<exists>i < 2 ^ 128. uuid_parse r = Some i \<and> uuid_version i = Some 4)"
proof -
  obtain i where i: "uuid_parse s = Some i" "uuid_version i = Some 4" "r = uuid_text i"
    using assms by (auto simp: validate_request_id_def split: option.splits if_splits)
  note bound = uuid_parse_bound [OF i(1)]
  have "length r = 36" by (simp add: i(3) uuid_text_def Let_def)
  moreover have "is_lower_hex c \<or> c = 45" if "c \<in> set r" for c
    using that set_lower_hex [OF hex_fixed_lower_hex, of c 32 i]
    by (auto simp: i(3) uuid_text_def Let_def dest!: in_set_takeD in_set_dropD)
  moreover have "uuid_parse r = Some i" unfolding i(3) by (rule uuid_round_trip [OF bound])
  ultimately show ?thesis using validate_request_id_idem [OF assms] bound i(2) by blast
qed

theorem request_id_canonical_witness:
  "validate_request_id (lit ''00000000-0000-4000-8000-00000000000a'') = Some (lit ''00000000-0000-4000-8000-00000000000a'')"
proof -
  have "validate_request_id (lit ''{0000000000004000800000000000000A}'') = Some (lit ''00000000-0000-4000-8000-00000000000a'')"
    by code_simp
  from request_id_canonical [OF this] show ?thesis by blast
qed

end
