(* ===== verification/Replay.thy ===== *)
theory Replay
  imports Prelude
begin

text \<open>
  Replay guards (\<open>ReplayGuard\<close> and \<open>InMemoryReplayGuard\<close>, \<open>novo_chat/protocol.py\<close>). The
  interface is the locale \<open>replay_guard\<close>: what a \<open>claim\<close> promises about the expiry time it
  remembers for each (environment, key id, nonce). Verification of signed requests is proved
  against the locale; the process-local guard is interpreted here, the durable guard of the
  worker's job store in theory \<open>Jobs\<close>.
\<close>

type_synonym claim_key = "str \<times> str \<times> str"

locale replay_guard =
  fixes claim :: "'g \<Rightarrow> claim_key \<Rightarrow> int \<Rightarrow> int \<Rightarrow> bool \<times> 'g"
    and expiry :: "'g \<Rightarrow> claim_key \<Rightarrow> int option"
    and invar :: "'g \<Rightarrow> bool"
  assumes claim_accepts:
      "invar g \<Longrightarrow> fst (claim g k seen expires) \<longleftrightarrow> (\<forall>e. expiry g k = Some e \<longrightarrow> e < seen)"
    and claim_records:
      "invar g \<Longrightarrow> fst (claim g k seen expires) \<Longrightarrow> expiry (snd (claim g k seen expires)) k = Some expires"
    and claim_keeps:
      "invar g \<Longrightarrow> expiry g k' = Some e \<Longrightarrow> seen \<le> e \<Longrightarrow>
         expiry (snd (claim g k seen expires)) k' = Some e"
    and claim_invents_nothing:
      "invar g \<Longrightarrow> expiry (snd (claim g k seen expires)) k' = Some e \<Longrightarrow>
         expiry g k' = Some e \<or> (k' = k \<and> e = expires \<and> fst (claim g k seen expires))"
    and claim_invar: "invar g \<Longrightarrow> invar (snd (claim g k seen expires))"
begin

lemma claim_fresh: "invar g \<Longrightarrow> expiry g k = None \<Longrightarrow> fst (claim g k seen expires)"
  by (simp add: claim_accepts)

lemma claim_refused:
  "invar g \<Longrightarrow> expiry g k = Some e \<Longrightarrow> seen \<le> e \<Longrightarrow> \<not> fst (claim g k seen expires)"
  by (auto simp: claim_accepts)

end

section \<open>The process-local guard\<close>

text \<open>\<open>_claims\<close>: a dict from claim key to expiry, in insertion order.\<close>

type_synonym memory_guard = "(claim_key \<times> int) list"

definition memory_claim :: "memory_guard \<Rightarrow> claim_key \<Rightarrow> int \<Rightarrow> int \<Rightarrow> bool \<times> memory_guard" where
  "memory_claim claims claim_key seen_at expires_at =
     (let live = delete_where (\<lambda>(key, expiry). expiry < seen_at) claims
      in if claim_key \<in> fst ` set live then (False, live)
         else (True, live @ [(claim_key, expires_at)]))"

definition memory_expiry :: "memory_guard \<Rightarrow> claim_key \<Rightarrow> int option" where
  "memory_expiry claims k = map_of claims k"

definition memory_ok :: "memory_guard \<Rightarrow> bool" where
  "memory_ok claims \<longleftrightarrow> unique_by fst claims"

lemma map_of_delete_where:
  "unique_by fst xs \<Longrightarrow> map_of (delete_where (\<lambda>(k, e). p e) xs) k =
     (case map_of xs k of Some e \<Rightarrow> (if p e then None else Some e) | None \<Rightarrow> None)"
proof (induction xs)
  case (Cons x xs)
  then show ?case
    by (cases x) (auto simp: delete_where_def map_of_eq_None_iff image_iff split: option.splits)
qed (simp add: delete_where_def)

lemma memory_claim_cases:
  assumes "memory_ok g"
  shows "memory_claim g k seen expires =
    (let live = delete_where (\<lambda>(_, e). e < seen) g in
     if \<exists>e. memory_expiry g k = Some e \<and> seen \<le> e then (False, live) else (True, live @ [(k, expires)]))"
proof -
  have "k \<in> fst ` set (delete_where (\<lambda>(_, e). e < seen) g) \<longleftrightarrow>
      map_of (delete_where (\<lambda>(_, e). e < seen) g) k \<noteq> None"
    by (simp add: map_of_eq_None_iff)
  also have "\<dots> \<longleftrightarrow> (\<exists>e. memory_expiry g k = Some e \<and> seen \<le> e)"
    using assms by (auto simp: memory_ok_def memory_expiry_def map_of_delete_where split: option.splits)
  finally show ?thesis by (simp add: memory_claim_def Let_def)
qed

interpretation memory: replay_guard memory_claim memory_expiry memory_ok
proof
  fix g k k' seen expires e
  assume g: "memory_ok g"
  note cases = memory_claim_cases [OF g, of k seen expires]
  have look: "memory_expiry (delete_where (\<lambda>(_, e). e < seen) g) k' =
      (case memory_expiry g k' of Some e \<Rightarrow> (if e < seen then None else Some e) | None \<Rightarrow> None)" for k'
    using g by (simp add: memory_ok_def memory_expiry_def map_of_delete_where)
  have app: "memory_expiry (xs @ [(k, expires)]) k' =
      (case memory_expiry xs k' of Some e \<Rightarrow> Some e | None \<Rightarrow> if k' = k then Some expires else None)" for xs k'
    by (auto simp: memory_expiry_def map_add_def split: option.splits)
  show "fst (memory_claim g k seen expires) \<longleftrightarrow> (\<forall>e. memory_expiry g k = Some e \<longrightarrow> e < seen)"
    by (auto simp: cases Let_def not_less)
  show "fst (memory_claim g k seen expires) \<Longrightarrow>
      memory_expiry (snd (memory_claim g k seen expires)) k = Some expires"
    by (auto simp: cases Let_def app look not_less split: option.splits if_splits)
  show "memory_expiry g k' = Some e \<Longrightarrow> seen \<le> e \<Longrightarrow>
      memory_expiry (snd (memory_claim g k seen expires)) k' = Some e"
    by (auto simp: cases Let_def app look)
  show "memory_expiry (snd (memory_claim g k seen expires)) k' = Some e \<Longrightarrow>
      memory_expiry g k' = Some e \<or> (k' = k \<and> e = expires \<and> fst (memory_claim g k seen expires))"
    by (auto simp: cases Let_def app look split: option.splits if_splits)
  have "k \<notin> fst ` set (delete_where (\<lambda>(_, e). e < seen) g)"
    if "\<not> (\<exists>e. memory_expiry g k = Some e \<and> seen \<le> e)"
    using that look [of k]
    by (auto simp: memory_expiry_def map_of_eq_None_iff [symmetric] not_le split: option.splits)
  moreover have "unique_by fst (delete_where (\<lambda>(_, e). e < seen) g)"
    using g by (simp add: memory_ok_def unique_by_delete)
  ultimately show "memory_ok (snd (memory_claim g k seen expires))"
    by (auto simp: cases Let_def memory_ok_def unique_by_append)
qed

end
