(* ===== verification/Signing.thy ===== *)
theory Signing
  imports Protocol Replay
begin

text \<open>
  HMAC-signed requests and responses (\<open>novo_chat/protocol.py\<close>, from \<open>_secret_bytes\<close> to
  \<open>verify_response\<close>). \<open>sha\<close> stands for the hex digest of \<open>hashlib.sha256\<close> and \<open>mac secret
  message\<close> for the hex digest of \<open>hmac.new(secret, message, sha256)\<close>. The replay guard is any
  \<open>claim\<close> operation; its state is passed through.
\<close>

section \<open>Constants and errors\<close>

definition PROTOCOL_VERSION :: str where "PROTOCOL_VERSION = lit ''1''"
definition HEADER_PROTOCOL :: str where "HEADER_PROTOCOL = lit ''X-Novo-Chat-Protocol''"
definition HEADER_AUDIENCE :: str where "HEADER_AUDIENCE = lit ''X-Novo-Chat-Audience''"
definition HEADER_ENVIRONMENT :: str where "HEADER_ENVIRONMENT = lit ''X-Novo-Chat-Environment''"
definition HEADER_KEY_ID :: str where "HEADER_KEY_ID = lit ''X-Novo-Chat-Key-Id''"
definition HEADER_TIMESTAMP :: str where "HEADER_TIMESTAMP = lit ''X-Novo-Chat-Timestamp''"
definition HEADER_NONCE :: str where "HEADER_NONCE = lit ''X-Novo-Chat-Nonce''"
definition HEADER_REQUEST_ID :: str where "HEADER_REQUEST_ID = lit ''X-Novo-Chat-Request-Id''"
definition HEADER_SIGNATURE :: str where "HEADER_SIGNATURE = lit ''X-Novo-Chat-Signature''"
definition HEADER_STATUS :: str where "HEADER_STATUS = lit ''X-Novo-Chat-Status''"

lemmas header_defs = HEADER_PROTOCOL_def HEADER_AUDIENCE_def HEADER_ENVIRONMENT_def
  HEADER_KEY_ID_def HEADER_TIMESTAMP_def HEADER_NONCE_def HEADER_REQUEST_ID_def
  HEADER_SIGNATURE_def HEADER_STATUS_def

record protocol_error =
  error_code :: str
  error_message :: str
  error_status :: int
  error_retryable :: bool

definition ProtocolError :: "string \<Rightarrow> string \<Rightarrow> int \<Rightarrow> bool \<Rightarrow> protocol_error" where
  "ProtocolError code message status_code retryable =
     \<lparr>error_code = lit code, error_message = lit message, error_status = status_code,
      error_retryable = retryable\<rparr>"

abbreviation request_auth_failed :: protocol_error where
  "request_auth_failed \<equiv>
     ProtocolError ''AUTHENTICATION_FAILED'' ''Request authentication failed.'' 401 False"

abbreviation response_auth_failed :: protocol_error where
  "response_auth_failed \<equiv>
     ProtocolError ''RESPONSE_AUTHENTICATION_FAILED'' ''Worker response authentication failed.'' 502 False"

section \<open>Inputs\<close>

datatype secret = SecretBytes bytes | SecretStr str

definition secret_bytes :: "secret \<Rightarrow> bytes option" where
  "secret_bytes s =
     (case (case s of SecretBytes b \<Rightarrow> Some b | SecretStr t \<Rightarrow> utf8_encode t) of
        None \<Rightarrow> None
      | Some value \<Rightarrow> (if length value < 32 then None else Some value))"

datatype query_arg = QueryBytes bytes | QueryStr str | QueryPairs "(str \<times> str) list"

definition canonicalize_query_arg :: "query_arg \<Rightarrow> str option" where
  "canonicalize_query_arg q =
     (case q of QueryBytes b \<Rightarrow> canonicalize_query_bytes b
      | QueryStr s \<Rightarrow> canonicalize_query s
      | QueryPairs ps \<Rightarrow> canonical_pairs ps)"

definition validate_signing_metadata :: "str \<Rightarrow> str \<Rightarrow> str \<Rightarrow> str \<Rightarrow> bool" where
  "validate_signing_metadata key_id environment audience rid \<longleftrightarrow>
     safe_key_id key_id \<and> safe_environment environment \<and> safe_token audience
     \<and> validate_request_id rid \<noteq> None"

text \<open>\<open>_header_map\<close>: lower-case names, a later header of the same name wins.\<close>

definition header_map :: "(str \<times> str) list \<Rightarrow> (str \<rightharpoonup> str)" where
  "header_map headers = map_of (rev (map (\<lambda>(k, v). (lower k, v)) headers))"

definition required_header :: "(str \<rightharpoonup> str) \<Rightarrow> str \<Rightarrow> protocol_error + str" where
  "required_header headers name =
     or_raise (ProtocolError ''AUTHENTICATION_REQUIRED'' ''Request authentication failed.'' 401 False)
       (or_none (headers (lower name)))"

section \<open>Signed requests\<close>

text \<open>What a request authenticates; the fields follow \<open>_request_document\<close>.\<close>

record verified_request =
  vr_protocol_version :: str
  vr_audience :: str
  vr_environment :: str
  vr_key_id :: str
  vr_timestamp :: int
  vr_nonce :: str
  vr_request_id :: str

definition request_document ::
  "(bytes \<Rightarrow> str) \<Rightarrow> verified_request \<Rightarrow> str \<Rightarrow> str \<Rightarrow> query_arg \<Rightarrow> bytes \<Rightarrow> json option" where
  "request_document sha v verb path query body =
     (case canonicalize_path path of None \<Rightarrow> None
      | Some cpath \<Rightarrow> (case canonicalize_query_arg query of None \<Rightarrow> None
        | Some cquery \<Rightarrow> Some (JObj
           [(lit ''protocolVersion'', JStr (vr_protocol_version v)),
            (lit ''audience'', JStr (vr_audience v)),
            (lit ''environment'', JStr (vr_environment v)),
            (lit ''keyId'', JStr (vr_key_id v)),
            (lit ''timestamp'', JInt (vr_timestamp v)),
            (lit ''nonce'', JStr (vr_nonce v)),
            (lit ''requestId'', JStr (vr_request_id v)),
            (lit ''method'', JStr (upper_ascii verb)),
            (lit ''path'', JStr cpath),
            (lit ''query'', JStr cquery),
            (lit ''bodySha256'', JStr (sha body))])))"

text \<open>
  The bytes a signature covers, and the signature; \<open>None\<close> is a \<open>ValueError\<close>. An integer of
  more than 4300 digits, which \<open>str\<close> and \<open>json\<close> refuse with the same exception, is
  outside the model.
\<close>

definition request_bytes ::
  "(bytes \<Rightarrow> str) \<Rightarrow> verified_request \<Rightarrow> str \<Rightarrow> str \<Rightarrow> query_arg \<Rightarrow> bytes \<Rightarrow> bytes option" where
  "request_bytes sha v verb path query body =
     (case request_document sha v verb path query body of None \<Rightarrow> None
      | Some document \<Rightarrow> canonical_json document)"

definition signature :: "(bytes \<Rightarrow> bytes \<Rightarrow> str) \<Rightarrow> secret \<Rightarrow> bytes option \<Rightarrow> str option" where
  "signature mac s message =
     (case message of None \<Rightarrow> None
      | Some m \<Rightarrow> map_option (\<lambda>k. mac k m) (secret_bytes s))"

definition sign_request ::
  "(bytes \<Rightarrow> str) \<Rightarrow> (bytes \<Rightarrow> bytes \<Rightarrow> str) \<Rightarrow> secret \<Rightarrow> str \<Rightarrow> str \<Rightarrow> str \<Rightarrow> str \<Rightarrow> str \<Rightarrow> str
     \<Rightarrow> query_arg \<Rightarrow> bytes \<Rightarrow> int \<Rightarrow> str \<Rightarrow> (str \<times> str) list option" where
  "sign_request sha mac s key_id environment audience rid verb path query body timestamp nonce =
     (if \<not> validate_signing_metadata key_id environment audience rid then None
      else if \<not> safe_token nonce then None
      else let v = \<lparr>vr_protocol_version = PROTOCOL_VERSION, vr_audience = audience,
                    vr_environment = environment, vr_key_id = key_id, vr_timestamp = timestamp,
                    vr_nonce = nonce, vr_request_id = rid\<rparr>
        in case signature mac s (request_bytes sha v verb path query body) of
             None \<Rightarrow> None
           | Some sig \<Rightarrow> (case validate_request_id rid of
               None \<Rightarrow> None
             | Some canonical_id \<Rightarrow> Some
                 [(HEADER_PROTOCOL, PROTOCOL_VERSION),
                  (HEADER_AUDIENCE, audience),
                  (HEADER_ENVIRONMENT, environment),
                  (HEADER_KEY_ID, key_id),
                  (HEADER_TIMESTAMP, render_int timestamp),
                  (HEADER_NONCE, nonce),
                  (HEADER_REQUEST_ID, canonical_id),
                  (HEADER_SIGNATURE, sig)]))"

text \<open>\<open>verify_request\<close> up to the replay guard.\<close>

definition authenticate_request ::
  "(bytes \<Rightarrow> str) \<Rightarrow> (bytes \<Rightarrow> bytes \<Rightarrow> str) \<Rightarrow> (str \<rightharpoonup> secret) \<Rightarrow> str \<Rightarrow> str \<Rightarrow> (str \<times> str) list
     \<Rightarrow> str \<Rightarrow> str \<Rightarrow> query_arg \<Rightarrow> bytes \<Rightarrow> int \<Rightarrow> int \<Rightarrow> protocol_error + verified_request" where
  "authenticate_request sha mac secrets_by_key_id expected_environment expected_audience headers
     verb path query body now skew =
     (let h = header_map headers in
      and_then (required_header h HEADER_PROTOCOL) (\<lambda>version.
      and_then (required_header h HEADER_AUDIENCE) (\<lambda>audience.
      and_then (required_header h HEADER_ENVIRONMENT) (\<lambda>environment.
      and_then (required_header h HEADER_KEY_ID) (\<lambda>key_id.
      and_then (required_header h HEADER_TIMESTAMP) (\<lambda>timestamp_text.
      and_then (required_header h HEADER_NONCE) (\<lambda>nonce.
      and_then (required_header h HEADER_REQUEST_ID) (\<lambda>rid_text.
      and_then (required_header h HEADER_SIGNATURE) (\<lambda>supplied_signature.
      demand (ProtocolError ''UNSUPPORTED_PROTOCOL'' ''Request protocol version is not supported.'' 400 False)
        (version = PROTOCOL_VERSION) (
      demand request_auth_failed
        (audience = expected_audience \<and> environment = expected_environment) (
      demand request_auth_failed (safe_key_id key_id \<and> safe_token nonce) (
      and_then (or_raise request_auth_failed (validate_request_id rid_text)) (\<lambda>rid.
      and_then (or_raise request_auth_failed (py_int 10 timestamp_text)) (\<lambda>timestamp.
      demand request_auth_failed (hex_signature supplied_signature) (
      and_then (or_raise request_auth_failed (secrets_by_key_id key_id)) (\<lambda>s.
      demand (ProtocolError ''REQUEST_EXPIRED'' ''Signed request is outside the allowed time window.'' 401 False)
        (\<not> \<bar>now - timestamp\<bar> > skew) (
      let v = \<lparr>vr_protocol_version = version, vr_audience = audience, vr_environment = environment,
               vr_key_id = key_id, vr_timestamp = timestamp, vr_nonce = nonce, vr_request_id = rid\<rparr>
      in and_then (or_raise request_auth_failed (signature mac s (request_bytes sha v verb path query body)))
        (\<lambda>expected_signature.
      demand request_auth_failed (expected_signature = supplied_signature) (Inr v)))))))))))))))))))"

definition verify_request ::
  "(bytes \<Rightarrow> str) \<Rightarrow> (bytes \<Rightarrow> bytes \<Rightarrow> str)
     \<Rightarrow> ('g \<Rightarrow> claim_key \<Rightarrow> int \<Rightarrow> int \<Rightarrow> bool \<times> 'g) option
     \<Rightarrow> (str \<rightharpoonup> secret) \<Rightarrow> str \<Rightarrow> str \<Rightarrow> (str \<times> str) list
     \<Rightarrow> str \<Rightarrow> str \<Rightarrow> query_arg \<Rightarrow> bytes \<Rightarrow> int \<Rightarrow> int \<Rightarrow> 'g
     \<Rightarrow> (protocol_error + verified_request) \<times> 'g" where
  "verify_request sha mac claim secrets_by_key_id environment audience headers verb path query body
     now skew g =
     (case authenticate_request sha mac secrets_by_key_id environment audience headers verb path
             query body now skew of
        Inl e \<Rightarrow> (Inl e, g)
      | Inr v \<Rightarrow> (case claim of None \<Rightarrow> (Inr v, g)
        | Some claim_nonce \<Rightarrow>
            let (fresh, g') = claim_nonce g (vr_environment v, vr_key_id v, vr_nonce v) now
                                (vr_timestamp v + skew)
            in if fresh then (Inr v, g')
               else (Inl (ProtocolError ''REQUEST_REPLAYED''
                       ''Signed request nonce has already been used.'' 409 False), g')))"

section \<open>Signed responses\<close>

record verified_response =
  vs_protocol_version :: str
  vs_audience :: str
  vs_environment :: str
  vs_key_id :: str
  vs_timestamp :: int
  vs_request_id :: str
  vs_status_code :: int

definition response_document :: "(bytes \<Rightarrow> str) \<Rightarrow> verified_response \<Rightarrow> bytes \<Rightarrow> json" where
  "response_document sha v body = JObj
     [(lit ''protocolVersion'', JStr (vs_protocol_version v)),
      (lit ''audience'', JStr (vs_audience v)),
      (lit ''environment'', JStr (vs_environment v)),
      (lit ''keyId'', JStr (vs_key_id v)),
      (lit ''timestamp'', JInt (vs_timestamp v)),
      (lit ''requestId'', JStr (vs_request_id v)),
      (lit ''status'', JInt (vs_status_code v)),
      (lit ''bodySha256'', JStr (sha body))]"

definition response_bytes :: "(bytes \<Rightarrow> str) \<Rightarrow> verified_response \<Rightarrow> bytes \<Rightarrow> bytes option" where
  "response_bytes sha v body = canonical_json (response_document sha v body)"

definition sign_response ::
  "(bytes \<Rightarrow> str) \<Rightarrow> (bytes \<Rightarrow> bytes \<Rightarrow> str) \<Rightarrow> secret \<Rightarrow> str \<Rightarrow> str \<Rightarrow> str \<Rightarrow> int \<Rightarrow> bytes \<Rightarrow> str \<Rightarrow> int
     \<Rightarrow> (str \<times> str) list option" where
  "sign_response sha mac s key_id environment rid status_code body audience timestamp =
     (if \<not> validate_signing_metadata key_id environment audience rid then None
      else let v = \<lparr>vs_protocol_version = PROTOCOL_VERSION, vs_audience = audience,
                    vs_environment = environment, vs_key_id = key_id, vs_timestamp = timestamp,
                    vs_request_id = rid, vs_status_code = status_code\<rparr>
        in case signature mac s (response_bytes sha v body) of
             None \<Rightarrow> None
           | Some sig \<Rightarrow> (case validate_request_id rid of
               None \<Rightarrow> None
             | Some canonical_id \<Rightarrow> Some
                 [(HEADER_PROTOCOL, PROTOCOL_VERSION),
                  (HEADER_AUDIENCE, audience),
                  (HEADER_ENVIRONMENT, environment),
                  (HEADER_KEY_ID, key_id),
                  (HEADER_TIMESTAMP, render_int timestamp),
                  (HEADER_REQUEST_ID, canonical_id),
                  (HEADER_STATUS, render_int status_code),
                  (HEADER_SIGNATURE, sig)]))"

definition verify_response ::
  "(bytes \<Rightarrow> str) \<Rightarrow> (bytes \<Rightarrow> bytes \<Rightarrow> str) \<Rightarrow> (str \<rightharpoonup> secret) \<Rightarrow> str \<Rightarrow> str \<Rightarrow> (str \<times> str) list
     \<Rightarrow> str \<Rightarrow> int \<Rightarrow> bytes \<Rightarrow> int \<Rightarrow> int \<Rightarrow> protocol_error + verified_response" where
  "verify_response sha mac secrets_by_key_id expected_environment expected_audience headers
     rid status_code body now skew =
     (let h = header_map headers in
      and_then (required_header h HEADER_PROTOCOL) (\<lambda>version.
      and_then (required_header h HEADER_AUDIENCE) (\<lambda>audience.
      and_then (required_header h HEADER_ENVIRONMENT) (\<lambda>environment.
      and_then (required_header h HEADER_KEY_ID) (\<lambda>key_id.
      and_then (required_header h HEADER_TIMESTAMP) (\<lambda>timestamp_text.
      and_then (required_header h HEADER_REQUEST_ID) (\<lambda>signed_rid_text.
      and_then (required_header h HEADER_STATUS) (\<lambda>status_text.
      and_then (required_header h HEADER_SIGNATURE) (\<lambda>supplied_signature.
      demand (ProtocolError ''UNSUPPORTED_PROTOCOL'' ''Response protocol version is not supported.'' 502 False)
        (version = PROTOCOL_VERSION) (
      demand response_auth_failed
        (audience = expected_audience \<and> environment = expected_environment) (
      and_then (or_raise response_auth_failed (validate_request_id signed_rid_text)) (\<lambda>signed_rid.
      and_then (or_raise response_auth_failed (validate_request_id rid)) (\<lambda>expected_rid.
      and_then (or_raise response_auth_failed (py_int 10 timestamp_text)) (\<lambda>timestamp.
      and_then (or_raise response_auth_failed (py_int 10 status_text)) (\<lambda>signed_status.
      demand response_auth_failed (signed_rid = expected_rid \<and> signed_status = status_code) (
      demand response_auth_failed (hex_signature supplied_signature) (
      demand (ProtocolError ''RESPONSE_EXPIRED'' ''Worker response is outside the allowed time window.'' 502 False)
        (\<not> \<bar>now - timestamp\<bar> > skew) (
      and_then (or_raise response_auth_failed (secrets_by_key_id key_id)) (\<lambda>s.
      let v = \<lparr>vs_protocol_version = version, vs_audience = audience, vs_environment = environment,
               vs_key_id = key_id, vs_timestamp = timestamp, vs_request_id = signed_rid,
               vs_status_code = signed_status\<rparr>
      in and_then (or_raise response_auth_failed (signature mac s (response_bytes sha v body)))
        (\<lambda>expected_signature.
      demand response_auth_failed (expected_signature = supplied_signature) (Inr v)))))))))))))))))))))"

section \<open>Header lookup\<close>

lemma lower_headers:
  "lower HEADER_PROTOCOL = lit ''x-novo-chat-protocol''"
  "lower HEADER_AUDIENCE = lit ''x-novo-chat-audience''"
  "lower HEADER_ENVIRONMENT = lit ''x-novo-chat-environment''"
  "lower HEADER_KEY_ID = lit ''x-novo-chat-key-id''"
  "lower HEADER_TIMESTAMP = lit ''x-novo-chat-timestamp''"
  "lower HEADER_NONCE = lit ''x-novo-chat-nonce''"
  "lower HEADER_REQUEST_ID = lit ''x-novo-chat-request-id''"
  "lower HEADER_SIGNATURE = lit ''x-novo-chat-signature''"
  "lower HEADER_STATUS = lit ''x-novo-chat-status''"
  by code_simp+

lemma header_map_Cons:
  "header_map ((k, v) # hs) n = (case header_map hs n of Some w \<Rightarrow> Some w | None \<Rightarrow> if lower k = n then Some v else None)"
  by (auto simp: header_map_def map_add_def split: option.splits)

lemma header_map_Nil [simp]: "header_map [] n = None"
  by (simp add: header_map_def)

lemma required_header_Inr:
  "required_header h name = Inr v \<longleftrightarrow> h (lower name) = Some v \<and> v \<noteq> []"
  by (cases "h (lower name)") (auto simp: required_header_def)

lemma foldl_digits:
  "\<forall>d\<in>set ds. digit d \<Longrightarrow> \<not> gap \<or> ds \<noteq> [] \<Longrightarrow> k + length ds \<le> l \<Longrightarrow>
     int_digits 10 l gap n k ds = Some (foldl (\<lambda>n d. 10 * n + (d - 48)) n ds, k + length ds)"
proof (induction ds arbitrary: gap n k)
  case (Cons d ds)
  then have "digit_value d = Some (d - 48)" "d - 48 < 10" "d \<noteq> 95"
    by (auto simp: digit_value_def digit_def is_digit_def)
  with Cons show ?case by simp
qed simp

lemma int_digits_render_nat:
  "length (render_nat n) \<le> 4300 \<Longrightarrow> int_digits 10 4300 True 0 0 (render_nat n) = Some (n, length (render_nat n))"
  using foldl_digits [OF render_nat_digits, of True n 0 4300 0] nat_of_digits_render_nat [of n]
  by (simp add: render_nat_nonempty nat_of_digits_def)

text \<open>An integer that \<open>str\<close> writes is read back by \<open>int\<close>.\<close>

lemma py_int_render_int:
  assumes "length (render_nat (nat \<bar>i\<bar>)) \<le> 4300"
  shows "py_int 10 (render_int i) = Some i"
proof -
  have chars: "digit c \<or> c = 45" if "c \<in> set (render_int i)" for c
    using that render_nat_digits by (auto simp: render_int_def split: if_splits)
  have strip: "strip_by is_int_space (render_int i) = render_int i"
    by (rule strip_by_idle) (use chars in \<open>force simp: is_int_space_def digit_def\<close>)
  have hd: "hd (render_nat n) \<noteq> 45" "hd (render_nat n) \<noteq> 43" for n
    using render_nat_digits [of n] hd_in_set [OF render_nat_nonempty [of n]]
    by (auto simp: digit_def)
  show ?thesis
    unfolding py_int_def strip Let_def
    using assms hd render_nat_nonempty
    by (cases "i < 0") (simp_all add: render_int_def int_digits_render_nat)
qed

lemma render_int_nonempty: "render_int i \<noteq> []"
  by (simp add: render_int_def render_nat_nonempty)

section \<open>What acceptance means\<close>

lemma authenticate_request_Inr:
  "authenticate_request sha mac secrets environment audience headers verb path query body now skew = Inr v \<longleftrightarrow>
     (\<exists>s sig rid_text timestamp_text.
        header_map headers (lower HEADER_PROTOCOL) = Some (vr_protocol_version v)
      \<and> header_map headers (lower HEADER_AUDIENCE) = Some (vr_audience v)
      \<and> header_map headers (lower HEADER_ENVIRONMENT) = Some (vr_environment v)
      \<and> header_map headers (lower HEADER_KEY_ID) = Some (vr_key_id v)
      \<and> header_map headers (lower HEADER_TIMESTAMP) = Some timestamp_text
      \<and> header_map headers (lower HEADER_NONCE) = Some (vr_nonce v)
      \<and> header_map headers (lower HEADER_REQUEST_ID) = Some rid_text
      \<and> header_map headers (lower HEADER_SIGNATURE) = Some sig
      \<and> vr_protocol_version v = PROTOCOL_VERSION \<and> vr_audience v = audience \<and> vr_environment v = environment
      \<and> audience \<noteq> [] \<and> environment \<noteq> [] \<and> timestamp_text \<noteq> [] \<and> rid_text \<noteq> []
      \<and> safe_key_id (vr_key_id v) \<and> safe_token (vr_nonce v)
      \<and> validate_request_id rid_text = Some (vr_request_id v)
      \<and> py_int 10 timestamp_text = Some (vr_timestamp v)
      \<and> hex_signature sig \<and> secrets (vr_key_id v) = Some s
      \<and> \<bar>now - vr_timestamp v\<bar> \<le> skew
      \<and> signature mac s (request_bytes sha v verb path query body) = Some sig)"
  (is "?L \<longleftrightarrow> ?R")
proof
  assume ?L
  then show ?R
    unfolding authenticate_request_def Let_def and_then_Inr demand_Inr or_raise_Inr required_header_Inr
    by (elim exE conjE) (simp add: not_less, auto)
next
  have ne: "safe_key_id k \<Longrightarrow> k \<noteq> []" "safe_token n \<Longrightarrow> n \<noteq> []" "hex_signature s \<Longrightarrow> s \<noteq> []" for k n s
    by (auto simp: safe_key_id_def safe_token_def hex_signature_def dest: token_nonempty)
  assume ?R
  then obtain s sig rid_text timestamp_text where *:
    "header_map headers (lower HEADER_PROTOCOL) = Some (vr_protocol_version v)"
    "header_map headers (lower HEADER_AUDIENCE) = Some (vr_audience v)"
    "header_map headers (lower HEADER_ENVIRONMENT) = Some (vr_environment v)"
    "header_map headers (lower HEADER_KEY_ID) = Some (vr_key_id v)"
    "header_map headers (lower HEADER_TIMESTAMP) = Some timestamp_text"
    "header_map headers (lower HEADER_NONCE) = Some (vr_nonce v)"
    "header_map headers (lower HEADER_REQUEST_ID) = Some rid_text"
    "header_map headers (lower HEADER_SIGNATURE) = Some sig"
    "vr_protocol_version v = PROTOCOL_VERSION" "vr_audience v = audience" "vr_environment v = environment"
    "audience \<noteq> []" "environment \<noteq> []" "timestamp_text \<noteq> []" "rid_text \<noteq> []"
    "safe_key_id (vr_key_id v)" "safe_token (vr_nonce v)"
    "validate_request_id rid_text = Some (vr_request_id v)"
    "py_int 10 timestamp_text = Some (vr_timestamp v)"
    "hex_signature sig" "secrets (vr_key_id v) = Some s"
    "\<bar>now - vr_timestamp v\<bar> \<le> skew"
    "signature mac s (request_bytes sha v verb path query body) = Some sig"
    by blast
  have v: "\<lparr>vr_protocol_version = PROTOCOL_VERSION, vr_audience = audience, vr_environment = environment,
      vr_key_id = vr_key_id v, vr_timestamp = vr_timestamp v, vr_nonce = vr_nonce v,
      vr_request_id = vr_request_id v\<rparr> = v"
    using *(9,10,11) by (cases v) simp
  have version: "PROTOCOL_VERSION \<noteq> []" by (simp add: PROTOCOL_VERSION_def)
  show ?L
    unfolding authenticate_request_def
    using * ne(1) [OF *(16)] ne(2) [OF *(17)] ne(3) [OF *(20)] version
    by (simp add: Let_def required_header_def v)
qed

section \<open>Signatures cover the whole request\<close>

lemma request_bytes_determine:
  assumes "request_bytes sha v verb path query body = Some m"
    and "request_bytes sha v' verb' path' query' body' = Some m"
  shows "v = v' \<and> upper_ascii verb = upper_ascii verb' \<and> canonicalize_path path = canonicalize_path path'
    \<and> canonicalize_query_arg query = canonicalize_query_arg query' \<and> sha body = sha body'"
proof -
  obtain p q where pq: "canonicalize_path path = Some p" "canonicalize_query_arg query = Some q"
    using assms(1) by (auto simp: request_bytes_def request_document_def split: option.splits)
  obtain p' q' where pq': "canonicalize_path path' = Some p'" "canonicalize_query_arg query' = Some q'"
    using assms(2) by (auto simp: request_bytes_def request_document_def split: option.splits)
  define fields where "fields = (\<lambda>(w :: verified_request) verb p q d.
    [(lit ''protocolVersion'', JStr (vr_protocol_version w)), (lit ''audience'', JStr (vr_audience w)),
     (lit ''environment'', JStr (vr_environment w)), (lit ''keyId'', JStr (vr_key_id w)),
     (lit ''timestamp'', JInt (vr_timestamp w)), (lit ''nonce'', JStr (vr_nonce w)),
     (lit ''requestId'', JStr (vr_request_id w)), (lit ''method'', JStr (upper_ascii verb)),
     (lit ''path'', JStr p), (lit ''query'', JStr q), (lit ''bodySha256'', JStr d)])"
  have doc: "canonical_json (JObj (fields v verb p q (sha body))) = Some m"
    "canonical_json (JObj (fields v' verb' p' q' (sha body'))) = Some m"
    using assms pq pq' by (simp_all add: request_bytes_def request_document_def fields_def)
  have dist: "distinct (map fst (fields w verb p q d))" for w verb p q d
    by (simp add: fields_def)
  have eq: "map_option sort_keys (map_of (fields v verb p q (sha body)) k) =
      map_option sort_keys (map_of (fields v' verb' p' q' (sha body')) k)" for k
    by (rule sort_keys_fields [OF canonical_json_inject [OF doc] dist dist])
  show ?thesis
    using eq [of "lit ''protocolVersion''"] eq [of "lit ''audience''"] eq [of "lit ''environment''"]
      eq [of "lit ''keyId''"] eq [of "lit ''timestamp''"] eq [of "lit ''nonce''"]
      eq [of "lit ''requestId''"] eq [of "lit ''method''"] eq [of "lit ''path''"]
      eq [of "lit ''query''"] eq [of "lit ''bodySha256''"]
    by (simp add: fields_def pq pq')
qed

lemma signature_Some:
  "signature mac s message = Some sig \<longleftrightarrow>
     (\<exists>m k. message = Some m \<and> secret_bytes s = Some k \<and> sig = mac k m)"
  by (auto simp: signature_def split: option.splits)

lemma sign_request_Some:
  assumes "sign_request sha mac s key_id environment audience rid verb path query body timestamp nonce = Some headers"
  obtains sig canonical_id where
    "validate_signing_metadata key_id environment audience rid" "safe_token nonce"
    "signature mac s (request_bytes sha
       \<lparr>vr_protocol_version = PROTOCOL_VERSION, vr_audience = audience, vr_environment = environment,
        vr_key_id = key_id, vr_timestamp = timestamp, vr_nonce = nonce, vr_request_id = rid\<rparr>
       verb path query body) = Some sig"
    "validate_request_id rid = Some canonical_id"
    "headers = [(HEADER_PROTOCOL, PROTOCOL_VERSION), (HEADER_AUDIENCE, audience),
       (HEADER_ENVIRONMENT, environment), (HEADER_KEY_ID, key_id),
       (HEADER_TIMESTAMP, render_int timestamp), (HEADER_NONCE, nonce),
       (HEADER_REQUEST_ID, canonical_id), (HEADER_SIGNATURE, sig)]"
  using assms by (auto simp: sign_request_def Let_def split: if_splits option.splits)

lemma signed_headers:
  "header_map [(HEADER_PROTOCOL, a), (HEADER_AUDIENCE, b), (HEADER_ENVIRONMENT, c), (HEADER_KEY_ID, d),
     (HEADER_TIMESTAMP, e), (HEADER_NONCE, f), (HEADER_REQUEST_ID, g), (HEADER_SIGNATURE, h)] =
   [lit ''x-novo-chat-protocol'' \<mapsto> a, lit ''x-novo-chat-audience'' \<mapsto> b,
    lit ''x-novo-chat-environment'' \<mapsto> c, lit ''x-novo-chat-key-id'' \<mapsto> d,
    lit ''x-novo-chat-timestamp'' \<mapsto> e, lit ''x-novo-chat-nonce'' \<mapsto> f,
    lit ''x-novo-chat-request-id'' \<mapsto> g, lit ''x-novo-chat-signature'' \<mapsto> h]"
  by (auto simp: header_map_def lower_headers)

lemma signed_response_headers:
  "header_map [(HEADER_PROTOCOL, a), (HEADER_AUDIENCE, b), (HEADER_ENVIRONMENT, c), (HEADER_KEY_ID, d),
     (HEADER_TIMESTAMP, e), (HEADER_REQUEST_ID, f), (HEADER_STATUS, g), (HEADER_SIGNATURE, h)] =
   [lit ''x-novo-chat-protocol'' \<mapsto> a, lit ''x-novo-chat-audience'' \<mapsto> b,
    lit ''x-novo-chat-environment'' \<mapsto> c, lit ''x-novo-chat-key-id'' \<mapsto> d,
    lit ''x-novo-chat-timestamp'' \<mapsto> e, lit ''x-novo-chat-request-id'' \<mapsto> f,
    lit ''x-novo-chat-status'' \<mapsto> g, lit ''x-novo-chat-signature'' \<mapsto> h]"
  by (auto simp: header_map_def lower_headers)

lemma signing_metadata_nonempty:
  "validate_signing_metadata key_id environment audience rid \<Longrightarrow>
     key_id \<noteq> [] \<and> environment \<noteq> [] \<and> audience \<noteq> []"
  by (auto simp: validate_signing_metadata_def safe_key_id_def safe_environment_def safe_token_def
      dest: token_nonempty)

lemma validate_request_id_nonempty: "validate_request_id s = Some r \<Longrightarrow> r \<noteq> []"
  by (auto simp: validate_request_id_def uuid_text_def Let_def split: option.splits if_splits)

text \<open>What was signed authenticates among other headers as well, as long as they do not hide the signed ones.\<close>

lemma signed_request_authenticates_among:
  assumes "sign_request sha mac s key_id environment audience rid verb path query body timestamp nonce = Some headers"
    and "validate_request_id rid = Some rid" "secrets key_id = Some s" "\<bar>now - timestamp\<bar> \<le> skew"
    and "\<And>k m. hex_signature (mac k m)" "length (render_nat (nat \<bar>timestamp\<bar>)) \<le> 4300"
    and "\<And>n v. header_map headers n = Some v \<Longrightarrow> header_map h n = Some v"
  shows "authenticate_request sha mac secrets environment audience h verb path query body now skew =
    Inr \<lparr>vr_protocol_version = PROTOCOL_VERSION, vr_audience = audience, vr_environment = environment,
         vr_key_id = key_id, vr_timestamp = timestamp, vr_nonce = nonce, vr_request_id = rid\<rparr>"
  using assms(1)
proof (rule sign_request_Some)
  fix sig canonical_id
  assume *: "validate_signing_metadata key_id environment audience rid" "safe_token nonce"
    "signature mac s (request_bytes sha
       \<lparr>vr_protocol_version = PROTOCOL_VERSION, vr_audience = audience, vr_environment = environment,
        vr_key_id = key_id, vr_timestamp = timestamp, vr_nonce = nonce, vr_request_id = rid\<rparr>
       verb path query body) = Some sig"
    "validate_request_id rid = Some canonical_id"
    "headers = [(HEADER_PROTOCOL, PROTOCOL_VERSION), (HEADER_AUDIENCE, audience),
       (HEADER_ENVIRONMENT, environment), (HEADER_KEY_ID, key_id),
       (HEADER_TIMESTAMP, render_int timestamp), (HEADER_NONCE, nonce),
       (HEADER_REQUEST_ID, canonical_id), (HEADER_SIGNATURE, sig)]"
  have "hex_signature sig" using *(3) assms(5) by (auto simp: signature_Some)
  moreover have "safe_key_id key_id" using *(1) by (simp add: validate_signing_metadata_def)
  moreover have "header_map h (lit ''x-novo-chat-protocol'') = Some PROTOCOL_VERSION"
    "header_map h (lit ''x-novo-chat-audience'') = Some audience"
    "header_map h (lit ''x-novo-chat-environment'') = Some environment"
    "header_map h (lit ''x-novo-chat-key-id'') = Some key_id"
    "header_map h (lit ''x-novo-chat-timestamp'') = Some (render_int timestamp)"
    "header_map h (lit ''x-novo-chat-nonce'') = Some nonce"
    "header_map h (lit ''x-novo-chat-request-id'') = Some canonical_id"
    "header_map h (lit ''x-novo-chat-signature'') = Some sig"
    by (rule assms(7), simp add: *(5) signed_headers)+
  ultimately show ?thesis
    unfolding authenticate_request_Inr
    using *(1-4) assms(1-6) signing_metadata_nonempty [OF *(1)] validate_request_id_nonempty [OF *(4)]
    by (simp add: lower_headers py_int_render_int render_int_nonempty)
qed

lemma signed_request_authenticates:
  assumes "sign_request sha mac s key_id environment audience rid verb path query body timestamp nonce = Some headers"
    and "validate_request_id rid = Some rid" "secrets key_id = Some s" "\<bar>now - timestamp\<bar> \<le> skew"
    and "\<And>k m. hex_signature (mac k m)" "length (render_nat (nat \<bar>timestamp\<bar>)) \<le> 4300"
  shows "authenticate_request sha mac secrets environment audience headers verb path query body now skew =
    Inr \<lparr>vr_protocol_version = PROTOCOL_VERSION, vr_audience = audience, vr_environment = environment,
         vr_key_id = key_id, vr_timestamp = timestamp, vr_nonce = nonce, vr_request_id = rid\<rparr>"
  by (rule signed_request_authenticates_among [where secrets = secrets, OF assms(1-4) _ assms(6)]) (simp_all add: assms(5))

lemma verify_request_Inr:
  "verify_request sha mac claim secrets environment audience headers verb path query body now skew g = (Inr v, g') \<longleftrightarrow>
     authenticate_request sha mac secrets environment audience headers verb path query body now skew = Inr v
     \<and> (case claim of None \<Rightarrow> g' = g
        | Some c \<Rightarrow> c g (vr_environment v, vr_key_id v, vr_nonce v) now (vr_timestamp v + skew) = (True, g'))"
  by (auto simp: verify_request_def Let_def split: sum.splits option.splits prod.splits if_splits)

section \<open>Sequences of deliveries\<close>

text \<open>
  Requests as they arrive, each with the time of its arrival, checked one after another
  against one guard. This is how the worker's authentication step meets them: the guard's
  claim is atomic, so concurrent deliveries are ordered by their claims.
\<close>

record delivery =
  dl_now :: int
  dl_headers :: "(str \<times> str) list"
  dl_method :: str
  dl_path :: str
  dl_query :: query_arg
  dl_body :: bytes

fun deliver ::
  "('g \<Rightarrow> delivery \<Rightarrow> (protocol_error + verified_request) \<times> 'g) \<Rightarrow> 'g \<Rightarrow> delivery list
     \<Rightarrow> (protocol_error + verified_request) list" where
  "deliver verify g [] = []"
| "deliver verify g (d # ds) = (let (r, g') = verify g d in r # deliver verify g' ds)"

definition verify_delivery ::
  "(bytes \<Rightarrow> str) \<Rightarrow> (bytes \<Rightarrow> bytes \<Rightarrow> str)
     \<Rightarrow> ('g \<Rightarrow> claim_key \<Rightarrow> int \<Rightarrow> int \<Rightarrow> bool \<times> 'g) option
     \<Rightarrow> (str \<rightharpoonup> secret) \<Rightarrow> str \<Rightarrow> str \<Rightarrow> int \<Rightarrow> 'g \<Rightarrow> delivery \<Rightarrow> (protocol_error + verified_request) \<times> 'g" where
  "verify_delivery sha mac claim secrets environment audience skew g d =
     verify_request sha mac claim secrets environment audience (dl_headers d) (dl_method d) (dl_path d)
       (dl_query d) (dl_body d) (dl_now d) skew g"

lemma length_deliver [simp]: "length (deliver verify g ds) = length ds"
  by (induction ds arbitrary: g) (auto split: prod.splits)

lemma deliver_Cons:
  "deliver verify g (d # ds) = fst (verify g d) # deliver verify (snd (verify g d)) ds"
  by (simp split: prod.splits)

text \<open>One delivery, in terms of the guard's answer.\<close>

lemma verify_delivery_claim:
  "verify_delivery sha mac (Some c) secrets environment audience skew g d =
     (case authenticate_request sha mac secrets environment audience (dl_headers d) (dl_method d)
             (dl_path d) (dl_query d) (dl_body d) (dl_now d) skew of
        Inl e \<Rightarrow> (Inl e, g)
      | Inr v \<Rightarrow>
          (let a = c g (vr_environment v, vr_key_id v, vr_nonce v) (dl_now d) (vr_timestamp v + skew)
           in (if fst a then Inr v
               else Inl (ProtocolError ''REQUEST_REPLAYED''
                      ''Signed request nonce has already been used.'' 409 False), snd a)))"
  by (simp add: verify_delivery_def verify_request_def Let_def split: sum.splits prod.splits)

context replay_guard
begin

lemma verify_keeps:
  assumes "invar g" "expiry g k = Some e" "dl_now d \<le> e"
  shows "invar (snd (verify_delivery sha mac (Some claim) secrets environment audience skew g d))
    \<and> expiry (snd (verify_delivery sha mac (Some claim) secrets environment audience skew g d)) k = Some e"
  using assms claim_keeps [OF assms(1,2)] claim_invar [OF assms(1)]
  by (simp add: verify_delivery_claim Let_def split: sum.splits)

lemma verify_invar:
  assumes "invar g"
  shows "invar (snd (verify_delivery sha mac (Some claim) secrets environment audience skew g d))"
  using assms claim_invar [OF assms]
  by (simp add: verify_delivery_claim Let_def split: sum.splits)

lemma verify_records:
  assumes "invar g" "fst (verify_delivery sha mac (Some claim) secrets environment audience skew g d) = Inr v"
  shows "expiry (snd (verify_delivery sha mac (Some claim) secrets environment audience skew g d))
     (vr_environment v, vr_key_id v, vr_nonce v) = Some (vr_timestamp v + skew)"
  using assms(2) claim_records [OF assms(1)]
  by (auto simp: verify_delivery_claim Let_def split: sum.splits if_splits)

lemma remembered_not_accepted:
  assumes "invar g" "expiry g k = Some e" "sorted (map dl_now ds)" "j < length ds" "dl_now (ds ! j) \<le> e"
    and "deliver (verify_delivery sha mac (Some claim) secrets environment audience skew) g ds ! j = Inr v"
  shows "(vr_environment v, vr_key_id v, vr_nonce v) \<noteq> k"
  using assms
proof (induction ds arbitrary: g j)
  case (Cons d ds)
  let ?verify = "verify_delivery sha mac (Some claim) secrets environment audience skew"
  show ?case
  proof (cases j)
    case 0
    then have "dl_now d \<le> e" "fst (?verify g d) = Inr v"
      using Cons.prems(5,6) by (simp_all add: deliver_Cons del: deliver.simps)
    then show ?thesis
      using claim_refused [OF Cons.prems(1,2)]
      by (auto simp: verify_delivery_claim Let_def split: sum.splits if_splits)
  next
    case (Suc i)
    then have "ds ! i \<in> set ds" using Cons.prems(4) by simp
    then have "dl_now d \<le> dl_now (ds ! i)" using Cons.prems(3) by simp
    then have "dl_now d \<le> e" using Cons.prems(5) Suc by simp
    note step = verify_keeps [OF Cons.prems(1,2) this, of sha mac secrets environment audience skew]
    show ?thesis
      by (rule Cons.IH [of "snd (?verify g d)" i])
        (use step Cons.prems Suc in \<open>simp_all add: deliver_Cons del: deliver.simps\<close>)
  qed
qed simp

lemma accepted_once:
  assumes "invar g" "sorted (map dl_now ds)" "i < j" "j < length ds"
    and "deliver (verify_delivery sha mac (Some claim) secrets environment audience skew) g ds ! i = Inr v"
    and "deliver (verify_delivery sha mac (Some claim) secrets environment audience skew) g ds ! j = Inr w"
    and "vr_environment v = vr_environment w" "vr_key_id v = vr_key_id w" "vr_nonce v = vr_nonce w"
  shows "vr_timestamp v + skew < dl_now (ds ! j)"
  using assms
proof (induction ds arbitrary: g i j)
  case (Cons d ds)
  let ?verify = "verify_delivery sha mac (Some claim) secrets environment audience skew"
  obtain j' where j: "j = Suc j'" using Cons.prems(3) by (cases j) auto
  show ?case
  proof (cases i)
    case 0
    then have "fst (?verify g d) = Inr v"
      using Cons.prems(5) by (simp add: deliver_Cons del: deliver.simps)
    note rec = verify_records [OF Cons.prems(1) this]
    have "\<not> dl_now (ds ! j') \<le> vr_timestamp v + skew"
    proof
      assume le: "dl_now (ds ! j') \<le> vr_timestamp v + skew"
      have "(vr_environment w, vr_key_id w, vr_nonce w) \<noteq> (vr_environment v, vr_key_id v, vr_nonce v)"
        by (rule remembered_not_accepted [OF verify_invar [OF Cons.prems(1)] rec, of ds j'])
          (use Cons.prems j le in \<open>simp_all add: deliver_Cons del: deliver.simps\<close>)
      with Cons.prems show False by simp
    qed
    with j show ?thesis by simp
  next
    case (Suc i')
    show ?thesis
      using Cons.IH [OF verify_invar [OF Cons.prems(1)], of i' j'] Cons.prems Suc j
      by (simp add: deliver_Cons del: deliver.simps)
  qed
qed simp

end

lemma accepted_delivery_in_window:
  assumes "deliver (verify_delivery sha mac claim secrets environment audience skew) g ds ! j = Inr w" "j < length ds"
  shows "\<bar>dl_now (ds ! j) - vr_timestamp w\<bar> \<le> skew \<and> vr_environment w = environment"
  using assms
proof (induction ds arbitrary: g j)
  case (Cons d ds)
  show ?case
  proof (cases j)
    case 0
    then obtain g' where "verify_delivery sha mac claim secrets environment audience skew g d = (Inr w, g')"
      using Cons.prems(1) by (cases "verify_delivery sha mac claim secrets environment audience skew g d")
        (simp add: deliver_Cons del: deliver.simps)
    then show ?thesis
      using 0 by (auto simp: verify_delivery_def verify_request_Inr authenticate_request_Inr)
  next
    case (Suc i)
    then show ?thesis
      using Cons.IH [of _ i] Cons.prems by (simp add: deliver_Cons del: deliver.simps)
  qed
qed simp

section \<open>Properties\<close>

text \<open>Concrete values for the examples; the digests are constant functions.\<close>

definition example_id :: str where
  "example_id = lit ''00000000-0000-4000-8000-000000000001''"

definition example_sha :: "bytes \<Rightarrow> str" where "example_sha body = lit ''d''"
definition example_mac :: "bytes \<Rightarrow> bytes \<Rightarrow> str" where "example_mac k m = replicate 64 48"
definition example_secret :: secret where "example_secret = SecretBytes (replicate 32 1)"
definition example_secrets :: "str \<rightharpoonup> secret" where "example_secrets = [lit ''k1'' \<mapsto> example_secret]"

definition example_verified :: "int \<Rightarrow> str \<Rightarrow> verified_request" where
  "example_verified timestamp nonce =
     \<lparr>vr_protocol_version = PROTOCOL_VERSION, vr_audience = lit ''worker'',
      vr_environment = lit ''staging'', vr_key_id = lit ''k1'', vr_timestamp = timestamp,
      vr_nonce = nonce, vr_request_id = example_id\<rparr>"

definition example_signed :: "int \<Rightarrow> str \<Rightarrow> (str \<times> str) list option" where
  "example_signed timestamp nonce = sign_request example_sha example_mac example_secret (lit ''k1'')
     (lit ''staging'') (lit ''worker'') example_id (lit ''get'') (lit ''/v1/jobs'') (QueryStr []) []
     timestamp nonce"

definition example_delivery :: "int \<Rightarrow> str \<Rightarrow> int \<Rightarrow> delivery" where
  "example_delivery timestamp nonce now = \<lparr>dl_now = now, dl_headers = the (example_signed timestamp nonce),
     dl_method = lit ''get'', dl_path = lit ''/v1/jobs'', dl_query = QueryStr [], dl_body = []\<rparr>"

abbreviation example_verify ::
  "memory_guard \<Rightarrow> delivery \<Rightarrow> (protocol_error + verified_request) \<times> memory_guard" where
  "example_verify \<equiv> verify_delivery example_sha example_mac (Some memory_claim) example_secrets
     (lit ''staging'') (lit ''worker'') 60"

lemma example_id_canonical: "validate_request_id example_id = Some example_id"
  by code_simp

lemma example_mac_hex: "hex_signature (example_mac k m)"
proof -
  have "hex_signature (replicate 64 48)" by code_simp
  then show ?thesis by (simp add: example_mac_def)
qed

lemma example_signed_ok: "\<exists>h. example_signed 1000 (lit ''n'') = Some h" "\<exists>h. example_signed 1200 (lit ''n'') = Some h"
proof -
  have "example_signed 1000 (lit ''n'') \<noteq> None" "example_signed 1200 (lit ''n'') \<noteq> None" by code_simp+
  then show "\<exists>h. example_signed 1000 (lit ''n'') = Some h" "\<exists>h. example_signed 1200 (lit ''n'') = Some h"
    by auto
qed

lemma example_authentic:
  assumes "example_signed ts n = Some h" "\<bar>now - ts\<bar> \<le> 60" "length (render_nat (nat \<bar>ts\<bar>)) \<le> 4300"
  shows "authenticate_request example_sha example_mac example_secrets (lit ''staging'') (lit ''worker'') h
     (lit ''get'') (lit ''/v1/jobs'') (QueryStr []) [] now 60 = Inr (example_verified ts n)"
  unfolding example_verified_def
  by (rule signed_request_authenticates [OF assms(1) [unfolded example_signed_def] example_id_canonical
        _ assms(2) example_mac_hex assms(3)])
    (simp add: example_secrets_def)

lemma example_numbers: "length (render_nat (nat \<bar>1000\<bar>)) \<le> 4300" "length (render_nat (nat \<bar>1200\<bar>)) \<le> 4300"
  by code_simp+

lemma example_verify_accepts:
  "example_verify [] (example_delivery 1000 (lit ''n'') 1010) =
     (Inr (example_verified 1000 (lit ''n'')), [((lit ''staging'', lit ''k1'', lit ''n''), 1060)])"
  "example_verify [((lit ''staging'', lit ''k1'', lit ''n''), 1060)] (example_delivery 1200 (lit ''n'') 1210) =
     (Inr (example_verified 1200 (lit ''n'')), [((lit ''staging'', lit ''k1'', lit ''n''), 1260)])"
  using example_signed_ok example_authentic [where now = 1010 and ts = 1000, OF _ _ example_numbers(1)]
    example_authentic [where now = 1210 and ts = 1200, OF _ _ example_numbers(2)]
  by (auto simp: verify_delivery_def verify_request_Inr example_delivery_def example_verified_def
      memory_claim_def delete_where_def)

text \<open>
  C26: what \<open>sign_request\<close> signs, \<open>verify_request\<close> accepts: with the same secret, environment,
  audience and wire content, inside the clock window, and for a nonce the guard accepts,
  verification returns exactly the signed fields. The request ID must be in canonical form;
  the digest is hexadecimal, as \<open>hexdigest\<close> documents.
\<close>

theorem signed_request_verifies:
  assumes "sign_request sha mac s key_id environment audience rid verb path query body timestamp nonce = Some headers"
    and "validate_request_id rid = Some rid" "secrets key_id = Some s" "\<bar>now - timestamp\<bar> \<le> skew"
    and "\<And>k m. hex_signature (mac k m)" "length (render_nat (nat \<bar>timestamp\<bar>)) \<le> 4300"
    and "claim g (environment, key_id, nonce) now (timestamp + skew) = (True, g')"
  shows "verify_request sha mac (Some claim) secrets environment audience headers verb path query body now skew g =
    (Inr \<lparr>vr_protocol_version = PROTOCOL_VERSION, vr_audience = audience, vr_environment = environment,
          vr_key_id = key_id, vr_timestamp = timestamp, vr_nonce = nonce, vr_request_id = rid\<rparr>, g')"
  using signed_request_authenticates [where sha = sha and mac = mac and secrets = secrets, OF assms(1-6)] assms(7)
  by (simp add: verify_request_def)

theorem signed_request_verifies_witness:
  "\<exists>h. example_signed 1000 (lit ''n'') = Some h
     \<and> verify_request example_sha example_mac (Some memory_claim) example_secrets (lit ''staging'') (lit ''worker'') h
         (lit ''get'') (lit ''/v1/jobs'') (QueryStr []) [] 1010 60 [] =
       (Inr (example_verified 1000 (lit ''n'')), [((lit ''staging'', lit ''k1'', lit ''n''), 1060)])"
proof -
  obtain h where h: "example_signed 1000 (lit ''n'') = Some h" using example_signed_ok by blast
  have "memory_claim [] (lit ''staging'', lit ''k1'', lit ''n'') 1010 (1000 + 60) =
      (True, [((lit ''staging'', lit ''k1'', lit ''n''), 1060)])" by code_simp
  then show ?thesis
    using signed_request_verifies [OF h [unfolded example_signed_def] example_id_canonical _ _
        example_mac_hex example_numbers(1), of example_secrets 1010 60 memory_claim "[]"]
    by (auto simp: h example_secrets_def example_verified_def)
qed

text \<open>
  A request is accepted only when the signature in its headers is the keyed digest of
  exactly this method, path, query and body together with the fields that are returned, under
  a secret of at least 32 bytes registered for the key ID; its environment and audience are
  the expected ones, its time is inside the window, and its nonce was claimed until the end
  of the window.
\<close>

theorem accepted_request_is_signed:
  assumes "verify_request sha mac (Some claim) secrets environment audience headers verb path query body now skew g
    = (Inr v, g')"
  shows "(\<exists>s k m. secrets (vr_key_id v) = Some s \<and> secret_bytes s = Some k \<and> 32 \<le> length k
      \<and> request_bytes sha v verb path query body = Some m
      \<and> header_map headers (lit ''x-novo-chat-signature'') = Some (mac k m))
    \<and> vr_environment v = environment \<and> vr_audience v = audience
    \<and> \<bar>now - vr_timestamp v\<bar> \<le> skew
    \<and> claim g (environment, vr_key_id v, vr_nonce v) now (vr_timestamp v + skew) = (True, g')"
proof -
  from assms obtain s sig where *: "secrets (vr_key_id v) = Some s"
    "signature mac s (request_bytes sha v verb path query body) = Some sig"
    "header_map headers (lower HEADER_SIGNATURE) = Some sig"
    "vr_environment v = environment" "vr_audience v = audience" "\<bar>now - vr_timestamp v\<bar> \<le> skew"
    "claim g (vr_environment v, vr_key_id v, vr_nonce v) now (vr_timestamp v + skew) = (True, g')"
    by (auto simp: verify_request_Inr authenticate_request_Inr)
  then obtain k m where "secret_bytes s = Some k" "request_bytes sha v verb path query body = Some m" "sig = mac k m"
    by (auto simp: signature_Some)
  moreover from this(1) have "32 \<le> length k"
    by (auto simp: secret_bytes_def split: secret.splits option.splits if_splits)
  ultimately show ?thesis using * by (auto simp: lower_headers)
qed

theorem accepted_request_is_signed_witness:
  "\<exists>m. request_bytes example_sha (example_verified 1000 (lit ''n'')) (lit ''get'') (lit ''/v1/jobs'') (QueryStr []) [] = Some m"
  using accepted_request_is_signed [OF example_verify_accepts(1) [unfolded verify_delivery_def]]
  by (auto simp: example_delivery_def)



text \<open>
  A signed request is accepted at most once. Deliveries arrive in the order of a clock
  that does not run backwards and pass one process-local guard. Two accepted deliveries with the
  same environment, key ID and nonce are further apart than the lifetime of the first, and so
  cannot carry the same timestamp: a copy of an accepted request is never accepted again.
\<close>

theorem request_accepted_at_most_once:
  assumes "memory_ok g" "sorted (map dl_now ds)" "i < j" "j < length ds"
    and "deliver (verify_delivery sha mac (Some memory_claim) secrets environment audience skew) g ds ! i = Inr v"
    and "deliver (verify_delivery sha mac (Some memory_claim) secrets environment audience skew) g ds ! j = Inr w"
    and "vr_key_id v = vr_key_id w" "vr_nonce v = vr_nonce w"
  shows "vr_timestamp v + skew < dl_now (ds ! j) \<and> vr_timestamp v < vr_timestamp w"
proof -
  have v: "vr_environment v = environment" using accepted_delivery_in_window [OF assms(5)] assms(3,4) by simp
  have w: "vr_environment w = environment" "\<bar>dl_now (ds ! j) - vr_timestamp w\<bar> \<le> skew"
    using accepted_delivery_in_window [OF assms(6)] assms(4) by simp_all
  have "vr_timestamp v + skew < dl_now (ds ! j)"
    by (rule memory.accepted_once [OF assms(1-6) _ assms(7,8)]) (simp add: v w)
  with w(2) show ?thesis by linarith
qed

theorem request_accepted_at_most_once_witness:
  "vr_timestamp (example_verified 1000 (lit ''n'')) + 60 < 1210"
proof -
  let ?ds = "[example_delivery 1000 (lit ''n'') 1010, example_delivery 1200 (lit ''n'') 1210]"
  have run: "deliver example_verify [] ?ds =
      [Inr (example_verified 1000 (lit ''n'')), Inr (example_verified 1200 (lit ''n''))]"
    by (simp add: example_verify_accepts)
  have "vr_timestamp (example_verified 1000 (lit ''n'')) + 60 < dl_now (?ds ! 1)
      \<and> vr_timestamp (example_verified 1000 (lit ''n'')) < vr_timestamp (example_verified 1200 (lit ''n''))"
    by (rule request_accepted_at_most_once [where i = 0 and j = 1 and g = "[]" and ds = ?ds
          and sha = example_sha and mac = example_mac and secrets = example_secrets
          and environment = "lit ''staging''" and audience = "lit ''worker''" and skew = 60])
      (simp_all only: run, simp_all add: memory_ok_def example_verified_def example_delivery_def)
  then show ?thesis by (simp add: example_delivery_def)
qed

section \<open>Responses\<close>

lemma verify_response_Inr:
  "verify_response sha mac secrets environment audience headers rid status_code body now skew = Inr v \<Longrightarrow>
     (\<exists>s sig rid_text. validate_request_id rid = Some (vs_request_id v) \<and> vs_status_code v = status_code
      \<and> header_map headers (lower HEADER_REQUEST_ID) = Some rid_text
      \<and> validate_request_id rid_text = Some (vs_request_id v)
      \<and> vs_environment v = environment \<and> vs_audience v = audience
      \<and> vs_protocol_version v = PROTOCOL_VERSION
      \<and> \<bar>now - vs_timestamp v\<bar> \<le> skew \<and> secrets (vs_key_id v) = Some s
      \<and> header_map headers (lower HEADER_SIGNATURE) = Some sig
      \<and> signature mac s (response_bytes sha v body) = Some sig)"
  unfolding verify_response_def Let_def and_then_Inr demand_Inr or_raise_Inr required_header_Inr
  by (elim exE conjE) (simp add: not_less, auto)

lemma response_bytes_determine:
  assumes "response_bytes sha v body = Some m" "response_bytes sha v' body' = Some m"
  shows "v = v' \<and> sha body = sha body'"
proof -
  define fields where "fields = (\<lambda>(w :: verified_response) d.
     [(lit ''protocolVersion'', JStr (vs_protocol_version w)), (lit ''audience'', JStr (vs_audience w)),
      (lit ''environment'', JStr (vs_environment w)), (lit ''keyId'', JStr (vs_key_id w)),
      (lit ''timestamp'', JInt (vs_timestamp w)), (lit ''requestId'', JStr (vs_request_id w)),
      (lit ''status'', JInt (vs_status_code w)), (lit ''bodySha256'', JStr d)])"
  have doc: "canonical_json (JObj (fields v (sha body))) = Some m"
    "canonical_json (JObj (fields v' (sha body'))) = Some m"
    using assms by (simp_all add: response_bytes_def response_document_def fields_def)
  have dist: "distinct (map fst (fields w d))" for w d
    by (simp add: fields_def)
  have eq: "map_option sort_keys (map_of (fields v (sha body)) k) =
      map_option sort_keys (map_of (fields v' (sha body')) k)" for k
    by (rule sort_keys_fields [OF canonical_json_inject [OF doc] dist dist])
  show ?thesis
    using eq [of "lit ''protocolVersion''"] eq [of "lit ''audience''"] eq [of "lit ''environment''"]
      eq [of "lit ''keyId''"] eq [of "lit ''timestamp''"] eq [of "lit ''requestId''"]
      eq [of "lit ''status''"] eq [of "lit ''bodySha256''"]
    by (simp add: fields_def)
qed

lemma sign_response_Some:
  assumes "sign_response sha mac s key_id environment rid status_code body audience timestamp = Some headers"
  obtains sig canonical_id where
    "validate_signing_metadata key_id environment audience rid"
    "signature mac s (response_bytes sha
       \<lparr>vs_protocol_version = PROTOCOL_VERSION, vs_audience = audience, vs_environment = environment,
        vs_key_id = key_id, vs_timestamp = timestamp, vs_request_id = rid, vs_status_code = status_code\<rparr>
       body) = Some sig"
    "validate_request_id rid = Some canonical_id"
    "headers = [(HEADER_PROTOCOL, PROTOCOL_VERSION), (HEADER_AUDIENCE, audience),
       (HEADER_ENVIRONMENT, environment), (HEADER_KEY_ID, key_id),
       (HEADER_TIMESTAMP, render_int timestamp), (HEADER_REQUEST_ID, canonical_id),
       (HEADER_STATUS, render_int status_code), (HEADER_SIGNATURE, sig)]"
  using assms by (auto simp: sign_response_def Let_def split: if_splits option.splits)


definition example_response :: "(str \<times> str) list option" where
  "example_response = sign_response example_sha example_mac example_secret (lit ''k1'') (lit ''staging'')
     example_id 200 [123, 125] (lit ''worker'') 1000"

text \<open>What was signed verifies among other headers as well, as long as they do not hide the signed ones.\<close>

lemma verify_signed_response:
  assumes "sign_response sha mac s key_id environment rid status_code body audience timestamp = Some headers"
    and "validate_request_id rid = Some rid" "secrets key_id = Some s" "\<bar>now - timestamp\<bar> \<le> skew"
    and "\<And>k m. hex_signature (mac k m)" "length (render_nat (nat \<bar>timestamp\<bar>)) \<le> 4300"
    and "length (render_nat (nat \<bar>status_code\<bar>)) \<le> 4300"
    and "\<And>n v. header_map headers n = Some v \<Longrightarrow> header_map h n = Some v"
  shows "verify_response sha mac secrets environment audience h rid status_code body now skew =
    Inr \<lparr>vs_protocol_version = PROTOCOL_VERSION, vs_audience = audience, vs_environment = environment,
         vs_key_id = key_id, vs_timestamp = timestamp, vs_request_id = rid, vs_status_code = status_code\<rparr>"
  using assms(1)
proof (rule sign_response_Some)
  fix sig canonical_id
  assume *: "validate_signing_metadata key_id environment audience rid"
    "signature mac s (response_bytes sha
       \<lparr>vs_protocol_version = PROTOCOL_VERSION, vs_audience = audience, vs_environment = environment,
        vs_key_id = key_id, vs_timestamp = timestamp, vs_request_id = rid, vs_status_code = status_code\<rparr>
       body) = Some sig"
    "validate_request_id rid = Some canonical_id"
    "headers = [(HEADER_PROTOCOL, PROTOCOL_VERSION), (HEADER_AUDIENCE, audience),
       (HEADER_ENVIRONMENT, environment), (HEADER_KEY_ID, key_id),
       (HEADER_TIMESTAMP, render_int timestamp), (HEADER_REQUEST_ID, canonical_id),
       (HEADER_STATUS, render_int status_code), (HEADER_SIGNATURE, sig)]"
  have hex: "hex_signature sig" using *(2) assms(5) by (auto simp: signature_Some)
  then have "sig \<noteq> []" by (auto simp: hex_signature_def)
  have sent: "header_map h (lit ''x-novo-chat-protocol'') = Some PROTOCOL_VERSION"
    "header_map h (lit ''x-novo-chat-audience'') = Some audience"
    "header_map h (lit ''x-novo-chat-environment'') = Some environment"
    "header_map h (lit ''x-novo-chat-key-id'') = Some key_id"
    "header_map h (lit ''x-novo-chat-timestamp'') = Some (render_int timestamp)"
    "header_map h (lit ''x-novo-chat-request-id'') = Some canonical_id"
    "header_map h (lit ''x-novo-chat-status'') = Some (render_int status_code)"
    "header_map h (lit ''x-novo-chat-signature'') = Some sig"
    by (rule assms(8), simp add: *(4) signed_response_headers)+
  from hex \<open>sig \<noteq> []\<close> show ?thesis
    unfolding verify_response_def
    using *(1-3) assms(1-7) signing_metadata_nonempty [OF *(1)] validate_request_id_nonempty [OF *(3)]
    by (simp add: sent lower_headers py_int_render_int render_int_nonempty Let_def
        required_header_def PROTOCOL_VERSION_def)
qed

text \<open>
  What \<open>sign_response\<close> signs, \<open>verify_response\<close> accepts for the same request ID, status
  and body inside the clock window.
\<close>

theorem signed_response_verifies:
  assumes "sign_response sha mac s key_id environment rid status_code body audience timestamp = Some headers"
    and "validate_request_id rid = Some rid" "secrets key_id = Some s" "\<bar>now - timestamp\<bar> \<le> skew"
    and "\<And>k m. hex_signature (mac k m)" "length (render_nat (nat \<bar>timestamp\<bar>)) \<le> 4300"
    and "length (render_nat (nat \<bar>status_code\<bar>)) \<le> 4300"
  shows "verify_response sha mac secrets environment audience headers rid status_code body now skew =
    Inr \<lparr>vs_protocol_version = PROTOCOL_VERSION, vs_audience = audience, vs_environment = environment,
         vs_key_id = key_id, vs_timestamp = timestamp, vs_request_id = rid, vs_status_code = status_code\<rparr>"
  by (rule verify_signed_response [where secrets = secrets, OF assms(1-4) _ assms(6,7)]) (simp_all add: assms(5))

lemma example_response_ok: "\<exists>h. example_response = Some h"
proof -
  have "example_response \<noteq> None" by code_simp
  then show ?thesis by auto
qed

definition example_vresponse :: verified_response where
  "example_vresponse =
     \<lparr>vs_protocol_version = PROTOCOL_VERSION, vs_audience = lit ''worker'', vs_environment = lit ''staging'',
      vs_key_id = lit ''k1'', vs_timestamp = 1000, vs_request_id = example_id, vs_status_code = 200\<rparr>"

lemma example_status: "length (render_nat (nat \<bar>200\<bar>)) \<le> 4300"
  by code_simp

theorem signed_response_verifies_witness:
  "\<exists>h. example_response = Some h
     \<and> verify_response example_sha example_mac example_secrets (lit ''staging'') (lit ''worker'') h
         example_id 200 [123, 125] 990 60 = Inr example_vresponse"
proof -
  obtain h where h: "example_response = Some h" using example_response_ok by blast
  show ?thesis
    using signed_response_verifies [OF h [unfolded example_response_def] example_id_canonical _ _
        example_mac_hex example_numbers(1) example_status, of example_secrets 990 60]
    by (auto simp: h example_secrets_def example_vresponse_def)
qed


section \<open>A request ID that is not in canonical form\<close>


definition upper_id :: str where
  "upper_id = lit ''00000000-0000-4000-8000-00000000000A''"

definition canonical_upper_id :: str where
  "canonical_upper_id = lit ''00000000-0000-4000-8000-00000000000a''"


end
