(* ===== verification/Results.thy ===== *)
theory Results
  imports Protocol
begin

text \<open>
  The documents a worker operation produces (\<open>novo_chat/protocol.py\<close>): retrieval plans, the
  progress details of a query and the results of ingestion, rebuild and model operations, with
  the checks of their validators and their JSON form. \<open>casefold\<close> stands for Python's
  \<open>str.casefold\<close>, whose table is not reproduced here.
\<close>

section \<open>White space\<close>

text \<open>\<open>str.isspace\<close>, which \<open>split\<close>, \<open>strip\<close> and \<open>\s\<close> use.\<close>

definition is_space :: "nat \<Rightarrow> bool" where
  "is_space c \<longleftrightarrow> (9 \<le> c \<and> c \<le> 13) \<or> (28 \<le> c \<and> c \<le> 32) \<or> c = 133 \<or> c = 160 \<or> c = 5760
     \<or> (8192 \<le> c \<and> c \<le> 8202) \<or> c = 8232 \<or> c = 8233 \<or> c = 8239 \<or> c = 8287 \<or> c = 12288"

definition py_strip :: "str \<Rightarrow> str" where
  "py_strip s = strip_by is_space s"

lemma dropWhile_last: "xs \<noteq> [] \<Longrightarrow> \<not> p (last xs) \<Longrightarrow> dropWhile p xs \<noteq> [] \<and> last (dropWhile p xs) = last xs"
  by (induction xs) (auto split: if_splits)

lemma set_strip_by: "set (strip_by p s) \<subseteq> set s"
  by (auto simp: strip_by_def rstrip_by_def lstrip_by_def dest!: set_dropWhileD)

lemma strip_by_ends:
  assumes "strip_by p s \<noteq> []" shows "\<not> p (hd (strip_by p s))" "\<not> p (last (strip_by p s))"
proof -
  let ?l = "dropWhile p s" and ?r = "dropWhile p (rev (dropWhile p s))"
  have eq: "strip_by p s = rev ?r" by (simp add: strip_by_def rstrip_by_def lstrip_by_def)
  with assms have ne: "?r \<noteq> []" by simp
  then have "\<not> p (hd ?r)" by (rule hd_dropWhile)
  then show "\<not> p (last (strip_by p s))" using ne by (simp add: eq last_rev)
  have "?l \<noteq> []" using ne by (metis dropWhile.simps(1) rev.simps(1))
  then have "rev ?l \<noteq> []" "\<not> p (last (rev ?l))" by (simp_all add: last_rev hd_dropWhile)
  then have "last ?r = last (rev ?l)" using dropWhile_last by blast
  then show "\<not> p (hd (strip_by p s))" using \<open>?l \<noteq> []\<close> ne by (simp add: eq hd_rev last_rev hd_dropWhile)
qed

lemma strip_by_idem: "strip_by p (strip_by p s) = strip_by p s"
proof (cases "strip_by p s = []")
  case False
  note ends = strip_by_ends [OF False]
  have "dropWhile p (strip_by p s) = strip_by p s" "dropWhile p (rev (strip_by p s)) = rev (strip_by p s)"
    using ends False by (simp_all add: dropWhile_eq_self_iff hd_rev)
  then show ?thesis by (simp add: strip_by_def [of p "strip_by p s"] rstrip_by_def lstrip_by_def)
next
  case True
  have "strip_by p [] = []" by (simp add: strip_by_def lstrip_by_def rstrip_by_def)
  then show ?thesis by (simp only: True)
qed

section \<open>Retrieval plans\<close>

datatype retrieval_plan_mode = PLANNED | FALLBACK

datatype query_progress_stage = PLANNING | SEARCHING | ANSWERING

record retrieval_plan =
  original_question :: str
  semantic_query :: str
  bm25_terms :: "str list"
  plan_mode :: retrieval_plan_mode

definition bm25_term_ok :: "str \<Rightarrow> bool" where
  "bm25_term_ok term \<longleftrightarrow> term \<noteq> [] \<and> length term \<le> 128 \<and> \<not> (\<exists>c\<in>set term. c < 32 \<or> c = 127)"

text \<open>\<open>validate_bm25_terms\<close>; \<open>None\<close> is its \<open>ValueError\<close>.\<close>

definition validate_bm25_terms :: "(str \<Rightarrow> str) \<Rightarrow> str list \<Rightarrow> str list option" where
  "validate_bm25_terms casefold terms =
     (let normalized = map py_strip terms
      in if list_all bm25_term_ok normalized \<and> distinct (map casefold normalized) then Some normalized else None)"

text \<open>\<open>RetrievalPlan(...)\<close>; \<open>None\<close> is the \<open>ValidationError\<close>.\<close>

definition make_plan ::
  "(str \<Rightarrow> str) \<Rightarrow> str \<Rightarrow> str \<Rightarrow> str list \<Rightarrow> retrieval_plan_mode \<Rightarrow> retrieval_plan option" where
  "make_plan casefold original semantic terms mode =
     (if 1 \<le> length original \<and> length original \<le> 32000 \<and> validate_query_text original
         \<and> 1 \<le> length semantic \<and> length semantic \<le> 4000 \<and> validate_query_text semantic
         \<and> length terms \<le> 32
      then map_option (\<lambda>ts. \<lparr>original_question = original, semantic_query = semantic, bm25_terms = ts, plan_mode = mode\<rparr>)
             (validate_bm25_terms casefold terms)
      else None)"

fun plan_mode_value :: "retrieval_plan_mode \<Rightarrow> str" where
  "plan_mode_value PLANNED = lit ''planned''"
| "plan_mode_value FALLBACK = lit ''fallback''"

fun stage_value :: "query_progress_stage \<Rightarrow> str" where
  "stage_value PLANNING = lit ''planning''"
| "stage_value SEARCHING = lit ''searching''"
| "stage_value ANSWERING = lit ''answering''"

definition plan_json :: "retrieval_plan \<Rightarrow> json" where
  "plan_json p = JObj
     [(lit ''originalQuestion'', JStr (original_question p)),
      (lit ''semanticQuery'', JStr (semantic_query p)),
      (lit ''bm25Terms'', JArr (map JStr (bm25_terms p))),
      (lit ''mode'', JStr (plan_mode_value (plan_mode p)))]"

section \<open>Progress and results\<close>

record progress_detail =
  pd_stage :: query_progress_stage
  pd_plan :: "retrieval_plan option"
  pd_count :: "int option"

definition progress_detail_ok :: "progress_detail \<Rightarrow> bool" where
  "progress_detail_ok d \<longleftrightarrow> (pd_stage d \<noteq> PLANNING \<longrightarrow> pd_plan d \<noteq> None)
     \<and> (case pd_count d of None \<Rightarrow> True | Some n \<Rightarrow> 0 \<le> n \<and> n \<le> 32)"

definition progress_detail_json :: "progress_detail \<Rightarrow> json" where
  "progress_detail_json d = JObj
     [(lit ''stage'', JStr (stage_value (pd_stage d))),
      (lit ''retrievalPlan'', (case pd_plan d of None \<Rightarrow> JNull | Some p \<Rightarrow> plan_json p)),
      (lit ''retrievedCount'', (case pd_count d of None \<Rightarrow> JNull | Some n \<Rightarrow> JInt n))]"

definition index_result_json :: "notebook_scope list \<Rightarrow> nat \<Rightarrow> json" where
  "index_result_json indexes chunk_count = JObj
     [(lit ''kind'', JStr (lit ''index'')), (lit ''indexes'', JArr (map scope_json indexes)),
      (lit ''chunkCount'', JInt (int chunk_count))]"

definition ingest_result_json :: "notebook_scope \<Rightarrow> nat \<Rightarrow> json" where
  "ingest_result_json s accepted_pages = JObj
     [(lit ''kind'', JStr (lit ''ingest'')), (lit ''scope'', scope_json s),
      (lit ''acceptedPages'', JInt (int accepted_pages))]"

definition model_result_json :: "str \<Rightarrow> model_runtime_state \<Rightarrow> json" where
  "model_result_json model_id state = JObj
     [(lit ''kind'', JStr (lit ''model'')), (lit ''model'', JStr model_id),
      (lit ''state'', JStr (model_state_value state))]"

end
