(* ===== verification/Framing.thy ===== *)
theory Framing
  imports Signing Results
begin

text \<open>
  HTTP request framing, as the worker's middleware \<open>authenticate_and_sign\<close>
  (\<open>novo_chat/worker.py\<close>) and the gateway's \<open>read_bounded_json_body\<close>
  (\<open>novo_chat/gateway/app.py\<close>) check it before they look at a body: no transfer encoding, one
  decimal \<open>Content-Length\<close> within the limit, and exactly that many bytes. A request is its
  method, path, query string, headers in order, and the stream of body chunks with the way it
  ends. The length is compared with the limit as text; the first lemmas show that this is the
  comparison of the numbers.
\<close>

section \<open>Requests\<close>

datatype stream_end = Complete | Disconnected | Broken

record http_request =
  hr_method :: str
  hr_path :: str
  hr_query :: bytes
  hr_headers :: "(str \<times> str) list"
  hr_chunks :: "bytes list"
  hr_end :: stream_end

text \<open>\<open>headers.getlist(name)\<close> and \<open>headers.get(name)\<close>, the first value.\<close>

definition getlist :: "(str \<times> str) list \<Rightarrow> string \<Rightarrow> str list" where
  "getlist headers name = map snd (filter (\<lambda>(k, v). lower k = lit name) headers)"

definition get_header :: "(str \<times> str) list \<Rightarrow> string \<Rightarrow> str option" where
  "get_header headers name = (case getlist headers name of [] \<Rightarrow> None | v # vs \<Rightarrow> Some v)"

lemma getlist_append: "getlist (xs @ ys) name = getlist xs name @ getlist ys name"
  by (simp add: getlist_def)

section \<open>The length check\<close>

text \<open>\<open>raw.lstrip("0") or "0"\<close>, and the comparison with \<open>str(maximum)\<close>.\<close>

definition normalized_length :: "str \<Rightarrow> str" where
  "normalized_length raw = (let t = lstrip_by (\<lambda>c. c = 48) raw in if t = [] then [48] else t)"

definition too_long :: "str \<Rightarrow> nat \<Rightarrow> bool" where
  "too_long normalized maximum \<longleftrightarrow>
     (let limit = render_nat maximum
      in length normalized > length limit \<or> (length normalized = length limit \<and> normalized > limit))"

text \<open>
  The body stream against the limit: empty chunks are skipped, the chunk that passes the limit
  stops the reading, and otherwise the end of the stream decides.
\<close>

datatype read_result = Body bytes | Over_Limit | Incomplete | Unreadable

fun read_stream :: "nat \<Rightarrow> stream_end \<Rightarrow> bytes \<Rightarrow> bytes list \<Rightarrow> read_result" where
  "read_stream limit ending so_far [] =
     (case ending of Complete \<Rightarrow> Body so_far | Disconnected \<Rightarrow> Incomplete | Broken \<Rightarrow> Unreadable)"
| "read_stream limit ending so_far (c # cs) =
     (if c = [] then read_stream limit ending so_far cs
      else if length so_far + length c > limit then Over_Limit
      else read_stream limit ending (so_far @ c) cs)"

section \<open>The worker\<close>

text \<open>\<open>WorkerAPIError\<close> has the fields of \<open>ProtocolError\<close>.\<close>

definition WorkerAPIError :: "int \<Rightarrow> string \<Rightarrow> string \<Rightarrow> bool \<Rightarrow> protocol_error" where
  "WorkerAPIError status_code code message retryable = ProtocolError code message status_code retryable"

definition has_body :: "str \<Rightarrow> bool" where
  "has_body verb \<longleftrightarrow> verb = lit ''POST'' \<or> verb = lit ''PUT'' \<or> verb = lit ''PATCH''"

definition declared_length :: "nat \<Rightarrow> http_request \<Rightarrow> protocol_error + nat" where
  "declared_length limit r =
     demand (WorkerAPIError 400 ''UNSUPPORTED_TRANSFER_ENCODING'' ''Transfer-Encoding is not supported.'' False)
       (getlist (hr_headers r) ''transfer-encoding'' = [])
     (let content_lengths = getlist (hr_headers r) ''content-length'' in
      demand (WorkerAPIError 400 ''AMBIGUOUS_REQUEST_FRAMING'' ''Multiple Content-Length values are not accepted.'' False)
        (\<not> (length content_lengths > 1 \<or> (content_lengths \<noteq> [] \<and> 44 \<in> set (hd content_lengths))))
     (case content_lengths of
        [] \<Rightarrow> demand (WorkerAPIError 411 ''LENGTH_REQUIRED'' ''Content-Length is required.'' False)
               (\<not> has_body (hr_method r)) (Inr 0)
      | v # vs \<Rightarrow> (let raw = py_strip v in
          demand (WorkerAPIError 400 ''INVALID_CONTENT_LENGTH'' ''Content-Length header is invalid.'' False)
            (raw \<noteq> [] \<and> list_all is_digit raw)
         (demand (WorkerAPIError 413 ''REQUEST_TOO_LARGE'' ''Request body exceeds the configured limit.'' False)
            (\<not> too_long (normalized_length raw) limit)
            (Inr (nat_of_digits (normalized_length raw)))))))"

definition worker_body :: "nat \<Rightarrow> http_request \<Rightarrow> protocol_error + bytes" where
  "worker_body limit r =
     and_then (declared_length limit r) (\<lambda>declared.
     case read_stream limit (hr_end r) [] (hr_chunks r) of
       Over_Limit \<Rightarrow> Inl (WorkerAPIError 413 ''REQUEST_TOO_LARGE'' ''Request body exceeds the configured limit.'' False)
     | Incomplete \<Rightarrow> Inl (WorkerAPIError 400 ''REQUEST_BODY_INCOMPLETE'' ''Request body is incomplete.'' False)
     | Unreadable \<Rightarrow> Inl (WorkerAPIError 400 ''REQUEST_BODY_INVALID'' ''Request body could not be read.'' False)
     | Body body \<Rightarrow>
         demand (WorkerAPIError 400 ''CONTENT_LENGTH_MISMATCH'' ''Content-Length does not match the request body.'' False)
           (length body = declared) (Inr body))"

section \<open>The gateway\<close>

text \<open>
  \<open>HTTPException(status, detail)\<close>; \<open>None\<close> is any exception the function lets pass, here the
  one of a stream that cannot be read.
\<close>

record http_exception =
  he_status :: int
  he_detail :: str

definition HTTPException :: "int \<Rightarrow> string \<Rightarrow> http_exception" where
  "HTTPException status detail = \<lparr>he_status = status, he_detail = lit detail\<rparr>"

definition read_bounded_json_body :: "nat \<Rightarrow> http_request \<Rightarrow> http_exception option + bytes" where
  "read_bounded_json_body maximum_bytes r =
     demand (Some (HTTPException 400 ''Transfer-Encoding is not supported''))
       (getlist (hr_headers r) ''transfer-encoding'' = [])
     (let content_lengths = getlist (hr_headers r) ''content-length'' in
      demand (Some (HTTPException 400 ''A single Content-Length header is required''))
        (\<not> (length content_lengths \<noteq> 1 \<or> 44 \<in> set (hd content_lengths)))
     (let raw_length = py_strip (hd content_lengths) in
      demand (Some (HTTPException 400 ''Invalid Content-Length'')) (raw_length \<noteq> [] \<and> list_all is_digit raw_length)
     (demand (Some (HTTPException 413 ''Request body exceeds the configured limit''))
        (\<not> too_long (normalized_length raw_length) maximum_bytes)
     (case read_stream maximum_bytes (hr_end r) [] (hr_chunks r) of
       Over_Limit \<Rightarrow> Inl (Some (HTTPException 413 ''Request body exceeds the configured limit''))
     | Incomplete \<Rightarrow> Inl (Some (HTTPException 400 ''Request body is incomplete''))
     | Unreadable \<Rightarrow> Inl None
     | Body body \<Rightarrow> demand (Some (HTTPException 400 ''Content-Length does not match body''))
         (length body = nat_of_digits (normalized_length raw_length)) (Inr body)))))"

end
