(* ===== verification/Jobs.thy ===== *)
theory Jobs
  imports Complex_Main Protocol Replay
begin

text \<open>
  The durable job store of the worker (\<open>novo_chat/jobs.py\<close>): operations, the submissions that
  refer to them, claimed nonces and the catalogue of active indexes, one list of rows per SQL
  table. Every method is one transaction, so it maps a store to its answer and the next store;
  a transaction that raises leaves the store as it was. The rows' \<open>state\<close> and
  \<open>operation_type\<close> columns hold the enumeration values, JSON columns the value they decode to
  (\<open>sort_keys\<close> of what was written). Times are microseconds since the epoch, the resolution of
  \<open>_utc_timestamp\<close>; \<open>sha\<close> is the hex digest of \<open>hashlib.sha256\<close>; fresh handles, which the code
  draws at random, are arguments.
\<close>

section \<open>Tables\<close>

record operation_row =
  op_id :: str
  op_env :: str
  op_type :: job_operation
  op_dedupe :: str
  op_scope :: "notebook_scope list"
  op_payload :: json
  op_state :: job_state
  op_progress :: rat
  op_detail :: "json option"
  op_result :: "json option"
  op_error_code :: "str option"
  op_error_message :: "str option"
  op_retryable :: bool
  op_created :: int
  op_updated :: int

record submission_row =
  sub_id :: str
  sub_env :: str
  sub_actor :: str
  sub_key :: str
  sub_request :: str
  sub_fingerprint :: str
  sub_op :: str
  sub_created :: int

record active_row =
  ax_env :: str
  ax_notebook :: str
  ax_schema :: str
  ax_revision :: str
  ax_artifact :: str
  ax_activated :: int

record job_store =
  operations :: "operation_row list"
  submissions :: "submission_row list"
  replay_nonces :: "(claim_key \<times> int) list"
  active_indexes :: "active_row list"

definition empty_store :: job_store where
  "empty_store = \<lparr>operations = [], submissions = [], replay_nonces = [], active_indexes = []\<rparr>"

datatype job_store_error =
    JobNotFound
  | IdempotencyConflict
  | InvalidJobTransition
  | QueueFull
  | QueuedWithoutSubmission
  | KeyCollision
  | ProgressOutOfRange
  | NotCanonicalizable

record stored_job =
  sj_job_id :: str
  sj_operation_id :: str
  sj_environment :: str
  sj_actor_user_id :: str
  sj_request_id :: str
  sj_operation :: job_operation
  sj_state :: job_state
  sj_created_at :: int
  sj_updated_at :: int
  sj_progress :: rat
  sj_progress_detail :: "json option"
  sj_result :: "json option"
  sj_error_code :: "str option"
  sj_error_message :: "str option"
  sj_retryable :: bool

record stored_operation =
  so_operation_id :: str
  so_environment :: str
  so_actor_user_id :: str
  so_request_id :: str
  so_operation :: job_operation
  so_scope :: "notebook_scope list"
  so_payload :: json
  so_state :: job_state
  so_progress :: rat
  so_created_at :: int
  so_updated_at :: int

record submission_outcome =
  outcome_job :: stored_job
  submission_created :: bool
  operation_created :: bool

definition terminal :: "job_state \<Rightarrow> bool" where
  "terminal s \<longleftrightarrow> s = SUCCEEDED \<or> s = FAILED \<or> s = CANCELED"

definition active :: "job_state \<Rightarrow> bool" where
  "active s \<longleftrightarrow> s = QUEUED \<or> s = RUNNING"

lemma active_iff: "active s \<longleftrightarrow> \<not> terminal s"
  by (cases s) (simp_all add: active_def terminal_def)

text \<open>The key of \<open>UNIQUE(environment, operation_type, dedupe_key)\<close>, and of submissions.\<close>

definition dedupe_index :: "operation_row \<Rightarrow> str \<times> job_operation \<times> str" where
  "dedupe_index r = (op_env r, op_type r, op_dedupe r)"

definition submission_index :: "submission_row \<Rightarrow> str \<times> str \<times> str" where
  "submission_index r = (sub_env r, sub_actor r, sub_key r)"

definition active_index_key :: "active_row \<Rightarrow> str \<times> str \<times> str" where
  "active_index_key r = (ax_env r, ax_notebook r, ax_schema r)"

definition terminal_mark :: "str \<Rightarrow> str" where
  "terminal_mark i = lit '':terminal:'' @ i"

definition vacate :: "operation_row \<Rightarrow> operation_row" where
  "vacate r = r\<lparr>op_dedupe := op_dedupe r @ terminal_mark (op_id r)\<rparr>"

section \<open>Opening the store\<close>

text \<open>\<open>instr(text, part) > 0\<close>.\<close>

fun contains :: "'a list \<Rightarrow> 'a list \<Rightarrow> bool" where
  "contains part [] = (part = [])"
| "contains part (c # cs) = (take (length part) (c # cs) = part \<or> contains part cs)"

text \<open>
  The migration at the end of \<open>_initialize\<close>: terminal operations of an older file vacate their
  key. \<open>None\<close> is \<open>sqlite3.IntegrityError\<close>.
\<close>

definition initialize :: "job_store \<Rightarrow> job_store option" where
  "initialize st = map_option (\<lambda>ops. st\<lparr>operations := ops\<rparr>)
     (update_unique dedupe_index
        (\<lambda>r. terminal (op_state r) \<and> \<not> contains (terminal_mark (op_id r)) (op_dedupe r))
        vacate (operations st))"

section \<open>Nonces\<close>

text \<open>\<open>JobStore.claim\<close>; a refused claim rolls back its deletions as well.\<close>

definition claim :: "job_store \<Rightarrow> claim_key \<Rightarrow> int \<Rightarrow> int \<Rightarrow> bool \<times> job_store" where
  "claim st nonce_key seen_at expires_at =
     (let live = delete_where (\<lambda>(_, expiry). expiry < seen_at) (replay_nonces st)
      in if nonce_key \<in> fst ` set live then (False, st)
         else (True, st\<lparr>replay_nonces := live @ [(nonce_key, expires_at)]\<rparr>))"

section \<open>Submission\<close>

definition request_fingerprint ::
  "(bytes \<Rightarrow> str) \<Rightarrow> job_operation \<Rightarrow> notebook_scope list \<Rightarrow> json \<Rightarrow> str option" where
  "request_fingerprint sha operation scopes payload =
     map_option sha (canonical_json (JObj
       [(lit ''operation'', JStr (operation_value operation)),
        (lit ''scope'', JArr (map scope_json scopes)),
        (lit ''payload'', payload)]))"

definition stored_job_of :: "submission_row \<Rightarrow> operation_row \<Rightarrow> stored_job" where
  "stored_job_of s r =
     \<lparr>sj_job_id = sub_id s, sj_operation_id = sub_op s, sj_environment = sub_env s,
      sj_actor_user_id = sub_actor s, sj_request_id = sub_request s, sj_operation = op_type r,
      sj_state = op_state r, sj_created_at = sub_created s, sj_updated_at = op_updated r,
      sj_progress = op_progress r, sj_progress_detail = op_detail r, sj_result = op_result r,
      sj_error_code = or_none (op_error_code r), sj_error_message = or_none (op_error_message r),
      sj_retryable = op_retryable r\<rparr>"

text \<open>\<open>_get_with_connection\<close>: the join of the submission with its operation.\<close>

definition get_job :: "job_store \<Rightarrow> str \<Rightarrow> str \<Rightarrow> job_store_error + stored_job" where
  "get_job st job_id environment =
     (case find (\<lambda>s. sub_id s = job_id \<and> sub_env s = environment) (submissions st) of
        None \<Rightarrow> Inl JobNotFound
      | Some s \<Rightarrow> (case find (\<lambda>r. op_id r = sub_op s) (operations st) of
          None \<Rightarrow> Inl JobNotFound
        | Some r \<Rightarrow> Inr (stored_job_of s r)))"

definition active_operation_count :: "job_store \<Rightarrow> str \<Rightarrow> nat" where
  "active_operation_count st environment =
     count_where (\<lambda>r. op_env r = environment \<and> active (op_state r)) (operations st)"

definition insert_operation :: "operation_row \<Rightarrow> job_store \<Rightarrow> job_store_error + job_store" where
  "insert_operation r st =
     demand KeyCollision (op_id r \<notin> op_id ` set (operations st) \<and> dedupe_index r \<notin> dedupe_index ` set (operations st))
       (Inr (st\<lparr>operations := operations st @ [r]\<rparr>))"

definition insert_submission :: "submission_row \<Rightarrow> job_store \<Rightarrow> job_store_error + job_store" where
  "insert_submission s st =
     demand KeyCollision
       (sub_id s \<notin> sub_id ` set (submissions st) \<and> submission_index s \<notin> submission_index ` set (submissions st))
       (Inr (st\<lparr>submissions := submissions st @ [s]\<rparr>))"

record submit_call =
  sc_environment :: str
  sc_actor :: str
  sc_key :: str
  sc_request_id :: str
  sc_operation :: job_operation
  sc_scope :: "notebook_scope list"
  sc_payload :: json
  sc_dedupe :: "str option"
  sc_max_active :: "nat option"
  sc_now :: int

text \<open>The operation a new submission refers to: the one with its key, or a new one.\<close>

definition place_operation ::
  "str \<Rightarrow> submit_call \<Rightarrow> str \<Rightarrow> job_store \<Rightarrow> job_store_error + (str \<times> bool \<times> job_store)" where
  "place_operation op_handle c dedupe st =
     (case find (\<lambda>r. op_env r = sc_environment c \<and> op_type r = sc_operation c \<and> op_dedupe r = dedupe) (operations st) of
        Some r \<Rightarrow> Inr (op_id r, False, st)
      | None \<Rightarrow>
          demand QueueFull
            (case sc_max_active c of None \<Rightarrow> True
             | Some limit \<Rightarrow> \<not> active_operation_count st (sc_environment c) \<ge> limit)
          (demand NotCanonicalizable
            (canonical_json (JArr (map scope_json (sc_scope c))) \<noteq> None \<and> canonical_json (sc_payload c) \<noteq> None)
          (and_then (insert_operation
             \<lparr>op_id = op_handle, op_env = sc_environment c, op_type = sc_operation c, op_dedupe = dedupe,
              op_scope = sc_scope c, op_payload = sort_keys (sc_payload c), op_state = QUEUED,
              op_progress = 0, op_detail = None, op_result = None, op_error_code = None,
              op_error_message = None, op_retryable = False, op_created = sc_now c, op_updated = sc_now c\<rparr> st)
           (\<lambda>st'. Inr (op_handle, True, st')))))"

definition submit_txn ::
  "(bytes \<Rightarrow> str) \<Rightarrow> str \<Rightarrow> str \<Rightarrow> submit_call \<Rightarrow> job_store \<Rightarrow> job_store_error + (submission_outcome \<times> job_store)" where
  "submit_txn sha op_handle job_handle c st =
     and_then (or_raise NotCanonicalizable (request_fingerprint sha (sc_operation c) (sc_scope c) (sc_payload c)))
     (\<lambda>fingerprint.
      let dedupe = (case or_none (sc_dedupe c) of Some k \<Rightarrow> k | None \<Rightarrow> fingerprint) in
      case find (\<lambda>s. sub_env s = sc_environment c \<and> sub_actor s = sc_actor c \<and> sub_key s = sc_key c)
             (submissions st) of
        Some s \<Rightarrow>
          demand IdempotencyConflict (sub_fingerprint s = fingerprint)
          (and_then (get_job st (sub_id s) (sc_environment c))
           (\<lambda>job. Inr (\<lparr>outcome_job = job, submission_created = False, operation_created = False\<rparr>, st)))
      | None \<Rightarrow>
          and_then (place_operation op_handle c dedupe st) (\<lambda>(operation_id, created, st1).
          and_then (insert_submission
             \<lparr>sub_id = job_handle, sub_env = sc_environment c, sub_actor = sc_actor c, sub_key = sc_key c,
              sub_request = sc_request_id c, sub_fingerprint = fingerprint, sub_op = operation_id,
              sub_created = sc_now c\<rparr> st1) (\<lambda>st2.
          and_then (get_job st2 job_handle (sc_environment c)) (\<lambda>job.
          Inr (\<lparr>outcome_job = job, submission_created = True, operation_created = created\<rparr>, st2)))))"

text \<open>A transaction: an exception rolls the store back.\<close>

definition transact :: "(job_store \<Rightarrow> job_store_error + ('a \<times> job_store)) \<Rightarrow> job_store
    \<Rightarrow> (job_store_error + 'a) \<times> job_store" where
  "transact body st = (case body st of Inl e \<Rightarrow> (Inl e, st) | Inr (x, st') \<Rightarrow> (Inr x, st'))"

definition submit ::
  "(bytes \<Rightarrow> str) \<Rightarrow> str \<Rightarrow> str \<Rightarrow> submit_call \<Rightarrow> job_store \<Rightarrow> (job_store_error + submission_outcome) \<times> job_store" where
  "submit sha op_handle job_handle c = transact (submit_txn sha op_handle job_handle c)"

section \<open>The runner's transitions\<close>

definition start_operation :: "int \<Rightarrow> operation_row \<Rightarrow> operation_row" where
  "start_operation now r = r\<lparr>op_state := RUNNING, op_progress := 0, op_detail := None, op_updated := now\<rparr>"

definition stored_operation_of :: "operation_row \<Rightarrow> submission_row \<Rightarrow> stored_operation" where
  "stored_operation_of r s =
     \<lparr>so_operation_id = op_id r, so_environment = op_env r, so_actor_user_id = sub_actor s,
      so_request_id = sub_request s, so_operation = op_type r, so_scope = op_scope r,
      so_payload = op_payload r, so_state = op_state r, so_progress = op_progress r,
      so_created_at = op_created r, so_updated_at = op_updated r\<rparr>"

text \<open>
  \<open>claim_next_operation\<close>. Its \<open>UPDATE\<close> names the row it has just read, so the branch for a
  changed row count is the one where the row is gone, which the transaction excludes.
\<close>

definition claim_next_operation ::
  "str \<Rightarrow> int \<Rightarrow> job_store \<Rightarrow> (job_store_error + stored_operation option) \<times> job_store" where
  "claim_next_operation environment now st =
     (if find (\<lambda>r. op_env r = environment \<and> op_state r = RUNNING) (operations st) \<noteq> None then (Inr None, st)
      else case find (\<lambda>r. op_env r = environment \<and> op_state r = QUEUED) (operations st) of
        None \<Rightarrow> (Inr None, st)
      | Some r \<Rightarrow> (case find (\<lambda>s. sub_op s = op_id r) (submissions st) of
          None \<Rightarrow> (Inl QueuedWithoutSubmission, st)
        | Some s \<Rightarrow> (Inr (Some (stored_operation_of (start_operation now r) s)),
            st\<lparr>operations := update_where (\<lambda>x. op_id x = op_id r \<and> op_state x = QUEUED) (start_operation now) (operations st)\<rparr>)))"

definition get_operation :: "str \<Rightarrow> job_store \<Rightarrow> job_store_error + stored_operation" where
  "get_operation operation_id st =
     (case find (\<lambda>r. op_id r = operation_id) (operations st) of
        None \<Rightarrow> Inl JobNotFound
      | Some r \<Rightarrow> (case find (\<lambda>s. sub_op s = operation_id) (submissions st) of
          None \<Rightarrow> Inl JobNotFound
        | Some s \<Rightarrow> Inr (stored_operation_of r s)))"

record transition =
  tr_from :: "job_state list"
  tr_state :: job_state
  tr_progress :: "rat option"
  tr_detail :: "json option"
  tr_result :: "json option"
  tr_error_code :: "str option"
  tr_error_message :: "str option"
  tr_retryable :: bool

definition coalesce :: "'a option \<Rightarrow> 'a option \<Rightarrow> 'a option" where
  "coalesce x y = (case x of None \<Rightarrow> y | Some _ \<Rightarrow> x)"

definition apply_transition :: "transition \<Rightarrow> int \<Rightarrow> operation_row \<Rightarrow> operation_row" where
  "apply_transition t now r =
     (let r' = r\<lparr>op_state := tr_state t,
                 op_progress := (case tr_progress t of Some p \<Rightarrow> p | None \<Rightarrow> op_progress r),
                 op_detail := coalesce (map_option sort_keys (tr_detail t)) (op_detail r),
                 op_result := map_option sort_keys (tr_result t),
                 op_error_code := tr_error_code t,
                 op_error_message := tr_error_message t,
                 op_retryable := tr_retryable t,
                 op_updated := now\<rparr>
      in if terminal (tr_state t) then vacate r' else r')"

definition encodable :: "json option \<Rightarrow> bool" where
  "encodable v \<longleftrightarrow> (case v of None \<Rightarrow> True | Some j \<Rightarrow> canonical_json j \<noteq> None)"

definition transition_txn :: "str \<Rightarrow> transition \<Rightarrow> int \<Rightarrow> job_store \<Rightarrow> job_store_error + (unit \<times> job_store)" where
  "transition_txn operation_id t now st =
     demand ProgressOutOfRange (case tr_progress t of None \<Rightarrow> True | Some p \<Rightarrow> 0 \<le> p \<and> p \<le> 1)
     (and_then (or_raise JobNotFound (find (\<lambda>r. op_id r = operation_id) (operations st))) (\<lambda>r.
      demand InvalidJobTransition (op_state r \<in> set (tr_from t))
     (demand NotCanonicalizable (encodable (tr_detail t) \<and> encodable (tr_result t))
     (and_then (or_raise KeyCollision
        (update_unique dedupe_index (\<lambda>x. op_id x = operation_id) (apply_transition t now) (operations st)))
      (\<lambda>ops. Inr ((), st\<lparr>operations := ops\<rparr>))))))"

definition transition_to ::
  "str \<Rightarrow> transition \<Rightarrow> int \<Rightarrow> job_store \<Rightarrow> (job_store_error + unit) \<times> job_store" where
  "transition_to operation_id t now = transact (transition_txn operation_id t now)"

definition plain_transition :: "job_state list \<Rightarrow> job_state \<Rightarrow> transition" where
  "plain_transition from to =
     \<lparr>tr_from = from, tr_state = to, tr_progress = None, tr_detail = None, tr_result = None,
      tr_error_code = None, tr_error_message = None, tr_retryable = False\<rparr>"

definition set_running :: "str \<Rightarrow> rat \<Rightarrow> int \<Rightarrow> job_store \<Rightarrow> (job_store_error + unit) \<times> job_store" where
  "set_running operation_id p now =
     transition_to operation_id ((plain_transition [QUEUED] RUNNING)\<lparr>tr_progress := Some p\<rparr>) now"

definition set_progress ::
  "str \<Rightarrow> rat \<Rightarrow> json option \<Rightarrow> int \<Rightarrow> job_store \<Rightarrow> (job_store_error + unit) \<times> job_store" where
  "set_progress operation_id p detail now =
     transition_to operation_id
       ((plain_transition [RUNNING] RUNNING)\<lparr>tr_progress := Some p, tr_detail := detail\<rparr>) now"

definition succeed :: "str \<Rightarrow> json \<Rightarrow> int \<Rightarrow> job_store \<Rightarrow> (job_store_error + unit) \<times> job_store" where
  "succeed operation_id result now =
     transition_to operation_id
       ((plain_transition [QUEUED, RUNNING] SUCCEEDED)\<lparr>tr_progress := Some 1, tr_result := Some result\<rparr>) now"

definition fail ::
  "str \<Rightarrow> str \<Rightarrow> str \<Rightarrow> bool \<Rightarrow> int \<Rightarrow> job_store \<Rightarrow> (job_store_error + unit) \<times> job_store" where
  "fail operation_id code message retryable now =
     transition_to operation_id
       ((plain_transition [QUEUED, RUNNING] FAILED)
          \<lparr>tr_error_code := Some code, tr_error_message := Some message, tr_retryable := retryable\<rparr>) now"

section \<open>Recovery and retention\<close>

definition resumable :: "job_operation \<Rightarrow> bool" where
  "resumable k \<longleftrightarrow> k = INGEST_BATCH \<or> k = INGEST_FINALIZE \<or> k = INDEX_REBUILD"

definition requeue :: "int \<Rightarrow> operation_row \<Rightarrow> operation_row" where
  "requeue now r = r\<lparr>op_state := QUEUED, op_progress := 0, op_updated := now\<rparr>"

definition abandon :: "int \<Rightarrow> operation_row \<Rightarrow> operation_row" where
  "abandon now r = vacate (r\<lparr>op_state := FAILED, op_error_code := Some (lit ''WORKER_RESTARTED''),
     op_error_message := Some (lit ''The worker restarted before the operation completed.''),
     op_retryable := True, op_updated := now\<rparr>)"

definition recover_interrupted_operations ::
  "int \<Rightarrow> job_store \<Rightarrow> (job_store_error + unit) \<times> job_store" where
  "recover_interrupted_operations now = transact (\<lambda>st.
     let requeued = update_where (\<lambda>r. op_state r = RUNNING \<and> resumable (op_type r)) (requeue now) (operations st)
     in and_then (or_raise KeyCollision
          (update_unique dedupe_index (\<lambda>r. op_state r = RUNNING \<and> \<not> resumable (op_type r)) (abandon now) requeued))
        (\<lambda>ops. Inr ((), st\<lparr>operations := ops\<rparr>)))"

text \<open>
  \<open>julianday(text)\<close> of a stored timestamp: SQLite keeps milliseconds, rounding the
  microseconds, and is strictly increasing in them.
\<close>

definition julianday :: "int \<Rightarrow> int" where
  "julianday us = (us + 500) div 1000"

definition expired_terminal :: "str \<Rightarrow> int \<Rightarrow> operation_row \<Rightarrow> bool" where
  "expired_terminal environment cutoff r \<longleftrightarrow>
     op_env r = environment \<and> terminal (op_state r) \<and> julianday (op_updated r) < julianday cutoff"

definition purge_terminal_operations :: "str \<Rightarrow> int \<Rightarrow> job_store \<Rightarrow> nat \<times> job_store" where
  "purge_terminal_operations environment cutoff st =
     (count_where (expired_terminal environment cutoff) (operations st),
      st\<lparr>submissions := delete_where
           (\<lambda>s. sub_op s \<in> op_id ` set (filter (expired_terminal environment cutoff) (operations st))) (submissions st),
         operations := delete_where (expired_terminal environment cutoff) (operations st)\<rparr>)"

section \<open>The catalogue of active indexes\<close>

text \<open>\<open>INSERT \<dots> ON CONFLICT DO UPDATE\<close>.\<close>

definition activate_index :: "notebook_scope \<Rightarrow> str \<Rightarrow> str \<Rightarrow> int \<Rightarrow> job_store \<Rightarrow> job_store" where
  "activate_index s environment artifact_id now st =
     (let k = (environment, notebook_id s, index_schema_version s)
      in if k \<in> active_index_key ` set (active_indexes st)
         then st\<lparr>active_indexes := update_where (\<lambda>r. active_index_key r = k)
                   (\<lambda>r. r\<lparr>ax_revision := content_revision s, ax_artifact := artifact_id, ax_activated := now\<rparr>)
                   (active_indexes st)\<rparr>
         else st\<lparr>active_indexes := active_indexes st @
                   [\<lparr>ax_env = environment, ax_notebook = notebook_id s, ax_schema = index_schema_version s,
                     ax_revision = content_revision s, ax_artifact = artifact_id, ax_activated = now\<rparr>]\<rparr>)"

fun activate_indexes :: "(notebook_scope \<times> str) list \<Rightarrow> str \<Rightarrow> int \<Rightarrow> job_store \<Rightarrow> job_store" where
  "activate_indexes [] environment now st = st"
| "activate_indexes ((s, artifact_id) # entries) environment now st =
     activate_indexes entries environment now (activate_index s environment artifact_id now st)"

definition lookup_index :: "job_store \<Rightarrow> str \<Rightarrow> notebook_scope \<Rightarrow> active_row option" where
  "lookup_index st environment s =
     find (\<lambda>r. active_index_key r = (environment, notebook_id s, index_schema_version s)) (active_indexes st)"

text \<open>\<open>active_index\<close>: the artifact and activation time of the scope's current revision.\<close>

definition active_index :: "notebook_scope \<Rightarrow> str \<Rightarrow> job_store \<Rightarrow> (notebook_scope \<times> str \<times> int) option" where
  "active_index s environment st =
     (case lookup_index st environment s of
        None \<Rightarrow> None
      | Some r \<Rightarrow> (if ax_revision r \<noteq> content_revision s then None
                  else Some (s, ax_artifact r, ax_activated r)))"

definition index_status :: "notebook_scope list \<Rightarrow> str \<Rightarrow> job_store \<Rightarrow> bool list" where
  "index_status scopes environment st =
     map (\<lambda>s. case lookup_index st environment s of None \<Rightarrow> False | Some r \<Rightarrow> ax_revision r = content_revision s) scopes"

record retention_snapshot =
  rs_idle :: bool
  rs_expired_indexes :: nat
  rs_active_scopes :: "notebook_scope list"
  rs_active_artifact_ids :: "str list"

definition storage_retention_snapshot :: "str \<Rightarrow> int \<Rightarrow> job_store \<Rightarrow> retention_snapshot \<times> job_store" where
  "storage_retention_snapshot environment cutoff st =
     (let idle = (active_operation_count st environment = 0);
          stale = (\<lambda>r. ax_env r = environment \<and> julianday (ax_activated r) < julianday cutoff);
          st' = (if idle then st\<lparr>active_indexes := delete_where stale (active_indexes st)\<rparr> else st);
          rows = sort_key (\<lambda>r. (ax_notebook r, ax_schema r))
                   (filter (\<lambda>r. ax_env r = environment) (active_indexes st'))
      in (\<lparr>rs_idle = idle,
           rs_expired_indexes = (if idle then count_where stale (active_indexes st) else 0),
           rs_active_scopes = map (\<lambda>r. \<lparr>notebook_id = ax_notebook r, content_revision = ax_revision r,
                                       index_schema_version = ax_schema r\<rparr>) rows,
           rs_active_artifact_ids = filter (\<lambda>a. a \<noteq> []) (map ax_artifact rows)\<rparr>, st'))"

end
