(* ===== verification/Rag_Core.thy ===== *)
theory Rag_Core
  imports Results
begin

text \<open>
  Retrieval and citation helpers of the worker (\<open>novo_chat/rag_core.py\<close>): tokenisation, the
  query plan that is used when no model plans, overlapping text chunks, diversification of
  ranked chunks by page, the context given to the model, and the citations of its answer.
  \<open>fold_text\<close> stands for Unicode NFKC normalisation followed by \<open>str.casefold\<close>, whose tables are not
  reproduced; \<open>text_of\<close> for \<open>str\<close> on a JSON value that is not a string.
\<close>

section \<open>Tokens\<close>

definition CHUNK_WORDS :: nat where "CHUNK_WORDS = 420"
definition CHUNK_OVERLAP_WORDS :: nat where "CHUNK_OVERLAP_WORDS = 70"
definition MAX_CHUNKS_PER_PAGE :: nat where "MAX_CHUNKS_PER_PAGE = 2"

definition scaffold_tokens :: "str list" where
  "scaffold_tokens = map lit
     [''a'', ''about'', ''an'', ''and'', ''are'', ''at'', ''be'', ''been'', ''being'', ''did'', ''do'', ''does'', ''for'',
      ''had'', ''has'', ''have'', ''how'', ''in'', ''is'', ''it'', ''me'', ''of'', ''on'', ''or'', ''please'', ''tell'',
      ''that'', ''the'', ''their'', ''them'', ''these'', ''they'', ''this'', ''those'', ''to'', ''was'', ''were'', ''what'',
      ''when'', ''where'', ''which'', ''who'', ''whom'', ''whose'', ''why'', ''with'']"

text \<open>The chain of \<open>replace\<close> calls: micro sign and mu, dashes, no-break space.\<close>

definition normalize_char :: "nat \<Rightarrow> nat" where
  "normalize_char c =
     (if c = 181 \<or> c = 956 then 117
      else if (8208 \<le> c \<and> c \<le> 8212) \<or> c = 8722 then 45
      else if c = 160 then 32 else c)"

definition normalize_search_text :: "str \<Rightarrow> str" where
  "normalize_search_text s = map normalize_char s"

text \<open>
  \<open>lower\<close> as far as \<open>[a-z0-9]+\<close> can see it: besides A to Z only the dotted capital I and the
  Kelvin sign lower to a text with an ASCII letter; every other character stays outside the class.
\<close>

definition lower_word_char :: "nat \<Rightarrow> str" where
  "lower_word_char c = (if is_upper c then [c + 32] else if c = 304 then [105, 775]
     else if c = 8490 then [107] else [c])"

definition word_char :: "nat \<Rightarrow> bool" where
  "word_char c \<longleftrightarrow> is_lower c \<or> is_digit c"

text \<open>The maximal runs of a class, which \<open>findall\<close> of a greedy class and \<open>split()\<close> both return.\<close>

function runs :: "('a \<Rightarrow> bool) \<Rightarrow> 'a list \<Rightarrow> 'a list list" where
  "runs p [] = []"
| "runs p (c # cs) = (if p c then (c # takeWhile p cs) # runs p (dropWhile p cs) else runs p cs)"
  by pat_completeness auto
termination by (relation "measure (\<lambda>(p, s). length s)") (auto simp: le_imp_less_Suc length_dropWhile_le)

definition words :: "str \<Rightarrow> str list" where
  "words s = runs (\<lambda>c. \<not> is_space c) s"

definition tokenize :: "str \<Rightarrow> str list" where
  "tokenize s = runs word_char (concat (map lower_word_char (normalize_search_text s)))"

definition meaningful_search_tokens :: "str \<Rightarrow> str list" where
  "meaningful_search_tokens s = filter (\<lambda>t. t \<notin> set scaffold_tokens) (tokenize s)"

section \<open>Planner terms\<close>

text \<open>
  Runs of characters that are neither letters, digits nor spaces, removed between two letters.
  The flag says that the character before is a letter.
\<close>

definition punctuation :: "nat \<Rightarrow> bool" where
  "punctuation c \<longleftrightarrow> \<not> word_char c \<and> \<not> is_space c"

function drop_inner :: "bool \<Rightarrow> str \<Rightarrow> str" where
  "drop_inner letter [] = []"
| "drop_inner letter (c # cs) =
     (if punctuation c
      then (let rest = dropWhile punctuation cs
        in if letter \<and> rest \<noteq> [] \<and> is_lower (hd rest) then drop_inner False rest
           else (c # takeWhile punctuation cs) @ drop_inner False rest)
      else c # drop_inner (is_lower c) cs)"
  by pat_completeness auto
termination by (relation "measure (\<lambda>(b, s). length s)") (auto simp: le_imp_less_Suc length_dropWhile_le)

definition planner_term_key :: "(str \<Rightarrow> str) \<Rightarrow> str \<Rightarrow> str" where
  "planner_term_key fold_text text =
     (let normalized = strip_by (\<lambda>c. \<not> word_char c) (py_strip (fold_text (normalize_search_text text)))
      in join [32] (words (drop_inner False normalized)))"

text \<open>The loop of \<open>sanitize_bm25_expansion_terms\<close>; \<open>n\<close> counts the terms kept so far.\<close>

fun sanitize_terms ::
  "(str \<Rightarrow> str) \<Rightarrow> str list \<Rightarrow> str list \<Rightarrow> nat \<Rightarrow> nat \<Rightarrow> str list \<Rightarrow> str list \<Rightarrow> str list \<Rightarrow> str list" where
  "sanitize_terms fold_text question_tokens question_keys limit n seen contributed [] = []"
| "sanitize_terms fold_text question_tokens question_keys limit n seen contributed (raw # raws) =
     (let term = py_strip raw; key = planner_term_key fold_text term;
          novel = filter (\<lambda>t. t \<notin> set question_tokens) (meaningful_search_tokens term)
      in if term = [] \<or> key = [] \<or> key \<in> set question_keys \<or> key \<in> set seen \<or> set novel \<subseteq> set contributed
         then sanitize_terms fold_text question_tokens question_keys limit n seen contributed raws
         else term # (if limit \<le> Suc n then []
           else sanitize_terms fold_text question_tokens question_keys limit (Suc n) (key # seen) (novel @ contributed) raws))"

definition question_keys :: "(str \<Rightarrow> str) \<Rightarrow> str \<Rightarrow> str list" where
  "question_keys fold_text asked = tokenize asked
     @ filter (\<lambda>k. k \<noteq> []) (map (planner_term_key fold_text) (words (normalize_search_text asked)))"

definition sanitize_bm25_expansion_terms :: "(str \<Rightarrow> str) \<Rightarrow> str \<Rightarrow> str list \<Rightarrow> nat \<Rightarrow> str list" where
  "sanitize_bm25_expansion_terms fold_text asked terms limit =
     sanitize_terms fold_text (tokenize asked) (question_keys fold_text asked) limit 0 [] [] terms"

definition retrieval_plan_adds_signal :: "(str \<Rightarrow> str) \<Rightarrow> str \<Rightarrow> str \<Rightarrow> str list \<Rightarrow> nat \<Rightarrow> bool" where
  "retrieval_plan_adds_signal fold_text asked semantic terms minimum =
     (let question_tokens = set (meaningful_search_tokens (planner_term_key fold_text asked));
          expanded = set (concat (map (\<lambda>t. meaningful_search_tokens (planner_term_key fold_text t)) (semantic # terms)))
      in minimum \<le> card (expanded - question_tokens))"

text \<open>The first \<open>n\<close> different elements: the loops that skip what was seen and stop at a limit.\<close>

fun first_distinct :: "nat \<Rightarrow> 'a list \<Rightarrow> 'a list \<Rightarrow> 'a list" where
  "first_distinct n seen [] = []"
| "first_distinct 0 seen (x # xs) = []"
| "first_distinct (Suc n) seen (x # xs) =
     (if x \<in> set seen then first_distinct (Suc n) seen xs else x # first_distinct n (x # seen) xs)"

definition fallback_semantic_query :: "str \<Rightarrow> str option \<Rightarrow> str" where
  "fallback_semantic_query asked contextual =
     (let given = py_strip (case contextual of None \<Rightarrow> [] | Some q \<Rightarrow> q);
          semantic = (if given = [] then py_strip asked else given);
          semantic = (if length semantic > 4000
                      then lstrip_by is_space (drop (length semantic - 4000) semantic) else semantic)
      in if semantic \<noteq> [] then semantic
         else if take 4000 asked \<noteq> [] then take 4000 asked else lit ''Search Novo notes'')"

text \<open>\<open>fallback_retrieval_plan\<close>; \<open>None\<close> is the \<open>ValidationError\<close> of the plan it builds.\<close>

definition fallback_retrieval_plan :: "(str \<Rightarrow> str) \<Rightarrow> str \<Rightarrow> str option \<Rightarrow> retrieval_plan option" where
  "fallback_retrieval_plan casefold asked contextual =
     make_plan casefold asked (fallback_semantic_query asked contextual)
       (first_distinct 32 [] (tokenize asked)) FALLBACK"

section \<open>Chunks\<close>

text \<open>The windows of \<open>chunk_text\<close>, on the tokens from the current start on.\<close>

function windows :: "nat \<Rightarrow> nat \<Rightarrow> 'a list \<Rightarrow> 'a list list" where
  "windows width step xs =
     (if take width xs = [] then []
      else take width xs # (if width \<ge> length xs then [] else windows width step (drop (max 1 step) xs)))"
  by pat_completeness auto
termination by (relation "measure (\<lambda>(width, step, xs). length xs)") auto

declare windows.simps [simp del]

definition chunk_text :: "nat \<Rightarrow> nat \<Rightarrow> str \<Rightarrow> str list" where
  "chunk_text width overlap body =
     (let tokens = words body
      in if tokens = [] then []
         else if length tokens \<le> width then [join [32] tokens]
         else map (join [32]) (windows width (width - overlap) tokens))"

section \<open>Diversification\<close>

text \<open>The second loop of \<open>diversify_by_page\<close>: what was deferred fills the remaining places.\<close>

fun fill_deferred :: "nat \<Rightarrow> 'a list \<Rightarrow> 'a list \<Rightarrow> 'a list" where
  "fill_deferred wanted selected [] = selected"
| "fill_deferred wanted selected (item # items) =
     (if length (selected @ [item]) \<ge> wanted then selected @ [item]
      else fill_deferred wanted (selected @ [item]) items)"

fun diversify ::
  "('i \<Rightarrow> 'p) \<Rightarrow> nat \<Rightarrow> nat \<Rightarrow> ('p \<Rightarrow> nat) \<Rightarrow> ('i \<times> 's) list \<Rightarrow> ('i \<times> 's) list \<Rightarrow> ('i \<times> 's) list \<Rightarrow> ('i \<times> 's) list" where
  "diversify page max_per_page wanted per_page selected deferred [] = fill_deferred wanted selected deferred"
| "diversify page max_per_page wanted per_page selected deferred ((i, score) # ranked) =
     (if per_page (page i) < max_per_page
      then if length (selected @ [(i, score)]) \<ge> wanted then selected @ [(i, score)]
           else diversify page max_per_page wanted (per_page(page i := per_page (page i) + 1))
                  (selected @ [(i, score)]) deferred ranked
      else if length selected \<ge> wanted then selected
           else diversify page max_per_page wanted per_page selected (deferred @ [(i, score)]) ranked)"

definition diversify_by_page ::
  "('i \<Rightarrow> 'p) \<Rightarrow> nat \<Rightarrow> nat \<Rightarrow> ('i \<times> 's) list \<Rightarrow> ('i \<times> 's) list" where
  "diversify_by_page page max_per_page wanted ranked = diversify page max_per_page wanted (\<lambda>_. 0) [] [] ranked"

text \<open>\<open>str(value)\<close>, and \<open>str(value or "")\<close>, of a decoded field.\<close>

definition py_str :: "(json \<Rightarrow> str) \<Rightarrow> json \<Rightarrow> str" where
  "py_str text_of j = (case j of JStr s \<Rightarrow> s | JInt i \<Rightarrow> render_int i | JNull \<Rightarrow> lit ''None''
     | JBool b \<Rightarrow> (if b then lit ''True'' else lit ''False'') | _ \<Rightarrow> text_of j)"

definition truthy :: "json option \<Rightarrow> bool" where
  "truthy v = (case v of None \<Rightarrow> False | Some j \<Rightarrow> (case j of JNull \<Rightarrow> False | JBool b \<Rightarrow> b | JInt i \<Rightarrow> i \<noteq> 0
     | JStr s \<Rightarrow> s \<noteq> [] | JArr xs \<Rightarrow> xs \<noteq> [] | JObj kvs \<Rightarrow> kvs \<noteq> []))"

definition str_or_empty :: "(json \<Rightarrow> str) \<Rightarrow> json option \<Rightarrow> str" where
  "str_or_empty text_of v = (if truthy v then py_str text_of (the v) else [])"

type_synonym chunk = "(str \<times> json) list"

text \<open>\<open>str(chunk.get("page_id") or chunk.get("file") or index)\<close>.\<close>

definition chunk_page :: "(json \<Rightarrow> str) \<Rightarrow> chunk list \<Rightarrow> nat \<Rightarrow> str" where
  "chunk_page text_of chunks i =
     (let c = chunks ! i
      in if truthy (map_of c (lit ''page_id'')) then py_str text_of (the (map_of c (lit ''page_id'')))
         else if truthy (map_of c (lit ''file'')) then py_str text_of (the (map_of c (lit ''file'')))
         else render_nat i)"

section \<open>Context\<close>

text \<open>
  A hit is a chunk with its source number; \<open>f"{hit.get(key, '')}"\<close> is \<open>hit_text\<close>. A list field
  is iterated as Python does (characters of a text, keys of an object); a nonzero number or
  \<open>True\<close> there, which would raise, is not among the values \<open>_chunks_for_pages\<close> writes.
\<close>

definition hit_text :: "(json \<Rightarrow> str) \<Rightarrow> string \<Rightarrow> chunk \<Rightarrow> str" where
  "hit_text text_of key hit = (case map_of hit (lit key) of None \<Rightarrow> [] | Some j \<Rightarrow> py_str text_of j)"

definition hit_list :: "(json \<Rightarrow> str) \<Rightarrow> string \<Rightarrow> chunk \<Rightarrow> str list" where
  "hit_list text_of key hit = (case map_of hit (lit key) of
     Some (JArr xs) \<Rightarrow> map (py_str text_of) xs | Some (JStr s) \<Rightarrow> map (\<lambda>c. [c]) s
   | Some (JObj kvs) \<Rightarrow> map fst kvs | _ \<Rightarrow> [])"

definition source_block :: "(json \<Rightarrow> str) \<Rightarrow> int \<times> chunk \<Rightarrow> str" where
  "source_block text_of = (\<lambda>(source_idx, hit).
     (let metadata = (case map_of hit (lit ''metadata'') of Some (JObj kvs) \<Rightarrow> kvs | _ \<Rightarrow> []);
          tag_list = hit_list text_of ''tags'' hit; names = hit_list text_of ''attachments'' hit
      in join [10]
        ([lit ''SOURCE ['' @ render_int source_idx @ lit '']: `'' @ hit_text text_of ''file'' hit @ lit ''`'',
          lit ''Novo page ID: '' @ hit_text text_of ''page_id'' hit,
          lit ''Notebook: '' @ hit_text text_of ''notebook'' hit,
          lit ''Title: '' @ hit_text text_of ''title'' hit,
          lit ''Created: '' @ hit_text text_of ''created'' metadata]
         @ (if tag_list = [] then [] else [lit ''Tags: '' @ join (lit '', '') tag_list])
         @ (if names = [] then [] else [lit ''Attachments: '' @ join (lit ''; '') names])
         @ [[], str_or_empty text_of (map_of hit (lit ''text''))])))"

definition format_context :: "(json \<Rightarrow> str) \<Rightarrow> (int \<times> chunk) list \<Rightarrow> nat \<Rightarrow> str" where
  "format_context text_of hits limit = join [10, 10] (map (source_block text_of) (take limit hits))"

section \<open>Citations\<close>

text \<open>The zeros of the blocks of ten decimal digits of Unicode 15 (\<open>\d\<close>, \<open>int\<close>).\<close>

definition digit_zeros :: "nat list" where
  "digit_zeros =
     [48, 1632, 1776, 1984, 2406, 2534, 2662, 2790, 2918, 3046, 3174, 3302, 3430, 3558, 3664, 3792, 3872,
      4160, 4240, 6112, 6160, 6470, 6608, 6784, 6800, 6992, 7088, 7232, 7248, 42528, 43216, 43264, 43472,
      43504, 43600, 44016, 65296, 66720, 68912, 69734, 69872, 69942, 70096, 70384, 70736, 70864, 71248,
      71360, 71472, 71904, 72016, 72784, 73040, 73120, 73552, 92768, 92864, 93008, 120782, 120792, 120802,
      120812, 120822, 123200, 123632, 124144, 125264, 130032]"

definition decimal_value :: "nat \<Rightarrow> nat option" where
  "decimal_value c = map_option (\<lambda>z. c - z) (find (\<lambda>z. z \<le> c \<and> c < z + 10) digit_zeros)"

definition is_decimal :: "nat \<Rightarrow> bool" where
  "is_decimal c \<longleftrightarrow> decimal_value c \<noteq> None"

text \<open>
  \<open>(?:\d+\s*,\s*)*\d+\<close>, with what follows it: no shorter match can be followed by anything the
  two patterns allow, since a digit, a space or a comma would come next.
\<close>

function citation_group :: "str \<Rightarrow> (str \<times> str) option" where
  "citation_group s =
     (let ds = takeWhile is_decimal s; r = dropWhile is_decimal s; r1 = dropWhile is_space r
      in if ds = [] then None
         else if r1 \<noteq> [] \<and> hd r1 = 44
         then map_option (\<lambda>(g, rest). (ds @ takeWhile is_space r @ 44 # takeWhile is_space (tl r1) @ g, rest))
                (citation_group (dropWhile is_space (tl r1)))
         else Some (ds, r))"
  by pat_completeness auto
termination
proof (relation "measure length", simp, clarify)
  fix s :: str
  let ?r = "dropWhile is_space (dropWhile is_decimal s)"
  assume "?r \<noteq> []"
  then have "length (tl ?r) < length ?r" by simp
  moreover have "length ?r \<le> length s" by (meson length_dropWhile_le le_trans)
  moreover have "length (dropWhile is_space (tl ?r)) \<le> length (tl ?r)" by (rule length_dropWhile_le)
  ultimately show "(dropWhile is_space (tl ?r), s) \<in> measure length" by simp
qed

declare citation_group.simps [simp del]

text \<open>A match of \<open>_CITATION_RE\<close> at the head of the text: its group and the text after it.\<close>

definition citation_at :: "str \<Rightarrow> (str \<times> str) option" where
  "citation_at s = (if s = [] \<or> hd s \<noteq> 91 then None
     else case citation_group (tl s) of
       None \<Rightarrow> None
     | Some (g, r) \<Rightarrow> (if r \<noteq> [] \<and> hd r = 93 then Some (g, tl r) else None))"

text \<open>The same for \<open>_NONSTANDARD_CITATION_RE\<close>: lenticular brackets, an optional dagger part.\<close>

definition nonstandard_at :: "str \<Rightarrow> (str \<times> str) option" where
  "nonstandard_at s = (if s = [] \<or> hd s \<noteq> 12304 then None
     else case citation_group (dropWhile is_space (tl s)) of
       None \<Rightarrow> None
     | Some (g, r) \<Rightarrow>
         (let r1 = (if r \<noteq> [] \<and> hd r = 8224 then dropWhile (\<lambda>c. c \<noteq> 12305) r else r)
          in if r1 \<noteq> [] \<and> hd r1 = 12305 then Some (g, tl r1) else None))"

text \<open>\<open>findall\<close>: the groups of the matches, left to right without overlap; fuel is the length.\<close>

fun find_groups :: "(str \<Rightarrow> (str \<times> str) option) \<Rightarrow> nat \<Rightarrow> str \<Rightarrow> str list" where
  "find_groups match 0 s = []"
| "find_groups match (Suc n) s = (case s of [] \<Rightarrow> []
     | c # cs \<Rightarrow> (case match s of None \<Rightarrow> find_groups match n cs | Some (g, rest) \<Rightarrow> g # find_groups match n rest))"

definition find_all :: "(str \<Rightarrow> (str \<times> str) option) \<Rightarrow> str \<Rightarrow> str list" where
  "find_all match s = find_groups match (length s) s"

text \<open>\<open>sub\<close> with a replacement built from the group.\<close>

fun sub_groups :: "(str \<Rightarrow> (str \<times> str) option) \<Rightarrow> (str \<Rightarrow> str) \<Rightarrow> nat \<Rightarrow> str \<Rightarrow> str" where
  "sub_groups match build 0 s = s"
| "sub_groups match build (Suc n) s = (case s of [] \<Rightarrow> []
     | c # cs \<Rightarrow> (case match s of None \<Rightarrow> c # sub_groups match build n cs
          | Some (g, rest) \<Rightarrow> build g @ sub_groups match build n rest))"

text \<open>\<open>int(raw.strip())\<close> of an element of a group; \<open>None\<close> is \<open>ValueError\<close>.\<close>

definition decimal_int :: "str \<Rightarrow> nat option" where
  "decimal_int raw = (let s = py_strip raw
     in if s \<noteq> [] \<and> list_all is_decimal s \<and> length s \<le> 4300
        then Some (foldl (\<lambda>n c. 10 * n + the (decimal_value c)) 0 s) else None)"

definition citation_numbers :: "str list \<Rightarrow> nat list" where
  "citation_numbers groups =
     (let numbers = List.map_filter decimal_int (concat (map (split_on 44) groups))
      in first_distinct (length numbers) [] numbers)"

text \<open>The last \<open>sub\<close> of \<open>normalize_citation_glyphs\<close>: a space before a citation that touches a word.\<close>

fun space_citations :: "nat \<Rightarrow> bool \<Rightarrow> str \<Rightarrow> str" where
  "space_citations 0 touching s = s"
| "space_citations (Suc n) touching s = (case s of [] \<Rightarrow> []
     | c # cs \<Rightarrow> (case (if touching then citation_at s else None) of
            None \<Rightarrow> c # space_citations n (\<not> is_space c) cs
          | Some (g, rest) \<Rightarrow> 32 # 91 # g @ 93 # space_citations n True rest))"

definition normalize_citation_glyphs :: "str \<Rightarrow> str \<times> nat list" where
  "normalize_citation_glyphs answer =
     (let normalized = sub_groups nonstandard_at (\<lambda>g. 91 # g @ [93]) (length answer) answer
      in (space_citations (length normalized) False normalized, citation_numbers (find_all nonstandard_at answer)))"

record citation_check =
  check_ok :: bool
  cited_sources :: "nat list"
  missing_sources :: "nat list"
  nonstandard_sources :: "nat list"
  valid_sources :: "nat list"

definition NO_INFORMATION :: str where
  "NO_INFORMATION = lit ''The provided documents do not contain this information.''"

definition disclaims :: "str \<Rightarrow> bool" where
  "disclaims answer \<longleftrightarrow> take (length NO_INFORMATION) (py_strip answer) = NO_INFORMATION"

definition check_citations :: "str \<Rightarrow> nat list \<Rightarrow> citation_check" where
  "check_citations answer valid_source_ids =
     (let valid = sort (remdups valid_source_ids);
          cited = citation_numbers (find_all citation_at answer);
          nonstandard = citation_numbers (find_all nonstandard_at answer);
          missing = filter (\<lambda>n. n \<notin> set valid) cited
      in \<lparr>check_ok = (cited \<noteq> [] \<or> disclaims answer \<or> valid = []) \<and> missing = [] \<and> nonstandard = [],
          cited_sources = cited, missing_sources = missing, nonstandard_sources = nonstandard, valid_sources = valid\<rparr>)"

end
