(* ===== verification/Documents.thy ===== *)
theory Documents
  imports Protocol
begin

text \<open>
  The document store of the worker (\<open>novo_chat/documents.py\<close>): batches of pages are staged as
  immutable files, one directory per notebook scope, and a complete export is promoted to one
  finalized file. A directory is its name, its modification time and its files; a file is the
  JSON value it holds, or unreadable bytes. The \<open>ValueError\<close> of \<open>canonical_json\<close>, which the
  store does not catch, is \<open>Value_Error\<close>. \<open>sha\<close> is the hex digest of \<open>hashlib.sha256\<close>;
  \<open>scope_model\<close> and \<open>page_model\<close> stand for pydantic's \<open>NotebookScope.model_validate\<close> and
  \<open>PageDocument.model_validate\<close> (\<open>None\<close> for \<open>ValueError\<close>). Failing system calls are not modelled.
\<close>

section \<open>Files and directories\<close>

datatype stored_file = Json json | Junk nat

record directory =
  dir_name :: str
  dir_plain :: bool
  dir_mtime :: int
  dir_files :: "(str \<times> stored_file) list"

record document_store =
  staging :: "directory list"
  finalized :: "directory list"
  bytes_used :: int
  max_bytes :: int

abbreviation corrupt :: "string \<Rightarrow> exn" where
  "corrupt message \<equiv> coded ''DOCUMENT_STORE_CORRUPT'' message False"

definition json_size :: "json \<Rightarrow> nat" where
  "json_size j = (case canonical_json j of None \<Rightarrow> 0 | Some b \<Rightarrow> length b)"

definition file_size :: "stored_file \<Rightarrow> nat" where
  "file_size f = (case f of Json j \<Rightarrow> json_size j | Junk n \<Rightarrow> n)"

text \<open>\<open>_tree_size\<close> of one directory, and of the whole store.\<close>

definition directory_size :: "directory \<Rightarrow> nat" where
  "directory_size d = sum_list (map (file_size \<circ> snd) (dir_files d))"

definition tree_size :: "document_store \<Rightarrow> nat" where
  "tree_size st = sum_list (map directory_size (staging st)) + sum_list (map directory_size (finalized st))"

definition find_directory :: "str \<Rightarrow> directory list \<Rightarrow> directory option" where
  "find_directory key dirs = find (\<lambda>d. dir_name d = key) dirs"

definition find_file :: "str \<Rightarrow> str \<Rightarrow> directory list \<Rightarrow> stored_file option" where
  "find_file key name dirs =
     (case find_directory key dirs of None \<Rightarrow> None | Some d \<Rightarrow> map_of (dir_files d) name)"

text \<open>\<open>_atomic_json\<close>: the parent directory is made when missing, the file replaced whole.\<close>

definition put_file :: "str \<Rightarrow> stored_file \<Rightarrow> (str \<times> stored_file) list \<Rightarrow> (str \<times> stored_file) list" where
  "put_file name f files = (if name \<in> fst ` set files
     then update_where (\<lambda>(n, _). n = name) (\<lambda>(n, _). (n, f)) files else files @ [(name, f)])"

definition atomic_json :: "str \<Rightarrow> str \<Rightarrow> json \<Rightarrow> int \<Rightarrow> directory list \<Rightarrow> directory list" where
  "atomic_json key name value now dirs =
     (if key \<in> dir_name ` set dirs
      then update_where (\<lambda>d. dir_name d = key)
             (\<lambda>d. d\<lparr>dir_mtime := now, dir_files := put_file name (Json (sort_keys value)) (dir_files d)\<rparr>) dirs
      else dirs @ [\<lparr>dir_name = key, dir_plain = True, dir_mtime = now, dir_files = [(name, Json (sort_keys value))]\<rparr>])"

text \<open>\<open>_read_json\<close>; a missing file raises \<open>OSError\<close>, which is caught like the others.\<close>

definition read_json :: "stored_file option \<Rightarrow> exn + (str \<times> json) list" where
  "read_json f = (case f of Some (Json (JObj kvs)) \<Rightarrow> Inr kvs
     | _ \<Rightarrow> Inl (corrupt ''Stored document data is invalid.''))"

section \<open>Payloads\<close>

definition scope_key :: "(bytes \<Rightarrow> str) \<Rightarrow> notebook_scope \<Rightarrow> str option" where
  "scope_key sha s = map_option sha (canonical_json (scope_json s))"

definition batch_payload :: "notebook_scope \<Rightarrow> int \<Rightarrow> str \<Rightarrow> page_document list \<Rightarrow> json" where
  "batch_payload s n checksum ps = JObj
     [(lit ''protocolVersion'', JStr (lit ''1'')),
      (lit ''scope'', scope_json s),
      (lit ''batchNumber'', JInt n),
      (lit ''batchChecksum'', JStr checksum),
      (lit ''pages'', JArr (map page_json ps))]"

definition final_payload :: "notebook_scope \<Rightarrow> str \<Rightarrow> page_document list \<Rightarrow> int \<Rightarrow> json" where
  "final_payload s checksum ps batches = JObj
     [(lit ''protocolVersion'', JStr (lit ''1'')),
      (lit ''scope'', scope_json s),
      (lit ''documentChecksum'', JStr checksum),
      (lit ''pageCount'', JInt (int (length ps))),
      (lit ''batchCount'', JInt batches),
      (lit ''pages'', JArr (map page_json ps))]"

text \<open>\<open>f"{number:08d}.json"\<close>, and the number read back from such a name.\<close>

definition batch_name :: "nat \<Rightarrow> str" where
  "batch_name n = replicate (8 - length (render_nat n)) 48 @ render_nat n @ lit ''.json''"

definition batch_number_of :: "str \<Rightarrow> nat option" where
  "batch_number_of name =
     (let stem = take (length name - 5) name
      in if 5 < length name \<and> drop (length name - 5) name = lit ''.json'' \<and> list_all is_digit stem
         then Some (nat_of_digits stem) else None)"

text \<open>
  \<open>int(value)\<close> of a decoded field, \<open>str(value or "")\<close> of one, and the validated pages. A
  checksum field that is not a string never equals a digest, whatever \<open>str\<close> makes of it.
\<close>

definition int_field :: "json option \<Rightarrow> int option" where
  "int_field v = (case v of Some (JInt i) \<Rightarrow> Some i | Some (JStr s) \<Rightarrow> py_int 10 s
     | Some (JBool b) \<Rightarrow> Some (if b then 1 else 0) | _ \<Rightarrow> None)"

definition text_field :: "json option \<Rightarrow> str" where
  "text_field v = (case v of Some (JStr s) \<Rightarrow> s | _ \<Rightarrow> [])"

definition pages_field :: "(json \<Rightarrow> page_document option) \<Rightarrow> json option \<Rightarrow> page_document list option" where
  "pages_field page_model v = (case v of None \<Rightarrow> Some [] | Some (JArr xs) \<Rightarrow> option_list (map page_model xs)
     | Some (JObj []) \<Rightarrow> Some [] | Some (JStr []) \<Rightarrow> Some [] | _ \<Rightarrow> None)"

definition scope_field :: "(json \<Rightarrow> notebook_scope option) \<Rightarrow> json option \<Rightarrow> notebook_scope option" where
  "scope_field scope_model v = scope_model (case v of None \<Rightarrow> JNull | Some j \<Rightarrow> j)"

section \<open>Operations\<close>

definition ensure_capacity :: "document_store \<Rightarrow> int \<Rightarrow> bool" where
  "ensure_capacity st additional \<longleftrightarrow> \<not> (additional < 0 \<or> bytes_used st + additional > max_bytes st)"

abbreviation quota_exceeded :: exn where
  "quota_exceeded \<equiv> coded ''STORAGE_QUOTA_EXCEEDED''
     ''Normalized document storage reached its configured limit.'' False"

text \<open>\<open>stage_batch\<close>; \<open>batch_number\<close> is not negative, as the request model requires.\<close>

definition stage_batch ::
  "(bytes \<Rightarrow> str) \<Rightarrow> notebook_scope \<Rightarrow> nat \<Rightarrow> str \<Rightarrow> page_document list \<Rightarrow> int \<Rightarrow> document_store
     \<Rightarrow> (exn + nat) \<times> document_store" where
  "stage_batch sha s n checksum ps now st =
     (let payload = batch_payload s (int n) checksum ps in
      case and_then (or_raise Value_Error (ingest_pages_checksum sha ps)) (\<lambda>actual.
        demand (coded ''CHECKSUM_MISMATCH'' ''Ingest batch checksum does not match its content.'' False)
          (actual = checksum)
        (and_then (or_raise Value_Error (scope_key sha s)) (\<lambda>key.
          and_then (or_raise Value_Error (canonical_json payload)) (\<lambda>rendered.
            case find_file key (batch_name n) (staging st) of
              Some f \<Rightarrow> and_then (read_json (Some f)) (\<lambda>existing.
                demand (coded ''INGEST_BATCH_CONFLICT''
                    ''A different batch already exists for this notebook revision.'' False)
                  (canonical_json (JObj existing) = Some rendered) (Inr None))
            | None \<Rightarrow> demand quota_exceeded (ensure_capacity st (int (length rendered))) (Inr (Some (key, rendered)))))))
      of
        Inl e \<Rightarrow> (Inl e, st)
      | Inr None \<Rightarrow> (Inr (length ps), st)
      | Inr (Some (key, rendered)) \<Rightarrow> (Inr (length ps),
          st\<lparr>staging := atomic_json key (batch_name n) payload now (staging st),
             bytes_used := bytes_used st + int (length rendered)\<rparr>))"

record finalized_document =
  fd_scope :: notebook_scope
  fd_checksum :: str
  fd_pages :: "page_document list"

text \<open>One batch as \<open>finalize\<close> reads it back.\<close>

definition read_batch ::
  "(bytes \<Rightarrow> str) \<Rightarrow> (json \<Rightarrow> notebook_scope option) \<Rightarrow> (json \<Rightarrow> page_document option) \<Rightarrow> notebook_scope
     \<Rightarrow> nat \<Rightarrow> stored_file option \<Rightarrow> exn + page_document list" where
  "read_batch sha scope_model page_model s n f =
     and_then (read_json f) (\<lambda>payload.
       and_then (or_raise (corrupt ''Stored ingest batch is invalid.'') (scope_field scope_model (map_of payload (lit ''scope'')))) (\<lambda>stored_scope.
       and_then (or_raise (corrupt ''Stored ingest batch is invalid.'') (int_field (map_of payload (lit ''batchNumber'')))) (\<lambda>stored_number.
       and_then (or_raise (corrupt ''Stored ingest batch is invalid.'') (pages_field page_model (map_of payload (lit ''pages'')))) (\<lambda>stored_pages.
       demand (corrupt ''Stored ingest batch is invalid.'') (stored_scope = s \<and> stored_number = int n)
       (and_then (or_raise Value_Error (ingest_pages_checksum sha stored_pages)) (\<lambda>actual.
       demand (corrupt ''Stored ingest batch checksum is invalid.'')
         (actual = text_field (map_of payload (lit ''batchChecksum''))) (Inr stored_pages)))))))"

definition present_numbers :: "str \<Rightarrow> directory list \<Rightarrow> nat set" where
  "present_numbers key dirs = (case find_directory key dirs of None \<Rightarrow> {}
     | Some d \<Rightarrow> set (List.map_filter (batch_number_of \<circ> fst) (dir_files d)))"

abbreviation batches_incomplete :: exn where
  "batches_incomplete \<equiv> coded ''INGEST_BATCHES_INCOMPLETE''
     ''Ingest batches are missing, duplicated, or not contiguous.'' True"

text \<open>The checks of \<open>finalize\<close> before anything is written.\<close>

definition collect_pages ::
  "(bytes \<Rightarrow> str) \<Rightarrow> (json \<Rightarrow> notebook_scope option) \<Rightarrow> (json \<Rightarrow> page_document option) \<Rightarrow> notebook_scope
     \<Rightarrow> str \<Rightarrow> str \<Rightarrow> nat \<Rightarrow> nat \<Rightarrow> document_store \<Rightarrow> exn + page_document list" where
  "collect_pages sha scope_model page_model s key checksum page_total batch_total st =
     demand batches_incomplete (present_numbers key (staging st) = {0..<batch_total})
     (and_then (map_err (\<lambda>n. read_batch sha scope_model page_model s n (find_file key (batch_name n) (staging st))) [0..<batch_total]) (\<lambda>batches.
      let ps = concat batches in
      demand (coded ''DUPLICATE_PAGE'' ''Notebook export contains a duplicate page ID.'' False) (distinct (map page_id ps))
     (demand (coded ''PAGE_COUNT_MISMATCH'' ''Notebook export page count does not match.'' False) (length ps = page_total)
     (and_then (or_raise Value_Error (document_pages_checksum sha ps)) (\<lambda>actual.
      demand (coded ''DOCUMENT_CHECKSUM_MISMATCH'' ''Notebook export checksum does not match.'' False)
        (actual = checksum) (Inr ps))))))"

text \<open>\<open>shutil.rmtree\<close> of the staging directory and the bytes it gives back.\<close>

definition drop_staging :: "str \<Rightarrow> document_store \<Rightarrow> document_store" where
  "drop_staging key st = (case find_directory key (staging st) of None \<Rightarrow> st
     | Some d \<Rightarrow> st\<lparr>staging := filter (\<lambda>x. dir_name x \<noteq> key) (staging st),
                   bytes_used := max 0 (bytes_used st - int (directory_size d))\<rparr>)"

definition finalize_txn ::
  "(bytes \<Rightarrow> str) \<Rightarrow> (json \<Rightarrow> notebook_scope option) \<Rightarrow> (json \<Rightarrow> page_document option) \<Rightarrow> notebook_scope
     \<Rightarrow> str \<Rightarrow> nat \<Rightarrow> nat \<Rightarrow> int \<Rightarrow> document_store \<Rightarrow> exn + (finalized_document \<times> document_store)" where
  "finalize_txn sha scope_model page_model s checksum page_total batch_total now st =
     and_then (or_raise Value_Error (scope_key sha s)) (\<lambda>key.
     and_then (collect_pages sha scope_model page_model s key checksum page_total batch_total st) (\<lambda>ps.
     let payload = final_payload s checksum ps (int batch_total);
         doc = \<lparr>fd_scope = s, fd_checksum = checksum, fd_pages = ps\<rparr> in
     case find_file key (lit ''document.json'') (finalized st) of
       Some f \<Rightarrow> and_then (read_json (Some f)) (\<lambda>existing.
         demand (coded ''CONTENT_REVISION_CONFLICT''
             ''Stored content differs for the same declared content revision.'' False)
           (text_field (map_of existing (lit ''documentChecksum'')) = checksum) (Inr (doc, drop_staging key st)))
     | None \<Rightarrow> and_then (or_raise Value_Error (canonical_json payload)) (\<lambda>rendered.
         demand quota_exceeded (ensure_capacity st (int (length rendered)))
           (Inr (doc, drop_staging key (st\<lparr>finalized := atomic_json key (lit ''document.json'') payload now (finalized st),
                bytes_used := bytes_used st + int (length rendered)\<rparr>))))))"

text \<open>\<open>finalize\<close>: an error leaves the store as it was.\<close>

definition finalize ::
  "(bytes \<Rightarrow> str) \<Rightarrow> (json \<Rightarrow> notebook_scope option) \<Rightarrow> (json \<Rightarrow> page_document option) \<Rightarrow> notebook_scope
     \<Rightarrow> str \<Rightarrow> nat \<Rightarrow> nat \<Rightarrow> int \<Rightarrow> document_store \<Rightarrow> (exn + finalized_document) \<times> document_store" where
  "finalize sha scope_model page_model s checksum page_total batch_total now st =
     (case finalize_txn sha scope_model page_model s checksum page_total batch_total now st of
        Inl e \<Rightarrow> (Inl e, st) | Inr (doc, st') \<Rightarrow> (Inr doc, st'))"

definition load_document ::
  "(bytes \<Rightarrow> str) \<Rightarrow> (json \<Rightarrow> notebook_scope option) \<Rightarrow> (json \<Rightarrow> page_document option) \<Rightarrow> notebook_scope
     \<Rightarrow> document_store \<Rightarrow> exn + finalized_document" where
  "load_document sha scope_model page_model s st =
     and_then (or_raise Value_Error (scope_key sha s)) (\<lambda>key.
     case find_file key (lit ''document.json'') (finalized st) of
       None \<Rightarrow> Inl (coded ''DOCUMENT_NOT_FINALIZED''
                    ''Notebook content has not been finalized for this exact revision.'' True)
     | Some f \<Rightarrow>
         and_then (read_json (Some f)) (\<lambda>payload.
         and_then (or_raise (corrupt ''Stored finalized document is invalid.'') (scope_field scope_model (map_of payload (lit ''scope'')))) (\<lambda>stored_scope.
         and_then (or_raise (corrupt ''Stored finalized document is invalid.'') (pages_field page_model (map_of payload (lit ''pages'')))) (\<lambda>ps.
         let checksum = text_field (map_of payload (lit ''documentChecksum'')) in
         demand (corrupt ''Stored finalized document is invalid.'') (stored_scope = s)
         (and_then (or_raise Value_Error (document_pages_checksum sha ps)) (\<lambda>actual.
         demand (corrupt ''Stored finalized document is invalid.'') (checksum = actual)
           (Inr \<lparr>fd_scope = s, fd_checksum = checksum, fd_pages = ps\<rparr>)))))))"

section \<open>Pruning\<close>

definition storage_name :: "str \<Rightarrow> bool" where
  "storage_name name \<longleftrightarrow> length name = 64 \<and> list_all is_lower_hex name"

text \<open>
  \<open>_prune_root\<close>: the directories in the order in which they are listed; \<open>True\<close> at the end
  means that an invalid entry stopped the loop. What was removed before stays removed.
\<close>

fun prune_root :: "str list \<Rightarrow> int \<Rightarrow> directory list \<Rightarrow> nat \<times> directory list \<times> bool" where
  "prune_root retained modified_before [] = (0, [], False)"
| "prune_root retained modified_before (d # ds) =
     (if \<not> dir_plain d \<or> \<not> storage_name (dir_name d) then (0, d # ds, True)
      else let (n, ds', bad) = prune_root retained modified_before ds
        in if dir_name d \<in> set retained \<or> dir_mtime d \<ge> modified_before then (n, d # ds', bad)
           else (Suc n, ds', bad))"

definition recount :: "nat \<Rightarrow> document_store \<Rightarrow> document_store" where
  "recount removed st = (if removed \<noteq> 0 then st\<lparr>bytes_used := int (tree_size st)\<rparr> else st)"

abbreviation invalid_directory :: exn where
  "invalid_directory \<equiv> corrupt ''Stored document directory is invalid.''"

definition prune_documents ::
  "str list \<Rightarrow> str list \<Rightarrow> int \<Rightarrow> document_store \<Rightarrow> (exn + nat \<times> nat) \<times> document_store" where
  "prune_documents retained_finalized retained_staging modified_before st =
     (let (n, ds, bad) = prune_root retained_staging modified_before (staging st); st1 = st\<lparr>staging := ds\<rparr>
      in if bad then (Inl invalid_directory, st1)
         else let st1 = recount n st1; (m, es, bad') = prune_root retained_finalized modified_before (finalized st1);
                  st2 = st1\<lparr>finalized := es\<rparr>
           in if bad' then (Inl invalid_directory, st2) else (Inr (n, m), recount m st2))"

end
