(* ===== verification/Index_Repo.thy ===== *)
theory Index_Repo
  imports Complex_Main Rag_Core Documents
begin

text \<open>
  The index repository of the worker (\<open>novo_chat/compute.py\<close>): candidates are built beside the
  committed artifacts, one directory each with its manifest, chunks and vectors, and a commit
  moves a candidate among the artifacts. Arrays are values of a type \<open>'v\<close> with the NumPy
  operations used on them in a record; the embedding service is a function giving the progress
  it reports and its answer. A progress callback runs on a state \<open>'s\<close> of the caller and may
  raise. Random names are arguments. \<open>text_of\<close> and \<open>scope_model\<close> are as elsewhere.
\<close>

section \<open>Artifacts\<close>

record 'v numpy =
  nd_shape :: "'v \<Rightarrow> nat list"
  nd_finite :: "'v \<Rightarrow> bool"
  nd_unit_rows :: "'v \<Rightarrow> 'v"
  nd_bytes :: "'v \<Rightarrow> nat"
  nd_saved :: "'v \<Rightarrow> nat"

record 'v artifact_dir =
  ad_name :: str
  ad_plain :: bool
  ad_mtime :: int
  ad_manifest :: "stored_file option"
  ad_chunks :: "stored_file option"
  ad_vectors :: "'v option"

record 'v index_store =
  candidates :: "'v artifact_dir list"
  artifacts :: "'v artifact_dir list"
  ix_bytes :: int
  ix_max :: int

record index_candidate =
  ic_scope :: notebook_scope
  ic_artifact :: str
  ic_path :: str
  ic_chunk_count :: nat

record 'v loaded_index =
  la_scope :: notebook_scope
  la_artifact :: str
  la_chunks :: "chunk list"
  la_vectors :: 'v

definition artifact_size :: "'v numpy \<Rightarrow> 'v artifact_dir \<Rightarrow> nat" where
  "artifact_size np d = (case ad_manifest d of None \<Rightarrow> 0 | Some f \<Rightarrow> file_size f)
     + (case ad_chunks d of None \<Rightarrow> 0 | Some f \<Rightarrow> file_size f)
     + (case ad_vectors d of None \<Rightarrow> 0 | Some v \<Rightarrow> nd_saved np v)"

text \<open>\<open>_tree_size\<close> of the whole repository.\<close>

definition index_tree_size :: "'v numpy \<Rightarrow> 'v index_store \<Rightarrow> nat" where
  "index_tree_size np st = sum_list (map (artifact_size np) (candidates st)) + sum_list (map (artifact_size np) (artifacts st))"

definition find_artifact :: "str \<Rightarrow> 'v artifact_dir list \<Rightarrow> 'v artifact_dir option" where
  "find_artifact name dirs = find (\<lambda>d. ad_name d = name) dirs"

definition drop_artifact :: "str \<Rightarrow> 'v artifact_dir list \<Rightarrow> 'v artifact_dir list" where
  "drop_artifact name dirs = delete_where (\<lambda>d. ad_name d = name) dirs"

definition normalize_vectors :: "'v numpy \<Rightarrow> 'v \<Rightarrow> nat \<Rightarrow> exn + 'v" where
  "normalize_vectors np v expected =
     demand (coded ''EMBEDDING_INVALID'' ''Embedding backend returned an invalid matrix.'' True)
       (length (nd_shape np v) = 2 \<and> nd_shape np v ! 0 = expected)
     (demand (coded ''EMBEDDING_INVALID'' ''Embedding backend returned an invalid matrix.'' True)
       (\<not> (expected \<noteq> 0 \<and> nd_shape np v ! 1 < 1))
     (demand (coded ''EMBEDDING_INVALID'' ''Embedding backend returned invalid values.'' True) (nd_finite np v)
       (Inr (if expected \<noteq> 0 then nd_unit_rows np v else v))))"

section \<open>Chunks of pages\<close>

definition str_or :: "str option \<Rightarrow> str" where
  "str_or x = (case x of None \<Rightarrow> [] | Some s \<Rightarrow> s)"

definition page_metadata :: "notebook_scope \<Rightarrow> page_document \<Rightarrow> str" where
  "page_metadata s p = join [10]
     ([lit ''Notebook ID: '' @ notebook_id s, lit ''Title: '' @ title p, lit ''Page ID: '' @ page_id p,
       lit ''Created: '' @ str_or (page_created_at p), lit ''Updated: '' @ str_or (page_updated_at p)]
      @ (if tags p = [] then [] else [lit ''Tags: '' @ join (lit '', '') (tags p)])
      @ (if attachments p = [] then [] else [lit ''Attachments: '' @ join (lit ''; '') (map attachment_name (attachments p))]))"

definition page_chunk :: "notebook_scope \<Rightarrow> page_document \<Rightarrow> nat \<Rightarrow> str \<Rightarrow> chunk" where
  "page_chunk s p number body =
     [(lit ''file'', JStr (page_id p @ lit ''.md'')),
      (lit ''title'', JStr (title p)),
      (lit ''chunk_idx'', JInt (int number)),
      (lit ''text'', JStr body),
      (lit ''indexed_text'', JStr (py_strip (page_metadata s p @ [10, 10] @ body))),
      (lit ''metadata'', JObj [(lit ''created'', JStr (str_or (page_created_at p))), (lit ''updated'', JStr (str_or (page_updated_at p)))]),
      (lit ''page_id'', JStr (page_id p)),
      (lit ''notebook_id'', JStr (notebook_id s)),
      (lit ''notebook'', JStr (notebook_id s)),
      (lit ''updated'', JStr (str_or (page_updated_at p))),
      (lit ''tags'', JArr (map JStr (tags p))),
      (lit ''attachments'', JArr (map (JStr \<circ> attachment_name) (attachments p))),
      (lit ''source_url'', JStr (source_url p)),
      (lit ''novo_url'', JStr (source_url p))]"

definition page_chunks :: "notebook_scope \<Rightarrow> page_document \<Rightarrow> chunk list" where
  "page_chunks s p =
     (let pieces = chunk_text CHUNK_WORDS CHUNK_OVERLAP_WORDS (py_strip (page_text p));
          pieces = (if pieces = [] then [[]] else pieces)
      in map (\<lambda>(number, body). page_chunk s p number body) (enumerate 0 pieces))"

definition chunks_for_pages :: "notebook_scope \<Rightarrow> page_document list \<Rightarrow> chunk list" where
  "chunks_for_pages s ps = concat (map (page_chunks s) ps)"

section \<open>Loading an artifact\<close>

abbreviation index_corrupt :: exn where
  "index_corrupt \<equiv> coded ''INDEX_CORRUPT'' ''Stored index artifact is invalid.'' False"

text \<open>
  \<open>tuple(dict(chunk) for chunk in chunks_value)\<close>. A chunk given as a list of pairs, which
  \<open>dict\<close> would take as well, counts as invalid here; the repository writes objects only.
\<close>

definition chunk_of :: "json \<Rightarrow> chunk option" where
  "chunk_of j = (case j of JObj kvs \<Rightarrow> Some kvs | JArr [] \<Rightarrow> Some [] | JStr [] \<Rightarrow> Some [] | _ \<Rightarrow> None)"

definition chunks_of :: "json \<Rightarrow> chunk list option" where
  "chunks_of j = (case j of JArr xs \<Rightarrow> option_list (map chunk_of xs) | JObj [] \<Rightarrow> Some [] | JStr [] \<Rightarrow> Some [] | _ \<Rightarrow> None)"

definition json_of :: "stored_file option \<Rightarrow> json option" where
  "json_of f = (case f of Some (Json j) \<Rightarrow> Some j | _ \<Rightarrow> None)"

definition load_path ::
  "(json \<Rightarrow> str) \<Rightarrow> (json \<Rightarrow> notebook_scope option) \<Rightarrow> 'v numpy \<Rightarrow> notebook_scope \<Rightarrow> str
     \<Rightarrow> 'v artifact_dir option \<Rightarrow> exn + 'v loaded_index" where
  "load_path text_of scope_model np expected_scope expected_artifact path =
     and_then (or_raise index_corrupt path) (\<lambda>d.
     and_then (or_raise index_corrupt (json_of (ad_manifest d))) (\<lambda>manifest.
     and_then (or_raise index_corrupt (json_of (ad_chunks d))) (\<lambda>chunks_value.
     and_then (or_raise index_corrupt (ad_vectors d)) (\<lambda>vectors.
     and_then (or_raise index_corrupt (case manifest of JObj kvs \<Rightarrow> Some kvs | _ \<Rightarrow> None)) (\<lambda>fields.
     and_then (or_raise index_corrupt (scope_field scope_model (map_of fields (lit ''scope'')))) (\<lambda>stored_scope.
     and_then (or_raise index_corrupt (chunks_of chunks_value)) (\<lambda>chunks.
     let artifact_id = str_or_empty text_of (map_of fields (lit ''artifactId'')) in
     demand index_corrupt (stored_scope = expected_scope \<and> artifact_id = expected_artifact)
     (and_then (normalize_vectors np vectors (length chunks)) (\<lambda>unit.
     and_then (or_raise Value_Error (case map_of fields (lit ''chunkCount'') of None \<Rightarrow> Some (- 1) | Some j \<Rightarrow> int_field (Some j))) (\<lambda>chunk_count.
     demand index_corrupt (chunk_count = int (length chunks))
     (demand (coded ''INDEX_CORRUPT'' ''Stored index exceeded its notebook scope.'' False)
       (\<forall>c\<in>set chunks. str_or_empty text_of (map_of c (lit ''notebook_id'')) = notebook_id stored_scope)
     (Inr \<lparr>la_scope = stored_scope, la_artifact = artifact_id, la_chunks = chunks, la_vectors = unit\<rparr>))))))))))))"

text \<open>\<open>load_active\<close>, for the artifact and scope of an active index.\<close>

definition load_active ::
  "(json \<Rightarrow> str) \<Rightarrow> (json \<Rightarrow> notebook_scope option) \<Rightarrow> 'v numpy \<Rightarrow> notebook_scope \<Rightarrow> str \<Rightarrow> 'v index_store
     \<Rightarrow> exn + 'v loaded_index" where
  "load_active text_of scope_model np s artifact_id st =
     demand (coded ''INDEX_NOT_READY'' ''An exact requested notebook index is not ready.'' True) (storage_name artifact_id)
       (load_path text_of scope_model np s artifact_id (find_artifact artifact_id (artifacts st)))"

record index_artifact_status =
  as_exact_ready :: bool
  as_activated_at :: "str option"
  as_chunk_count :: "nat option"

text \<open>\<open>artifact_status\<close>; only a \<open>ComputeError\<close> makes the index not ready, other exceptions pass.\<close>

definition artifact_status ::
  "(json \<Rightarrow> str) \<Rightarrow> (json \<Rightarrow> notebook_scope option) \<Rightarrow> 'v numpy \<Rightarrow> (notebook_scope \<times> str \<times> str) option \<Rightarrow> 'v index_store
     \<Rightarrow> exn + index_artifact_status" where
  "artifact_status text_of scope_model np active_entry st =
     (let missing = \<lparr>as_exact_ready = False, as_activated_at = None, as_chunk_count = None\<rparr>
      in case active_entry of None \<Rightarrow> Inr missing
         | Some (s, artifact_id, activated) \<Rightarrow>
             (case load_active text_of scope_model np s artifact_id st of
                Inl (Coded c m r) \<Rightarrow> Inr missing
              | Inl e \<Rightarrow> Inl e
              | Inr a \<Rightarrow> (let activated_at = py_strip activated
                  in Inr \<lparr>as_exact_ready = True,
                       as_activated_at = (if activated_at = [] \<or> length activated_at > 64 then None else Some activated_at),
                       as_chunk_count = Some (length (la_chunks a))\<rparr>)))"

section \<open>Building a candidate\<close>

definition index_capacity :: "'v index_store \<Rightarrow> int \<Rightarrow> bool" where
  "index_capacity st additional \<longleftrightarrow> \<not> (additional < 0 \<or> ix_bytes st + additional > ix_max st)"

text \<open>Successive calls of the progress callback; the first that raises ends them.\<close>

fun report_all :: "(rat \<Rightarrow> 's \<Rightarrow> (exn + unit) \<times> 's) \<Rightarrow> rat list \<Rightarrow> 's \<Rightarrow> (exn + unit) \<times> 's" where
  "report_all report [] s = (Inr (), s)"
| "report_all report (v # vs) s =
     (case report v s of (Inl e, s') \<Rightarrow> (Inl e, s') | (Inr _, s') \<Rightarrow> report_all report vs s')"

definition embedding_progress :: "int \<times> int \<Rightarrow> rat" where
  "embedding_progress = (\<lambda>(completed, total). 5 / 100 + 80 / 100 * of_int completed / of_int (max 1 total))"

definition artifact_name :: "(bytes \<Rightarrow> str) \<Rightarrow> str \<Rightarrow> str \<Rightarrow> notebook_scope \<Rightarrow> str \<Rightarrow> str option" where
  "artifact_name sha operation nonce s checksum =
     map_option sha (canonical_json (JObj
       [(lit ''operationId'', JStr operation), (lit ''scope'', scope_json s),
        (lit ''documentChecksum'', JStr checksum), (lit ''nonce'', JStr nonce)]))"

definition manifest_json :: "str \<Rightarrow> notebook_scope \<Rightarrow> str \<Rightarrow> nat \<Rightarrow> nat \<Rightarrow> int \<Rightarrow> json" where
  "manifest_json artifact_id s checksum chunk_count dimension created = JObj
     [(lit ''version'', JInt 1), (lit ''artifactId'', JStr artifact_id), (lit ''scope'', scope_json s),
      (lit ''documentChecksum'', JStr checksum), (lit ''chunkCount'', JInt (int chunk_count)),
      (lit ''vectorDimension'', JInt (int dimension)), (lit ''createdAt'', JInt created)]"

text \<open>
  The candidate's directory once its three files are written: the chunks and the manifest as
  they decode, the vectors as given.
\<close>

definition candidate_dir ::
  "'v numpy \<Rightarrow> str \<Rightarrow> str \<Rightarrow> finalized_document \<Rightarrow> chunk list \<Rightarrow> 'v \<Rightarrow> int \<Rightarrow> 'v artifact_dir" where
  "candidate_dir np path artifact_id doc chunks vectors now =
     \<lparr>ad_name = path, ad_plain = True, ad_mtime = now,
      ad_manifest = Some (Json (sort_keys (manifest_json artifact_id (fd_scope doc) (fd_checksum doc) (length chunks)
         (if length (nd_shape np vectors) = 2 then nd_shape np vectors ! 1 else 0) (now div 1000000)))),
      ad_chunks = Some (Json (sort_keys (JArr (map JObj chunks)))), ad_vectors = Some vectors\<rparr>"

text \<open>
  \<open>build_candidate\<close> up to the creation of its directory: the chunks, the unit vectors, the
  artifact's name; nothing is written yet.
\<close>

definition prepare_candidate ::
  "(bytes \<Rightarrow> str) \<Rightarrow> 'v numpy \<Rightarrow> (str list \<Rightarrow> notebook_scope \<Rightarrow> (int \<times> int) list \<times> (exn + 'v))
     \<Rightarrow> (rat \<Rightarrow> 's \<Rightarrow> (exn + unit) \<times> 's) \<Rightarrow> str \<Rightarrow> str \<Rightarrow> finalized_document \<Rightarrow> 'v index_store \<Rightarrow> 's
     \<Rightarrow> (exn + (chunk list \<times> 'v \<times> str)) \<times> 's" where
  "prepare_candidate sha np embed_docs report operation nonce doc st s =
     (let chunks = chunks_for_pages (fd_scope doc) (fd_pages doc);
          texts = map (\<lambda>c. text_field (map_of c (lit ''indexed_text''))) chunks;
          (reports, answer) = embed_docs texts (fd_scope doc)
      in case report_all report (5 / 100 # map embedding_progress reports) s of
           (Inl e, s') \<Rightarrow> (Inl e, s')
         | (Inr _, s') \<Rightarrow>
             (case and_then answer (\<lambda>raw. normalize_vectors np raw (length chunks)) of
                Inl e \<Rightarrow> (Inl e, s')
              | Inr vectors \<Rightarrow>
                  (case report (88 / 100) s' of
                     (Inl e, s'') \<Rightarrow> (Inl e, s'')
                   | (Inr _, s'') \<Rightarrow>
                       (and_then (or_raise Value_Error (artifact_name sha operation nonce (fd_scope doc) (fd_checksum doc))) (\<lambda>artifact_id.
                        and_then (or_raise Value_Error (canonical_json (JArr (map JObj chunks)))) (\<lambda>rendered.
                        demand (coded ''STORAGE_QUOTA_EXCEEDED'' ''Index storage reached its configured limit.'' False)
                          (index_capacity st (int (length rendered) + int (nd_bytes np vectors) + 16 * 1024))
                          (Inr (chunks, vectors, artifact_id)))), s''))))"

text \<open>
  \<open>build_candidate\<close>. The directory \<open>path\<close> is removed again when a later step raises; the bytes
  it was counted for by then are not.
\<close>

definition build_candidate ::
  "(bytes \<Rightarrow> str) \<Rightarrow> (json \<Rightarrow> str) \<Rightarrow> (json \<Rightarrow> notebook_scope option) \<Rightarrow> 'v numpy
     \<Rightarrow> (str list \<Rightarrow> notebook_scope \<Rightarrow> (int \<times> int) list \<times> (exn + 'v))
     \<Rightarrow> (rat \<Rightarrow> 's \<Rightarrow> (exn + unit) \<times> 's) \<Rightarrow> str \<Rightarrow> str \<Rightarrow> str \<Rightarrow> int \<Rightarrow> finalized_document \<Rightarrow> 'v index_store \<Rightarrow> 's
     \<Rightarrow> (exn + index_candidate) \<times> 'v index_store \<times> 's" where
  "build_candidate sha text_of scope_model np embed_docs report operation nonce suffix now doc st s =
     (case prepare_candidate sha np embed_docs report operation nonce doc st s of
        (Inl e, s1) \<Rightarrow> (Inl e, st, s1)
      | (Inr (chunks, vectors, artifact_id), s1) \<Rightarrow>
          (let path = artifact_id @ 46 # suffix;
               d = candidate_dir np path artifact_id doc chunks vectors now;
               made = st\<lparr>candidates := candidates st @ [d]\<rparr>
           in case report (96 / 100) s1 of
                (Inl e, s2) \<Rightarrow> (Inl e, st, s2)
              | (Inr _, s2) \<Rightarrow>
                  (case load_path text_of scope_model np (fd_scope doc) artifact_id (Some d) of
                     Inl e \<Rightarrow> (Inl e, st, s2)
                   | Inr _ \<Rightarrow>
                       (let bytes = ix_bytes st + int (artifact_size np d)
                        in case report 1 s2 of
                             (Inl e, s3) \<Rightarrow> (Inl e, st\<lparr>ix_bytes := bytes\<rparr>, s3)
                           | (Inr _, s3) \<Rightarrow>
                               (Inr \<lparr>ic_scope = fd_scope doc, ic_artifact = artifact_id, ic_path = path,
                                     ic_chunk_count = length chunks\<rparr>, made\<lparr>ix_bytes := bytes\<rparr>, s3)))))"

section \<open>Committing and discarding\<close>

definition commit_candidate ::
  "(json \<Rightarrow> str) \<Rightarrow> (json \<Rightarrow> notebook_scope option) \<Rightarrow> 'v numpy \<Rightarrow> index_candidate \<Rightarrow> 'v index_store
     \<Rightarrow> (exn + (notebook_scope \<times> str)) \<times> 'v index_store" where
  "commit_candidate text_of scope_model np c st =
     (let held = find_artifact (ic_path c) (candidates st);
          finish = (\<lambda>st'. (and_then (load_path text_of scope_model np (ic_scope c) (ic_artifact c) (find_artifact (ic_artifact c) (artifacts st')))
                            (\<lambda>_. Inr (ic_scope c, ic_artifact c)), st'))
      in if find_artifact (ic_artifact c) (artifacts st) \<noteq> None
         then finish (st\<lparr>candidates := drop_artifact (ic_path c) (candidates st),
                 ix_bytes := max 0 (ix_bytes st - (case held of None \<Rightarrow> 0 | Some d \<Rightarrow> int (artifact_size np d)))\<rparr>)
         else (case held of None \<Rightarrow> (Inl Other_Error, st)
               | Some d \<Rightarrow> finish (st\<lparr>candidates := drop_artifact (ic_path c) (candidates st),
                   artifacts := artifacts st @ [d\<lparr>ad_name := ic_artifact c\<rparr>]\<rparr>)))"

definition discard_candidate :: "'v numpy \<Rightarrow> index_candidate \<Rightarrow> 'v index_store \<Rightarrow> 'v index_store" where
  "discard_candidate np c st =
     st\<lparr>candidates := drop_artifact (ic_path c) (candidates st),
        ix_bytes := max 0 (ix_bytes st - (case find_artifact (ic_path c) (candidates st) of None \<Rightarrow> 0
                                          | Some d \<Rightarrow> int (artifact_size np d)))\<rparr>"

section \<open>Pruning\<close>

text \<open>\<open>_CANDIDATE_DIRECTORY\<close>.\<close>

definition candidate_name :: "str \<Rightarrow> bool" where
  "candidate_name name \<longleftrightarrow> storage_name (take 64 name) \<and> 65 < length name \<and> name ! 64 = 46
     \<and> list_all (\<lambda>c. is_alnum c \<or> c = 95 \<or> c = 45) (drop 65 name)"

fun prune_artifacts ::
  "(str \<Rightarrow> bool) \<Rightarrow> str list \<Rightarrow> int \<Rightarrow> 'v artifact_dir list \<Rightarrow> nat \<times> 'v artifact_dir list \<times> bool" where
  "prune_artifacts expected_name retained modified_before [] = (0, [], False)"
| "prune_artifacts expected_name retained modified_before (d # ds) =
     (if \<not> ad_plain d \<or> \<not> expected_name (ad_name d) then (0, d # ds, True)
      else let (n, ds', bad) = prune_artifacts expected_name retained modified_before ds
        in if takeWhile (\<lambda>c. c \<noteq> 46) (ad_name d) \<in> set retained \<or> ad_mtime d \<ge> modified_before then (n, d # ds', bad)
           else (Suc n, ds', bad))"

definition prune_index ::
  "'v numpy \<Rightarrow> str list \<Rightarrow> int \<Rightarrow> 'v index_store \<Rightarrow> (exn + nat \<times> nat) \<times> 'v index_store" where
  "prune_index np retained_artifact_ids modified_before st =
     (let retained = filter storage_name retained_artifact_ids;
          invalid = coded ''INDEX_STORE_CORRUPT'' ''Stored index directory is invalid.'' False;
          (n, cs, bad) = prune_artifacts candidate_name [] modified_before (candidates st)
      in if bad then (Inl invalid, st\<lparr>candidates := cs\<rparr>)
         else let (m, as, bad') = prune_artifacts storage_name retained modified_before (artifacts st);
                  st' = st\<lparr>candidates := cs, artifacts := as\<rparr>
              in if bad' then (Inl invalid, st')
                 else (Inr (n, m), if n \<noteq> 0 \<or> m \<noteq> 0 then st'\<lparr>ix_bytes := int (index_tree_size np st')\<rparr> else st'))"

end
