(* ===== verification/Executor.thy ===== *)
theory Executor
  imports Jobs Index_Repo
begin

text \<open>
  The runner of the worker (\<open>novo_chat/executor.py\<close>): it claims the next operation of its
  environment, executes it against the document store, the index repository and the model
  controller, and records its outcome in the job store. What it calls is given by a record: the
  operations of the index repository on a state \<open>'r\<close> (artifacts \<open>'a\<close>), of the model controller
  and the readiness probe on a state \<open>'m\<close>, the clock as the sequence of its readings (progress
  reports and outcomes read it once each), and the parameters of the stores. Progress values
  are exact fractions. Threads and condition variables are not modelled.
\<close>

section \<open>State\<close>

text \<open>What a progress callback can change: the job store, the clock, the last value reported.\<close>

record run_state =
  rn_jobs :: job_store
  rn_ticks :: nat
  rn_last :: rat

record query_args =
  qa_question :: str
  qa_retrieval :: str
  qa_model :: str
  qa_strategy :: query_strategy
  qa_max_sources :: int
  qa_top_k :: int

datatype control_action = Status | Start | Stop

text \<open>The fields of a controller's reply that are read; \<open>cr_progress\<close> is \<open>None\<close> for anything but a number.\<close>

record control_reply =
  cr_state :: str
  cr_progress :: "rat option"

record ('r, 'a, 'm) worker_env =
  we_name :: str
  we_clock :: "nat \<Rightarrow> int"
  we_sha :: "bytes \<Rightarrow> str"
  we_text_of :: "json \<Rightarrow> str"
  we_scope_model :: "json \<Rightarrow> notebook_scope option"
  we_page_model :: "json \<Rightarrow> page_document option"
  we_build :: "nat \<Rightarrow> str \<Rightarrow> (rat \<Rightarrow> run_state \<Rightarrow> (exn + unit) \<times> run_state) \<Rightarrow> finalized_document
     \<Rightarrow> 'r \<Rightarrow> run_state \<Rightarrow> (exn + index_candidate) \<times> 'r \<times> run_state"
  we_commit :: "index_candidate \<Rightarrow> 'r \<Rightarrow> (exn + (notebook_scope \<times> str)) \<times> 'r"
  we_discard :: "index_candidate \<Rightarrow> 'r \<Rightarrow> 'r"
  we_load :: "notebook_scope \<Rightarrow> str \<Rightarrow> 'r \<Rightarrow> exn + 'a"
  we_query :: "'a list \<Rightarrow> query_args \<Rightarrow> (progress_detail \<Rightarrow> run_state \<Rightarrow> (exn + unit) \<times> run_state)
     \<Rightarrow> run_state \<Rightarrow> (exn + json) \<times> run_state"
  we_control :: "control_action \<Rightarrow> str \<Rightarrow> stored_operation \<Rightarrow> 'm \<Rightarrow> (exn + control_reply) \<times> 'm"
  we_ready :: "str \<Rightarrow> 'm \<Rightarrow> bool"
  we_wait :: "str \<Rightarrow> 'm \<Rightarrow> nat \<times> bool"
  we_approved :: "str list"

record ('r, 'm) worker =
  w_jobs :: job_store
  w_docs :: document_store
  w_index :: 'r
  w_control :: 'm
  w_ticks :: nat

text \<open>The exceptions of the job store: two of them are \<open>ValueError\<close>s.\<close>

definition job_exn :: "job_store_error \<Rightarrow> exn" where
  "job_exn e = (case e of ProgressOutOfRange \<Rightarrow> Value_Error | NotCanonicalizable \<Rightarrow> Value_Error | _ \<Rightarrow> Other_Error)"

definition store_progress ::
  "(nat \<Rightarrow> int) \<Rightarrow> str \<Rightarrow> rat \<Rightarrow> json option \<Rightarrow> run_state \<Rightarrow> (exn + unit) \<times> run_state" where
  "store_progress clock operation_id p detail s =
     (let (answer, jobs) = set_progress operation_id p detail (clock (rn_ticks s)) (rn_jobs s);
          s' = s\<lparr>rn_jobs := jobs, rn_ticks := Suc (rn_ticks s)\<rparr>
      in (case answer of Inl e \<Rightarrow> Inl (job_exn e) | Inr _ \<Rightarrow> Inr (), s'))"

section \<open>Ingestion\<close>

definition one_scope :: "stored_operation \<Rightarrow> exn + notebook_scope" where
  "one_scope operation = (case so_scope operation of [s] \<Rightarrow> Inr s | _ \<Rightarrow> Inl Value_Error)"

text \<open>\<open>operation.payload[key]\<close>: a payload that is no object raises \<open>TypeError\<close>, a missing key \<open>KeyError\<close>.\<close>

definition payload_item :: "string \<Rightarrow> stored_operation \<Rightarrow> exn + json" where
  "payload_item key operation = (case so_payload operation of
     JObj kvs \<Rightarrow> or_raise Value_Error (map_of kvs (lit key)) | _ \<Rightarrow> Inl Value_Error)"

definition payload_int :: "string \<Rightarrow> stored_operation \<Rightarrow> exn + int" where
  "payload_int key operation = and_then (payload_item key operation) (\<lambda>j. or_raise Value_Error (int_field (Some j)))"

text \<open>
  The numbers of an ingestion are natural: the request models refuse negative ones before a
  payload is stored.
\<close>

definition ingest_batch ::
  "('r, 'a, 'm) worker_env \<Rightarrow> stored_operation \<Rightarrow> int \<Rightarrow> document_store \<Rightarrow> (exn + json) \<times> document_store" where
  "ingest_batch env operation now docs =
     (case and_then (one_scope operation) (\<lambda>s.
           and_then (payload_item ''pages'' operation) (\<lambda>pages_json.
           and_then (or_raise Value_Error (pages_field (we_page_model env) (Some pages_json))) (\<lambda>ps.
           and_then (payload_int ''batchNumber'' operation) (\<lambda>number.
           and_then (payload_item ''batchChecksum'' operation) (\<lambda>checksum.
             Inr (s, ps, nat number, py_str (we_text_of env) checksum)))))) of
        Inl e \<Rightarrow> (Inl e, docs)
      | Inr (s, ps, number, checksum) \<Rightarrow>
          (case stage_batch (we_sha env) s number checksum ps now docs of
             (Inl e, docs') \<Rightarrow> (Inl e, docs')
           | (Inr accepted, docs') \<Rightarrow> (Inr (ingest_result_json s accepted), docs')))"

definition ingest_finalize ::
  "('r, 'a, 'm) worker_env \<Rightarrow> stored_operation \<Rightarrow> int \<Rightarrow> document_store \<Rightarrow> (exn + json) \<times> document_store" where
  "ingest_finalize env operation now docs =
     (case and_then (one_scope operation) (\<lambda>s.
           and_then (payload_item ''documentChecksum'' operation) (\<lambda>checksum.
           and_then (payload_int ''pageCount'' operation) (\<lambda>page_total.
           and_then (payload_int ''batchCount'' operation) (\<lambda>batch_total.
             Inr (s, py_str (we_text_of env) checksum, nat page_total, nat batch_total))))) of
        Inl e \<Rightarrow> (Inl e, docs)
      | Inr (s, checksum, page_total, batch_total) \<Rightarrow>
          (case finalize (we_sha env) (we_scope_model env) (we_page_model env) s checksum page_total batch_total now docs of
             (Inl e, docs') \<Rightarrow> (Inl e, docs')
           | (Inr doc, docs') \<Rightarrow> (Inr (ingest_result_json s (length (fd_pages doc))), docs')))"

section \<open>Rebuilding indexes\<close>

text \<open>\<open>report_progress\<close>: clamped to 0.90, never going back, skipping steps below 0.01.\<close>

definition report_progress :: "(nat \<Rightarrow> int) \<Rightarrow> str \<Rightarrow> rat \<Rightarrow> run_state \<Rightarrow> (exn + unit) \<times> run_state" where
  "report_progress clock operation_id value s =
     (let bounded = min (90 / 100) (max (rn_last s) value)
      in if bounded < 90 / 100 \<and> bounded - rn_last s < 1 / 100 then (Inr (), s)
         else store_progress clock operation_id bounded None (s\<lparr>rn_last := bounded\<rparr>))"

definition scope_count :: "stored_operation \<Rightarrow> rat" where
  "scope_count operation = of_nat (max 1 (length (so_scope operation)))"

text \<open>The first loop: one candidate per scope; also the candidates made so far when it stops.\<close>

fun build_candidates ::
  "('r, 'a, 'm) worker_env \<Rightarrow> stored_operation \<Rightarrow> document_store \<Rightarrow> nat \<Rightarrow> notebook_scope list \<Rightarrow> index_candidate list
     \<Rightarrow> 'r \<Rightarrow> run_state \<Rightarrow> (exn + unit) \<times> index_candidate list \<times> 'r \<times> run_state" where
  "build_candidates env operation docs position [] made r s = (Inr (), made, r, s)"
| "build_candidates env operation docs position (sc # scs) made r s =
     (case load_document (we_sha env) (we_scope_model env) (we_page_model env) sc docs of
        Inl e \<Rightarrow> (Inl e, made, r, s)
      | Inr doc \<Rightarrow>
          (case we_build env position (so_operation_id operation)
                  (\<lambda>v. report_progress (we_clock env) (so_operation_id operation)
                         (90 / 100 * (of_nat position + v) / scope_count operation)) doc r s of
             (Inl e, r', s') \<Rightarrow> (Inl e, made, r', s')
           | (Inr c, r', s') \<Rightarrow> build_candidates env operation docs (Suc position) scs (made @ [c]) r' s'))"

fun commit_candidates ::
  "('r, 'a, 'm) worker_env \<Rightarrow> stored_operation \<Rightarrow> nat \<Rightarrow> index_candidate list \<Rightarrow> (notebook_scope \<times> str) list
     \<Rightarrow> 'r \<Rightarrow> run_state \<Rightarrow> (exn + (notebook_scope \<times> str) list) \<times> 'r \<times> run_state" where
  "commit_candidates env operation position [] committed r s = (Inr committed, r, s)"
| "commit_candidates env operation position (c # cs) committed r s =
     (case we_commit env c r of
        (Inl e, r') \<Rightarrow> (Inl e, r', s)
      | (Inr entry, r') \<Rightarrow>
          (case store_progress (we_clock env) (so_operation_id operation)
                  (90 / 100 + 9 / 100 * of_nat (Suc position) / scope_count operation) None s of
             (Inl e, s') \<Rightarrow> (Inl e, r', s')
           | (Inr _, s') \<Rightarrow> commit_candidates env operation (Suc position) cs (committed @ [entry]) r' s'))"

fun discard_all :: "('r, 'a, 'm) worker_env \<Rightarrow> index_candidate list \<Rightarrow> 'r \<Rightarrow> 'r" where
  "discard_all env [] r = r"
| "discard_all env (c # cs) r = discard_all env cs (we_discard env c r)"

definition rebuild ::
  "('r, 'a, 'm) worker_env \<Rightarrow> stored_operation \<Rightarrow> document_store \<Rightarrow> 'r \<Rightarrow> run_state
     \<Rightarrow> (exn + json) \<times> 'r \<times> run_state" where
  "rebuild env operation docs r s =
     (case report_progress (we_clock env) (so_operation_id operation) (2 / 100) s of
        (Inl e, s1) \<Rightarrow> (Inl e, r, s1)
      | (Inr _, s1) \<Rightarrow>
          (case build_candidates env operation docs 0 (so_scope operation) [] r s1 of
             (Inl e, made, r2, s2) \<Rightarrow> (Inl e, discard_all env made r2, s2)
           | (Inr _, made, r2, s2) \<Rightarrow>
               (case commit_candidates env operation 0 made [] r2 s2 of
                  (Inl e, r3, s3) \<Rightarrow> (Inl e, discard_all env made r3, s3)
                | (Inr committed, r3, s3) \<Rightarrow>
                    (Inr (index_result_json (so_scope operation) (sum_list (map ic_chunk_count made))), r3,
                     s3\<lparr>rn_jobs := activate_indexes committed (we_name env) (we_clock env (rn_ticks s3)) (rn_jobs s3),
                        rn_ticks := Suc (rn_ticks s3)\<rparr>))))"

section \<open>Queries\<close>

fun load_artifacts ::
  "('r, 'a, 'm) worker_env \<Rightarrow> job_store \<Rightarrow> 'r \<Rightarrow> notebook_scope list \<Rightarrow> exn + 'a list" where
  "load_artifacts env jobs r [] = Inr []"
| "load_artifacts env jobs r (sc # scs) =
     and_then (or_raise (coded ''INDEX_NOT_READY'' ''An exact requested notebook index is not ready.'' True)
       (active_index sc (we_name env) jobs)) (\<lambda>(s, artifact_id, activated).
     and_then (we_load env s artifact_id r) (\<lambda>a.
     and_then (load_artifacts env jobs r scs) (\<lambda>as. Inr (a # as))))"

definition strategy_of :: "str \<Rightarrow> query_strategy option" where
  "strategy_of s = (if s = lit ''hybrid'' then Some HYBRID else if s = lit ''lexical'' then Some LEXICAL
     else if s = lit ''semantic'' then Some SEMANTIC else None)"

definition stage_progress :: "query_progress_stage \<Rightarrow> rat" where
  "stage_progress stage = (case stage of PLANNING \<Rightarrow> 5 / 100 | SEARCHING \<Rightarrow> 30 / 100 | ANSWERING \<Rightarrow> 65 / 100)"

definition report_stage :: "(nat \<Rightarrow> int) \<Rightarrow> str \<Rightarrow> progress_detail \<Rightarrow> run_state \<Rightarrow> (exn + unit) \<times> run_state" where
  "report_stage clock operation_id detail s =
     store_progress clock operation_id (stage_progress (pd_stage detail)) (Some (progress_detail_json detail)) s"

text \<open>The arguments of the query, once the payload is known to be an object.\<close>

definition query_args_of :: "(json \<Rightarrow> str) \<Rightarrow> (str \<times> json) list \<Rightarrow> query_strategy \<Rightarrow> str \<Rightarrow> exn + query_args" where
  "query_args_of text_of given qs model_id =
     and_then (or_raise Value_Error (map_of given (lit ''question''))) (\<lambda>q.
     and_then (or_raise Value_Error (case map_of given (lit ''maxSources'') of None \<Rightarrow> Some 16 | Some j \<Rightarrow> int_field (Some j))) (\<lambda>sources.
     and_then (or_raise Value_Error (case map_of given (lit ''retrievalTopK'') of None \<Rightarrow> Some 16 | Some j \<Rightarrow> int_field (Some j))) (\<lambda>top_k.
       Inr \<lparr>qa_question = py_str text_of q,
            qa_retrieval = py_str text_of (if truthy (map_of given (lit ''retrievalQuestion''))
                                           then the (map_of given (lit ''retrievalQuestion'')) else q),
            qa_model = model_id, qa_strategy = qs, qa_max_sources = sources, qa_top_k = top_k\<rparr>)))"

definition execute_query ::
  "('r, 'a, 'm) worker_env \<Rightarrow> stored_operation \<Rightarrow> 'r \<Rightarrow> 'm \<Rightarrow> run_state \<Rightarrow> (exn + json) \<times> run_state" where
  "execute_query env operation r m s =
     (case and_then (load_artifacts env (rn_jobs s) r (so_scope operation)) (\<lambda>as.
           and_then (case so_payload operation of JObj kvs \<Rightarrow> Inr kvs | _ \<Rightarrow> Inl Other_Error) (\<lambda>given.
           and_then (or_raise Value_Error (strategy_of (if truthy (map_of given (lit ''strategy''))
               then py_str (we_text_of env) (the (map_of given (lit ''strategy''))) else lit ''hybrid''))) (\<lambda>qs.
           and_then (payload_item ''model'' operation) (\<lambda>model_json.
           let model_id = py_str (we_text_of env) model_json in
           demand (coded ''MODEL_NOT_READY'' ''Requested model is not ready.'' True) (we_ready env model_id m)
             (Inr (as, given, qs, model_id)))))) of
        Inl e \<Rightarrow> (Inl e, s)
      | Inr (as, given, qs, model_id) \<Rightarrow>
          (case report_stage (we_clock env) (so_operation_id operation) \<lparr>pd_stage = PLANNING, pd_plan = None, pd_count = None\<rparr> s of
             (Inl e, s1) \<Rightarrow> (Inl e, s1)
           | (Inr _, s1) \<Rightarrow>
               (case query_args_of (we_text_of env) given qs model_id of
                  Inl e \<Rightarrow> (Inl e, s1)
                | Inr args \<Rightarrow> we_query env as args (report_stage (we_clock env) (so_operation_id operation)) s1)))"

section \<open>Model lifecycle\<close>

definition controller_state :: "control_reply \<Rightarrow> str" where
  "controller_state reply = lower (cr_state reply)"

definition in_service :: "str \<Rightarrow> bool" where
  "in_service state \<longleftrightarrow> state = lit ''running'' \<or> state = lit ''ready''"

text \<open>The loop that stops the other approved models before a start.\<close>

fun stop_others ::
  "('r, 'a, 'm) worker_env \<Rightarrow> stored_operation \<Rightarrow> str \<Rightarrow> str list \<Rightarrow> 'm \<Rightarrow> (exn + unit) \<times> 'm" where
  "stop_others env operation model_id [] m = (Inr (), m)"
| "stop_others env operation model_id (other # others) m =
     (if other = model_id then stop_others env operation model_id others m
      else case we_control env Status other operation m of
        (Inl e, m1) \<Rightarrow> (Inl e, m1)
      | (Inr reply, m1) \<Rightarrow>
          if \<not> in_service (controller_state reply) then stop_others env operation model_id others m1
          else (case we_control env Stop other operation m1 of
                  (Inl e, m2) \<Rightarrow> (Inl e, m2)
                | (Inr stopped, m2) \<Rightarrow>
                    if controller_state stopped \<noteq> lit ''stopped''
                    then (Inl (coded ''MODEL_SWITCH_FAILED'' ''The active model could not be stopped safely.'' True), m2)
                    else stop_others env operation model_id others m2))"

text \<open>The calls of \<open>report_start_progress\<close> while the probe waits.\<close>

fun start_reports ::
  "('r, 'a, 'm) worker_env \<Rightarrow> stored_operation \<Rightarrow> str \<Rightarrow> nat \<Rightarrow> 'm \<Rightarrow> run_state \<Rightarrow> (exn + unit) \<times> 'm \<times> run_state" where
  "start_reports env operation model_id 0 m s = (Inr (), m, s)"
| "start_reports env operation model_id (Suc k) m s =
     (case we_control env Status model_id operation m of
        (Inl (Coded c msg r), m1) \<Rightarrow> start_reports env operation model_id k m1 s
      | (Inl e, m1) \<Rightarrow> (Inl e, m1, s)
      | (Inr reply, m1) \<Rightarrow>
          (case cr_progress reply of
             None \<Rightarrow> start_reports env operation model_id k m1 s
           | Some p \<Rightarrow>
               if \<not> (0 \<le> p \<and> p \<le> 1) \<or> p < rn_last s then start_reports env operation model_id k m1 s
               else (case store_progress (we_clock env) (so_operation_id operation) p None (s\<lparr>rn_last := p\<rparr>) of
                       (Inl e, s') \<Rightarrow> (Inl e, m1, s')
                     | (Inr _, s') \<Rightarrow> start_reports env operation model_id k m1 s')))"

abbreviation transition_failed :: "string \<Rightarrow> exn" where
  "transition_failed message \<equiv> coded ''MODEL_TRANSITION_FAILED'' message True"

definition model_start ::
  "('r, 'a, 'm) worker_env \<Rightarrow> stored_operation \<Rightarrow> str \<Rightarrow> 'm \<Rightarrow> run_state \<Rightarrow> (exn + json) \<times> 'm \<times> run_state" where
  "model_start env operation model_id m s =
     (case stop_others env operation model_id (we_approved env) m of
        (Inl e, m1) \<Rightarrow> (Inl e, m1, s)
      | (Inr _, m1) \<Rightarrow>
          (case we_control env Start model_id operation m1 of
             (Inl e, m2) \<Rightarrow> (Inl e, m2, s)
           | (Inr reply, m2) \<Rightarrow>
               if \<not> in_service (controller_state reply)
               then (Inl (transition_failed ''Model did not enter a running state.''), m2, s)
               else (case we_wait env model_id m2 of (k, became_ready) \<Rightarrow>
                       (case start_reports env operation model_id k m2 s of
                          (Inl e, m3, s') \<Rightarrow> (Inl e, m3, s')
                        | (Inr _, m3, s') \<Rightarrow>
                            if \<not> became_ready
                            then (Inl (coded ''MODEL_READINESS_TIMEOUT''
                                        ''Model started but did not become ready before the timeout.'' True), m3, s')
                            else (Inr (model_result_json model_id READY), m3, s')))))"

definition model_stop ::
  "('r, 'a, 'm) worker_env \<Rightarrow> stored_operation \<Rightarrow> str \<Rightarrow> 'm \<Rightarrow> (exn + json) \<times> 'm" where
  "model_stop env operation model_id m =
     (case we_control env Stop model_id operation m of
        (Inl e, m') \<Rightarrow> (Inl e, m')
      | (Inr reply, m') \<Rightarrow>
          if controller_state reply = lit ''stopped'' then (Inr (model_result_json model_id STOPPED), m')
          else (Inl (transition_failed ''Model did not reach the requested state.''), m'))"

section \<open>Running\<close>

definition begin_run :: "('r, 'm) worker \<Rightarrow> run_state" where
  "begin_run w = \<lparr>rn_jobs = w_jobs w, rn_ticks = w_ticks w, rn_last = 0\<rparr>"

definition end_run :: "run_state \<Rightarrow> ('r, 'm) worker \<Rightarrow> ('r, 'm) worker" where
  "end_run s w = w\<lparr>w_jobs := rn_jobs s, w_ticks := rn_ticks s\<rparr>"

definition execute :: "('r, 'a, 'm) worker_env \<Rightarrow> stored_operation \<Rightarrow> ('r, 'm) worker \<Rightarrow> (exn + json) \<times> ('r, 'm) worker" where
  "execute env operation w =
     (let now = we_clock env (w_ticks w); model_id = map_sum id (py_str (we_text_of env)) (payload_item ''model'' operation)
      in case so_operation operation of
        INGEST_BATCH \<Rightarrow> (let (answer, docs) = ingest_batch env operation now (w_docs w) in (answer, w\<lparr>w_docs := docs\<rparr>))
      | INGEST_FINALIZE \<Rightarrow> (let (answer, docs) = ingest_finalize env operation now (w_docs w) in (answer, w\<lparr>w_docs := docs\<rparr>))
      | INDEX_REBUILD \<Rightarrow> (let (answer, r, s) = rebuild env operation (w_docs w) (w_index w) (begin_run w)
          in (answer, end_run s (w\<lparr>w_index := r\<rparr>)))
      | QUERY \<Rightarrow> (let (answer, s) = execute_query env operation (w_index w) (w_control w) (begin_run w) in (answer, end_run s w))
      | MODEL_START \<Rightarrow> (case model_id of Inl e \<Rightarrow> (Inl e, w)
          | Inr i \<Rightarrow> (let (answer, m, s) = model_start env operation i (w_control w) (begin_run w)
              in (answer, end_run s (w\<lparr>w_control := m\<rparr>))))
      | MODEL_STOP \<Rightarrow> (case model_id of Inl e \<Rightarrow> (Inl e, w)
          | Inr i \<Rightarrow> (let (answer, m) = model_stop env operation i (w_control w) in (answer, w\<lparr>w_control := m\<rparr>))))"

text \<open>The \<open>except\<close> clauses of \<open>run_once\<close>: code, message and retry flag of the recorded failure.\<close>

definition failure_of :: "exn \<Rightarrow> str \<times> str \<times> bool" where
  "failure_of e = (case e of
     Coded code message retryable \<Rightarrow> (code, message, retryable)
   | Value_Error \<Rightarrow> (lit ''INVALID_OPERATION_PAYLOAD'', lit ''Stored operation payload is invalid.'', False)
   | Other_Error \<Rightarrow> (lit ''OPERATION_FAILED'', lit ''Worker operation failed.'', True))"

definition set_jobs :: "job_store \<Rightarrow> ('r, 'm) worker \<Rightarrow> ('r, 'm) worker" where
  "set_jobs jobs w = w\<lparr>w_jobs := jobs, w_ticks := Suc (w_ticks w)\<rparr>"

definition record_failure ::
  "('r, 'a, 'm) worker_env \<Rightarrow> str \<Rightarrow> exn \<Rightarrow> ('r, 'm) worker \<Rightarrow> (exn + bool) \<times> ('r, 'm) worker" where
  "record_failure env operation_id e w =
     (case failure_of e of (code, message, retryable) \<Rightarrow>
        (case fail operation_id code message retryable (we_clock env (w_ticks w)) (w_jobs w) of
           (Inl err, jobs) \<Rightarrow> (Inl (job_exn err), set_jobs jobs w)
         | (Inr _, jobs) \<Rightarrow> (Inr True, set_jobs jobs w)))"

definition complete ::
  "('r, 'a, 'm) worker_env \<Rightarrow> str \<Rightarrow> (exn + json) \<Rightarrow> ('r, 'm) worker \<Rightarrow> (exn + bool) \<times> ('r, 'm) worker" where
  "complete env operation_id answer w =
     (case answer of
        Inl e \<Rightarrow> record_failure env operation_id e w
      | Inr result \<Rightarrow>
          (case succeed operation_id result (we_clock env (w_ticks w)) (w_jobs w) of
             (Inl err, jobs) \<Rightarrow> record_failure env operation_id (job_exn err) (set_jobs jobs w)
           | (Inr _, jobs) \<Rightarrow> (Inr True, set_jobs jobs w)))"

definition run_once :: "('r, 'a, 'm) worker_env \<Rightarrow> ('r, 'm) worker \<Rightarrow> (exn + bool) \<times> ('r, 'm) worker" where
  "run_once env w =
     (case claim_next_operation (we_name env) (we_clock env (w_ticks w)) (w_jobs w) of
        (Inl e, jobs) \<Rightarrow> (Inl (job_exn e), set_jobs jobs w)
      | (Inr None, jobs) \<Rightarrow> (Inr False, set_jobs jobs w)
      | (Inr (Some operation), jobs) \<Rightarrow>
          (let (answer, w') = execute env operation (set_jobs jobs w)
           in complete env (so_operation_id operation) answer w'))"

text \<open>\<open>run_until_idle\<close>, with \<open>max_operations\<close> as the bound of its loop.\<close>

fun run_until_idle :: "('r, 'a, 'm) worker_env \<Rightarrow> nat \<Rightarrow> ('r, 'm) worker \<Rightarrow> (exn + nat) \<times> ('r, 'm) worker" where
  "run_until_idle env 0 w = (Inr 0, w)"
| "run_until_idle env (Suc k) w =
     (case run_once env w of
        (Inl e, w') \<Rightarrow> (Inl e, w')
      | (Inr False, w') \<Rightarrow> (Inr 0, w')
      | (Inr True, w') \<Rightarrow> (let (answer, w'') = run_until_idle env k w'
          in (map_sum id Suc answer, w'')))"

section \<open>Idle maintenance\<close>

record maintenance_state =
  mt_last :: "int option"
  mt_healthy :: bool

text \<open>
  \<open>run_idle_maintenance\<close> at time \<open>now\<close>: without a task it is always healthy; within the interval
  the last verdict stands; otherwise the task runs and an exception makes it unhealthy.
\<close>

definition run_idle_maintenance ::
  "('w \<Rightarrow> bool \<times> 'w) option \<Rightarrow> int \<Rightarrow> bool \<Rightarrow> int \<Rightarrow> maintenance_state \<Rightarrow> 'w \<Rightarrow> bool \<times> maintenance_state \<times> 'w" where
  "run_idle_maintenance task interval forced now mt w =
     (case task of None \<Rightarrow> (True, mt, w)
      | Some run \<Rightarrow>
          if \<not> forced \<and> (case mt_last mt of None \<Rightarrow> False | Some t \<Rightarrow> now - t < interval) then (mt_healthy mt, mt, w)
          else (let (succeeded, w') = run w in (succeeded, \<lparr>mt_last = Some now, mt_healthy = succeeded\<rparr>, w')))"

end
