(* ===== verification/Jobs_Inv.thy ===== *)
theory Jobs_Inv
  imports Jobs
begin

text \<open>
  The invariant of the job store, its preservation by every method, and the durable nonce
  guard as an instance of the replay guard interface.
\<close>

section \<open>Well-formed rows and stores\<close>

text \<open>
  The outcome columns agree with the state, progress stays in the unit interval, a terminal
  row has vacated its deduplication key, and no row is ever canceled.
\<close>

definition row_ok :: "operation_row \<Rightarrow> bool" where
  "row_ok r \<longleftrightarrow>
     0 \<le> op_progress r \<and> op_progress r \<le> 1 \<and> op_state r \<noteq> CANCELED
     \<and> (op_state r = SUCCEEDED \<longleftrightarrow> op_result r \<noteq> None) \<and> (op_state r = SUCCEEDED \<longrightarrow> op_progress r = 1)
     \<and> (op_state r = FAILED \<longleftrightarrow> op_error_code r \<noteq> None) \<and> (op_state r = FAILED \<longleftrightarrow> op_error_message r \<noteq> None)
     \<and> (op_retryable r \<longrightarrow> op_state r = FAILED)
     \<and> (terminal (op_state r) \<longrightarrow> (\<exists>d. op_dedupe r = d @ terminal_mark (op_id r)))"

definition linked :: "operation_row list \<Rightarrow> submission_row list \<Rightarrow> bool" where
  "linked ops subs \<longleftrightarrow>
     (\<forall>s\<in>set subs. \<exists>r\<in>set ops. op_id r = sub_op s \<and> op_env r = sub_env s)
     \<and> (\<forall>r\<in>set ops. \<exists>s\<in>set subs. sub_op s = op_id r)"

definition store_ok :: "job_store \<Rightarrow> bool" where
  "store_ok st \<longleftrightarrow>
     unique_by op_id (operations st) \<and> unique_by dedupe_index (operations st)
     \<and> (\<forall>r\<in>set (operations st). row_ok r)
     \<and> unique_by sub_id (submissions st) \<and> unique_by submission_index (submissions st)
     \<and> linked (operations st) (submissions st)
     \<and> unique_by fst (replay_nonces st) \<and> unique_by active_index_key (active_indexes st)"

lemma store_okD:
  assumes "store_ok st"
  shows "unique_by op_id (operations st)" "unique_by dedupe_index (operations st)"
    "r \<in> set (operations st) \<Longrightarrow> row_ok r"
    "unique_by sub_id (submissions st)" "unique_by submission_index (submissions st)"
    "linked (operations st) (submissions st)"
    "unique_by fst (replay_nonces st)" "unique_by active_index_key (active_indexes st)"
  using assms by (auto simp: store_ok_def)

lemma empty_store_ok: "store_ok empty_store"
  by (simp add: store_ok_def empty_store_def linked_def)

lemma vacate_simps [simp]:
  "op_id (vacate r) = op_id r" "op_env (vacate r) = op_env r" "op_state (vacate r) = op_state r"
  "op_type (vacate r) = op_type r" "op_progress (vacate r) = op_progress r"
  "op_result (vacate r) = op_result r" "op_error_code (vacate r) = op_error_code r"
  "op_error_message (vacate r) = op_error_message r" "op_retryable (vacate r) = op_retryable r"
  "op_dedupe (vacate r) = op_dedupe r @ terminal_mark (op_id r)"
  by (simp_all add: vacate_def)

text \<open>Changing rows in place, with identifiers and environments kept, keeps the store well-formed.\<close>

lemma linked_map:
  assumes "linked ops subs" "\<And>r. r \<in> set ops \<Longrightarrow> p r \<Longrightarrow> op_id (f r) = op_id r \<and> op_env (f r) = op_env r"
  shows "linked (update_where p f ops) subs"
  unfolding linked_def
proof (intro conjI ballI)
  fix s assume "s \<in> set subs"
  then obtain r where r: "r \<in> set ops" "op_id r = sub_op s" "op_env r = sub_env s"
    using assms(1) by (auto simp: linked_def)
  with assms(2) show "\<exists>r\<in>set (update_where p f ops). op_id r = sub_op s \<and> op_env r = sub_env s"
    by (intro bexI [of _ "if p r then f r else r"]) (auto simp: set_update_where)
next
  fix r assume "r \<in> set (update_where p f ops)"
  then obtain r0 where "r0 \<in> set ops" "op_id r = op_id r0"
    using assms(2) by (auto simp: set_update_where)
  then show "\<exists>s\<in>set subs. sub_op s = op_id r" using assms(1) by (auto simp: linked_def)
qed

lemma unique_by_update_rows:
  assumes "unique_by k rows" "\<And>r. r \<in> set rows \<Longrightarrow> p r \<Longrightarrow> k (f r) = k r"
  shows "unique_by k (update_where p f rows)"
proof -
  have "map k (update_where p f rows) = map k rows" using assms(2) by (auto simp: update_where_def)
  with assms(1) show ?thesis by (simp add: unique_by_def)
qed

lemma store_ok_update:
  assumes "store_ok st" "update_unique dedupe_index p f (operations st) = Some ops"
    and "\<And>r. r \<in> set (operations st) \<Longrightarrow> p r \<Longrightarrow> op_id (f r) = op_id r \<and> op_env (f r) = op_env r \<and> row_ok (f r)"
  shows "store_ok (st\<lparr>operations := ops\<rparr>)"
proof -
  note ops = update_unique_Some [OF assms(2)]
  have "unique_by op_id ops"
    unfolding ops by (rule unique_by_update_rows) (use assms(1,3) in \<open>auto simp: store_ok_def\<close>)
  moreover have "unique_by dedupe_index ops"
    by (rule update_unique_unique [OF assms(2)]) (use assms(1) in \<open>simp add: store_ok_def\<close>)
  moreover have "\<forall>r\<in>set ops. row_ok r"
    using assms(1,3) by (auto simp: ops set_update_where store_ok_def)
  moreover have "linked ops (submissions st)"
    unfolding ops by (rule linked_map) (use assms(1,3) in \<open>auto simp: store_ok_def\<close>)
  ultimately show ?thesis using assms(1) by (simp add: store_ok_def)
qed

lemma store_ok_update_in_place:
  assumes "store_ok st"
    and "\<And>r. p r \<Longrightarrow> dedupe_index (f r) = dedupe_index r"
    and "\<And>r. r \<in> set (operations st) \<Longrightarrow> p r \<Longrightarrow> op_id (f r) = op_id r \<and> row_ok (f r)"
  shows "store_ok (st\<lparr>operations := update_where p f (operations st)\<rparr>)"
proof (rule store_ok_update [OF assms(1)])
  show "update_unique dedupe_index p f (operations st) = Some (update_where p f (operations st))"
    by (rule update_unique_same_key) (use assms in \<open>auto simp: store_ok_def\<close>)
qed (use assms(2,3) in \<open>auto simp: dedupe_index_def\<close>)

section \<open>Every method keeps the invariant\<close>

lemma transact_snd:
  "snd (transact body st) = (case body st of Inl e \<Rightarrow> st | Inr (x, st') \<Rightarrow> st')"
  by (simp add: transact_def split: sum.splits prod.splits)

lemma transact_keeps:
  assumes "\<And>x st'. body st = Inr (x, st') \<Longrightarrow> P st'" "P st"
  shows "P (snd (transact body st))"
  using assms by (auto simp: transact_def split: sum.splits prod.splits)

lemma initialize_ok:
  assumes "initialize st = Some st'" "store_ok st" shows "store_ok st'"
proof -
  obtain ops where ops: "update_unique dedupe_index
      (\<lambda>r. terminal (op_state r) \<and> \<not> contains (terminal_mark (op_id r)) (op_dedupe r)) vacate (operations st) = Some ops"
    "st' = st\<lparr>operations := ops\<rparr>"
    using assms(1) by (auto simp: initialize_def)
  show ?thesis
    unfolding ops(2) by (rule store_ok_update [OF assms(2) ops(1)])
      (use assms(2) in \<open>auto simp: store_ok_def row_ok_def\<close>)
qed

lemma claim_ok: "store_ok st \<Longrightarrow> store_ok (snd (claim st k seen expires))"
  by (auto simp: claim_def Let_def store_ok_def unique_by_append intro: unique_by_delete)

lemma insert_operation_Inr:
  "insert_operation r st = Inr st' \<longleftrightarrow>
     op_id r \<notin> op_id ` set (operations st) \<and> dedupe_index r \<notin> dedupe_index ` set (operations st)
     \<and> st' = st\<lparr>operations := operations st @ [r]\<rparr>"
  by (auto simp: insert_operation_def)

lemma insert_submission_Inr:
  "insert_submission s st = Inr st' \<longleftrightarrow>
     sub_id s \<notin> sub_id ` set (submissions st) \<and> submission_index s \<notin> submission_index ` set (submissions st)
     \<and> st' = st\<lparr>submissions := submissions st @ [s]\<rparr>"
  by (auto simp: insert_submission_def)

definition new_operation :: "str \<Rightarrow> submit_call \<Rightarrow> str \<Rightarrow> operation_row" where
  "new_operation op_handle c dedupe =
     \<lparr>op_id = op_handle, op_env = sc_environment c, op_type = sc_operation c, op_dedupe = dedupe,
      op_scope = sc_scope c, op_payload = sort_keys (sc_payload c), op_state = QUEUED,
      op_progress = 0, op_detail = None, op_result = None, op_error_code = None,
      op_error_message = None, op_retryable = False, op_created = sc_now c, op_updated = sc_now c\<rparr>"

definition new_submission :: "str \<Rightarrow> submit_call \<Rightarrow> str \<Rightarrow> str \<Rightarrow> submission_row" where
  "new_submission job_handle c fingerprint operation_id =
     \<lparr>sub_id = job_handle, sub_env = sc_environment c, sub_actor = sc_actor c, sub_key = sc_key c,
      sub_request = sc_request_id c, sub_fingerprint = fingerprint, sub_op = operation_id,
      sub_created = sc_now c\<rparr>"

definition dedupe_of :: "submit_call \<Rightarrow> str \<Rightarrow> str" where
  "dedupe_of c fingerprint = (case or_none (sc_dedupe c) of Some k \<Rightarrow> k | None \<Rightarrow> fingerprint)"

text \<open>The three ways a submission can succeed.\<close>

lemma submit_txn_cases:
  assumes "submit_txn sha op_handle job_handle c st = Inr (out, st')"
  obtains
    (known) fp s where
      "request_fingerprint sha (sc_operation c) (sc_scope c) (sc_payload c) = Some fp"
      "s \<in> set (submissions st)" "submission_index s = (sc_environment c, sc_actor c, sc_key c)"
      "sub_fingerprint s = fp" "st' = st" "\<not> submission_created out" "\<not> operation_created out"
      "get_job st (sub_id s) (sc_environment c) = Inr (outcome_job out)"
  | (joined) fp r where
      "request_fingerprint sha (sc_operation c) (sc_scope c) (sc_payload c) = Some fp"
      "r \<in> set (operations st)" "dedupe_index r = (sc_environment c, sc_operation c, dedupe_of c fp)"
      "insert_submission (new_submission job_handle c fp (op_id r)) st = Inr st'"
      "submission_created out" "\<not> operation_created out"
      "get_job st' job_handle (sc_environment c) = Inr (outcome_job out)"
  | (fresh) fp st1 where
      "request_fingerprint sha (sc_operation c) (sc_scope c) (sc_payload c) = Some fp"
      "\<And>r. r \<in> set (operations st) \<Longrightarrow> dedupe_index r \<noteq> (sc_environment c, sc_operation c, dedupe_of c fp)"
      "case sc_max_active c of None \<Rightarrow> True | Some limit \<Rightarrow> active_operation_count st (sc_environment c) < limit"
      "insert_operation (new_operation op_handle c (dedupe_of c fp)) st = Inr st1"
      "insert_submission (new_submission job_handle c fp op_handle) st1 = Inr st'"
      "submission_created out" "operation_created out"
      "get_job st' job_handle (sc_environment c) = Inr (outcome_job out)"
proof -
  obtain fp where fp: "request_fingerprint sha (sc_operation c) (sc_scope c) (sc_payload c) = Some fp"
    using assms by (auto simp: submit_txn_def and_then_Inr)
  note run = assms [unfolded submit_txn_def fp or_raise_simps and_then_simps Let_def, folded dedupe_of_def]
  let ?find = "find (\<lambda>s. sub_env s = sc_environment c \<and> sub_actor s = sc_actor c \<and> sub_key s = sc_key c) (submissions st)"
  let ?ops = "find (\<lambda>r. op_env r = sc_environment c \<and> op_type r = sc_operation c \<and> op_dedupe r = dedupe_of c fp) (operations st)"
  show thesis
  proof (cases ?find)
    case (Some s)
    with run find_SomeD [OF Some] show thesis
      by (intro known [OF fp, of s]) (auto simp: and_then_Inr submission_index_def)
  next
    case None
    show thesis
    proof (cases ?ops)
      case (Some r)
      with None run find_SomeD [OF Some] show thesis
        by (intro joined [OF fp, of r]) (auto simp: and_then_Inr place_operation_def dedupe_index_def new_submission_def)
    next
      case no_op: None
      from None no_op run obtain st1 where "insert_operation (new_operation op_handle c (dedupe_of c fp)) st = Inr st1"
        "case sc_max_active c of None \<Rightarrow> True | Some limit \<Rightarrow> active_operation_count st (sc_environment c) < limit"
        "insert_submission (new_submission job_handle c fp op_handle) st1 = Inr st'"
        "submission_created out" "operation_created out"
        "get_job st' job_handle (sc_environment c) = Inr (outcome_job out)"
        by (auto simp: and_then_Inr place_operation_def new_submission_def new_operation_def not_le
            cong: option.case_cong)
      moreover have "dedupe_index r \<noteq> (sc_environment c, sc_operation c, dedupe_of c fp)"
        if "r \<in> set (operations st)" for r
        using no_op that by (auto simp: find_None_iff dedupe_index_def)
      ultimately show thesis by (intro fresh [OF fp])
    qed
  qed
qed

lemma new_operation_ok: "row_ok (new_operation h c d)"
  by (simp add: row_ok_def new_operation_def terminal_def)

lemma submit_txn_ok:
  assumes "submit_txn sha op_handle job_handle c st = Inr (out, st')" "store_ok st"
  shows "store_ok st'"
  using assms(1)
proof (cases rule: submit_txn_cases)
  case (joined fp r)
  then show ?thesis
    using assms(2)
    by (auto simp: insert_submission_Inr store_ok_def linked_def unique_by_append new_submission_def dedupe_index_def)
next
  case (fresh fp st1)
  then show ?thesis
    using assms(2) new_operation_ok [of op_handle c "dedupe_of c fp"]
    by (auto simp: insert_submission_Inr insert_operation_Inr store_ok_def linked_def unique_by_append
        new_submission_def new_operation_def)
qed (use assms(2) in simp)

lemma submit_ok: "store_ok st \<Longrightarrow> store_ok (snd (submit sha oh jh c st))"
  unfolding submit_def by (rule transact_keeps) (auto intro: submit_txn_ok)

lemma claim_next_ok:
  assumes "store_ok st" shows "store_ok (snd (claim_next_operation environment now st))"
proof -
  have "store_ok (st\<lparr>operations := update_where (\<lambda>x. op_id x = i \<and> op_state x = QUEUED)
      (start_operation now) (operations st)\<rparr>)" for i
    by (rule store_ok_update_in_place [OF assms])
      (use assms in \<open>auto simp: store_ok_def row_ok_def start_operation_def dedupe_index_def terminal_def\<close>)
  then show ?thesis
    using assms by (auto simp: claim_next_operation_def split: option.splits)
qed

lemma apply_transition_simps:
  "op_id (apply_transition t now r) = op_id r" "op_env (apply_transition t now r) = op_env r"
  "op_type (apply_transition t now r) = op_type r" "op_state (apply_transition t now r) = tr_state t"
  "op_scope (apply_transition t now r) = op_scope r" "op_payload (apply_transition t now r) = op_payload r"
  by (simp_all add: apply_transition_def Let_def vacate_def)

text \<open>A transition whose outcome columns fit its target state.\<close>

definition transition_ok :: "transition \<Rightarrow> bool" where
  "transition_ok t \<longleftrightarrow>
     tr_state t \<noteq> CANCELED
     \<and> (tr_state t = SUCCEEDED \<longleftrightarrow> tr_result t \<noteq> None) \<and> (tr_state t = SUCCEEDED \<longrightarrow> tr_progress t = Some 1)
     \<and> (tr_state t = FAILED \<longleftrightarrow> tr_error_code t \<noteq> None) \<and> (tr_state t = FAILED \<longleftrightarrow> tr_error_message t \<noteq> None)
     \<and> (tr_retryable t \<longrightarrow> tr_state t = FAILED)"

lemma apply_transition_row_ok:
  assumes "row_ok r" "transition_ok t" "case tr_progress t of None \<Rightarrow> True | Some p \<Rightarrow> 0 \<le> p \<and> p \<le> 1"
  shows "row_ok (apply_transition t now r)"
  using assms by (auto simp: row_ok_def transition_ok_def apply_transition_def Let_def split: option.splits)

lemma transition_txn_ok:
  assumes "transition_txn i t now st = Inr (x, st')" "store_ok st" "transition_ok t"
  shows "store_ok st'"
proof -
  from assms(1) obtain ops where ops:
    "update_unique dedupe_index (\<lambda>x. op_id x = i) (apply_transition t now) (operations st) = Some ops"
    "st' = st\<lparr>operations := ops\<rparr>" "case tr_progress t of None \<Rightarrow> True | Some p \<Rightarrow> 0 \<le> p \<and> p \<le> 1"
    by (auto simp: transition_txn_def and_then_Inr)
  show ?thesis
    unfolding ops(2)
    by (rule store_ok_update [OF assms(2) ops(1)])
      (simp add: apply_transition_simps apply_transition_row_ok store_okD(3) [OF assms(2)] assms(3) ops(3))
qed

lemma transition_to_ok: "store_ok st \<Longrightarrow> transition_ok t \<Longrightarrow> store_ok (snd (transition_to i t now st))"
  unfolding transition_to_def by (rule transact_keeps) (auto intro: transition_txn_ok)

lemma transitions_ok:
  "store_ok st \<Longrightarrow> store_ok (snd (set_running i p now st))"
  "store_ok st \<Longrightarrow> store_ok (snd (set_progress i p d now st))"
  "store_ok st \<Longrightarrow> store_ok (snd (succeed i r now st))"
  "store_ok st \<Longrightarrow> store_ok (snd (fail i e m b now st))"
  unfolding set_running_def set_progress_def succeed_def fail_def
  by (rule transition_to_ok; simp add: transition_ok_def plain_transition_def)+

lemma recover_ok:
  assumes "store_ok st" shows "store_ok (snd (recover_interrupted_operations now st))"
  unfolding recover_interrupted_operations_def
proof (rule transact_keeps)
  let ?p = "\<lambda>r. op_state r = RUNNING \<and> resumable (op_type r)"
  let ?st = "st\<lparr>operations := update_where ?p (requeue now) (operations st)\<rparr>"
  have requeued: "store_ok ?st"
    by (rule store_ok_update_in_place [OF assms])
      (use assms in \<open>auto simp: store_ok_def row_ok_def requeue_def dedupe_index_def terminal_def\<close>)
  fix x st' assume "(let requeued = update_where ?p (requeue now) (operations st)
     in and_then (or_raise KeyCollision
          (update_unique dedupe_index (\<lambda>r. op_state r = RUNNING \<and> \<not> resumable (op_type r)) (abandon now) requeued))
        (\<lambda>ops. Inr ((), st\<lparr>operations := ops\<rparr>))) = Inr (x, st')"
  then obtain ops where ops: "update_unique dedupe_index (\<lambda>r. op_state r = RUNNING \<and> \<not> resumable (op_type r))
      (abandon now) (operations ?st) = Some ops" "st' = ?st\<lparr>operations := ops\<rparr>"
    by (auto simp: Let_def and_then_Inr)
  show "store_ok st'"
    unfolding ops(2)
  proof (rule store_ok_update [OF requeued ops(1)])
    fix r assume "r \<in> set (operations ?st)" "op_state r = RUNNING \<and> \<not> resumable (op_type r)"
    then show "op_id (abandon now r) = op_id r \<and> op_env (abandon now r) = op_env r \<and> row_ok (abandon now r)"
      using store_okD(3) [OF requeued, of r] by (simp add: row_ok_def abandon_def)
  qed
qed (rule assms)

lemma purge_ok:
  assumes "store_ok st" shows "store_ok (snd (purge_terminal_operations environment cutoff st))"
proof -
  let ?gone = "op_id ` set (filter (expired_terminal environment cutoff) (operations st))"
  let ?ops = "delete_where (expired_terminal environment cutoff) (operations st)"
  let ?subs = "delete_where (\<lambda>s. sub_op s \<in> ?gone) (submissions st)"
  have gone: "op_id r \<in> ?gone \<longleftrightarrow> expired_terminal environment cutoff r" if "r \<in> set (operations st)" for r
    using that unique_byD [OF store_okD(1) [OF assms]] by auto
  have "linked ?ops ?subs"
    unfolding linked_def set_delete_where
  proof (intro conjI ballI)
    fix s assume s: "s \<in> {s \<in> set (submissions st). sub_op s \<notin> ?gone}"
    then obtain r where "r \<in> set (operations st)" "op_id r = sub_op s" "op_env r = sub_env s"
      using store_okD(6) [OF assms] by (auto simp: linked_def)
    with s gone [of r] show "\<exists>r\<in>{r \<in> set (operations st). \<not> expired_terminal environment cutoff r}.
        op_id r = sub_op s \<and> op_env r = sub_env s" by auto
  next
    fix r assume r: "r \<in> {r \<in> set (operations st). \<not> expired_terminal environment cutoff r}"
    then obtain s where "s \<in> set (submissions st)" "sub_op s = op_id r"
      using store_okD(6) [OF assms] by (auto simp: linked_def)
    with r gone [of r] show "\<exists>s\<in>{s \<in> set (submissions st). sub_op s \<notin> ?gone}. sub_op s = op_id r"
      by (intro bexI [of _ s]) auto
  qed
  with assms show ?thesis
    by (auto simp: purge_terminal_operations_def store_ok_def set_delete_where intro: unique_by_delete)
qed

lemma activate_index_ok: "store_ok st \<Longrightarrow> store_ok (activate_index s environment a now st)"
  by (auto simp: activate_index_def Let_def store_ok_def active_index_key_def unique_by_append
      intro: unique_by_update)

lemma activate_indexes_ok: "store_ok st \<Longrightarrow> store_ok (activate_indexes entries environment now st)"
  by (induction entries environment now st rule: activate_indexes.induct) (simp_all add: activate_index_ok)

lemma snapshot_ok: "store_ok st \<Longrightarrow> store_ok (snd (storage_retention_snapshot environment cutoff st))"
  by (auto simp: storage_retention_snapshot_def Let_def store_ok_def intro: unique_by_delete)

lemmas store_ok_steps = submit_ok claim_next_ok transitions_ok recover_ok purge_ok activate_index_ok
  activate_indexes_ok snapshot_ok claim_ok

section \<open>The durable replay guard\<close>

definition durable_expiry :: "job_store \<Rightarrow> claim_key \<Rightarrow> int option" where
  "durable_expiry st k = map_of (replay_nonces st) k"

lemma claim_memory:
  "fst (claim st k seen expires) = fst (memory_claim (replay_nonces st) k seen expires)"
  "fst (claim st k seen expires) \<Longrightarrow>
     replay_nonces (snd (claim st k seen expires)) = snd (memory_claim (replay_nonces st) k seen expires)"
  "\<not> fst (claim st k seen expires) \<Longrightarrow> snd (claim st k seen expires) = st"
  by (auto simp: claim_def memory_claim_def Let_def split: if_splits)

text \<open>
  The durable guard answers like the process-local one on the same claims, so its laws follow
  from those of the process-local guard; a refused claim changes nothing at all.
\<close>

interpretation durable: replay_guard claim durable_expiry store_ok
proof
  fix st k k' seen expires e
  assume st: "store_ok st"
  then have ok: "memory_ok (replay_nonces st)" by (simp add: memory_ok_def store_ok_def)
  show "fst (claim st k seen expires) \<longleftrightarrow> (\<forall>e. durable_expiry st k = Some e \<longrightarrow> e < seen)"
    unfolding claim_memory using memory.claim_accepts [OF ok]
    by (simp add: durable_expiry_def memory_expiry_def)
  show "fst (claim st k seen expires) \<Longrightarrow> durable_expiry (snd (claim st k seen expires)) k = Some expires"
    using memory.claim_records [OF ok, of k seen expires]
    by (simp add: durable_expiry_def memory_expiry_def claim_memory)
  show "durable_expiry st k' = Some e \<Longrightarrow> seen \<le> e \<Longrightarrow> durable_expiry (snd (claim st k seen expires)) k' = Some e"
    using memory.claim_keeps [OF ok, of k' e seen k expires]
    by (cases "fst (claim st k seen expires)") (simp_all add: durable_expiry_def memory_expiry_def claim_memory(2,3))
  show "durable_expiry (snd (claim st k seen expires)) k' = Some e \<Longrightarrow>
      durable_expiry st k' = Some e \<or> (k' = k \<and> e = expires \<and> fst (claim st k seen expires))"
    using memory.claim_invents_nothing [OF ok, of k seen expires k' e]
    by (cases "fst (claim st k seen expires)") (simp_all add: durable_expiry_def memory_expiry_def claim_memory)
  show "store_ok (snd (claim st k seen expires))" by (rule claim_ok [OF st])
qed

end
