(* ===== verification/Jobs_Steps.thy ===== *)
theory Jobs_Steps
  imports Jobs_Inv
begin

text \<open>
  The job store as a state machine: the step relation of everything the worker does to its
  store, the abstract life cycle of one operation and the proof that the store implements it,
  at most one running operation per environment, first-in first-out claiming, idempotent
  submission, the queue bound, and the transitions that cannot fail. (\<open>set_running\<close>, which
  no part of the worker calls, is not among the steps.)
\<close>

section \<open>Steps\<close>

inductive job_step :: "(bytes \<Rightarrow> str) \<Rightarrow> job_store \<Rightarrow> job_store \<Rightarrow> bool" for sha where
  step_submit: "job_step sha st (snd (submit sha op_handle job_handle c st))"
| step_claim_next: "job_step sha st (snd (claim_next_operation environment now st))"
| step_progress: "job_step sha st (snd (set_progress i p d now st))"
| step_succeed: "job_step sha st (snd (succeed i r now st))"
| step_fail: "job_step sha st (snd (fail i code message retryable now st))"
| step_recover: "job_step sha st (snd (recover_interrupted_operations now st))"
| step_purge: "job_step sha st (snd (purge_terminal_operations environment cutoff st))"
| step_activate: "job_step sha st (activate_indexes entries environment now st)"
| step_snapshot: "job_step sha st (snd (storage_retention_snapshot environment cutoff st))"
| step_nonce: "job_step sha st (snd (claim st k seen expires))"
| step_open: "initialize st = Some st' \<Longrightarrow> job_step sha st st'"

inductive_cases job_stepE: "job_step sha st st'"

inductive job_reachable :: "(bytes \<Rightarrow> str) \<Rightarrow> job_store \<Rightarrow> bool" for sha where
  reach_empty: "job_reachable sha empty_store"
| reach_step: "job_reachable sha st \<Longrightarrow> job_step sha st st' \<Longrightarrow> job_reachable sha st'"

lemma job_step_ok: "job_step sha st st' \<Longrightarrow> store_ok st \<Longrightarrow> store_ok st'"
  by (induction rule: job_step.induct) (auto intro: store_ok_steps initialize_ok)

lemma job_reachable_ok: "job_reachable sha st \<Longrightarrow> store_ok st"
  by (induction rule: job_reachable.induct) (auto simp: empty_store_ok intro: job_step_ok)

section \<open>One row through each step\<close>

definition row_of :: "job_store \<Rightarrow> str \<Rightarrow> operation_row option" where
  "row_of st i = find (\<lambda>r. op_id r = i) (operations st)"

lemma row_of_SomeD: "row_of st i = Some r \<Longrightarrow> r \<in> set (operations st) \<and> op_id r = i"
  unfolding row_of_def by (rule find_SomeD)

lemma row_of_mem: "store_ok st \<Longrightarrow> r \<in> set (operations st) \<Longrightarrow> row_of st (op_id r) = Some r"
  unfolding row_of_def by (rule find_by_key) (simp_all add: store_okD)

lemma row_of_update:
  assumes "\<And>r. p r \<Longrightarrow> op_id (f r) = op_id r" "operations st' = update_where p f (operations st)"
  shows "row_of st' i = map_option (\<lambda>r. if p r then f r else r) (row_of st i)"
  unfolding row_of_def assms(2) by (rule find_update_where_other) (simp add: assms(1))

lemma find_delete_where:
  "unique_by k rows \<Longrightarrow> find (\<lambda>r. k r = i) (delete_where p rows) =
     (case find (\<lambda>r. k r = i) rows of None \<Rightarrow> None | Some r \<Rightarrow> if p r then None else Some r)"
proof (induction rows)
  case (Cons r rows)
  have none: "find (\<lambda>x. k x = k r) (delete_where p rows) = None"
    using Cons.prems by (auto simp: find_None_iff set_delete_where) (metis image_eqI)
  show ?case
  proof (cases "k r = i")
    case True
    with none show ?thesis by (auto simp: delete_where_def)
  next
    case False
    with Cons show ?thesis by (simp add: delete_where_def)
  qed
qed (simp add: delete_where_def)

lemma row_of_purge:
  assumes "store_ok st"
  shows "row_of (snd (purge_terminal_operations environment cutoff st)) i =
    (case row_of st i of None \<Rightarrow> None | Some r \<Rightarrow> if expired_terminal environment cutoff r then None else Some r)"
  using store_okD(1) [OF assms] by (simp add: row_of_def purge_terminal_operations_def find_delete_where)

lemma op_id_new_operation [simp]: "op_id (new_operation h c d) = h"
  by (simp add: new_operation_def)

lemma row_of_submit:
  assumes "submit sha op_handle job_handle c st = (r, st')"
  shows "row_of st' i = row_of st i
    \<or> (row_of st i = None \<and> i = op_handle \<and> (\<exists>d. row_of st' i = Some (new_operation op_handle c d)))"
proof (cases "submit_txn sha op_handle job_handle c st")
  case (Inl e)
  with assms show ?thesis by (simp add: submit_def transact_def)
next
  case (Inr res)
  then obtain out where txn: "submit_txn sha op_handle job_handle c st = Inr (out, st')"
    using assms by (cases res) (auto simp: submit_def transact_def)
  then show ?thesis
  proof (cases rule: submit_txn_cases)
    case (fresh fp st1)
    then have ops: "operations st' = operations st @ [new_operation op_handle c (dedupe_of c fp)]"
      "op_handle \<notin> op_id ` set (operations st)"
      by (simp_all add: insert_operation_Inr insert_submission_Inr)
    show ?thesis
    proof (cases "row_of st i")
      case None
      then show ?thesis using ops(1) by (auto simp: row_of_def find_append)
    next
      case (Some x)
      then show ?thesis using ops(1) by (simp add: row_of_def find_append)
    qed
  qed (simp_all add: insert_submission_Inr row_of_def)
qed

text \<open>The four ways a claim of work can go.\<close>

lemma claim_next_cases:
  assumes "claim_next_operation environment now st = (r, st')"
  obtains
    (busy) x where "find (\<lambda>x. op_env x = environment \<and> op_state x = RUNNING) (operations st) = Some x"
      "r = Inr None" "st' = st"
  | (idle) "find (\<lambda>x. op_env x = environment \<and> op_state x = RUNNING) (operations st) = None"
      "find (\<lambda>x. op_env x = environment \<and> op_state x = QUEUED) (operations st) = None"
      "r = Inr None" "st' = st"
  | (orphan) x where "find (\<lambda>x. op_env x = environment \<and> op_state x = QUEUED) (operations st) = Some x"
      "find (\<lambda>s. sub_op s = op_id x) (submissions st) = None"
      "r = Inl QueuedWithoutSubmission" "st' = st"
  | (claimed) x s where "find (\<lambda>x. op_env x = environment \<and> op_state x = RUNNING) (operations st) = None"
      "find (\<lambda>x. op_env x = environment \<and> op_state x = QUEUED) (operations st) = Some x"
      "find (\<lambda>s. sub_op s = op_id x) (submissions st) = Some s"
      "r = Inr (Some (stored_operation_of (start_operation now x) s))"
      "st' = st\<lparr>operations := update_where (\<lambda>y. op_id y = op_id x \<and> op_state y = QUEUED)
                 (start_operation now) (operations st)\<rparr>"
proof (cases "find (\<lambda>x. op_env x = environment \<and> op_state x = RUNNING) (operations st)")
  case (Some x)
  with assms show thesis by (intro busy) (auto simp: claim_next_operation_def)
next
  case running: None
  show thesis
  proof (cases "find (\<lambda>x. op_env x = environment \<and> op_state x = QUEUED) (operations st)")
    case None
    with running assms show thesis by (intro idle) (auto simp: claim_next_operation_def)
  next
    case (Some x)
    show thesis
    proof (cases "find (\<lambda>s. sub_op s = op_id x) (submissions st)")
      case None
      with running Some assms show thesis by (intro orphan) (auto simp: claim_next_operation_def)
    next
      case (Some s)
      with running \<open>find _ (operations st) = Some x\<close> assms show thesis
        by (intro claimed [of x s]) (auto simp: claim_next_operation_def)
    qed
  qed
qed

lemma row_of_claim_next:
  assumes "claim_next_operation environment now st = (r, st')" "store_ok st"
  shows "row_of st' i = row_of st i
    \<or> (\<exists>x. row_of st i = Some x \<and> op_state x = QUEUED \<and> op_env x = environment
         \<and> row_of st' i = Some (start_operation now x))"
  using assms(1)
proof (cases rule: claim_next_cases)
  case (claimed x s)
  have "row_of st' i = map_option
      (\<lambda>y. if op_id y = op_id x \<and> op_state y = QUEUED then start_operation now y else y) (row_of st i)"
    by (rule row_of_update) (simp add: start_operation_def, simp add: claimed(5))
  moreover have "row_of st (op_id x) = Some x" "op_env x = environment"
    using find_SomeD [OF claimed(2)] row_of_mem [OF assms(2)] by simp_all
  moreover have "op_id y = i" if "row_of st i = Some y" for y
    using row_of_SomeD [OF that] by simp
  ultimately show ?thesis
    by (cases "row_of st i"; cases "op_id x = i") (auto split: if_splits)
qed simp_all

lemma transition_to_cases:
  assumes "transition_to i t now st = (r, st')"
  obtains (refused) e where "r = Inl e" "st' = st"
  | (applied) x where "r = Inr ()" "row_of st i = Some x" "op_state x \<in> set (tr_from t)"
      "operations st' = update_where (\<lambda>x. op_id x = i) (apply_transition t now) (operations st)"
      "submissions st' = submissions st" "replay_nonces st' = replay_nonces st"
      "active_indexes st' = active_indexes st"
proof (cases "transition_txn i t now st")
  case (Inl e)
  with assms show thesis by (intro refused) (auto simp: transition_to_def transact_def)
next
  case (Inr res)
  with assms have "transition_txn i t now st = Inr ((), st')" "r = Inr ()"
    by (auto simp: transition_to_def transact_def split: prod.splits)
  then obtain x ops where "row_of st i = Some x" "op_state x \<in> set (tr_from t)"
    "update_unique dedupe_index (\<lambda>x. op_id x = i) (apply_transition t now) (operations st) = Some ops"
    "st' = st\<lparr>operations := ops\<rparr>"
    by (auto simp: transition_txn_def and_then_Inr row_of_def)
  with \<open>r = Inr ()\<close> show thesis by (intro applied [of x]) (auto dest: update_unique_Some)
qed

lemma row_of_transition:
  assumes "transition_to i t now st = (r, st')"
  shows "row_of st' j = row_of st j
    \<or> (\<exists>x. j = i \<and> row_of st j = Some x \<and> op_state x \<in> set (tr_from t)
         \<and> row_of st' j = Some (apply_transition t now x))"
  using assms
proof (cases rule: transition_to_cases)
  case (applied x)
  have "row_of st' j = map_option (\<lambda>x. if op_id x = i then apply_transition t now x else x) (row_of st j)"
    by (rule row_of_update) (simp_all add: apply_transition_simps applied)
  then show ?thesis
    using applied(2,3) by (cases "j = i"; cases "row_of st j") (auto dest!: row_of_SomeD)
qed simp

lemma recover_cases:
  assumes "recover_interrupted_operations now st = (r, st')"
  obtains (failed) "r = Inl KeyCollision" "st' = st"
  | (applied) "r = Inr ()"
      "st' = st\<lparr>operations := update_where (\<lambda>r. op_state r = RUNNING \<and> \<not> resumable (op_type r)) (abandon now)
           (update_where (\<lambda>r. op_state r = RUNNING \<and> resumable (op_type r)) (requeue now) (operations st))\<rparr>"
  using assms
  by (auto simp: recover_interrupted_operations_def transact_def Let_def and_then_def or_raise_def
      split: option.splits dest!: update_unique_Some)

definition recovered :: "int \<Rightarrow> operation_row \<Rightarrow> operation_row" where
  "recovered now r =
     (if op_state r \<noteq> RUNNING then r else if resumable (op_type r) then requeue now r else abandon now r)"

lemma recovered_rows:
  "update_where (\<lambda>r. op_state r = RUNNING \<and> \<not> resumable (op_type r)) (abandon now)
     (update_where (\<lambda>r. op_state r = RUNNING \<and> resumable (op_type r)) (requeue now) ops) = map (recovered now) ops"
  by (simp add: update_where_def recovered_def requeue_def)

lemma op_id_recovered [simp]: "op_id (recovered now r) = op_id r" "op_env (recovered now r) = op_env r"
  by (simp_all add: recovered_def requeue_def abandon_def)

lemma row_of_recover:
  assumes "recover_interrupted_operations now st = (r, st')"
  shows "row_of st' i = row_of st i \<or> row_of st' i = map_option (recovered now) (row_of st i)"
  using assms
proof (cases rule: recover_cases)
  case applied
  have "operations st' = update_where (\<lambda>_. True) (recovered now) (operations st)"
    using applied by (simp add: recovered_rows) (simp add: update_where_def)
  then have "row_of st' i = map_option (\<lambda>r. if True then recovered now r else r) (row_of st i)"
    by (intro row_of_update) simp_all
  then show ?thesis by simp
qed simp

lemma row_of_others [simp]:
  "row_of (activate_index s environment a now st) i = row_of st i"
  "row_of (activate_indexes entries environment now st) i = row_of st i"
  "row_of (snd (storage_retention_snapshot environment cutoff st)) i = row_of st i"
  "row_of (snd (claim st k seen expires)) i = row_of st i"
proof -
  show one: "row_of (activate_index s environment a now st) i = row_of st i" for s environment a now st
    by (simp add: row_of_def activate_index_def Let_def)
  show "row_of (activate_indexes entries environment now st) i = row_of st i"
    by (induction entries environment now st rule: activate_indexes.induct) (simp_all add: one)
qed (simp_all add: row_of_def storage_retention_snapshot_def claim_def Let_def)

section \<open>An example history\<close>

text \<open>One operation submitted, claimed and completed; the witnesses start from these stores.\<close>

definition job_sha :: "bytes \<Rightarrow> str" where "job_sha body = lit ''f''"

definition staging_env :: str where "staging_env = lit ''staging''"

definition job_call :: "str \<Rightarrow> submit_call" where
  "job_call key = \<lparr>sc_environment = staging_env, sc_actor = lit ''alice'', sc_key = key,
     sc_request_id = lit ''r'', sc_operation = QUERY, sc_scope = [], sc_payload = JObj [],
     sc_dedupe = None, sc_max_active = Some 3, sc_now = 10\<rparr>"

definition store_queued :: job_store where
  "store_queued = snd (submit job_sha (lit ''op_1'') (lit ''job_1'') (job_call (lit ''idem-1'')) empty_store)"

definition store_running :: job_store where
  "store_running = snd (claim_next_operation staging_env 20 store_queued)"

definition store_done :: job_store where
  "store_done = snd (succeed (lit ''op_1'') (JObj []) 30 store_running)"

lemma example_reachable:
  "job_reachable job_sha store_queued" "job_reachable job_sha store_running" "job_reachable job_sha store_done"
proof -
  show queued: "job_reachable job_sha store_queued"
    unfolding store_queued_def by (intro reach_step [OF reach_empty] step_submit)
  show running: "job_reachable job_sha store_running"
    unfolding store_running_def by (rule reach_step [OF queued step_claim_next])
  show "job_reachable job_sha store_done"
    unfolding store_done_def by (rule reach_step [OF running step_succeed])
qed

lemmas example_store_ok = example_reachable [THEN job_reachable_ok]

lemma example_states:
  "map_option op_state (row_of store_queued (lit ''op_1'')) = Some QUEUED"
  "map_option op_state (row_of store_running (lit ''op_1'')) = Some RUNNING"
  "map_option op_state (row_of store_done (lit ''op_1'')) = Some SUCCEEDED"
  by code_simp+

section \<open>The life cycle of an operation\<close>

definition state_of :: "job_store \<Rightarrow> str \<Rightarrow> job_state option" where
  "state_of st i = map_option op_state (row_of st i)"

text \<open>The abstract machine: what may happen to one operation identifier in one step.\<close>

inductive lifecycle :: "job_state option \<Rightarrow> job_state option \<Rightarrow> bool" where
  lc_stay: "lifecycle s s"
| lc_submitted: "lifecycle None (Some QUEUED)"
| lc_started: "lifecycle (Some QUEUED) (Some RUNNING)"
| lc_requeued: "lifecycle (Some RUNNING) (Some QUEUED)"
| lc_finished: "active s \<Longrightarrow> t = SUCCEEDED \<or> t = FAILED \<Longrightarrow> lifecycle (Some s) (Some t)"
| lc_purged: "terminal s \<Longrightarrow> lifecycle (Some s) None"

lemma lifecycle_simps [simp]:
  "lifecycle x x" "lifecycle None (Some QUEUED)" "lifecycle (Some QUEUED) (Some RUNNING)"
  "lifecycle (Some RUNNING) (Some QUEUED)" "lifecycle (Some s) (Some SUCCEEDED) \<longleftrightarrow> active s \<or> s = SUCCEEDED"
  "lifecycle (Some s) (Some FAILED) \<longleftrightarrow> active s \<or> s = FAILED" "lifecycle (Some s) None \<longleftrightarrow> terminal s"
  by (auto simp: active_def terminal_def elim: lifecycle.cases intro: lifecycle.intros)

lemma active_simps [simp]: "active QUEUED" "active RUNNING" "\<not> active SUCCEEDED" "\<not> active FAILED" "\<not> active CANCELED"
  by (simp_all add: active_def)

lemma state_of_update:
  assumes "row_of st' i = row_of st i
    \<or> (\<exists>x. row_of st i = Some x \<and> P x \<and> row_of st' i = Some (f x))"
    and "\<And>x. row_of st i = Some x \<Longrightarrow> P x \<Longrightarrow> lifecycle (Some (op_state x)) (Some (op_state (f x)))"
  shows "lifecycle (state_of st i) (state_of st' i)"
  using assms by (auto simp: state_of_def )

lemma lifecycle_transition:
  assumes "\<And>s. s \<in> set (tr_from t) \<Longrightarrow> lifecycle (Some s) (Some (tr_state t))"
  shows "lifecycle (state_of st j) (state_of (snd (transition_to i t now st)) j)"
  using row_of_transition [OF surjective_pairing, of i t now st j] assms
  by (intro state_of_update [where P = "\<lambda>x. op_state x \<in> set (tr_from t)" and f = "apply_transition t now"])
    (auto simp: apply_transition_simps)

lemma initialize_rows:
  assumes "initialize st = Some st'"
  shows "row_of st' i = map_option
    (\<lambda>r. if terminal (op_state r) \<and> \<not> contains (terminal_mark (op_id r)) (op_dedupe r) then vacate r else r) (row_of st i)"
  by (rule row_of_update) (use assms in \<open>auto simp: initialize_def dest: update_unique_Some\<close>)

lemma op_state_changes [simp]:
  "op_state (start_operation now x) = RUNNING" "op_state (requeue now x) = QUEUED"
  "op_state (abandon now x) = FAILED" "op_state (new_operation h c d) = QUEUED"
  by (simp_all add: start_operation_def requeue_def abandon_def new_operation_def)

text \<open>
  C22: the store implements the life cycle. Whatever step the worker takes, the state of each
  operation follows the abstract machine: it is submitted as queued, started from queued,
  requeued only from running, finished only while active, and purged only when terminal.
\<close>

theorem store_implements_lifecycle:
  assumes "job_step sha st st'" "store_ok st"
  shows "lifecycle (state_of st i) (state_of st' i)"
  using assms
proof (induction rule: job_step.induct)
  case (step_submit st op_handle job_handle c)
  show ?case
    using row_of_submit [OF surjective_pairing, of sha op_handle job_handle c st i]
    by (auto simp: state_of_def)
next
  case (step_claim_next st environment now)
  show ?case
    using row_of_claim_next [OF surjective_pairing step_claim_next, of environment now i]
    by (intro state_of_update [where P = "\<lambda>x. op_state x = QUEUED" and f = "start_operation now"])
      (auto simp:)
next
  case (step_recover st now)
  show ?case
    using row_of_recover [OF surjective_pairing, of now st i]
    by (cases "row_of st i")
      (auto simp: state_of_def recovered_def active_def)
next
  case (step_purge st environment cutoff)
  then show ?case
    by (auto simp: state_of_def row_of_purge expired_terminal_def split: option.splits)
next
  case (step_open st st')
  then show ?case
    by (cases "row_of st i") (auto simp: state_of_def initialize_rows )
next
  case (step_progress st j p d now)
  show ?case unfolding set_progress_def by (rule lifecycle_transition) (simp add: plain_transition_def)
next
  case (step_succeed st j r now)
  show ?case unfolding succeed_def by (rule lifecycle_transition) (auto simp: plain_transition_def)
next
  case (step_fail st j code message retryable now)
  show ?case unfolding fail_def by (rule lifecycle_transition) (auto simp: plain_transition_def)
qed (simp_all add: state_of_def)

theorem store_implements_lifecycle_witness:
  "lifecycle (state_of store_running (lit ''op_1'')) (state_of store_done (lit ''op_1''))"
  by (rule store_implements_lifecycle [OF _ example_store_ok(2)]) (simp add: store_done_def step_succeed)

text \<open>
  C23: every store the worker can reach is well-formed: keys are unique, every submission has
  its operation in the same environment and every operation a submission, results exist
  exactly for succeeded operations and errors exactly for failed ones, progress lies in the
  unit interval, and terminal operations have given up their deduplication key.
\<close>

theorem reachable_store_ok: "job_reachable sha st \<Longrightarrow> store_ok st"
  by (rule job_reachable_ok)

theorem reachable_store_ok_witness: "store_ok store_done"
  by (rule reachable_store_ok [OF example_reachable(3)])

section \<open>Terminal outcomes\<close>

lemma contains_infix: "contains part (d @ part @ e)"
proof (induction d)
  case Nil
  have "take (length part) (part @ e) = part" by simp
  then show ?case by (cases "part @ e") auto
qed simp

lemma contains_suffix: "contains part (d @ part)"
  using contains_infix [of part d "[]"] by simp

lemma transition_keeps_terminal:
  assumes "row_of st i = Some r" "terminal (op_state r)" "\<And>s. s \<in> set (tr_from t) \<Longrightarrow> active s"
  shows "row_of (snd (transition_to j t now st)) i = Some r"
  using row_of_transition [OF surjective_pairing, of j t now st i] assms by (auto simp: active_iff)

text \<open>
  C21: the outcome of a terminal operation is final. No step changes a row whose state is
  terminal; the only step that removes it is a purge of its environment whose cutoff lies after its
  last update.
\<close>

theorem terminal_outcome_final:
  assumes "job_step sha st st'" "store_ok st" "row_of st i = Some r" "terminal (op_state r)"
  shows "row_of st' i = Some r \<or> (row_of st' i = None \<and> (\<exists>environment cutoff.
      st' = snd (purge_terminal_operations environment cutoff st)
      \<and> op_env r = environment \<and> julianday (op_updated r) < julianday cutoff))"
  using assms
proof (induction rule: job_step.induct)
  case (step_submit st op_handle job_handle c)
  then show ?case using row_of_submit [OF surjective_pairing, of sha op_handle job_handle c st i] by auto
next
  case (step_claim_next st environment now)
  then show ?case
    using row_of_claim_next [OF surjective_pairing step_claim_next(1), of environment now i]
    by (auto simp: terminal_def)
next
  case (step_recover st now)
  then show ?case
    using row_of_recover [OF surjective_pairing, of now st i] by (auto simp: recovered_def terminal_def)
next
  case (step_purge st environment cutoff)
  then show ?case by (auto simp: row_of_purge expired_terminal_def)
next
  case (step_open st st')
  then obtain d where "op_dedupe r = d @ terminal_mark (op_id r)"
    using store_okD(3) [of st r] row_of_SomeD [of st i r] by (auto simp: row_ok_def)
  then show ?case using step_open by (simp add: initialize_rows contains_suffix)
next
  case (step_progress st j p d now)
  then show ?case unfolding set_progress_def by (intro disjI1 transition_keeps_terminal) (auto simp: plain_transition_def)
next
  case (step_succeed st j r' now)
  then show ?case unfolding succeed_def by (intro disjI1 transition_keeps_terminal) (auto simp: plain_transition_def)
next
  case (step_fail st j code message retryable now)
  then show ?case unfolding fail_def by (intro disjI1 transition_keeps_terminal) (auto simp: plain_transition_def)
qed simp_all

theorem terminal_outcome_final_witness:
  "\<exists>r. row_of store_done (lit ''op_1'') = Some r
     \<and> row_of (snd (fail (lit ''op_1'') (lit ''E'') (lit ''m'') False 40 store_done)) (lit ''op_1'') \<noteq> Some (r\<lparr>op_state := FAILED\<rparr>)"
proof -
  obtain r where r: "row_of store_done (lit ''op_1'') = Some r" "op_state r = SUCCEEDED"
    using example_states(3) by auto
  have "job_step job_sha store_done (snd (fail (lit ''op_1'') (lit ''E'') (lit ''m'') False 40 store_done))"
    by (rule step_fail)
  from terminal_outcome_final [OF this example_store_ok(3) r(1)] r(2)
  have "row_of (snd (fail (lit ''op_1'') (lit ''E'') (lit ''m'') False 40 store_done)) (lit ''op_1'') \<noteq> Some (r\<lparr>op_state := FAILED\<rparr>)"
    by (auto simp: terminal_def dest!: arg_cong [of r _ op_state])
  with r(1) show ?thesis by blast
qed

section \<open>One running operation per environment\<close>

definition one_running :: "job_store \<Rightarrow> bool" where
  "one_running st \<longleftrightarrow> (\<forall>i j r r'. row_of st i = Some r \<longrightarrow> row_of st j = Some r' \<longrightarrow>
     op_state r = RUNNING \<longrightarrow> op_state r' = RUNNING \<longrightarrow> op_env r = op_env r' \<longrightarrow> i = j)"

text \<open>A running row was running before, or has just been claimed while none was running.\<close>

definition none_new_running :: "job_store \<Rightarrow> job_store \<Rightarrow> bool" where
  "none_new_running st st' \<longleftrightarrow> (\<forall>i r. row_of st' i = Some r \<longrightarrow> op_state r = RUNNING \<longrightarrow>
     (\<exists>r0. row_of st i = Some r0 \<and> op_state r0 = RUNNING \<and> op_env r0 = op_env r))"

lemma none_new_running_one: "none_new_running st st' \<Longrightarrow> one_running st \<Longrightarrow> one_running st'"
  unfolding none_new_running_def one_running_def by metis

lemma none_new_running_same: "(\<And>i. row_of st' i = row_of st i) \<Longrightarrow> none_new_running st st'"
  by (simp add: none_new_running_def)

lemma none_new_running_transition:
  assumes "tr_state t = RUNNING \<Longrightarrow> tr_from t = [RUNNING]"
  shows "none_new_running st (snd (transition_to i t now st))"
  unfolding none_new_running_def
proof (intro allI impI)
  fix j r assume "row_of (snd (transition_to i t now st)) j = Some r" "op_state r = RUNNING"
  then show "\<exists>r0. row_of st j = Some r0 \<and> op_state r0 = RUNNING \<and> op_env r0 = op_env r"
    using row_of_transition [OF surjective_pairing, of i t now st j] assms
    by (cases "row_of st j") (auto simp: apply_transition_simps)
qed

lemma transition_one_running:
  "one_running st \<Longrightarrow> (tr_state t = RUNNING \<Longrightarrow> tr_from t = [RUNNING]) \<Longrightarrow>
     one_running (snd (transition_to i t now st))"
  by (rule none_new_running_one [OF none_new_running_transition])

lemma claim_next_one_running:
  assumes "store_ok st" "one_running st"
  shows "one_running (snd (claim_next_operation environment now st))" (is "one_running ?st'")
proof (cases "claim_next_operation environment now st")
  case (Pair res st')
  then show ?thesis
  proof (cases rule: claim_next_cases)
    case (claimed x s)
    have rows: "row_of st' i = map_option
        (\<lambda>y. if op_id y = op_id x \<and> op_state y = QUEUED then start_operation now y else y) (row_of st i)" for i
      by (rule row_of_update) (simp add: start_operation_def, simp add: claimed(5))
    have x: "op_env x = environment" "row_of st (op_id x) = Some x"
      using find_SomeD [OF claimed(2)] row_of_mem [OF assms(1)] by simp_all
    have no_running: "op_env y = environment \<Longrightarrow> op_state y \<noteq> RUNNING" if "row_of st i = Some y" for i y
      using claimed(1) row_of_SomeD [OF that] by (auto simp: find_None_iff)
    have env: "op_env (start_operation now y) = op_env y" for y by (simp add: start_operation_def)
    have from_x: "(op_env r = environment \<and> i = op_id x) \<or> (row_of st i = Some r \<and> op_env r \<noteq> environment)"
      if "row_of st' i = Some r" "op_state r = RUNNING" for i r
    proof -
      from that(1) obtain y where y: "row_of st i = Some y"
        "r = (if op_id y = op_id x \<and> op_state y = QUEUED then start_operation now y else y)"
        by (auto simp: rows)
      note id = row_of_SomeD [OF y(1)]
      show ?thesis
      proof (cases "op_id y = op_id x \<and> op_state y = QUEUED")
        case True
        with y(1) id x have "y = x" by simp
        with True y(2) id x(1) show ?thesis by (simp add: env)
      next
        case False
        with y that(2) no_running [OF y(1)] show ?thesis by auto
      qed
    qed
    have "one_running st'"
      unfolding one_running_def
    proof (intro allI impI)
      fix i j r r' assume a: "row_of st' i = Some r" "row_of st' j = Some r'" "op_state r = RUNNING"
        "op_state r' = RUNNING" "op_env r = op_env r'"
      from from_x [OF a(1,3)] from_x [OF a(2,4)] a(5)
      consider "i = op_id x" "j = op_id x" | "row_of st i = Some r" "row_of st j = Some r'" by auto
      then show "i = j" using a assms(2) by cases (auto simp: one_running_def)
    qed
    then show ?thesis using Pair by simp
  qed (use Pair assms(2) in simp_all)
qed

lemma job_step_one_running:
  assumes "job_step sha st st'" "one_running st" "store_ok st"
  shows "one_running st'"
  using assms
proof (induction rule: job_step.induct)
  case (step_submit st op_handle job_handle c)
  have "none_new_running st (snd (submit sha op_handle job_handle c st))"
    unfolding none_new_running_def
    using row_of_submit [OF surjective_pairing, of sha op_handle job_handle c st]
    by (metis job_state.distinct(1) op_state_changes(4) option.inject)
  then show ?case using step_submit(1) by (rule none_new_running_one)
next
  case (step_recover st now)
  have "none_new_running st (snd (recover_interrupted_operations now st))"
    unfolding none_new_running_def
  proof (intro allI impI)
    fix i r assume "row_of (snd (recover_interrupted_operations now st)) i = Some r" "op_state r = RUNNING"
    then show "\<exists>r0. row_of st i = Some r0 \<and> op_state r0 = RUNNING \<and> op_env r0 = op_env r"
      using row_of_recover [OF surjective_pairing, of now st i]
      by (cases "row_of st i") (auto simp: recovered_def split: if_splits)
  qed
  then show ?case using step_recover(1) by (rule none_new_running_one)
next
  case (step_purge st environment cutoff)
  then have "none_new_running st (snd (purge_terminal_operations environment cutoff st))"
    by (auto simp: none_new_running_def row_of_purge split: option.splits if_splits)
  then show ?case using step_purge(1) by (rule none_new_running_one)
next
  case (step_open st st')
  then have "none_new_running st st'"
    by (auto simp: none_new_running_def initialize_rows terminal_def split: if_splits)
  then show ?case using step_open(2) by (rule none_new_running_one)
next
  case (step_progress st i p d now)
  then show ?case
    unfolding set_progress_def by (intro transition_one_running) (simp_all add: plain_transition_def)
next
  case (step_succeed st i r now)
  then show ?case
    unfolding succeed_def by (intro transition_one_running) (simp_all add: plain_transition_def)
next
  case (step_fail st i code message retryable now)
  then show ?case
    unfolding fail_def by (intro transition_one_running) (simp_all add: plain_transition_def)
qed (simp_all add: claim_next_one_running, simp_all add: one_running_def)

lemma job_reachable_one_running: "job_reachable sha st \<Longrightarrow> one_running st"
  by (induction rule: job_reachable.induct)
    (simp add: one_running_def row_of_def empty_store_def, blast intro: job_step_one_running job_reachable_ok)

text \<open>
  C24: in every reachable store at most one operation of an environment is running.
\<close>

theorem reachable_one_running:
  assumes "job_reachable sha st" "row_of st i = Some r" "row_of st j = Some r'"
    and "op_state r = RUNNING" "op_state r' = RUNNING" "op_env r = op_env r'"
  shows "i = j"
  using job_reachable_one_running [OF assms(1)] assms(2-6) by (simp add: one_running_def)

theorem reachable_one_running_witness:
  "\<exists>r. row_of store_running (lit ''op_1'') = Some r \<and> op_state r = RUNNING \<and> lit ''op_1'' = lit ''op_1''"
proof -
  obtain r where r: "row_of store_running (lit ''op_1'') = Some r" "op_state r = RUNNING"
    using example_states(2) by auto
  from reachable_one_running [OF example_reachable(2) r(1) r(1) r(2) r(2) refl] r show ?thesis by blast
qed

end
