(* ===== verification/Jobs_Props.thy ===== *)
theory Jobs_Props
  imports Jobs_Steps
begin

text \<open>
  What the methods of the job store promise to their callers: idempotent submission, the queue
  bound, sharing of live operations only, first-in first-out claiming, recovery after a restart,
  transitions that do not fail, and the catalogue of active indexes.
\<close>

section \<open>Submission\<close>

lemma example_submission:
  "\<exists>s. submissions store_queued = [s] \<and> submission_index s = (staging_env, lit ''alice'', lit ''idem-1'') \<and> sub_fingerprint s = lit ''f''"
proof -
  have "length (submissions store_queued) = 1"
    "submission_index (hd (submissions store_queued)) = (staging_env, lit ''alice'', lit ''idem-1'')"
    "sub_fingerprint (hd (submissions store_queued)) = lit ''f''" by code_simp+
  then show ?thesis by (cases "submissions store_queued") auto
qed

lemma example_fingerprint:
  "request_fingerprint job_sha (sc_operation (job_call k)) (sc_scope (job_call k)) (sc_payload (job_call k)) = Some (lit ''f'')"
proof -
  have "request_fingerprint job_sha QUERY [] (JObj []) = Some (lit ''f'')" by code_simp
  then show ?thesis by (simp add: job_call_def)
qed

definition outcome_of :: "(job_store_error + submission_outcome) \<times> job_store \<Rightarrow> submission_outcome option" where
  "outcome_of r = (case fst r of Inl _ \<Rightarrow> None | Inr out \<Rightarrow> Some out)"

lemma find_submission:
  assumes "store_ok st" "s \<in> set (submissions st)"
  shows "find (\<lambda>x. sub_env x = sub_env s \<and> sub_actor x = sub_actor s \<and> sub_key x = sub_key s) (submissions st) = Some s"
    and "find (\<lambda>x. sub_id x = sub_id s \<and> sub_env x = sub_env s) (submissions st) = Some s"
proof -
  have "find (\<lambda>x. submission_index x = submission_index s) (submissions st) = Some s"
    by (rule find_by_key [OF store_okD(5) [OF assms(1)] assms(2)])
  then show "find (\<lambda>x. sub_env x = sub_env s \<and> sub_actor x = sub_actor s \<and> sub_key x = sub_key s) (submissions st) = Some s"
    by (simp add: submission_index_def)
  obtain y where y: "find (\<lambda>x. sub_id x = sub_id s \<and> sub_env x = sub_env s) (submissions st) = Some y"
    using find_ex [OF assms(2), of "\<lambda>x. sub_id x = sub_id s \<and> sub_env x = sub_env s"] by auto
  then have "y = s" using find_SomeD [OF y] unique_byD [OF store_okD(4) [OF assms(1)] _ assms(2)] by simp
  with y show "find (\<lambda>x. sub_id x = sub_id s \<and> sub_env x = sub_env s) (submissions st) = Some s" by simp
qed

lemma get_known_job:
  assumes "store_ok st" "s \<in> set (submissions st)"
  obtains r where "row_of st (sub_op s) = Some r" "op_env r = sub_env s"
    "get_job st (sub_id s) (sub_env s) = Inr (stored_job_of s r)"
proof -
  obtain r where r: "r \<in> set (operations st)" "op_id r = sub_op s" "op_env r = sub_env s"
    using store_okD(6) [OF assms(1)] assms(2) by (auto simp: linked_def)
  then have "row_of st (sub_op s) = Some r" using row_of_mem [OF assms(1) r(1)] by simp
  with r(3) show thesis
    by (intro that [of r]) (simp_all add: get_job_def find_submission [OF assms] row_of_def)
qed

text \<open>
  C28: submission is idempotent. Once a submission with some environment, actor and idempotency
  key is stored, repeating the request changes nothing and answers with the stored handle and
  the current state of its operation; the same key with a different operation, scope or payload
  is refused.
\<close>

theorem submit_idempotent:
  assumes "store_ok st" "s \<in> set (submissions st)"
    and "submission_index s = (sc_environment c, sc_actor c, sc_key c)"
    and "request_fingerprint sha (sc_operation c) (sc_scope c) (sc_payload c) = Some fp"
  shows "if sub_fingerprint s = fp
    then \<exists>r. row_of st (sub_op s) = Some r \<and> submit sha op_handle job_handle c st =
           (Inr \<lparr>outcome_job = stored_job_of s r, submission_created = False, operation_created = False\<rparr>, st)
    else submit sha op_handle job_handle c st = (Inl IdempotencyConflict, st)"
proof -
  have c: "sub_env s = sc_environment c" "sub_actor s = sc_actor c" "sub_key s = sc_key c"
    using assms(3) by (simp_all add: submission_index_def)
  obtain r where r: "row_of st (sub_op s) = Some r" "get_job st (sub_id s) (sc_environment c) = Inr (stored_job_of s r)"
    using get_known_job [OF assms(1,2)] by (metis c(1))
  have "submit_txn sha op_handle job_handle c st =
      demand IdempotencyConflict (sub_fingerprint s = fp)
        (Inr (\<lparr>outcome_job = stored_job_of s r, submission_created = False, operation_created = False\<rparr>, st))"
    using find_submission(1) [OF assms(1,2)] by (simp add: submit_txn_def assms(4) Let_def c r(2))
  with r(1) show ?thesis by (simp add: submit_def transact_def)
qed

theorem submit_idempotent_witness:
  "snd (submit job_sha (lit ''op_2'') (lit ''job_2'') (job_call (lit ''idem-1'')) store_queued) = store_queued"
proof -
  obtain s where s: "submissions store_queued = [s]" "submission_index s = (staging_env, lit ''alice'', lit ''idem-1'')"
    "sub_fingerprint s = lit ''f''" using example_submission by blast
  from submit_idempotent [OF example_store_ok(1) _ _ example_fingerprint, of s "lit ''idem-1''" "lit ''op_2''" "lit ''job_2''"]
  show ?thesis using s by (auto simp: job_call_def)
qed

lemma store_error_cases:
  "get_job st i environment = Inl e \<Longrightarrow> e = JobNotFound"
  "insert_operation r st = Inl e \<Longrightarrow> e = KeyCollision"
  "insert_submission s st = Inl e \<Longrightarrow> e = KeyCollision"
  by (auto simp: get_job_def insert_operation_def insert_submission_def demand_Inl split: option.splits if_splits)

lemma queue_full_place:
  assumes "place_operation op_handle c dedupe st = Inl QueueFull"
  shows "\<exists>limit. sc_max_active c = Some limit \<and> limit \<le> active_operation_count st (sc_environment c)"
proof (rule ccontr)
  assume "\<not> ?thesis"
  then have room: "case sc_max_active c of None \<Rightarrow> True
      | Some limit \<Rightarrow> \<not> active_operation_count st (sc_environment c) \<ge> limit"
    by (auto split: option.splits)
  with assms show False
    unfolding place_operation_def
    by (auto simp: demand_Inl and_then_Inl dest: store_error_cases(2) split: option.splits if_splits)
qed

lemma submit_txn_queue_full:
  assumes "submit_txn sha op_handle job_handle c st = Inl QueueFull"
  shows "place_operation op_handle c (dedupe_of c (the (request_fingerprint sha (sc_operation c) (sc_scope c) (sc_payload c)))) st
    = Inl QueueFull"
proof -
  obtain fp where fp: "request_fingerprint sha (sc_operation c) (sc_scope c) (sc_payload c) = Some fp"
    using assms by (cases "request_fingerprint sha (sc_operation c) (sc_scope c) (sc_payload c)")
      (simp_all add: submit_txn_def)
  note run = assms [unfolded submit_txn_def fp or_raise_simps and_then_simps Let_def, folded dedupe_of_def]
  show ?thesis
  proof (cases "find (\<lambda>s. sub_env s = sc_environment c \<and> sub_actor s = sc_actor c \<and> sub_key s = sc_key c) (submissions st)")
    case (Some s)
    with run show ?thesis
      by (auto simp: demand_Inl and_then_Inl dest: store_error_cases(1) split: if_splits)
  next
    case None
    with run fp show ?thesis
      by (auto simp: and_then_Inl dest: store_error_cases(1,3))
  qed
qed

text \<open>
  The queue bound. A submission that creates an operation under a limit found fewer active
  operations of its environment than the limit, so afterwards there are at most as many as the
  limit; every other submission leaves the number as it was. The code reports a full queue
  only when the limit is reached.
\<close>

theorem submit_queue_bound:
  assumes "submit sha op_handle job_handle c st = (res, st')"
  shows "case res of
      Inr out \<Rightarrow> active_operation_count st' (sc_environment c)
          = active_operation_count st (sc_environment c) + (if operation_created out then 1 else 0)
        \<and> (\<forall>limit. sc_max_active c = Some limit \<longrightarrow> operation_created out \<longrightarrow>
             active_operation_count st' (sc_environment c) \<le> limit)
    | Inl e \<Rightarrow> st' = st \<and> (e = QueueFull \<longrightarrow>
        (\<exists>limit. sc_max_active c = Some limit \<and> limit \<le> active_operation_count st (sc_environment c)))"
proof (cases "submit_txn sha op_handle job_handle c st")
  case (Inl e)
  have "\<exists>limit. sc_max_active c = Some limit \<and> limit \<le> active_operation_count st (sc_environment c)" if "e = QueueFull"
    by (rule queue_full_place [OF submit_txn_queue_full [OF Inl [unfolded that]]])
  moreover have "res = Inl e" "st' = st" using Inl assms by (simp_all add: submit_def transact_def)
  ultimately show ?thesis by simp
next
  case (Inr x)
  obtain out st1 where x: "x = (out, st1)" by (cases x)
  with Inr assms have txn: "submit_txn sha op_handle job_handle c st = Inr (out, st')" and res: "res = Inr out"
    by (auto simp: submit_def transact_def)
  from txn show ?thesis
  proof (cases rule: submit_txn_cases)
    case (fresh fp st1)
    have "active (op_state (new_operation op_handle c (dedupe_of c fp)))"
      "op_env (new_operation op_handle c (dedupe_of c fp)) = sc_environment c"
      by (simp_all add: new_operation_def active_def)
    with fresh show ?thesis
      unfolding res
      by (auto simp: insert_operation_Inr insert_submission_Inr active_operation_count_def count_where_append)
  qed (auto simp: res insert_submission_Inr active_operation_count_def)
qed

theorem submit_queue_bound_witness: "active_operation_count store_queued staging_env \<le> 3"
proof -
  let ?r = "submit job_sha (lit ''op_1'') (lit ''job_1'') (job_call (lit ''idem-1'')) empty_store"
  have "map_option operation_created (outcome_of ?r) = Some True" by code_simp
  then obtain out where "fst ?r = Inr out" "operation_created out"
    by (auto simp: outcome_of_def split: sum.splits)
  with submit_queue_bound [OF surjective_pairing, of job_sha "lit ''op_1''" "lit ''job_1''" "job_call (lit ''idem-1'')" empty_store]
  show ?thesis by (auto simp: job_call_def store_queued_def)
qed

text \<open>
  Only live work is shared. A new submission that joins an existing operation joins one of
  its own environment and type that is queued or running, for every key that is not itself of the vacated form.
\<close>

theorem submit_joins_live_operation:
  assumes "submit sha op_handle job_handle c st = (Inr out, st')" "store_ok st"
    and "submission_created out" "\<not> operation_created out"
    and "request_fingerprint sha (sc_operation c) (sc_scope c) (sc_payload c) = Some fp"
    and "\<not> contains (lit '':terminal:'') (dedupe_of c fp)"
  shows "active (sj_state (outcome_job out)) \<and> sj_operation (outcome_job out) = sc_operation c
    \<and> sj_environment (outcome_job out) = sc_environment c \<and> sj_actor_user_id (outcome_job out) = sc_actor c"
proof -
  have "submit_txn sha op_handle job_handle c st = Inr (out, st')"
    using assms(1) by (auto simp: submit_def transact_def split: sum.splits prod.splits)
  then show ?thesis
  proof (cases rule: submit_txn_cases)
    case (joined fp' r)
    note ins = joined(4) [unfolded insert_submission_Inr]
    let ?s = "new_submission job_handle c fp' (op_id r)"
    have fresh: "find (\<lambda>x. sub_id x = job_handle \<and> sub_env x = sc_environment c) (submissions st) = None"
      using ins by (auto simp: find_None_iff new_submission_def)
    have "find (\<lambda>x. op_id x = op_id r) (operations st) = Some r"
      using row_of_mem [OF assms(2) joined(2)] by (simp add: row_of_def)
    with ins joined(7) fresh have out: "outcome_job out = stored_job_of ?s r"
      by (simp add: get_job_def find_append new_submission_def)
    have "\<not> terminal (op_state r)"
    proof
      assume "terminal (op_state r)"
      then obtain d where "op_dedupe r = d @ terminal_mark (op_id r)"
        using store_okD(3) [OF assms(2) joined(2)] by (auto simp: row_ok_def)
      moreover have "op_dedupe r = dedupe_of c fp" using joined(1,3) assms(5) by (simp add: dedupe_index_def)
      ultimately show False
        using assms(6) contains_infix [of "lit '':terminal:''" d "op_id r"] by (simp add: terminal_mark_def)
    qed
    with out joined(3) show ?thesis
      by (simp add: stored_job_of_def active_iff new_submission_def dedupe_index_def)
  qed (use assms(3,4) in simp_all)
qed

theorem submit_joins_live_operation_witness:
  "\<exists>out st'. submit job_sha (lit ''op_2'') (lit ''job_2'') (job_call (lit ''idem-2'')) store_queued = (Inr out, st')
     \<and> active (sj_state (outcome_job out))"
proof -
  let ?r = "submit job_sha (lit ''op_2'') (lit ''job_2'') (job_call (lit ''idem-2'')) store_queued"
  have "map_option (\<lambda>o'. (submission_created o', operation_created o')) (outcome_of ?r) = Some (True, False)" by code_simp
  then obtain out where out: "fst ?r = Inr out" "submission_created out" "\<not> operation_created out"
    by (auto simp: outcome_of_def split: sum.splits)
  have plain: "\<not> contains (lit '':terminal:'') (dedupe_of (job_call (lit ''idem-2'')) (lit ''f''))" by code_simp
  have r: "?r = (Inr out, snd ?r)" using out(1) by (metis surjective_pairing)
  from submit_joins_live_operation [OF r example_store_ok(1) out(2,3) example_fingerprint plain] r show ?thesis by blast
qed

section \<open>Claiming work\<close>

lemma update_where_one:
  assumes "unique_by op_id (us @ x # vs)" "op_state x = QUEUED"
  shows "update_where (\<lambda>y. op_id y = op_id x \<and> op_state y = QUEUED) f (us @ x # vs) = us @ f x # vs"
proof -
  have "update_where (\<lambda>y. op_id y = op_id x \<and> op_state y = QUEUED) f zs = zs" if "op_id x \<notin> op_id ` set zs" for zs
    by (rule update_where_idle) (use that in \<open>auto simp: image_iff\<close>)
  with assms show ?thesis by (auto simp: unique_by_append)
qed

text \<open>
  C29: work is claimed in the order of submission. When a runner is given an operation, none of
  its environment was running, the operation is the oldest queued one of the environment, it
  is marked running with its progress reset and nothing else changes; the runner sees the
  caller of the oldest submission.
\<close>

theorem claim_next_fifo:
  assumes "claim_next_operation environment now st = (Inr (Some so), st')" "store_ok st"
  shows "\<exists>us x vs s. operations st = us @ x # vs \<and> (\<forall>u\<in>set us. op_env u = environment \<longrightarrow> op_state u \<noteq> QUEUED)
    \<and> (\<forall>y\<in>set (operations st). op_env y = environment \<longrightarrow> op_state y \<noteq> RUNNING)
    \<and> op_env x = environment \<and> op_state x = QUEUED
    \<and> find (\<lambda>s. sub_op s = op_id x) (submissions st) = Some s
    \<and> st' = st\<lparr>operations := us @ start_operation now x # vs\<rparr>
    \<and> so = stored_operation_of (start_operation now x) s"
  using assms(1)
proof (cases rule: claim_next_cases)
  case (claimed x s)
  obtain us vs where split: "operations st = us @ x # vs" "\<forall>u\<in>set us. \<not> (op_env u = environment \<and> op_state u = QUEUED)"
    using find_Some_first [OF claimed(2)] by blast
  have x: "op_env x = environment" "op_state x = QUEUED" using find_SomeD [OF claimed(2)] by simp_all
  have "st' = st\<lparr>operations := us @ start_operation now x # vs\<rparr>"
    using claimed(5) update_where_one [of us x vs "start_operation now"] store_okD(1) [OF assms(2)] x(2)
    by (simp add: split(1))
  with split x claimed(1,3,4) show ?thesis
    by (intro exI [of _ us] exI [of _ x] exI [of _ vs] exI [of _ s]) (auto simp: find_None_iff)
qed simp_all

lemma example_claim:
  "\<exists>so. claim_next_operation staging_env 20 store_queued = (Inr (Some so), store_running)"
proof -
  have "(case fst (claim_next_operation staging_env 20 store_queued) of Inl _ \<Rightarrow> False | Inr x \<Rightarrow> x \<noteq> None)" by code_simp
  then show ?thesis
    unfolding store_running_def by (cases "claim_next_operation staging_env 20 store_queued") (auto split: sum.splits)
qed

theorem claim_next_fifo_witness:
  "\<exists>us x vs. operations store_queued = us @ x # vs \<and> operations store_running = us @ start_operation 20 x # vs"
proof -
  obtain so where "claim_next_operation staging_env 20 store_queued = (Inr (Some so), store_running)" using example_claim by blast
  from claim_next_fifo [OF this example_store_ok(1)] obtain us x vs where
    "operations store_queued = us @ x # vs"
    and run: "store_running = store_queued\<lparr>operations := us @ start_operation 20 x # vs\<rparr>" by blast
  moreover have "operations store_running = us @ start_operation 20 x # vs"
    using arg_cong [OF run, of operations] by simp
  ultimately show ?thesis by blast
qed

lemma claim_total:
  assumes "store_ok st"
  shows "\<exists>answer. fst (claim_next_operation environment now st) = Inr answer
    \<and> (answer = None \<longleftrightarrow> (\<exists>r\<in>set (operations st). op_env r = environment \<and> op_state r = RUNNING)
        \<or> \<not> (\<exists>r\<in>set (operations st). op_env r = environment \<and> op_state r = QUEUED))"
proof (cases "claim_next_operation environment now st")
  case (Pair res st')
  then show ?thesis
  proof (cases rule: claim_next_cases)
    case (busy x)
    then show ?thesis using Pair find_SomeD [OF busy(1)] by auto
  next
    case idle
    then show ?thesis using Pair by (auto simp: find_None_iff)
  next
    case (orphan x)
    then have "x \<in> set (operations st)" by (auto dest: find_SomeD)
    then obtain s where "s \<in> set (submissions st)" "sub_op s = op_id x"
      using store_okD(6) [OF assms] by (auto simp: linked_def)
    with orphan(2) show ?thesis by (auto simp: find_None_iff)
  next
    case (claimed x s)
    then show ?thesis using Pair find_SomeD [OF claimed(2)] by (auto simp: find_None_iff)
  qed
qed

text \<open>
  A runner is never left without work that could run: in a well-formed store the claim
  never fails, and it answers with nothing only when some operation of the environment is
  running or none is queued.
\<close>

theorem claim_next_live:
  assumes "store_ok st"
  shows "\<exists>answer. fst (claim_next_operation environment now st) = Inr answer
    \<and> (answer = None \<longleftrightarrow> (\<exists>r\<in>set (operations st). op_env r = environment \<and> op_state r = RUNNING)
        \<or> \<not> (\<exists>r\<in>set (operations st). op_env r = environment \<and> op_state r = QUEUED))"
  by (rule claim_total [OF assms])

theorem claim_next_live_witness: "\<exists>answer. fst (claim_next_operation staging_env 20 store_queued) = Inr answer"
  using claim_next_live [OF example_store_ok(1)] by blast

section \<open>Transitions that cannot fail\<close>

text \<open>
  Handles are \<open>op_\<close> followed by URL-safe base64, so they hold no colon; live keys, the digests of
  requests, are not of the vacated form.
\<close>

definition colon_free :: "str \<Rightarrow> bool" where
  "colon_free s \<longleftrightarrow> 58 \<notin> set s"

definition keys_plain :: "job_store \<Rightarrow> bool" where
  "keys_plain st \<longleftrightarrow> (\<forall>r\<in>set (operations st). colon_free (op_id r)
     \<and> (active (op_state r) \<longrightarrow> \<not> contains (lit '':terminal:'') (op_dedupe r)))"

lemma terminal_mark_eq: "terminal_mark i = [58, 116, 101, 114, 109, 105, 110, 97, 108] @ 58 # i"
  by (simp add: terminal_mark_def lit_def)

lemma vacated_key_unique:
  assumes "d @ terminal_mark i = d' @ terminal_mark i'" "colon_free i" "colon_free i'"
  shows "i = i' \<and> d = d'"
proof -
  have tail: "takeWhile (\<lambda>c. c \<noteq> 58) (rev (e @ terminal_mark j)) = rev j" if "colon_free j" for e j
    using that by (auto simp: terminal_mark_eq colon_free_def takeWhile_append)
  have "rev i = rev i'" using tail [OF assms(2), of d] tail [OF assms(3), of d'] assms(1) by metis
  with assms(1) show ?thesis by (simp add: terminal_mark_def)
qed

lemma vacated_key_fresh:
  assumes "store_ok st" "keys_plain st" "r \<in> set (operations st)" "y \<in> set (operations st)" "y \<noteq> r"
  shows "dedupe_index y \<noteq> (e, k, d @ terminal_mark (op_id r))"
proof
  assume eq: "dedupe_index y = (e, k, d @ terminal_mark (op_id r))"
  have ids: "colon_free (op_id y)" "colon_free (op_id r)" using assms(2-4) by (auto simp: keys_plain_def)
  show False
  proof (cases "terminal (op_state y)")
    case True
    then obtain d' where "op_dedupe y = d' @ terminal_mark (op_id y)"
      using store_okD(3) [OF assms(1,4)] by (auto simp: row_ok_def)
    with eq have "d' @ terminal_mark (op_id y) = d @ terminal_mark (op_id r)" by (simp add: dedupe_index_def)
    then have "op_id y = op_id r" using vacated_key_unique ids by blast
    with assms(5) unique_byD [OF store_okD(1) [OF assms(1)] assms(4,3)] show False by blast
  next
    case False
    with assms(2,4) have "\<not> contains (lit '':terminal:'') (op_dedupe y)" by (auto simp: keys_plain_def active_iff)
    with eq contains_infix [of "lit '':terminal:''" d "op_id r"] show False
      by (simp add: dedupe_index_def terminal_mark_def)
  qed
qed

lemma update_one_unique:
  assumes "store_ok st" "keys_plain st" "row_of st i = Some r"
    and "dedupe_index (f r) = dedupe_index r \<or> (\<exists>e k d. dedupe_index (f r) = (e, k, d @ terminal_mark i))"
  shows "update_unique dedupe_index (\<lambda>x. op_id x = i) f (operations st) =
    Some (update_where (\<lambda>x. op_id x = i) f (operations st))"
proof (rule update_unique_ok)
  have r: "r \<in> set (operations st)" "op_id r = i" using row_of_SomeD [OF assms(3)] by simp_all
  have only: "x = r" if "x \<in> set (operations st)" "op_id x = i" for x
    using unique_byD [OF store_okD(1) [OF assms(1)] that(1) r(1)] that(2) r(2) by simp
  show "dedupe_index (f x) \<notin> dedupe_index ` (set (operations st) - {x})" if "x \<in> set (operations st)" "op_id x = i" for x
    using assms(4)
  proof
    assume "dedupe_index (f r) = dedupe_index r"
    then show ?thesis using only [OF that] unique_byD [OF store_okD(2) [OF assms(1)] _ r(1)] by auto
  next
    assume "\<exists>e k d. dedupe_index (f r) = (e, k, d @ terminal_mark i)"
    then obtain e k d where "dedupe_index (f r) = (e, k, d @ terminal_mark (op_id r))" using r(2) by auto
    then have other: "dedupe_index (f r) \<noteq> dedupe_index y" if "y \<in> set (operations st) - {r}" for y
      using vacated_key_fresh [OF assms(1,2) r(1), of y e k d] that by simp
    have "dedupe_index (f r) \<notin> dedupe_index ` (set (operations st) - {r})"
    proof
      assume "dedupe_index (f r) \<in> dedupe_index ` (set (operations st) - {r})"
      then obtain y where "y \<in> set (operations st) - {r}" "dedupe_index (f r) = dedupe_index y" by (rule imageE)
      with other show False by blast
    qed
    then show ?thesis using only [OF that] by simp
  qed
  show "inj_on (\<lambda>x. dedupe_index (f x)) {x \<in> set (operations st). op_id x = i}"
    using only by (auto simp: inj_on_def)
  show "distinct (operations st)" using store_okD(1) [OF assms(1)] by (rule unique_by_distinct)
qed

lemma transition_total:
  assumes "store_ok st" "keys_plain st" "row_of st i = Some r" "op_state r \<in> set (tr_from t)"
    and "case tr_progress t of None \<Rightarrow> True | Some p \<Rightarrow> 0 \<le> p \<and> p \<le> 1" "encodable (tr_detail t)" "encodable (tr_result t)"
  shows "transition_to i t now st =
    (Inr (), st\<lparr>operations := update_where (\<lambda>x. op_id x = i) (apply_transition t now) (operations st)\<rparr>)"
proof -
  have "dedupe_index (apply_transition t now r) = dedupe_index r
      \<or> (\<exists>e k d. dedupe_index (apply_transition t now r) = (e, k, d @ terminal_mark i))"
    using row_of_SomeD [OF assms(3)] by (auto simp: apply_transition_def Let_def dedupe_index_def vacate_def)
  from update_one_unique [where f = "apply_transition t now", OF assms(1-3) this] show ?thesis
    using assms(3-7) by (simp add: transition_to_def transition_txn_def transact_def row_of_def)
qed


lemma example_keys_plain: "keys_plain store_queued" "keys_plain store_running" "keys_plain store_done"
  by code_simp+


section \<open>Recovery after a restart\<close>

lemma recover_total:
  assumes "store_ok st" "keys_plain st"
  shows "recover_interrupted_operations now st = (Inr (), st\<lparr>operations := map (recovered now) (operations st)\<rparr>)"
proof -
  let ?p = "\<lambda>r. op_state r = RUNNING \<and> resumable (op_type r)"
  let ?q = "\<lambda>r. op_state r = RUNNING \<and> \<not> resumable (op_type r)"
  let ?ops = "update_where ?p (requeue now) (operations st)"
  have key: "dedupe_index (requeue now r) = dedupe_index r" "op_id (requeue now r) = op_id r" for r
    by (simp_all add: requeue_def dedupe_index_def)
  have "update_unique dedupe_index ?q (abandon now) ?ops = Some (update_where ?q (abandon now) ?ops)"
  proof (rule update_unique_ok)
    have dist: "distinct (map op_id ?ops)"
      using unique_by_update [OF store_okD(1) [OF assms(1)], of ?p "requeue now"] key by (simp add: unique_by_def)
    then show "distinct ?ops" by (simp add: distinct_map)
    have orig: "x \<in> set (operations st)" if "x \<in> set ?ops" "?q x" for x
      using that by (auto simp: set_update_where requeue_def split: if_splits)
    have abandoned: "dedupe_index (abandon now x) = (op_env x, op_type x, op_dedupe x @ terminal_mark (op_id x))" for x
      by (simp add: abandon_def dedupe_index_def)
    show "dedupe_index (abandon now x) \<notin> dedupe_index ` (set ?ops - {x})" if x: "x \<in> set ?ops" "?q x" for x
    proof
      assume "dedupe_index (abandon now x) \<in> dedupe_index ` (set ?ops - {x})"
      then obtain y where y: "y \<in> set ?ops" "y \<noteq> x" "dedupe_index (abandon now x) = dedupe_index y" by auto
      from y(1) obtain z where z: "z \<in> set (operations st)" "dedupe_index y = dedupe_index z" "op_id y = op_id z"
        using key by (auto simp: set_update_where split: if_splits)
      have "op_id y \<noteq> op_id x" using dist y(1,2) x(1) by (auto simp: distinct_map inj_on_def)
      then have "z \<noteq> x" using z(3) by auto
      from vacated_key_fresh [OF assms orig [OF x] z(1) this] y(3) z(2) show False by (metis abandoned)
    qed
    show "inj_on (\<lambda>x. dedupe_index (abandon now x)) {x \<in> set ?ops. ?q x}"
    proof (rule inj_onI)
      fix x y assume x: "x \<in> {x \<in> set ?ops. ?q x}" and y: "y \<in> {x \<in> set ?ops. ?q x}"
        and eq: "dedupe_index (abandon now x) = dedupe_index (abandon now y)"
      have mem: "x \<in> set (operations st)" "y \<in> set (operations st)" using x y orig by auto
      then have "op_id x = op_id y"
        using vacated_key_unique [of "op_dedupe x" "op_id x" "op_dedupe y" "op_id y"] eq assms(2)
        by (auto simp: abandoned keys_plain_def)
      with mem show "x = y" using unique_byD [OF store_okD(1) [OF assms(1)]] by blast
    qed
  qed
  then show ?thesis
    by (simp add: recover_interrupted_operations_def transact_def Let_def recovered_rows)
qed

text \<open>
  C31: recovery after a restart succeeds and leaves nothing running: interrupted ingest
  and rebuild operations are queued again with their progress reset, interrupted queries and model operations fail as
  retryable with \<open>WORKER_RESTARTED\<close>, and every other row is untouched.
\<close>

theorem recovery_settles_everything:
  assumes "store_ok st" "keys_plain st"
  shows "\<exists>st'. recover_interrupted_operations now st = (Inr (), st') \<and> store_ok st'
    \<and> (\<forall>r\<in>set (operations st'). op_state r \<noteq> RUNNING)
    \<and> (\<forall>i r. row_of st i = Some r \<longrightarrow> (\<exists>r'. row_of st' i = Some r' \<and>
          (if op_state r \<noteq> RUNNING then r' = r
           else if resumable (op_type r) then op_state r' = QUEUED \<and> op_progress r' = 0
           else op_state r' = FAILED \<and> op_retryable r' \<and> op_error_code r' = Some (lit ''WORKER_RESTARTED''))))"
proof -
  let ?st = "st\<lparr>operations := map (recovered now) (operations st)\<rparr>"
  note run = recover_total [OF assms, of now]
  have "store_ok ?st" using recover_ok [OF assms(1), of now] run by simp
  moreover have "row_of ?st i = map_option (recovered now) (row_of st i)" for i
    using row_of_update [of "\<lambda>_. True" "recovered now" ?st st i] by (simp add: update_where_def)
  moreover have "op_state (recovered now r) \<noteq> RUNNING" for r by (simp add: recovered_def)
  moreover have "(if op_state r \<noteq> RUNNING then recovered now r = r
           else if resumable (op_type r) then op_state (recovered now r) = QUEUED \<and> op_progress (recovered now r) = 0
           else op_state (recovered now r) = FAILED \<and> op_retryable (recovered now r)
             \<and> op_error_code (recovered now r) = Some (lit ''WORKER_RESTARTED''))" for r
    by (simp add: recovered_def requeue_def abandon_def vacate_def)
  ultimately show ?thesis using run by (intro exI [of _ ?st]) auto
qed

theorem recovery_settles_everything_witness:
  "\<exists>st'. recover_interrupted_operations 40 store_running = (Inr (), st') \<and> store_ok st'"
  using recovery_settles_everything [OF example_store_ok(2) example_keys_plain(2)] by blast

section \<open>Retention\<close>

lemma find_delete_where_other:
  "(\<And>r. r \<in> set rows \<Longrightarrow> q r \<Longrightarrow> \<not> p r) \<Longrightarrow> find q (delete_where p rows) = find q rows"
  by (induction rows) (auto simp: delete_where_def)

text \<open>
  A purge is invisible to every job it does not remove. Looking a handle up after a purge
  gives what it gave before, except that a handle of a terminal operation of the purged
  environment last updated before the cutoff is not found any more. The returned number is the number of operations removed.
\<close>

theorem purge_removes_only_expired:
  assumes "store_ok st"
  shows "get_job (snd (purge_terminal_operations environment cutoff st)) i e =
      (case get_job st i e of Inl err \<Rightarrow> Inl err
       | Inr job \<Rightarrow> if e = environment \<and> terminal (sj_state job) \<and> julianday (sj_updated_at job) < julianday cutoff
                   then Inl JobNotFound else Inr job)
    \<and> fst (purge_terminal_operations environment cutoff st) + length (operations (snd (purge_terminal_operations environment cutoff st)))
        = length (operations st)"
proof
  let ?st = "snd (purge_terminal_operations environment cutoff st)"
  let ?expired = "expired_terminal environment cutoff"
  let ?gone = "op_id ` set (filter ?expired (operations st))"
  have subs: "submissions ?st = delete_where (\<lambda>s. sub_op s \<in> ?gone) (submissions st)"
    by (simp add: purge_terminal_operations_def)
  show "get_job ?st i e = (case get_job st i e of Inl err \<Rightarrow> Inl err
       | Inr job \<Rightarrow> if e = environment \<and> terminal (sj_state job) \<and> julianday (sj_updated_at job) < julianday cutoff
                   then Inl JobNotFound else Inr job)"
  proof (cases "find (\<lambda>s. sub_id s = i \<and> sub_env s = e) (submissions st)")
    case None
    then have "find (\<lambda>s. sub_id s = i \<and> sub_env s = e) (submissions ?st) = None"
      by (auto simp: find_None_iff subs set_delete_where)
    with None show ?thesis by (simp add: get_job_def)
  next
    case (Some s)
    then have s: "s \<in> set (submissions st)" "sub_id s = i" "sub_env s = e" using find_SomeD [OF Some] by simp_all
    obtain r where r: "row_of st (sub_op s) = Some r" "op_env r = sub_env s" "get_job st i e = Inr (stored_job_of s r)"
      using get_known_job [OF assms s(1)] s(2,3) by metis
    note mem = row_of_SomeD [OF r(1)]
    have job: "(sj_state (stored_job_of s r), sj_updated_at (stored_job_of s r)) = (op_state r, op_updated r)"
      by (simp add: stored_job_of_def)
    have "x = r" if "x \<in> set (operations st)" "op_id x = sub_op s" for x
      using unique_byD [OF store_okD(1) [OF assms] that(1), of r] that(2) mem by simp
    then have "x = r" if "x \<in> set (filter ?expired (operations st))" "op_id x = sub_op s" for x
      using that by simp
    then have gone: "sub_op s \<in> ?gone \<longleftrightarrow> ?expired r"
      using mem by (intro iffI) (fastforce, intro image_eqI [of _ _ r], simp_all)
    have unique: "x = s" if "x \<in> set (submissions st)" "sub_id x = i" for x
      using unique_byD [OF store_okD(4) [OF assms] that(1) s(1)] that(2) s(2) by simp
    show ?thesis
    proof (cases "?expired r")
      case True
      then have "find (\<lambda>s. sub_id s = i \<and> sub_env s = e) (submissions ?st) = None"
        using gone unique by (auto simp: find_None_iff subs set_delete_where)
      with True r(2,3) s(3) job show ?thesis by (simp add: get_job_def expired_terminal_def)
    next
      case False
      have "find (\<lambda>s. sub_id s = i \<and> sub_env s = e) (submissions ?st) = Some s"
        unfolding subs using Some unique gone False by (subst find_delete_where_other) auto
      moreover have "find (\<lambda>r. op_id r = sub_op s) (operations ?st) = Some r"
        using row_of_purge [OF assms, of environment cutoff "sub_op s"] r(1) False by (simp add: row_of_def)
      ultimately show ?thesis using False r(2,3) s(3) job by (simp add: get_job_def expired_terminal_def)
    qed
  qed
  show "fst (purge_terminal_operations environment cutoff st) + length (operations ?st) = length (operations st)"
    using sum_length_filter_compl [of ?expired "operations st"]
    by (simp add: purge_terminal_operations_def count_where_def delete_where_def)
qed

theorem purge_removes_only_expired_witness:
  "fst (purge_terminal_operations staging_env 2000 store_done)
     + length (operations (snd (purge_terminal_operations staging_env 2000 store_done))) = length (operations store_done)"
  using purge_removes_only_expired [OF example_store_ok(3)] by blast

section \<open>Active indexes\<close>

lemma lookup_activate_index:
  assumes "store_ok st"
  shows "lookup_index (activate_index s environment a now st) e x =
    (if e = environment \<and> notebook_id x = notebook_id s \<and> index_schema_version x = index_schema_version s
     then Some \<lparr>ax_env = environment, ax_notebook = notebook_id s, ax_schema = index_schema_version s,
            ax_revision = content_revision s, ax_artifact = a, ax_activated = now\<rparr>
     else lookup_index st e x)"
proof -
  let ?k = "(environment, notebook_id s, index_schema_version s)"
  let ?x = "(e, notebook_id x, index_schema_version x)"
  let ?f = "\<lambda>r. r\<lparr>ax_revision := content_revision s, ax_artifact := a, ax_activated := now\<rparr>"
  have key: "active_index_key (?f r) = active_index_key r" for r by (simp add: active_index_key_def)
  show ?thesis
  proof (cases "?k \<in> active_index_key ` set (active_indexes st)")
    case True
    then obtain r where r: "r \<in> set (active_indexes st)" "active_index_key r = ?k" by (metis imageE)
    have "find (\<lambda>r. active_index_key r = ?k) (active_indexes st) = Some r"
      using find_by_key [OF store_okD(8) [OF assms] r(1)] r(2) by simp
    moreover have "lookup_index (activate_index s environment a now st) e x =
        map_option (\<lambda>r. if active_index_key r = ?k then ?f r else r) (lookup_index st e x)"
      using True find_update_where_other [of "\<lambda>r. active_index_key r = ?k" "\<lambda>r. active_index_key r = ?x" ?f "active_indexes st"] key
      by (simp add: lookup_index_def activate_index_def Let_def)
    ultimately show ?thesis
      by (cases "?x = ?k"; cases "lookup_index st e x")
        (auto simp: lookup_index_def active_index_key_def dest: find_SomeD)
  next
    case False
    then have none: "find (\<lambda>r. active_index_key r = ?k) (active_indexes st) = None"
      by (auto simp: find_None_iff image_iff)
    with False show ?thesis
      by (auto simp: lookup_index_def activate_index_def Let_def find_append active_index_key_def split: option.splits)
  qed
qed

definition entry_key :: "notebook_scope \<times> str \<Rightarrow> str \<times> str" where
  "entry_key entry = (notebook_id (fst entry), index_schema_version (fst entry))"

lemma lookup_activate_others:
  "store_ok st \<Longrightarrow> e \<noteq> environment \<or> (notebook_id x, index_schema_version x) \<notin> entry_key ` set entries \<Longrightarrow>
     lookup_index (activate_indexes entries environment now st) e x = lookup_index st e x"
proof (induction entries environment now st rule: activate_indexes.induct)
  case (2 s a entries environment now st)
  then show ?case by (auto simp: lookup_activate_index activate_index_ok entry_key_def)
qed simp

lemma active_after_activation:
  assumes "store_ok st" "distinct (map entry_key entries)"
  shows "\<forall>(s, a)\<in>set entries. active_index s environment (activate_indexes entries environment now st) = Some (s, a, now)"
  using assms
proof (induction entries environment now st rule: activate_indexes.induct)
  case (2 s a entries environment now st)
  have "active_index s environment (activate_indexes ((s, a) # entries) environment now st) = Some (s, a, now)"
    using 2(2,3) by (simp add: active_index_def lookup_activate_others activate_index_ok lookup_activate_index entry_key_def)
  with 2 show ?case by (auto simp: activate_index_ok)
qed simp

text \<open>
  A rebuild switches all its notebooks together. After \<open>activate_indexes\<close> the active
  index of every listed scope is its new artifact, activated now, and \<open>index_status\<close> reports
  exactly the scopes that have an active index at their revision; scopes that are not listed,
  and other environments, keep theirs.
\<close>

theorem activation_switches_exactly_entries:
  assumes "store_ok st" "distinct (map entry_key entries)"
  shows "(\<forall>(s, a)\<in>set entries. active_index s environment (activate_indexes entries environment now st) = Some (s, a, now))
    \<and> (\<forall>x e. e \<noteq> environment \<or> (notebook_id x, index_schema_version x) \<notin> entry_key ` set entries \<longrightarrow>
         active_index x e (activate_indexes entries environment now st) = active_index x e st)
    \<and> index_status scopes environment (activate_indexes entries environment now st) =
        map (\<lambda>s. active_index s environment (activate_indexes entries environment now st) \<noteq> None) scopes"
proof (intro conjI)
  show "\<forall>(s, a)\<in>set entries. active_index s environment (activate_indexes entries environment now st) = Some (s, a, now)"
    by (rule active_after_activation [OF assms])
  show "\<forall>x e. e \<noteq> environment \<or> (notebook_id x, index_schema_version x) \<notin> entry_key ` set entries \<longrightarrow>
         active_index x e (activate_indexes entries environment now st) = active_index x e st"
    using lookup_activate_others [OF assms(1)] by (auto simp: active_index_def)
  show "index_status scopes environment (activate_indexes entries environment now st) =
        map (\<lambda>s. active_index s environment (activate_indexes entries environment now st) \<noteq> None) scopes"
    by (auto simp: index_status_def active_index_def split: option.splits)
qed

definition example_entries :: "(notebook_scope \<times> str) list" where
  "example_entries =
     [(\<lparr>notebook_id = lit ''nb1'', content_revision = lit ''r1'', index_schema_version = lit ''v1''\<rparr>, lit ''a1''),
      (\<lparr>notebook_id = lit ''nb2'', content_revision = lit ''r7'', index_schema_version = lit ''v1''\<rparr>, lit ''a2'')]"

theorem activation_switches_exactly_entries_witness:
  "active_index (fst (hd example_entries)) staging_env (activate_indexes example_entries staging_env 50 store_done)
     = Some (fst (hd example_entries), lit ''a1'', 50)"
proof -
  have "distinct (map entry_key example_entries)" by code_simp
  from activation_switches_exactly_entries [OF example_store_ok(3) this] show ?thesis
    by (auto simp: example_entries_def)
qed

text \<open>
  Storage maintenance keeps what is in use. Unless the environment is idle the snapshot
  changes nothing; when it is, only index pointers activated before the cutoff expire. Every
  scope with an active index afterwards is in the snapshot's keep set together with its artifact.
\<close>

theorem snapshot_keeps_active_indexes:
  assumes "store_ok st" "storage_retention_snapshot environment cutoff st = (snap, st')"
  shows "(rs_idle snap \<longleftrightarrow> (\<forall>r\<in>set (operations st). op_env r = environment \<longrightarrow> terminal (op_state r)))
    \<and> (\<not> rs_idle snap \<longrightarrow> st' = st)
    \<and> (\<forall>s a t. active_index s environment st = Some (s, a, t) \<longrightarrow> julianday cutoff \<le> julianday t \<longrightarrow>
         active_index s environment st' = Some (s, a, t))
    \<and> (\<forall>s a t. active_index s environment st' = Some (s, a, t) \<longrightarrow>
         s \<in> set (rs_active_scopes snap) \<and> (a \<noteq> [] \<longrightarrow> a \<in> set (rs_active_artifact_ids snap)))"
proof -
  let ?stale = "\<lambda>r. ax_env r = environment \<and> julianday (ax_activated r) < julianday cutoff"
  have idle: "active_operation_count st environment = 0 \<longleftrightarrow>
      (\<forall>r\<in>set (operations st). op_env r = environment \<longrightarrow> terminal (op_state r))"
    by (auto simp: active_operation_count_def count_where_0_iff active_iff)
  have st': "st' = (if active_operation_count st environment = 0
      then st\<lparr>active_indexes := delete_where ?stale (active_indexes st)\<rparr> else st)"
    "rs_idle snap \<longleftrightarrow> active_operation_count st environment = 0"
    using assms(2) by (auto simp: storage_retention_snapshot_def Let_def)
  have kept: "s \<in> set (rs_active_scopes snap) \<and> (a \<noteq> [] \<longrightarrow> a \<in> set (rs_active_artifact_ids snap))"
    if act: "active_index s environment st' = Some (s, a, t)" for s a t
  proof -
    obtain r where "lookup_index st' environment s = Some r" "ax_revision r = content_revision s" "ax_artifact r = a"
      using act by (auto simp: active_index_def split: option.splits if_splits)
    then have r: "r \<in> set (active_indexes st')" "active_index_key r = (environment, notebook_id s, index_schema_version s)"
      "ax_revision r = content_revision s" "ax_artifact r = a"
      unfolding lookup_index_def by (auto dest: find_SomeD)
    then have "s = \<lparr>notebook_id = ax_notebook r, content_revision = ax_revision r, index_schema_version = ax_schema r\<rparr>"
      by (cases s) (simp add: active_index_key_def)
    moreover have "rs_active_scopes snap = map (\<lambda>r. \<lparr>notebook_id = ax_notebook r, content_revision = ax_revision r,
          index_schema_version = ax_schema r\<rparr>)
        (sort_key (\<lambda>r. (ax_notebook r, ax_schema r)) (filter (\<lambda>r. ax_env r = environment) (active_indexes st')))"
      "rs_active_artifact_ids snap = filter (\<lambda>a. a \<noteq> []) (map ax_artifact
        (sort_key (\<lambda>r. (ax_notebook r, ax_schema r)) (filter (\<lambda>r. ax_env r = environment) (active_indexes st'))))"
      using assms(2) by (auto simp: storage_retention_snapshot_def Let_def)
    ultimately show ?thesis
      using r by (auto simp: active_index_key_def intro!: image_eqI [of _ _ r])
  qed
  have fresh: "active_index s environment st' = Some (s, a, t)"
    if a: "active_index s environment st = Some (s, a, t)" "julianday cutoff \<le> julianday t" for s a t
  proof -
    obtain r where r: "lookup_index st environment s = Some r" "ax_activated r = t" "ax_artifact r = a"
      "ax_revision r = content_revision s"
      using a(1) by (auto simp: active_index_def split: option.splits if_splits)
    have "lookup_index st' environment s = Some r"
      using r(1,2) a(2) find_delete_where [OF store_okD(8) [OF assms(1)], of _ ?stale]
      by (auto simp: st'(1) lookup_index_def)
    with r show ?thesis by (simp add: active_index_def)
  qed
  show ?thesis using idle st' kept fresh by auto
qed

theorem snapshot_keeps_active_indexes_witness:
  "\<exists>snap st'. storage_retention_snapshot staging_env 40 (activate_indexes example_entries staging_env 50 store_done) = (snap, st')
     \<and> (rs_idle snap \<longleftrightarrow> (\<forall>r\<in>set (operations store_done). op_env r = staging_env \<longrightarrow> terminal (op_state r)))"
proof -
  let ?st = "activate_indexes example_entries staging_env 50 store_done"
  have ops: "operations ?st = operations store_done"
    by (simp add: example_entries_def activate_index_def Let_def)
  have "store_ok ?st" by (rule activate_indexes_ok [OF example_store_ok(3)])
  from snapshot_keeps_active_indexes [OF this surjective_pairing, of staging_env 40] show ?thesis
    unfolding ops by (metis surjective_pairing)
qed

end
