(* ===== verification/Documents_Props.thy ===== *)
theory Documents_Props
  imports Documents
begin

text \<open>
  The document store keeps its quota, promotes exactly the staged pages in order, reads back
  what it promoted, and prunes nothing that is retained or fresh.
\<close>

section \<open>Files\<close>

lemma sort_keys_idem [simp]: "sort_keys (sort_keys v) = sort_keys v"
proof (induction v)
  case (JObj kvs)
  let ?xs = "sort_key fst (map (map_prod id sort_keys) kvs)"
  have "map (map_prod id sort_keys) ?xs = ?xs"
    by (rule map_idI) (use JObj.IH in \<open>force simp: snds.simps\<close>)
  moreover have "sort_key fst ?xs = ?xs" by (rule sort_key_id_if_sorted) simp
  ultimately show ?case by simp
qed simp_all

lemma canonical_json_sort_keys [simp]: "canonical_json (sort_keys v) = canonical_json v"
  by (simp add: canonical_json_def)

lemma json_size_sort_keys [simp]: "json_size (sort_keys v) = json_size v"
  by (simp add: json_size_def)

definition directories_ok :: "directory list \<Rightarrow> bool" where
  "directories_ok dirs \<longleftrightarrow> unique_by dir_name dirs \<and> (\<forall>d\<in>set dirs. unique_by fst (dir_files d))"

definition sizes :: "directory list \<Rightarrow> nat" where
  "sizes dirs = sum_list (map directory_size dirs)"

lemma sizes_simps [simp]: "sizes [] = 0" "sizes (d # ds) = directory_size d + sizes ds"
  "sizes (ds @ es) = sizes ds + sizes es"
  by (simp_all add: sizes_def)

lemma put_file_fresh: "map_of files name = None \<Longrightarrow> put_file name f files = files @ [(name, f)]"
  by (simp add: put_file_def map_of_eq_None_iff)

lemma find_directory_Some: "find_directory key dirs = Some d \<Longrightarrow> d \<in> set dirs \<and> dir_name d = key"
  unfolding find_directory_def by (rule find_SomeD)

lemma find_directory_mem:
  "directories_ok dirs \<Longrightarrow> d \<in> set dirs \<Longrightarrow> find_directory (dir_name d) dirs = Some d"
  unfolding find_directory_def directories_ok_def by (intro find_by_key) auto

lemma find_directory_None: "find_directory key dirs = None \<longleftrightarrow> key \<notin> dir_name ` set dirs"
  by (auto simp: find_directory_def find_None_iff)

text \<open>What the directory of a key becomes when a new file is written into it.\<close>

definition grown :: "str \<Rightarrow> str \<Rightarrow> json \<Rightarrow> int \<Rightarrow> directory list \<Rightarrow> directory" where
  "grown key name value now dirs = (case find_directory key dirs of
     None \<Rightarrow> \<lparr>dir_name = key, dir_plain = True, dir_mtime = now, dir_files = [(name, Json (sort_keys value))]\<rparr>
   | Some d \<Rightarrow> d\<lparr>dir_mtime := now, dir_files := put_file name (Json (sort_keys value)) (dir_files d)\<rparr>)"

lemma find_directory_atomic_json:
  "find_directory k (atomic_json key name value now dirs) =
     (if k = key then Some (grown key name value now dirs) else find_directory k dirs)"
proof (cases "key \<in> dir_name ` set dirs")
  case True
  let ?f = "\<lambda>d. d\<lparr>dir_mtime := now, dir_files := put_file name (Json (sort_keys value)) (dir_files d)\<rparr>"
  have "find_directory k (update_where (\<lambda>d. dir_name d = key) ?f dirs) =
      map_option (\<lambda>d. if dir_name d = key then ?f d else d) (find_directory k dirs)"
    unfolding find_directory_def by (rule find_update_where_other) simp
  moreover have "find_directory key dirs \<noteq> None" using True by (simp add: find_directory_None)
  ultimately show ?thesis
    using True find_directory_Some
    by (cases "find_directory k dirs") (auto simp: atomic_json_def grown_def)
next
  case False
  then have none: "find_directory key dirs = None" by (simp add: find_directory_None)
  then have "find_directory k (dirs @ [d]) = (if k = dir_name d then Some d else find_directory k dirs)"
    if "dir_name d = key" for d
    using that by (auto simp: find_directory_def find_append split: option.splits)
  then show ?thesis using False none by (simp add: atomic_json_def grown_def)
qed

lemma directories_ok_atomic_json:
  assumes "directories_ok dirs" shows "directories_ok (atomic_json key name value now dirs)"
proof -
  have put: "unique_by fst (put_file name f files)" if "unique_by fst files" for f files
    using that by (auto simp: put_file_def unique_by_append intro: unique_by_update)
  then show ?thesis
    using assms
    by (auto simp: atomic_json_def directories_ok_def unique_by_append set_update_where intro: unique_by_update)
qed

lemma sizes_atomic_json:
  assumes "directories_ok dirs" "find_file key name dirs = None"
  shows "sizes (atomic_json key name value now dirs) = sizes dirs + json_size value"
proof (cases "key \<in> dir_name ` set dirs")
  case True
  then obtain d where "d \<in> set dirs" "dir_name d = key" by auto
  then obtain us vs where dirs: "dirs = us @ d # vs" by (auto dest: split_list)
  have "find_directory key dirs = Some d"
    using find_directory_mem [OF assms(1) \<open>d \<in> set dirs\<close>] \<open>dir_name d = key\<close> by simp
  with assms(2) have fresh: "map_of (dir_files d) name = None" by (simp add: find_file_def)
  have others: "dir_name e \<noteq> key" if "e \<in> set us \<union> set vs" for e
    using unique_by_split [of dir_name us d vs e] assms(1) that \<open>dir_name d = key\<close>
    by (simp add: dirs directories_ok_def)
  have "update_where (\<lambda>e. dir_name e = key) g xs = xs" if "set xs \<subseteq> set us \<union> set vs" for xs g
    by (rule update_where_idle) (use others that in auto)
  then have "atomic_json key name value now dirs =
      us @ d\<lparr>dir_mtime := now, dir_files := put_file name (Json (sort_keys value)) (dir_files d)\<rparr> # vs"
    using True \<open>dir_name d = key\<close> by (simp add: atomic_json_def dirs)
  then show ?thesis
    using fresh by (simp add: dirs put_file_fresh directory_size_def file_size_def)
next
  case False
  then show ?thesis by (simp add: atomic_json_def directory_size_def file_size_def)
qed

lemma sizes_drop:
  assumes "directories_ok dirs" "find_directory key dirs = Some d"
  shows "sizes (filter (\<lambda>x. dir_name x \<noteq> key) dirs) + directory_size d = sizes dirs"
proof -
  have d: "d \<in> set dirs" "dir_name d = key" using find_directory_Some [OF assms(2)] by simp_all
  then obtain us vs where dirs: "dirs = us @ d # vs" by (auto dest: split_list)
  have others: "dir_name e \<noteq> key" if "e \<in> set us \<union> set vs" for e
    using unique_by_split [of dir_name us d vs e] assms(1) that d(2) by (simp add: dirs directories_ok_def)
  have "filter (\<lambda>x. dir_name x \<noteq> key) xs = xs" if "set xs \<subseteq> set us \<union> set vs" for xs
    using others that by (auto simp: filter_id_conv)
  then show ?thesis using d(2) by (simp add: dirs)
qed

section \<open>The quota\<close>

definition store_within_quota :: "document_store \<Rightarrow> bool" where
  "store_within_quota st \<longleftrightarrow> directories_ok (staging st) \<and> directories_ok (finalized st)
     \<and> int (tree_size st) \<le> bytes_used st \<and> bytes_used st \<le> max_bytes st"

lemma tree_size_sizes: "tree_size st = sizes (staging st) + sizes (finalized st)"
  by (simp add: tree_size_def sizes_def)

lemma drop_staging_quota: "store_within_quota st \<Longrightarrow> store_within_quota (drop_staging key st)"
proof (cases "find_directory key (staging st)")
  case (Some d)
  assume ok: "store_within_quota st"
  then have "sizes (filter (\<lambda>x. dir_name x \<noteq> key) (staging st)) + directory_size d = sizes (staging st)"
    using sizes_drop Some by (simp add: store_within_quota_def)
  moreover have "directories_ok (filter p ds)" if "directories_ok ds" for p ds
    using that by (auto simp: directories_ok_def unique_by_def distinct_map_filter)
  ultimately show ?thesis
    using ok Some by (auto simp: store_within_quota_def drop_staging_def tree_size_sizes)
qed (simp add: drop_staging_def)

lemma json_size_rendered: "canonical_json v = Some b \<Longrightarrow> json_size v = length b"
  by (simp add: json_size_def)

lemma write_quota:
  assumes "store_within_quota st" "ensure_capacity st (int n)" "n = json_size value"
  shows "find_file key name (staging st) = None \<Longrightarrow>
      store_within_quota (st\<lparr>staging := atomic_json key name value now (staging st), bytes_used := bytes_used st + int n\<rparr>)"
    and "find_file key name (finalized st) = None \<Longrightarrow>
      store_within_quota (st\<lparr>finalized := atomic_json key name value now (finalized st), bytes_used := bytes_used st + int n\<rparr>)"
  using assms
  by (auto simp: store_within_quota_def tree_size_sizes sizes_atomic_json directories_ok_atomic_json ensure_capacity_def)

text \<open>The ways \<open>stage_batch\<close> and \<open>finalize\<close> can end.\<close>

lemma stage_batch_cases:
  assumes "stage_batch sha s n checksum ps now st = (r, st')"
  obtains (failed) e where "r = Inl e" "st' = st"
  | (known) key rendered kvs where "r = Inr (length ps)" "st' = st" "ingest_pages_checksum sha ps = Some checksum"
      "scope_key sha s = Some key" "canonical_json (batch_payload s (int n) checksum ps) = Some rendered"
      "find_file key (batch_name n) (staging st) = Some (Json (JObj kvs))" "canonical_json (JObj kvs) = Some rendered"
  | (written) key rendered where "r = Inr (length ps)" "ingest_pages_checksum sha ps = Some checksum"
      "scope_key sha s = Some key" "canonical_json (batch_payload s (int n) checksum ps) = Some rendered"
      "find_file key (batch_name n) (staging st) = None" "ensure_capacity st (int (length rendered))"
      "st' = st\<lparr>staging := atomic_json key (batch_name n) (batch_payload s (int n) checksum ps) now (staging st),
               bytes_used := bytes_used st + int (length rendered)\<rparr>"
proof -
  let ?read = "read_json"
  have read: "read_json f = Inr kvs \<longleftrightarrow> f = Some (Json (JObj kvs))" for f kvs
    by (auto simp: read_json_def split: option.splits stored_file.splits json.splits)
  show thesis
    using assms
    by (auto simp: stage_batch_def Let_def and_then_Inr and_then_Inl read split: sum.splits option.splits
        intro: failed known written)
qed

lemma read_json_Inr: "read_json f = Inr kvs \<longleftrightarrow> f = Some (Json (JObj kvs))"
  by (auto simp: read_json_def split: option.splits stored_file.splits json.splits)

lemma finalize_cases:
  assumes "finalize sha scope_model page_model s checksum page_total batch_total now st = (r, st')"
  obtains (failed) e where "r = Inl e" "st' = st"
  | (known) key ps kvs where "r = Inr \<lparr>fd_scope = s, fd_checksum = checksum, fd_pages = ps\<rparr>"
      "scope_key sha s = Some key"
      "collect_pages sha scope_model page_model s key checksum page_total batch_total st = Inr ps"
      "find_file key (lit ''document.json'') (finalized st) = Some (Json (JObj kvs))"
      "text_field (map_of kvs (lit ''documentChecksum'')) = checksum" "st' = drop_staging key st"
  | (written) key ps rendered where "r = Inr \<lparr>fd_scope = s, fd_checksum = checksum, fd_pages = ps\<rparr>"
      "scope_key sha s = Some key"
      "collect_pages sha scope_model page_model s key checksum page_total batch_total st = Inr ps"
      "find_file key (lit ''document.json'') (finalized st) = None"
      "canonical_json (final_payload s checksum ps (int batch_total)) = Some rendered"
      "ensure_capacity st (int (length rendered))"
      "st' = drop_staging key (st\<lparr>finalized := atomic_json key (lit ''document.json'')
               (final_payload s checksum ps (int batch_total)) now (finalized st),
             bytes_used := bytes_used st + int (length rendered)\<rparr>)"
proof (cases "finalize_txn sha scope_model page_model s checksum page_total batch_total now st")
  case (Inl e)
  with assms show thesis by (intro failed) (auto simp: finalize_def)
next
  case (Inr res)
  with assms obtain doc where txn: "finalize_txn sha scope_model page_model s checksum page_total batch_total now st = Inr (doc, st')"
    and r: "r = Inr doc"
    by (cases res) (auto simp: finalize_def)
  then obtain key ps where key: "scope_key sha s = Some key"
    and ps: "collect_pages sha scope_model page_model s key checksum page_total batch_total st = Inr ps"
    by (auto simp: finalize_txn_def and_then_Inr)
  note txn = txn [unfolded finalize_txn_def key or_raise_simps and_then_simps ps Let_def]
  show thesis
  proof (cases "find_file key (lit ''document.json'') (finalized st)")
    case None
    with txn obtain rendered where "canonical_json (final_payload s checksum ps (int batch_total)) = Some rendered"
      by (auto simp: and_then_Inr)
    with None txn r show thesis by (intro written [OF _ key ps None, of rendered]) (auto simp: and_then_Inr)
  next
    case (Some f)
    with txn obtain kvs where "f = Json (JObj kvs)" "text_field (map_of kvs (lit ''documentChecksum'')) = checksum"
      "doc = \<lparr>fd_scope = s, fd_checksum = checksum, fd_pages = ps\<rparr>" "st' = drop_staging key st"
      by (auto simp: and_then_Inr read_json_Inr)
    with Some r show thesis by (intro known [OF _ key ps]) auto
  qed
qed

lemma stage_batch_quota:
  assumes "store_within_quota st" shows "store_within_quota (snd (stage_batch sha s n checksum ps now st))"
proof (cases "stage_batch sha s n checksum ps now st")
  case (Pair r st')
  then show ?thesis
  proof (cases rule: stage_batch_cases)
    case (written key rendered)
    with Pair write_quota(1) [OF assms written(6) json_size_rendered [OF written(4), symmetric] written(5)]
    show ?thesis by simp
  qed (use Pair assms in simp_all)
qed

lemma finalize_quota:
  assumes "store_within_quota st"
  shows "store_within_quota (snd (finalize sha scope_model page_model s checksum page_total batch_total now st))"
proof (cases "finalize sha scope_model page_model s checksum page_total batch_total now st")
  case (Pair r st')
  then show ?thesis
  proof (cases rule: finalize_cases)
    case (written key ps rendered)
    with Pair write_quota(2) [OF assms written(6) json_size_rendered [OF written(5), symmetric] written(4)]
    show ?thesis by (simp add: drop_staging_quota)
  qed (use Pair assms drop_staging_quota in simp_all)
qed

section \<open>Pruning\<close>

lemma prune_root_subset: "prune_root retained before dirs = (n, dirs', bad) \<Longrightarrow> set dirs' \<subseteq> set dirs"
  by (induction dirs arbitrary: n dirs' bad) (auto split: if_splits prod.splits)

lemma prune_root_ok:
  "prune_root retained before dirs = (n, dirs', bad) \<Longrightarrow> directories_ok dirs \<Longrightarrow> directories_ok dirs'"
proof (induction dirs arbitrary: n dirs' bad)
  case (Cons d ds)
  obtain m es b where rest: "prune_root retained before ds = (m, es, b)" by (cases "prune_root retained before ds")
  have "directories_ok ds" using Cons.prems(2) by (simp add: directories_ok_def)
  with Cons.IH [OF rest] have "directories_ok es" by simp
  moreover have "dir_name d \<notin> dir_name ` set es"
    using Cons.prems(2) prune_root_subset [OF rest] by (auto simp: directories_ok_def)
  ultimately show ?case
    using Cons.prems rest by (auto simp: directories_ok_def split: if_splits)
qed simp

lemma prune_root_sizes: "prune_root retained before dirs = (n, dirs', bad) \<Longrightarrow> sizes dirs' \<le> sizes dirs"
  by (induction dirs arbitrary: n dirs' bad) (fastforce split: if_splits prod.splits)+

lemma prune_root_removed:
  "prune_root retained before dirs = (n, dirs', bad) \<Longrightarrow> d \<in> set dirs \<Longrightarrow> d \<notin> set dirs' \<Longrightarrow>
     dir_plain d \<and> storage_name (dir_name d) \<and> dir_name d \<notin> set retained \<and> dir_mtime d < before"
  by (induction dirs arbitrary: n dirs' bad) (auto split: if_splits prod.splits)

lemma prune_root_exact:
  "prune_root retained before dirs = (n, dirs', False) \<Longrightarrow>
     dirs' = filter (\<lambda>d. dir_name d \<in> set retained \<or> before \<le> dir_mtime d) dirs \<and> n + length dirs' = length dirs"
  by (induction dirs arbitrary: n dirs') (auto split: if_splits prod.splits)

lemma prune_root_zero: "prune_root retained before dirs = (0, dirs', bad) \<Longrightarrow> dirs' = dirs"
  by (induction dirs arbitrary: dirs' bad) (auto split: if_splits prod.splits)

lemma prune_quota:
  assumes "store_within_quota st"
  shows "store_within_quota (snd (prune_documents retained_finalized retained_staging before st))"
proof -
  obtain n ds bad where s: "prune_root retained_staging before (staging st) = (n, ds, bad)"
    by (cases "prune_root retained_staging before (staging st)")
  obtain m es bad' where f: "prune_root retained_finalized before (finalized st) = (m, es, bad')"
    by (cases "prune_root retained_finalized before (finalized st)")
  have ok: "directories_ok ds" "directories_ok es" "sizes ds \<le> sizes (staging st)" "sizes es \<le> sizes (finalized st)"
    using assms prune_root_ok [OF s] prune_root_ok [OF f] prune_root_sizes [OF s] prune_root_sizes [OF f]
    by (simp_all add: store_within_quota_def)
  have recount: "store_within_quota (recount k x)" if "store_within_quota x" for k x
    using that by (auto simp: recount_def store_within_quota_def tree_size_sizes)
  have one: "store_within_quota (st\<lparr>staging := ds\<rparr>)"
    using assms ok by (simp add: store_within_quota_def tree_size_sizes)
  have two: "store_within_quota (x\<lparr>finalized := es\<rparr>)" if "store_within_quota x" "finalized x = finalized st" for x
    using that ok by (simp add: store_within_quota_def tree_size_sizes)
  have fin: "finalized (recount n (st\<lparr>staging := ds\<rparr>)) = finalized st" by (simp add: recount_def)
  show ?thesis
    using one two [OF recount [OF one] fin] recount s f fin
    by (simp add: prune_documents_def Let_def)
qed

text \<open>
  C33: the document store stays within its quota. Staging, finalising and pruning, whatever they answer,
  keep the size of all stored files at most the accounted bytes, and these at most the quota.
\<close>

theorem document_store_quota:
  assumes "store_within_quota st"
  shows "store_within_quota (snd (stage_batch sha s n checksum ps now st))
    \<and> store_within_quota (snd (finalize sha scope_model page_model s checksum page_total batch_total now st))
    \<and> store_within_quota (snd (prune_documents retained_finalized retained_staging before st))"
  using stage_batch_quota [OF assms] finalize_quota [OF assms] prune_quota [OF assms] by blast

definition empty_documents :: "int \<Rightarrow> document_store" where
  "empty_documents quota = \<lparr>staging = [], finalized = [], bytes_used = 0, max_bytes = quota\<rparr>"

lemma empty_documents_quota: "0 \<le> quota \<Longrightarrow> store_within_quota (empty_documents quota)"
  by (simp add: store_within_quota_def empty_documents_def directories_ok_def tree_size_def)

theorem document_store_quota_witness:
  "store_within_quota (snd (prune_documents [] [] 5 (empty_documents 10)))"
  using document_store_quota [OF empty_documents_quota [of 10]] by simp

text \<open>
  Pruning is safe. Every directory that a prune removes is one the service made (a plain
  directory whose name is a storage key), is not in the keep set and was last changed before
  the cutoff; a prune that succeeds removes all of those and nothing else, and reports their number.
\<close>

theorem prune_removes_only_stale:
  assumes "prune_documents retained_finalized retained_staging before st = (r, st')"
  shows "(\<forall>d\<in>set (staging st). d \<notin> set (staging st') \<longrightarrow>
        dir_plain d \<and> storage_name (dir_name d) \<and> dir_name d \<notin> set retained_staging \<and> dir_mtime d < before)
    \<and> (\<forall>d\<in>set (finalized st). d \<notin> set (finalized st') \<longrightarrow>
        dir_plain d \<and> storage_name (dir_name d) \<and> dir_name d \<notin> set retained_finalized \<and> dir_mtime d < before)
    \<and> (\<forall>n m. r = Inr (n, m) \<longrightarrow>
        staging st' = filter (\<lambda>d. dir_name d \<in> set retained_staging \<or> before \<le> dir_mtime d) (staging st)
        \<and> finalized st' = filter (\<lambda>d. dir_name d \<in> set retained_finalized \<or> before \<le> dir_mtime d) (finalized st)
        \<and> n + length (staging st') = length (staging st) \<and> m + length (finalized st') = length (finalized st))"
proof -
  obtain n ds bad where s: "prune_root retained_staging before (staging st) = (n, ds, bad)"
    by (cases "prune_root retained_staging before (staging st)")
  obtain m es bad' where f: "prune_root retained_finalized before (finalized st) = (m, es, bad')"
    by (cases "prune_root retained_finalized before (finalized st)")
  have fin: "finalized (recount k x) = finalized x" "staging (recount k x) = staging x" for k x
    by (simp_all add: recount_def)
  have st': "staging st' = ds" "finalized st' = (if bad then finalized st else es)"
    using assms s f by (auto simp: prune_documents_def Let_def fin split: if_splits)
  have r: "r = Inr (a, b) \<Longrightarrow> \<not> bad \<and> \<not> bad' \<and> a = n \<and> b = m" for a b
    using assms s f by (auto simp: prune_documents_def Let_def fin split: if_splits)
  have "dir_plain d \<and> storage_name (dir_name d) \<and> dir_name d \<notin> set retained_finalized \<and> dir_mtime d < before"
    if "d \<in> set (finalized st)" "d \<notin> set (finalized st')" for d
    using that prune_root_removed [OF f, of d] st'(2) by (auto split: if_splits)
  moreover have "staging st' = filter (\<lambda>d. dir_name d \<in> set retained_staging \<or> before \<le> dir_mtime d) (staging st)
        \<and> finalized st' = filter (\<lambda>d. dir_name d \<in> set retained_finalized \<or> before \<le> dir_mtime d) (finalized st)
        \<and> a + length (staging st') = length (staging st) \<and> b + length (finalized st') = length (finalized st)"
    if "r = Inr (a, b)" for a b
    using r [OF that] s f st' prune_root_exact [of _ before "staging st" n ds]
      prune_root_exact [of _ before "finalized st" m es] by simp
  ultimately show ?thesis
    using prune_root_removed [OF s] unfolding st'(1) by (intro conjI ballI allI impI) blast+
qed

definition stale_directory :: directory where
  "stale_directory = \<lparr>dir_name = replicate 64 97, dir_plain = True, dir_mtime = 1, dir_files = []\<rparr>"

theorem prune_removes_only_stale_witness:
  "staging (snd (prune_documents [] [] 5 (empty_documents 10\<lparr>staging := [stale_directory]\<rparr>))) = []"
proof -
  let ?st = "empty_documents 10\<lparr>staging := [stale_directory]\<rparr>"
  have "\<exists>st'. prune_documents [] [] 5 ?st = (Inr (1, 0), st')"
  proof -
    have "fst (prune_documents [] [] 5 ?st) = Inr (1, 0)" by code_simp
    then show ?thesis by (metis surjective_pairing)
  qed
  then obtain st' where run: "prune_documents [] [] 5 ?st = (Inr (1, 0), st')" by blast
  from prune_removes_only_stale [OF this] show ?thesis
    unfolding run by (simp add: stale_directory_def)
qed

section \<open>What is staged is what is promoted\<close>

text \<open>Pydantic accepts again what the store wrote: the decoded scope and pages are the written ones.\<close>

definition reads_back :: "(json \<Rightarrow> notebook_scope option) \<Rightarrow> (json \<Rightarrow> page_document option) \<Rightarrow> notebook_scope \<Rightarrow> page_document list \<Rightarrow> bool" where
  "reads_back scope_model page_model s ps \<longleftrightarrow>
     scope_model (sort_keys (scope_json s)) = Some s \<and> (\<forall>p\<in>set ps. page_model (sort_keys (page_json p)) = Some p)"

lemma sorted_field:
  assumes "sort_keys (JObj kvs) = JObj kvs'" "distinct (map fst kvs)"
  shows "map_of kvs' k = map_option sort_keys (map_of kvs k)"
proof -
  have kvs': "kvs' = sort_key fst (map (map_prod id sort_keys) kvs)" using assms(1) by simp
  have keys: "distinct (map fst (map (map_prod id sort_keys) kvs))" using assms(2) by (simp add: comp_def)
  have "mset kvs' = mset (map (map_prod id sort_keys) kvs)" by (simp add: kvs')
  then have "mset (map fst kvs') = mset (map fst (map (map_prod id sort_keys) kvs))" by (metis mset_map)
  with keys have dist: "distinct (map fst kvs')" by (metis mset_eq_imp_distinct_iff)
  have "map_of kvs' k = Some v \<longleftrightarrow> map_of (map (map_prod id sort_keys) kvs) k = Some v" for v
    unfolding map_of_eq_Some_iff [OF dist] map_of_eq_Some_iff [OF keys] by (simp only: kvs' set_sort)
  then have "map_of kvs' k = map_of (map (map_prod id sort_keys) kvs) k" by (metis option.exhaust)
  also have "\<dots> = map_option sort_keys (map_of kvs k)" by (induction kvs) auto
  finally show ?thesis .
qed

lemma pages_field_read:
  assumes "\<forall>p\<in>set ps. page_model (sort_keys (page_json p)) = Some p"
  shows "pages_field page_model (Some (sort_keys (JArr (map page_json ps)))) = Some ps"
proof -
  have "map page_model (map (sort_keys \<circ> page_json) ps) = map Some ps" using assms by simp
  then show ?thesis by (simp add: pages_field_def option_list_Some comp_def)
qed

lemma sort_keys_scope_json: "sort_keys (JObj [(k, v)]) = JObj [(k, sort_keys v)]"
  by simp

lemma read_batch_staged:
  assumes "reads_back scope_model page_model s ps" "ingest_pages_checksum sha ps = Some checksum"
  shows "read_batch sha scope_model page_model s n (Some (Json (sort_keys (batch_payload s (int n) checksum ps)))) = Inr ps"
proof -
  obtain kvs' where kvs': "sort_keys (batch_payload s (int n) checksum ps) = JObj kvs'"
    by (simp add: batch_payload_def)
  note field = sorted_field [OF kvs' [unfolded batch_payload_def]]
  have "map_of kvs' (lit ''scope'') = Some (sort_keys (scope_json s))"
    "map_of kvs' (lit ''batchNumber'') = Some (JInt (int n))"
    "map_of kvs' (lit ''batchChecksum'') = Some (JStr checksum)"
    "map_of kvs' (lit ''pages'') = Some (sort_keys (JArr (map page_json ps)))"
    by (simp_all add: field)
  then show ?thesis
    using assms pages_field_read [of ps page_model]
    by (simp add: read_batch_def kvs' read_json_def reads_back_def scope_field_def int_field_def text_field_def)
qed

text \<open>The staging directory of a scope holds exactly the batches \<open>bs\<close>, numbered from zero.\<close>

definition batch_file :: "(bytes \<Rightarrow> str) \<Rightarrow> notebook_scope \<Rightarrow> page_document list list \<Rightarrow> nat \<Rightarrow> stored_file" where
  "batch_file sha s bs n = Json (sort_keys (batch_payload s (int n) (the (ingest_pages_checksum sha (bs ! n))) (bs ! n)))"

definition staged :: "(bytes \<Rightarrow> str) \<Rightarrow> notebook_scope \<Rightarrow> str \<Rightarrow> page_document list list \<Rightarrow> document_store \<Rightarrow> bool" where
  "staged sha s key bs st \<longleftrightarrow>
     (\<forall>b\<in>set bs. ingest_pages_checksum sha b \<noteq> None)
     \<and> present_numbers key (staging st) = {0..<length bs}
     \<and> (\<forall>n<length bs. find_file key (batch_name n) (staging st) = Some (batch_file sha s bs n))"

lemma batch_number_of_name: "batch_number_of (batch_name n) = Some n"
proof -
  let ?stem = "replicate (8 - length (render_nat n)) 48 @ render_nat n"
  have name: "batch_name n = ?stem @ lit ''.json''" by (simp add: batch_name_def)
  have digits: "list_all is_digit ?stem"
    using render_nat_digits [of n] by (auto simp: list_all_iff digit_def is_digit_def)
  have zeros: "nat_of_digits (replicate k 48 @ ds) = nat_of_digits ds" for k ds
    by (induction k) (simp_all add: nat_of_digits_def)
  have len: "length (batch_name n) = length ?stem + 5" unfolding name length_append by simp
  have stem: "take (length (batch_name n) - 5) (batch_name n) = ?stem"
    unfolding len by (simp only: name add_diff_cancel_right' append_eq_conv_conj [symmetric]) simp
  have ext: "drop (length (batch_name n) - 5) (batch_name n) = lit ''.json''"
    unfolding len by (simp only: name add_diff_cancel_right') simp
  have "5 < length (batch_name n)" unfolding len using render_nat_nonempty [of n] by (cases "render_nat n") simp_all
  then show ?thesis
    by (simp only: batch_number_of_def Let_def stem ext digits zeros nat_of_digits_render_nat simp_thms if_True)
qed

lemma batch_name_inject: "batch_name m = batch_name n \<longleftrightarrow> m = n"
  by (metis batch_number_of_name option.inject)

lemma map_of_put_file: "map_of (put_file name f files) nm = (if nm = name then Some f else map_of files nm)"
proof (cases "name \<in> fst ` set files")
  case True
  have "map_of (update_where (\<lambda>(n, _). n = name) (\<lambda>(n, _). (n, f)) files) nm =
      (if nm = name then map_option (\<lambda>_. f) (map_of files name) else map_of files nm)"
    by (induction files) auto
  moreover have "map_option (\<lambda>_. f) (map_of files name) = Some f"
    using True by (cases "map_of files name") (simp_all add: map_of_eq_None_iff)
  ultimately show ?thesis using True by (simp only: put_file_def if_True split: if_splits)
next
  case False
  then have "put_file name f files = files @ [(name, f)]" "map_of files name = None"
    by (simp_all add: put_file_def map_of_eq_None_iff)
  then show ?thesis by (auto simp: map_add_def split: option.splits)
qed

lemma find_file_atomic_json:
  "find_file k nm (atomic_json key name value now dirs) =
     (if k = key \<and> nm = name then Some (Json (sort_keys value)) else find_file k nm dirs)"
  by (auto simp: find_file_def find_directory_atomic_json grown_def map_of_put_file split: option.splits)

lemma present_numbers_iff:
  "x \<in> present_numbers key dirs \<longleftrightarrow> (\<exists>name. find_file key name dirs \<noteq> None \<and> batch_number_of name = Some x)"
proof (cases "find_directory key dirs")
  case (Some d)
  have "x \<in> present_numbers key dirs \<longleftrightarrow> (\<exists>name. name \<in> fst ` set (dir_files d) \<and> batch_number_of name = Some x)"
    by (auto simp: present_numbers_def Some map_filter_def image_iff)
  then show ?thesis by (simp add: find_file_def Some map_of_eq_None_iff)
qed (simp add: present_numbers_def find_file_def)

lemma present_numbers_atomic_json:
  "present_numbers key (atomic_json key (batch_name n) value now dirs) = insert n (present_numbers key dirs)"
proof (rule set_eqI)
  fix x
  show "x \<in> present_numbers key (atomic_json key (batch_name n) value now dirs) \<longleftrightarrow> x \<in> insert n (present_numbers key dirs)"
  proof
    assume "x \<in> insert n (present_numbers key dirs)"
    then consider "x = n" | name where "find_file key name dirs \<noteq> None" "batch_number_of name = Some x"
      by (auto simp: present_numbers_iff)
    then show "x \<in> present_numbers key (atomic_json key (batch_name n) value now dirs)"
    proof cases
      case 1
      then show ?thesis
        unfolding present_numbers_iff find_file_atomic_json by (intro exI [of _ "batch_name n"]) (simp add: batch_number_of_name)
    next
      case (2 name)
      then show ?thesis
        unfolding present_numbers_iff find_file_atomic_json by (intro exI [of _ name]) simp
    qed
  qed (auto simp: present_numbers_iff find_file_atomic_json batch_number_of_name split: if_splits)
qed

lemma stage_batch_extends:
  assumes "staged sha s key bs st" "scope_key sha s = Some key"
    and "stage_batch sha s (length bs) checksum ps now st = (Inr k, st')"
  shows "staged sha s key (bs @ [ps]) st' \<and> k = length ps \<and> finalized st' = finalized st"
  using assms(3)
proof (cases rule: stage_batch_cases)
  case (known key' rendered kvs)
  then have "length bs \<in> present_numbers key (staging st)"
    using assms(2) batch_number_of_name [of "length bs"] by (auto simp: present_numbers_iff)
  with assms(1) show ?thesis by (simp add: staged_def)
next
  case (written key' rendered)
  with assms(2) have [simp]: "key' = key" by simp
  from written have st': "staging st' = atomic_json key (batch_name (length bs))
      (batch_payload s (int (length bs)) checksum ps) now (staging st)" by simp
  have "find_file key (batch_name n) (staging st') = Some (batch_file sha s (bs @ [ps]) n)" if "n < Suc (length bs)" for n
  proof (cases "n = length bs")
    case True
    then show ?thesis using written(2) by (simp add: st' find_file_atomic_json batch_file_def)
  next
    case False
    with that assms(1) show ?thesis
      by (simp add: st' find_file_atomic_json batch_name_inject staged_def batch_file_def nth_append)
  qed
  then show ?thesis
    using assms(1) written by (auto simp: staged_def st' present_numbers_atomic_json)
qed simp

text \<open>An export as the gateway sends it: its batches numbered from \<open>n\<close>, each with its checksum.\<close>

fun stage_all ::
  "(bytes \<Rightarrow> str) \<Rightarrow> notebook_scope \<Rightarrow> nat \<Rightarrow> page_document list list \<Rightarrow> int \<Rightarrow> document_store \<Rightarrow> document_store option" where
  "stage_all sha s n [] now st = Some st"
| "stage_all sha s n (b # bs) now st =
     (case ingest_pages_checksum sha b of None \<Rightarrow> None
      | Some checksum \<Rightarrow> (case stage_batch sha s n checksum b now st of
          (Inl e, _) \<Rightarrow> None
        | (Inr k, st') \<Rightarrow> stage_all sha s (Suc n) bs now st'))"

lemma stage_all_staged:
  "stage_all sha s (length bs) cs now st = Some st' \<Longrightarrow> staged sha s key bs st \<Longrightarrow> scope_key sha s = Some key \<Longrightarrow>
     staged sha s key (bs @ cs) st' \<and> finalized st' = finalized st"
proof (induction cs arbitrary: bs st)
  case (Cons c cs)
  from Cons.prems(1) obtain checksum k st1 where step:
    "stage_batch sha s (length bs) checksum c now st = (Inr k, st1)" "stage_all sha s (Suc (length bs)) cs now st1 = Some st'"
    by (auto split: option.splits prod.splits sum.splits)
  note ext = stage_batch_extends [OF Cons.prems(2,3) step(1)]
  then show ?case using Cons.IH [of "bs @ [c]" st1] step(2) Cons.prems(3) by simp
qed simp

lemma map_err_all: "(\<And>x. x \<in> set xs \<Longrightarrow> f x = Inr (g x)) \<Longrightarrow> map_err f xs = Inr (map g xs)"
  by (induction xs) auto

lemma collect_pages_staged:
  assumes "staged sha s key bs st" "reads_back scope_model page_model s (concat bs)"
    and "distinct (map page_id (concat bs))" "document_pages_checksum sha (concat bs) = Some checksum"
  shows "collect_pages sha scope_model page_model s key checksum (length (concat bs)) (length bs) st = Inr (concat bs)"
proof -
  have "read_batch sha scope_model page_model s n (find_file key (batch_name n) (staging st)) = Inr (bs ! n)" if "n < length bs" for n
  proof -
    have mem: "bs ! n \<in> set bs" using that by simp
    then obtain c where "ingest_pages_checksum sha (bs ! n) = Some c" using assms(1) by (auto simp: staged_def)
    moreover have "reads_back scope_model page_model s (bs ! n)" using assms(2) mem by (auto simp: reads_back_def)
    ultimately show ?thesis using assms(1) that by (simp add: staged_def batch_file_def read_batch_staged)
  qed
  then have "map_err (\<lambda>n. read_batch sha scope_model page_model s n (find_file key (batch_name n) (staging st))) [0..<length bs]
      = Inr (map ((!) bs) [0..<length bs])"
    by (intro map_err_all) simp
  then show ?thesis
    using assms by (simp add: collect_pages_def staged_def map_nth Let_def)
qed

lemma load_written:
  assumes "scope_key sha s = Some key" "reads_back scope_model page_model s ps"
    and "document_pages_checksum sha ps = Some checksum"
    and "find_file key (lit ''document.json'') (finalized st) = Some (Json (sort_keys (final_payload s checksum ps n)))"
  shows "load_document sha scope_model page_model s st = Inr \<lparr>fd_scope = s, fd_checksum = checksum, fd_pages = ps\<rparr>"
proof -
  obtain kvs' where kvs': "sort_keys (final_payload s checksum ps n) = JObj kvs'"
    by (simp add: final_payload_def)
  note field = sorted_field [OF kvs' [unfolded final_payload_def]]
  have "map_of kvs' (lit ''scope'') = Some (sort_keys (scope_json s))"
    "map_of kvs' (lit ''documentChecksum'') = Some (JStr checksum)"
    "map_of kvs' (lit ''pages'') = Some (sort_keys (JArr (map page_json ps)))"
    by (simp_all add: field)
  then show ?thesis
    using assms pages_field_read [of ps page_model]
    by (simp add: load_document_def kvs' read_json_def reads_back_def scope_field_def text_field_def Let_def)
qed

lemma drop_staging_simps [simp]:
  "finalized (drop_staging key st) = finalized st"
  "find_directory key (staging (drop_staging key st)) = None"
  "max_bytes (drop_staging key st) = max_bytes st"
proof -
  show "find_directory key (staging (drop_staging key st)) = None"
  proof (cases "find_directory key (staging st)")
    case (Some d)
    then show ?thesis by (auto simp: drop_staging_def find_directory_None)
  qed (simp add: drop_staging_def)
qed (simp_all add: drop_staging_def split: option.splits)

text \<open>
  An export survives the round trip through the store. When its batches have been staged
  in order in a store that knew nothing of the scope, finalising with the matching page count
  and checksum succeeds if there is room for the document, the document holds exactly the pages sent, in
  order, loading gives the same document back, and nothing of it stays in staging.
\<close>

theorem export_round_trip:
  assumes "scope_key sha s = Some key" "reads_back scope_model page_model s (concat bs)"
    and "find_directory key (staging st) = None" "find_directory key (finalized st) = None"
    and "stage_all sha s 0 bs now st = Some st1"
    and "distinct (map page_id (concat bs))" "document_pages_checksum sha (concat bs) = Some checksum"
    and "canonical_json (final_payload s checksum (concat bs) (int (length bs))) = Some rendered"
    and "ensure_capacity st1 (int (length rendered))"
  shows "\<exists>st2. finalize sha scope_model page_model s checksum (length (concat bs)) (length bs) now st1
        = (Inr \<lparr>fd_scope = s, fd_checksum = checksum, fd_pages = concat bs\<rparr>, st2)
    \<and> load_document sha scope_model page_model s st2 = Inr \<lparr>fd_scope = s, fd_checksum = checksum, fd_pages = concat bs\<rparr>
    \<and> find_directory key (staging st2) = None"
proof -
  have "staged sha s key [] st"
    using assms(3) by (simp add: staged_def present_numbers_def)
  then have staged: "staged sha s key bs st1" "finalized st1 = finalized st"
    using stage_all_staged [of sha s "[]" bs now st st1 key] assms(1,5) by simp_all
  have "find_file key (lit ''document.json'') (finalized st1) = None"
    using assms(4) staged(2) by (simp add: find_file_def)
  then have "finalize_txn sha scope_model page_model s checksum (length (concat bs)) (length bs) now st1 =
      Inr (\<lparr>fd_scope = s, fd_checksum = checksum, fd_pages = concat bs\<rparr>,
        drop_staging key (st1\<lparr>finalized := atomic_json key (lit ''document.json'')
            (final_payload s checksum (concat bs) (int (length bs))) now (finalized st1),
          bytes_used := bytes_used st1 + int (length rendered)\<rparr>))" (is "_ = Inr (?doc, ?st2)")
    unfolding finalize_txn_def
    by (simp add: assms(1,8,9) collect_pages_staged [OF staged(1) assms(2,6,7)] Let_def del: length_concat)
  then have run: "finalize sha scope_model page_model s checksum (length (concat bs)) (length bs) now st1 = (Inr ?doc, ?st2)"
    by (simp add: finalize_def)
  have "load_document sha scope_model page_model s ?st2 = Inr ?doc"
    by (rule load_written [OF assms(1,2,7)]) (simp add: find_file_atomic_json)
  with run show ?thesis by (intro exI [of _ ?st2]) (simp del: length_concat)
qed

text \<open>A notebook with one page in one batch, for the examples.\<close>

definition ex_scope :: notebook_scope where
  "ex_scope = \<lparr>notebook_id = lit ''nb'', content_revision = lit ''r1'', index_schema_version = lit ''v1''\<rparr>"

definition ex_page :: page_document where
  "ex_page = \<lparr>page_id = lit ''p1'', title = lit ''T'', page_text = lit ''text'', page_status = None,
     page_created_at = None, page_updated_at = None, tags = [lit ''a''], attachments = [], source_url = lit ''/p1''\<rparr>"

definition ex_sha :: "bytes \<Rightarrow> str" where "ex_sha b = lit ''d''"

definition ex_scope_model :: "json \<Rightarrow> notebook_scope option" where
  "ex_scope_model j = (if j = sort_keys (scope_json ex_scope) then Some ex_scope else None)"

definition ex_page_model :: "json \<Rightarrow> page_document option" where
  "ex_page_model j = (if j = sort_keys (page_json ex_page) then Some ex_page else None)"

definition ex_staged :: "document_store option" where
  "ex_staged = stage_all ex_sha ex_scope 0 [[ex_page]] 7 (empty_documents 5000)"

definition ex_final :: "(exn + finalized_document) \<times> document_store" where
  "ex_final = finalize ex_sha ex_scope_model ex_page_model ex_scope (lit ''sha256:d'') 1 1 7 (the ex_staged)"

lemma ex_reads_back: "reads_back ex_scope_model ex_page_model ex_scope [ex_page]"
  by (simp add: reads_back_def ex_scope_model_def ex_page_model_def del: sort_keys.simps)

theorem export_round_trip_witness:
  "\<exists>st2. ex_final = (Inr \<lparr>fd_scope = ex_scope, fd_checksum = lit ''sha256:d'', fd_pages = [ex_page]\<rparr>, st2)
     \<and> load_document ex_sha ex_scope_model ex_page_model ex_scope st2
         = Inr \<lparr>fd_scope = ex_scope, fd_checksum = lit ''sha256:d'', fd_pages = [ex_page]\<rparr>"
proof -
  obtain st1 where st1: "ex_staged = Some st1"
  proof -
    have "ex_staged \<noteq> None" by code_simp
    then show thesis using that by auto
  qed
  obtain rendered where rendered: "canonical_json (final_payload ex_scope (lit ''sha256:d'') [ex_page] 1) = Some rendered"
  proof -
    have "canonical_json (final_payload ex_scope (lit ''sha256:d'') [ex_page] 1) \<noteq> None" by code_simp
    then show thesis using that by auto
  qed
  have key: "scope_key ex_sha ex_scope = Some (lit ''d'')" by code_simp
  have "find_directory (lit ''d'') (staging (empty_documents 5000)) = None"
    "find_directory (lit ''d'') (finalized (empty_documents 5000)) = None"
    by (simp_all add: empty_documents_def find_directory_def)
  moreover have "document_pages_checksum ex_sha [ex_page] = Some (lit ''sha256:d'')" by code_simp
  moreover have "ensure_capacity (the ex_staged) (int (length (the (canonical_json (final_payload ex_scope (lit ''sha256:d'') [ex_page] 1)))))"
    by code_simp
  ultimately show ?thesis
    using export_round_trip [OF key, of ex_scope_model ex_page_model "[[ex_page]]" "empty_documents 5000" 7 st1 "lit ''sha256:d''" rendered]
      ex_reads_back st1 rendered
    by (auto simp: ex_final_def ex_staged_def)
qed

text \<open>
  Finalising is not repeatable. After a successful finalisation of a document with at least one batch
  the same call fails with \<open>INGEST_BATCHES_INCOMPLETE\<close>, although the document is stored:
  the staged batches it insists on are gone.
\<close>

theorem finalize_not_repeatable:
  assumes "finalize sha scope_model page_model s checksum page_total batch_total now st = (Inr doc, st')"
    and "0 < batch_total"
  shows "finalize sha scope_model page_model s checksum page_total batch_total now' st' = (Inl batches_incomplete, st')"
proof -
  obtain key where key: "scope_key sha s = Some key" "find_directory key (staging st') = None"
    using assms(1) by (cases rule: finalize_cases) auto
  then have "present_numbers key (staging st') \<noteq> {0..<batch_total}"
    using assms(2) by (auto simp: present_numbers_def)
  then show ?thesis
    by (simp add: finalize_def finalize_txn_def key(1) collect_pages_def)
qed

lemma ex_final_ok: "\<exists>doc st2. ex_final = (Inr doc, st2)"
proof -
  have "(case fst ex_final of Inl _ \<Rightarrow> False | Inr _ \<Rightarrow> True)" by code_simp
  then obtain doc where "fst ex_final = Inr doc" by (auto split: sum.splits)
  then show ?thesis by (metis surjective_pairing)
qed

theorem finalize_not_repeatable_witness:
  "fst (finalize ex_sha ex_scope_model ex_page_model ex_scope (lit ''sha256:d'') 1 1 9 (snd ex_final)) = Inl batches_incomplete"
proof -
  obtain doc st2 where run: "ex_final = (Inr doc, st2)" using ex_final_ok by blast
  from finalize_not_repeatable [OF run [unfolded ex_final_def], of 9] show ?thesis by (simp add: run)
qed

text \<open>
  Staging is idempotent and never overwrites. Staging the same batch again answers the
  same and changes nothing; staging different pages under the same number is refused.
\<close>

theorem stage_batch_idempotent:
  assumes "stage_batch sha s n checksum ps now st = (Inr k, st')"
    and "ingest_pages_checksum sha qs = Some checksum'"
    and "canonical_json (batch_payload s (int n) checksum' qs) = Some rendered'"
  shows "stage_batch sha s n checksum ps now' st' = (Inr k, st')
    \<and> (canonical_json (batch_payload s (int n) checksum ps) \<noteq> Some rendered' \<longrightarrow>
        stage_batch sha s n checksum' qs now' st' =
          (Inl (coded ''INGEST_BATCH_CONFLICT'' ''A different batch already exists for this notebook revision.'' False), st'))"
proof -
  obtain key rendered kvs where known: "ingest_pages_checksum sha ps = Some checksum" "scope_key sha s = Some key"
    "canonical_json (batch_payload s (int n) checksum ps) = Some rendered" "k = length ps"
    "find_file key (batch_name n) (staging st') = Some (Json (JObj kvs))" "canonical_json (JObj kvs) = Some rendered"
    using assms(1)
  proof (cases rule: stage_batch_cases)
    case (written key rendered)
    obtain kvs where kvs: "sort_keys (batch_payload s (int n) checksum ps) = JObj kvs" by (simp add: batch_payload_def)
    have "canonical_json (JObj kvs) = Some rendered" using written(4) kvs by (metis canonical_json_sort_keys)
    with written kvs show thesis by (intro that [of key rendered kvs]) (auto simp: find_file_atomic_json)
  qed auto
  show ?thesis
    using known assms(2,3) by (auto simp: stage_batch_def Let_def read_json_def)
qed

theorem stage_batch_idempotent_witness:
  "\<exists>st1. stage_batch ex_sha ex_scope 0 (lit ''sha256:d'') [ex_page] 7 (empty_documents 5000) = (Inr 1, st1)
     \<and> stage_batch ex_sha ex_scope 0 (lit ''sha256:d'') [ex_page] 9 st1 = (Inr 1, st1)"
proof -
  have "fst (stage_batch ex_sha ex_scope 0 (lit ''sha256:d'') [ex_page] 7 (empty_documents 5000)) = Inr 1" by code_simp
  then obtain st1 where run: "stage_batch ex_sha ex_scope 0 (lit ''sha256:d'') [ex_page] 7 (empty_documents 5000) = (Inr 1, st1)"
    by (metis surjective_pairing)
  have pages: "ingest_pages_checksum ex_sha [] = Some (lit ''sha256:d'')" by code_simp
  have "canonical_json (batch_payload ex_scope (int 0) (lit ''sha256:d'') []) \<noteq> None" by code_simp
  then obtain r where "canonical_json (batch_payload ex_scope (int 0) (lit ''sha256:d'') []) = Some r" by auto
  from stage_batch_idempotent [OF run pages this, of 9] run show ?thesis by blast
qed

end
