(* ===== verification/Executor_Props.thy ===== *)
theory Executor_Props
  imports Executor Jobs_Props Documents_Props
begin

text \<open>
  What the runner guarantees, for any index repository and query engine that change the job
  store only through the progress callback they are given: an operation it claims is always
  brought to an outcome, the queue drains, and a rebuild switches the active indexes all at once
  or not at all.
\<close>

section \<open>Interfaces\<close>

text \<open>
  Building a candidate and answering a query call back with progress; whatever the callback
  preserves of the run they preserve as well.
\<close>

locale progress_provider =
  fixes env :: "('r, 'a, 'm) worker_env"
  assumes build_frame: "(\<And>v s. P s \<Longrightarrow> P (snd (report v s))) \<Longrightarrow> P s \<Longrightarrow>
      P (snd (snd (we_build env position operation_id report doc r s)))"
    and query_frame: "(\<And>d s. P s \<Longrightarrow> P (snd (notify d s))) \<Longrightarrow> P s \<Longrightarrow>
      P (snd (we_query env as args notify s))"

text \<open>
  A repository that keeps what can be loaded: building, committing and discarding leave every
  loadable artifact as it is, and a committed candidate of an admissible name can be loaded.
\<close>

locale index_provider = progress_provider env for env :: "('r, 'a, 'm) worker_env" +
  fixes admissible :: "str \<Rightarrow> bool" and names :: "str set"
  assumes build_keeps: "we_load env sc a r = Inr x \<Longrightarrow>
      we_load env sc a (fst (snd (we_build env position operation_id report doc r s))) = Inr x"
    and build_scope: "we_build env position operation_id report doc r s = (Inr c, r', s') \<Longrightarrow>
      ic_scope c = fd_scope doc \<and> ic_artifact c \<in> names"
    and commit_keeps: "we_load env sc a r = Inr x \<Longrightarrow> we_load env sc a (snd (we_commit env c r)) = Inr x"
    and commit_names: "we_commit env c r = (Inr (sc, a), r') \<Longrightarrow> sc = ic_scope c \<and> a = ic_artifact c"
    and commit_loads: "we_commit env c r = (Inr (sc, a), r') \<Longrightarrow> admissible a \<Longrightarrow> \<exists>x. we_load env sc a r' = Inr x"
    and discard_keeps: "we_load env sc a r = Inr x \<Longrightarrow> we_load env sc a (we_discard env c r) = Inr x"

section \<open>The job store during a run\<close>

text \<open>A property of the job store that progress reports of the operation keep.\<close>

definition progress_stable :: "str \<Rightarrow> (job_store \<Rightarrow> bool) \<Rightarrow> bool" where
  "progress_stable i P \<longleftrightarrow> (\<forall>st p d now. P st \<longrightarrow> P (snd (set_progress i p d now st)))"

lemma progress_stableD: "progress_stable i P \<Longrightarrow> P st \<Longrightarrow> P (snd (set_progress i p d now st))"
  by (simp add: progress_stable_def)

lemma progress_active: "active_indexes (snd (set_progress i p d now st)) = active_indexes st"
  unfolding set_progress_def
  by (rule transition_to_cases [OF surjective_pairing, of i _ now st]) simp_all

lemma store_progress_frame:
  "progress_stable i P \<Longrightarrow> P (rn_jobs s) \<Longrightarrow> P (rn_jobs (snd (store_progress clock i p d s)))"
  by (auto simp: store_progress_def Let_def split: prod.splits dest: progress_stableD [of i P "rn_jobs s" p d "clock (rn_ticks s)"])

lemma report_progress_frame:
  "progress_stable i P \<Longrightarrow> P (rn_jobs s) \<Longrightarrow> P (rn_jobs (snd (report_progress clock i v s)))"
  using store_progress_frame [of i P "s\<lparr>rn_last := x\<rparr>" clock p d for x p d]
  by (simp add: report_progress_def Let_def)

lemma report_stage_frame:
  "progress_stable i P \<Longrightarrow> P (rn_jobs s) \<Longrightarrow> P (rn_jobs (snd (report_stage clock i detail s)))"
  unfolding report_stage_def by (rule store_progress_frame)

lemma commit_candidates_frame:
  "progress_stable (so_operation_id operation) P \<Longrightarrow> P (rn_jobs s) \<Longrightarrow>
     P (rn_jobs (snd (snd (commit_candidates env operation position cs committed r s))))"
proof (induction env operation position cs committed r s rule: commit_candidates.induct)
  case (2 env operation position c cs committed r s)
  show ?case
  proof (cases "we_commit env c r")
    case (Pair answer r')
    show ?thesis
    proof (cases answer)
      case (Inr entry)
      define p where "p = 90 / 100 + 9 / 100 * of_nat (Suc position) / scope_count operation"
      show ?thesis
      proof (cases "store_progress (we_clock env) (so_operation_id operation) p None s")
        case (Pair x s')
        have "P (rn_jobs s')" using store_progress_frame [OF 2(2,3), of "we_clock env" p None] Pair by simp
        then show ?thesis
          using \<open>we_commit env c r = (answer, r')\<close> Inr Pair 2(1) [OF _ Inr _ _ 2(2)] 
          by (cases x) (simp_all add: p_def)
      qed
    qed (use Pair 2(3) in simp)
  qed
qed simp

lemma start_reports_frame:
  "progress_stable (so_operation_id operation) P \<Longrightarrow> P (rn_jobs s) \<Longrightarrow>
     P (rn_jobs (snd (snd (start_reports env operation i k m s))))"
proof (induction k arbitrary: m s)
  case (Suc k)
  have step: "P (rn_jobs s')"
    if "store_progress (we_clock env) (so_operation_id operation) p None (s\<lparr>rn_last := p\<rparr>) = (x, s')" for p x s'
    using store_progress_frame [OF Suc.prems(1), of "s\<lparr>rn_last := p\<rparr>" "we_clock env" p None] that Suc.prems(2) by simp
  show ?case
    using Suc.prems(2) Suc.IH [OF Suc.prems(1)] step
    by (auto split: prod.splits sum.splits exn.splits option.splits)
qed simp

context progress_provider
begin

lemma build_candidates_frame:
  "progress_stable (so_operation_id operation) P \<Longrightarrow> P (rn_jobs s) \<Longrightarrow>
     P (rn_jobs (snd (snd (snd (build_candidates env operation docs position scs made r s)))))"
proof (induction scs arbitrary: position made r s)
  case (Cons sc scs)
  show ?case
  proof (cases "load_document (we_sha env) (we_scope_model env) (we_page_model env) sc docs")
    case (Inr doc)
    let ?build = "we_build env position (so_operation_id operation)
      (\<lambda>v. report_progress (we_clock env) (so_operation_id operation)
         (90 / 100 * (of_nat position + v) / scope_count operation)) doc r s"
    have "P (rn_jobs (snd (snd ?build)))"
      by (rule build_frame [where P = "\<lambda>s. P (rn_jobs s)"])
        (simp_all add: report_progress_frame [OF Cons.prems(1)] Cons.prems(2))
    then show ?thesis
      using Cons.IH [OF Cons.prems(1)] Inr by (auto split: prod.splits sum.splits)
  qed (use Cons.prems in simp)
qed simp

text \<open>A rebuild changes the job store by progress reports, and by the activation when it succeeds.\<close>

lemma rebuild_frame:
  assumes "progress_stable (so_operation_id operation) P" "P (rn_jobs s)" "rebuild env operation docs r s = (answer, r', s')"
  shows "\<exists>jobs. P jobs \<and> (case answer of Inl e \<Rightarrow> rn_jobs s' = jobs
    | Inr j \<Rightarrow> \<exists>entries now. rn_jobs s' = activate_indexes entries (we_name env) now jobs)"
proof -
  obtain x s1 where start: "report_progress (we_clock env) (so_operation_id operation) (2 / 100) s = (x, s1)"
    by (cases "report_progress (we_clock env) (so_operation_id operation) (2 / 100) s") auto
  have P1: "P (rn_jobs s1)"
    using report_progress_frame [OF assms(1,2), of "we_clock env" "2 / 100"] start by simp
  obtain y made r2 s2 where built: "build_candidates env operation docs 0 (so_scope operation) [] r s1 = (y, made, r2, s2)"
    by (cases "build_candidates env operation docs 0 (so_scope operation) [] r s1") auto
  have P2: "P (rn_jobs s2)"
    using build_candidates_frame [OF assms(1) P1, of docs 0 "so_scope operation" "[]" r] built by simp
  obtain z r3 s3 where fin: "commit_candidates env operation 0 made [] r2 s2 = (z, r3, s3)"
    by (cases "commit_candidates env operation 0 made [] r2 s2") auto
  have P3: "P (rn_jobs s3)"
    using commit_candidates_frame [OF assms(1) P2, of env 0 made "[]" r2] fin by simp
  show ?thesis
    using assms(3) P1 P2 P3 start built fin by (auto simp: rebuild_def split: sum.splits) blast
qed

lemma execute_query_frame:
  assumes "progress_stable (so_operation_id operation) P" "P (rn_jobs s)"
  shows "P (rn_jobs (snd (execute_query env operation r m s)))"
proof -
  have stage: "P (rn_jobs s')" if "report_stage (we_clock env) (so_operation_id operation) d s = (x, s')" for d x s'
    using report_stage_frame [OF assms, of "we_clock env" d] that by simp
  have ask: "P (rn_jobs (snd (we_query env as args (report_stage (we_clock env) (so_operation_id operation)) s')))"
    if "P (rn_jobs s')" for as args s'
    by (rule query_frame [where P = "\<lambda>s. P (rn_jobs s)"]) (simp_all add: report_stage_frame [OF assms(1)] that)
  show ?thesis
    unfolding execute_query_def using assms(2) by (auto split: sum.splits prod.splits dest!: stage intro!: ask)
qed

lemma execute_frame:
  assumes "progress_stable (so_operation_id operation) P" "P (w_jobs w)" "execute env operation w = (answer, w')"
  shows "\<exists>jobs. P jobs \<and> (w_jobs w' = jobs
    \<or> is_ok answer \<and> (\<exists>entries now. w_jobs w' = activate_indexes entries (we_name env) now jobs))"
proof -
  have rebuilt: ?thesis if "rebuild env operation (w_docs w) (w_index w) (begin_run w) = (answer, r, s)" "rn_jobs s = w_jobs w'" for r s
    using rebuild_frame [OF assms(1) _ that(1)] assms(2) that(2) by (cases answer) (auto simp: begin_run_def)
  have asked: "P (rn_jobs s)" if "execute_query env operation r m (begin_run w) = (x, s)" for r m x s
    using execute_query_frame [OF assms(1), of "begin_run w" r m] assms(2) that by (simp add: begin_run_def)
  have started: "P (rn_jobs s)" if "model_start env operation i m (begin_run w) = (x, m', s)" for i m x m' s
    using that assms(2) start_reports_frame [OF assms(1), of "begin_run w" env i]
    by (auto simp: model_start_def begin_run_def split: sum.splits prod.splits if_splits) (metis snd_conv)+
  show ?thesis
    using assms(2,3)
    by (cases "so_operation operation")
      (auto simp: execute_def Let_def end_run_def split: prod.splits sum.splits dest: rebuilt asked started)
qed

end

section \<open>Every claimed operation gets an outcome\<close>

lemma keys_plain_rows:
  assumes "store_ok st"
  shows "keys_plain st \<longleftrightarrow> (\<forall>i r. row_of st i = Some r \<longrightarrow>
    colon_free (op_id r) \<and> (active (op_state r) \<longrightarrow> \<not> contains (lit '':terminal:'') (op_dedupe r)))"
  unfolding keys_plain_def using row_of_mem [OF assms] row_of_SomeD by blast

text \<open>The store while operation \<open>i\<close> runs, and after its outcome; every other row is as in \<open>base\<close>.\<close>

definition in_run :: "job_store \<Rightarrow> str \<Rightarrow> job_store \<Rightarrow> bool" where
  "in_run base i st \<longleftrightarrow> store_ok st \<and> keys_plain st \<and> (\<exists>r. row_of st i = Some r \<and> op_state r = RUNNING)
     \<and> (\<forall>j. j \<noteq> i \<longrightarrow> row_of st j = row_of base j)"

definition settled :: "job_store \<Rightarrow> str \<Rightarrow> job_store \<Rightarrow> bool" where
  "settled base i st \<longleftrightarrow> store_ok st \<and> keys_plain st
     \<and> (\<exists>r. row_of st i = Some r \<and> (op_state r = SUCCEEDED \<or> op_state r = FAILED))
     \<and> (\<forall>j. j \<noteq> i \<longrightarrow> row_of st j = row_of base j)"

lemma transition_others:
  "transition_to i t now st = (x, st') \<Longrightarrow> j \<noteq> i \<Longrightarrow> row_of st' j = row_of st j"
  using row_of_transition [of i t now st x st' j] by blast

lemma transition_keys_plain:
  assumes "transition_to i t now st = (x, st')" "store_ok st" "keys_plain st" "transition_ok t"
    and "\<forall>x\<in>set (tr_from t). active x"
  shows "keys_plain st'"
proof -
  have ok: "store_ok st'" using transition_to_ok [OF assms(2,4), of i now] assms(1) by simp
  show ?thesis
    unfolding keys_plain_rows [OF ok]
  proof (intro allI impI)
    fix j r assume r: "row_of st' j = Some r"
    have old: "colon_free (op_id y) \<and> (active (op_state y) \<longrightarrow> \<not> contains (lit '':terminal:'') (op_dedupe y))"
      if "row_of st j = Some y" for y
      using that assms(3) unfolding keys_plain_rows [OF assms(2)] by blast
    from row_of_transition [OF assms(1), of j]
    consider "row_of st j = Some r" | y where "row_of st j = Some y" "op_state y \<in> set (tr_from t)" "r = apply_transition t now y"
      using r by auto
    then show "colon_free (op_id r) \<and> (active (op_state r) \<longrightarrow> \<not> contains (lit '':terminal:'') (op_dedupe r))"
    proof cases
      case 1 then show ?thesis by (rule old)
    next
      case 2
      then have "active (op_state y)" using assms(5) by blast
      then show ?thesis using old [OF 2(1)] 2(3)
        by (auto simp: apply_transition_def Let_def active_iff)
    qed
  qed
qed

lemma set_progress_in_run: "progress_stable i (in_run base i)"
  unfolding progress_stable_def
proof (intro allI impI)
  fix st p d now assume run: "in_run base i st"
  define t where "t = (plain_transition [RUNNING] RUNNING)\<lparr>tr_progress := Some p, tr_detail := d\<rparr>"
  have t: "transition_ok t" "tr_state t = RUNNING" "\<forall>x\<in>set (tr_from t). active x"
    by (simp_all add: t_def transition_ok_def plain_transition_def active_def)
  obtain x st' where step: "transition_to i t now st = (x, st')" by (cases "transition_to i t now st")
  from run obtain r where r: "store_ok st" "keys_plain st" "row_of st i = Some r" "op_state r = RUNNING"
    by (auto simp: in_run_def)
  have "store_ok st'" using transition_to_ok [OF r(1) t(1), of i now] step by simp
  moreover have "keys_plain st'" by (rule transition_keys_plain [OF step r(1,2) t(1,3)])
  moreover have "\<exists>r. row_of st' i = Some r \<and> op_state r = RUNNING"
    using row_of_transition [OF step, of i] r(3,4) t(2) by (auto simp: apply_transition_simps)
  moreover have "row_of st' j = row_of base j" if "j \<noteq> i" for j
    using transition_others [OF step that] run that by (simp add: in_run_def)
  ultimately show "in_run base i (snd (set_progress i p d now st))"
    using step by (simp add: in_run_def set_progress_def t_def)
qed

lemma operations_activate [simp]: "operations (activate_indexes entries environment now st) = operations st"
  by (induction entries environment now st rule: activate_indexes.induct) (simp_all add: activate_index_def Let_def)

lemma row_of_activate: "row_of (activate_indexes entries environment now st) i = row_of st i"
  by (simp add: row_of_def)

lemma in_run_activate: "in_run base i st \<Longrightarrow> in_run base i (activate_indexes entries environment now st)"
  by (simp add: in_run_def activate_indexes_ok keys_plain_def row_of_activate)

lemma transition_settles:
  assumes "in_run base i st" "transition_to i t now st = (Inr u, st')" "transition_ok t"
    and "tr_state t = SUCCEEDED \<or> tr_state t = FAILED" "\<forall>x\<in>set (tr_from t). active x"
  shows "settled base i st'"
proof -
  from assms(1) obtain r where r: "store_ok st" "keys_plain st" "row_of st i = Some r"
    by (auto simp: in_run_def)
  from assms(2) obtain y where "row_of st i = Some y" "operations st' = update_where (\<lambda>x. op_id x = i) (apply_transition t now) (operations st)"
    by (cases rule: transition_to_cases) auto
  then have "row_of st' i = Some (apply_transition t now r)"
    using row_of_update [of "\<lambda>x. op_id x = i" "apply_transition t now" st' st i] r(3) row_of_SomeD [OF r(3)]
    by (simp add: apply_transition_simps)
  moreover have "store_ok st'" using transition_to_ok [OF r(1) assms(3), of i now] assms(2) by simp
  moreover have "keys_plain st'" by (rule transition_keys_plain [OF assms(2) r(1,2) assms(3,5)])
  ultimately show ?thesis
    using assms(1,4) transition_others [OF assms(2)] by (simp add: settled_def in_run_def apply_transition_simps)
qed

lemma fail_settles:
  assumes "in_run base i st"
  shows "\<exists>st'. fail i code message retryable now st = (Inr (), st') \<and> settled base i st'"
proof -
  define t where "t = (plain_transition [QUEUED, RUNNING] FAILED)
    \<lparr>tr_error_code := Some code, tr_error_message := Some message, tr_retryable := retryable\<rparr>"
  from assms obtain r where r: "store_ok st" "keys_plain st" "row_of st i = Some r" "op_state r = RUNNING"
    by (auto simp: in_run_def)
  have t: "transition_ok t" "tr_state t = FAILED" "\<forall>x\<in>set (tr_from t). active x" "op_state r \<in> set (tr_from t)"
    by (simp_all add: t_def transition_ok_def plain_transition_def active_def r(4))
  have "\<exists>st'. transition_to i t now st = (Inr (), st')"
    using transition_total [OF r(1-3) t(4)] by (simp add: t_def plain_transition_def encodable_def)
  then obtain st' where "transition_to i t now st = (Inr (), st')" by blast
  then show ?thesis using transition_settles [OF assms _ t(1) _ t(3)] t(2) by (auto simp: fail_def t_def)
qed

lemma succeed_settles:
  assumes "in_run base i st" "succeed i result now st = (x, st')"
  shows "case x of Inl e \<Rightarrow> st' = st | Inr _ \<Rightarrow> settled base i st'"
proof -
  define t where "t = (plain_transition [QUEUED, RUNNING] SUCCEEDED)\<lparr>tr_progress := Some 1, tr_result := Some result\<rparr>"
  have t: "transition_ok t" "tr_state t = SUCCEEDED" "\<forall>x\<in>set (tr_from t). active x"
    by (simp_all add: t_def transition_ok_def plain_transition_def active_def)
  have step: "transition_to i t now st = (x, st')" using assms(2) by (simp add: succeed_def t_def)
  show ?thesis
  proof (cases x)
    case (Inl e)
    from step have "st' = st" by (cases rule: transition_to_cases) (simp_all add: Inl)
    then show ?thesis by (simp add: Inl)
  next
    case (Inr u)
    then show ?thesis using transition_settles [OF assms(1) _ t(1) _ t(3)] step t(2) by simp
  qed
qed

lemma record_failure_settles:
  assumes "in_run base i (w_jobs w)"
  shows "\<exists>w'. record_failure env i e w = (Inr True, w') \<and> settled base i (w_jobs w')"
proof -
  obtain code message retryable where f: "failure_of e = (code, message, retryable)" by (cases "failure_of e")
  obtain st' where "fail i code message retryable (we_clock env (w_ticks w)) (w_jobs w) = (Inr (), st')" "settled base i st'"
    using fail_settles [OF assms] by blast
  then show ?thesis by (simp add: record_failure_def f set_jobs_def)
qed

lemma complete_settles:
  assumes "in_run base i (w_jobs w)"
  shows "\<exists>w'. complete env i answer w = (Inr True, w') \<and> settled base i (w_jobs w')"
proof (cases answer)
  case (Inl e)
  then show ?thesis using record_failure_settles [OF assms] by (simp add: complete_def)
next
  case (Inr result)
  obtain x st' where step: "succeed i result (we_clock env (w_ticks w)) (w_jobs w) = (x, st')"
    by (cases "succeed i result (we_clock env (w_ticks w)) (w_jobs w)")
  note done' = succeed_settles [OF assms step]
  show ?thesis
  proof (cases x)
    case (Inl e)
    then have "in_run base i (w_jobs (set_jobs st' w))" using done' assms by (simp add: set_jobs_def)
    from record_failure_settles [OF this] show ?thesis using Inr step Inl by (simp add: complete_def)
  qed (use Inr step done' in \<open>simp add: complete_def set_jobs_def\<close>)
qed

text \<open>The row that a claim of work starts.\<close>

lemma claim_starts_run:
  assumes "claim_next_operation environment now st = (Inr (Some operation), st')" "store_ok st" "keys_plain st"
  shows "in_run st (so_operation_id operation) st'
    \<and> (\<exists>r. row_of st (so_operation_id operation) = Some r \<and> op_state r = QUEUED \<and> op_env r = environment)"
proof -
  have ok: "store_ok st'" using claim_next_ok [OF assms(2), of environment now] assms(1) by simp
  from assms(1) obtain x s where x: "find (\<lambda>x. op_env x = environment \<and> op_state x = QUEUED) (operations st) = Some x"
      "operation = stored_operation_of (start_operation now x) s"
      "st' = st\<lparr>operations := update_where (\<lambda>y. op_id y = op_id x \<and> op_state y = QUEUED) (start_operation now) (operations st)\<rparr>"
    by (cases rule: claim_next_cases) auto
  have id: "so_operation_id operation = op_id x" by (simp add: x(2) stored_operation_of_def start_operation_def)
  have row: "row_of st (op_id x) = Some x" "op_state x = QUEUED" "op_env x = environment"
    using find_SomeD [OF x(1)] row_of_mem [OF assms(2)] by simp_all
  have rows: "row_of st' j = map_option
      (\<lambda>y. if op_id y = op_id x \<and> op_state y = QUEUED then start_operation now y else y) (row_of st j)" for j
    by (rule row_of_update) (simp add: start_operation_def, simp add: x(3))
  have others: "row_of st' j = row_of st j" if "j \<noteq> op_id x" for j
    using that row_of_SomeD [of st j] by (cases "row_of st j") (auto simp: rows)
  have "keys_plain st'"
    unfolding keys_plain_rows [OF ok]
  proof (intro allI impI)
    fix j r assume "row_of st' j = Some r"
    then obtain y where y: "row_of st j = Some y" "r = y \<or> (r = start_operation now y \<and> op_state y = QUEUED)"
      unfolding rows by (auto split: if_splits)
    then have "colon_free (op_id y) \<and> (active (op_state y) \<longrightarrow> \<not> contains (lit '':terminal:'') (op_dedupe y))"
      using assms(3) unfolding keys_plain_rows [OF assms(2)] by blast
    then show "colon_free (op_id r) \<and> (active (op_state r) \<longrightarrow> \<not> contains (lit '':terminal:'') (op_dedupe r))"
      using y(2) by (auto simp: start_operation_def active_def)
  qed
  moreover have "\<exists>r. row_of st' (op_id x) = Some r \<and> op_state r = RUNNING"
    using row by (simp add: rows start_operation_def)
  ultimately show ?thesis using ok others row id by (simp add: in_run_def)
qed

context progress_provider
begin

lemma run_once_settles:
  assumes "store_ok (w_jobs w)" "keys_plain (w_jobs w)"
    and "claim_next_operation (we_name env) (we_clock env (w_ticks w)) (w_jobs w) = (Inr (Some operation), jobs)"
  shows "\<exists>w'. run_once env w = (Inr True, w') \<and> settled (w_jobs w) (so_operation_id operation) (w_jobs w')"
proof -
  let ?i = "so_operation_id operation"
  have start: "in_run (w_jobs w) ?i (w_jobs (set_jobs jobs w))"
    using claim_starts_run [OF assms(3,1,2)] by (simp add: set_jobs_def)
  obtain answer w1 where run: "execute env operation (set_jobs jobs w) = (answer, w1)"
    by (cases "execute env operation (set_jobs jobs w)")
  have "in_run (w_jobs w) ?i (w_jobs w1)"
    using execute_frame [OF set_progress_in_run start run] in_run_activate by metis
  from complete_settles [OF this] show ?thesis using assms(3) run by (simp add: run_once_def)
qed

end

section \<open>The queue drains\<close>

definition ids_in :: "str \<Rightarrow> job_state \<Rightarrow> job_store \<Rightarrow> str set" where
  "ids_in environment state st = {i. \<exists>r. row_of st i = Some r \<and> op_env r = environment \<and> op_state r = state}"

lemma ids_in_rows: "store_ok st \<Longrightarrow>
    ids_in environment state st = op_id ` set (filter (\<lambda>r. op_env r = environment \<and> op_state r = state) (operations st))"
  using row_of_mem [of st] row_of_SomeD [of st] by (fastforce simp: ids_in_def)

lemma finite_ids_in: "store_ok st \<Longrightarrow> finite (ids_in environment state st)"
  by (simp add: ids_in_rows)

lemma settled_ids:
  assumes "settled base i st"
  shows "ids_in environment QUEUED st = ids_in environment QUEUED base - {i}"
    "ids_in environment RUNNING st = ids_in environment RUNNING base - {i}"
  using assms by (auto simp: settled_def ids_in_def) (metis option.inject job_state.distinct)+

context progress_provider
begin

lemma run_once_idle:
  assumes "store_ok (w_jobs w)" "ids_in (we_name env) QUEUED (w_jobs w) = {}"
  shows "\<exists>w'. run_once env w = (Inr False, w') \<and> w_jobs w' = w_jobs w"
proof -
  obtain x jobs where claim: "claim_next_operation (we_name env) (we_clock env (w_ticks w)) (w_jobs w) = (x, jobs)"
    by (cases "claim_next_operation (we_name env) (we_clock env (w_ticks w)) (w_jobs w)")
  have none: "find (\<lambda>x. op_env x = we_name env \<and> op_state x = QUEUED) (operations (w_jobs w)) = None"
    using assms by (simp add: ids_in_rows find_None_iff filter_empty_conv)
  from claim have "x = Inr None \<and> jobs = w_jobs w"
    by (cases rule: claim_next_cases) (simp_all add: none)
  then show ?thesis using claim by (simp add: run_once_def set_jobs_def)
qed

lemma run_once_claims:
  assumes "store_ok (w_jobs w)" "keys_plain (w_jobs w)"
    and "ids_in (we_name env) RUNNING (w_jobs w) = {}" "ids_in (we_name env) QUEUED (w_jobs w) \<noteq> {}"
  shows "\<exists>i w'. i \<in> ids_in (we_name env) QUEUED (w_jobs w) \<and> run_once env w = (Inr True, w') \<and> settled (w_jobs w) i (w_jobs w')"
proof -
  obtain answer where answer: "fst (claim_next_operation (we_name env) (we_clock env (w_ticks w)) (w_jobs w)) = Inr answer"
    "answer = None \<longleftrightarrow> (\<exists>r\<in>set (operations (w_jobs w)). op_env r = we_name env \<and> op_state r = RUNNING)
        \<or> \<not> (\<exists>r\<in>set (operations (w_jobs w)). op_env r = we_name env \<and> op_state r = QUEUED)"
    using claim_total [OF assms(1), of "we_name env" "we_clock env (w_ticks w)"] by (elim exE conjE)
  have "answer \<noteq> None" using assms(3,4) unfolding answer(2) ids_in_rows [OF assms(1)] by auto
  then obtain operation where "answer = Some operation" by blast
  with answer(1) obtain jobs where
    claim: "claim_next_operation (we_name env) (we_clock env (w_ticks w)) (w_jobs w) = (Inr (Some operation), jobs)"
    by (cases "claim_next_operation (we_name env) (we_clock env (w_ticks w)) (w_jobs w)") auto
  have "so_operation_id operation \<in> ids_in (we_name env) QUEUED (w_jobs w)"
    using claim_starts_run [OF claim assms(1,2)] by (auto simp: ids_in_def)
  then show ?thesis using run_once_settles [OF assms(1,2) claim] by blast
qed

lemma run_until_idle_drains:
  assumes "store_ok (w_jobs w)" "keys_plain (w_jobs w)" "ids_in (we_name env) RUNNING (w_jobs w) = {}"
    and "card (ids_in (we_name env) QUEUED (w_jobs w)) \<le> k"
  shows "\<exists>w'. run_until_idle env k w = (Inr (card (ids_in (we_name env) QUEUED (w_jobs w))), w')
    \<and> store_ok (w_jobs w') \<and> keys_plain (w_jobs w')
    \<and> (\<forall>i\<in>ids_in (we_name env) QUEUED (w_jobs w). \<exists>r. row_of (w_jobs w') i = Some r \<and> (op_state r = SUCCEEDED \<or> op_state r = FAILED))
    \<and> (\<forall>i. i \<notin> ids_in (we_name env) QUEUED (w_jobs w) \<longrightarrow> row_of (w_jobs w') i = row_of (w_jobs w) i)"
  using assms
proof (induction k arbitrary: w)
  case 0
  then show ?case using finite_ids_in by auto
next
  case (Suc k)
  let ?Q = "ids_in (we_name env) QUEUED (w_jobs w)"
  show ?case
  proof (cases "?Q = {}")
    case True
    then show ?thesis using run_once_idle [OF Suc.prems(1) True] Suc.prems(1,2) by auto
  next
    case False
    obtain i w1 where i: "i \<in> ?Q" and once: "run_once env w = (Inr True, w1)" and settle: "settled (w_jobs w) i (w_jobs w1)"
      using run_once_claims [OF Suc.prems(1-3) False] by blast
    note ids = settled_ids [OF settle, of "we_name env"]
    have card: "card ?Q = Suc (card (?Q - {i}))"
      using i finite_ids_in [OF Suc.prems(1)] by (metis card.remove)
    have "store_ok (w_jobs w1)" "keys_plain (w_jobs w1)" using settle by (simp_all add: settled_def)
    moreover have "ids_in (we_name env) RUNNING (w_jobs w1) = {}" using Suc.prems(3) ids(2) by simp
    moreover have "card (ids_in (we_name env) QUEUED (w_jobs w1)) \<le> k" using Suc.prems(4) card ids(1) by simp
    ultimately obtain w' where w': "run_until_idle env k w1 = (Inr (card (?Q - {i})), w')"
      "store_ok (w_jobs w')" "keys_plain (w_jobs w')"
      "\<forall>j\<in>?Q - {i}. \<exists>r. row_of (w_jobs w') j = Some r \<and> (op_state r = SUCCEEDED \<or> op_state r = FAILED)"
      "\<forall>j. j \<notin> ?Q - {i} \<longrightarrow> row_of (w_jobs w') j = row_of (w_jobs w1) j"
      using Suc.IH [of w1] unfolding ids(1) by blast
    have kept: "row_of (w_jobs w1) j = row_of (w_jobs w) j" if "j \<noteq> i" for j using settle that unfolding settled_def by blast
    have "\<exists>r. row_of (w_jobs w') j = Some r \<and> (op_state r = SUCCEEDED \<or> op_state r = FAILED)" if "j \<in> ?Q" for j
    proof (cases "j = i")
      case True
      then have "row_of (w_jobs w') j = row_of (w_jobs w1) i" using w'(5) by blast
      then show ?thesis using settle unfolding settled_def by simp
    next
      case False
      then show ?thesis using w'(4) that by blast
    qed
    moreover have "row_of (w_jobs w') j = row_of (w_jobs w) j" if "j \<notin> ?Q" for j
    proof -
      have "j \<noteq> i" "j \<notin> ?Q - {i}" using that i by blast+
      then show ?thesis using w'(5) kept by metis
    qed
    ultimately show ?thesis using once w'(1-3) card by simp
  qed
qed

end

section \<open>Rebuilds switch all or nothing\<close>

lemma load_document_scope:
  "load_document sha scope_model page_model s docs = Inr doc \<Longrightarrow> fd_scope doc = s"
  by (auto simp: load_document_def and_then_Inr Let_def split: option.splits)

context index_provider
begin

lemma build_candidates_keeps:
  "we_load env sc a r = Inr x \<Longrightarrow>
     we_load env sc a (fst (snd (snd (build_candidates env operation docs position scs made r s)))) = Inr x"
proof (induction scs arbitrary: position made r s)
  case (Cons sc' scs)
  show ?case
  proof (cases "load_document (we_sha env) (we_scope_model env) (we_page_model env) sc' docs")
    case (Inr doc)
    let ?build = "we_build env position (so_operation_id operation)
      (\<lambda>v. report_progress (we_clock env) (so_operation_id operation)
         (90 / 100 * (of_nat position + v) / scope_count operation)) doc r s"
    have "we_load env sc a (fst (snd ?build)) = Inr x" by (rule build_keeps [OF Cons.prems])
    then show ?thesis using Cons.IH Inr by (auto split: prod.splits sum.splits)
  qed (use Cons.prems in simp)
qed simp

lemma build_candidates_made:
  "build_candidates env operation docs position scs made r s = (Inr u, made', r', s') \<Longrightarrow>
     \<exists>cs. made' = made @ cs \<and> map ic_scope cs = scs \<and> ic_artifact ` set cs \<subseteq> names"
proof (induction scs arbitrary: position made r s)
  case (Cons sc scs)
  from Cons.prems obtain doc c r1 s1 where
    doc: "load_document (we_sha env) (we_scope_model env) (we_page_model env) sc docs = Inr doc"
    and built: "we_build env position (so_operation_id operation)
      (\<lambda>v. report_progress (we_clock env) (so_operation_id operation)
         (90 / 100 * (of_nat position + v) / scope_count operation)) doc r s = (Inr c, r1, s1)"
    and rest: "build_candidates env operation docs (Suc position) scs (made @ [c]) r1 s1 = (Inr u, made', r', s')"
    by (auto split: sum.splits prod.splits)
  from Cons.IH [OF rest] obtain cs where "made' = (made @ [c]) @ cs" "map ic_scope cs = scs" "ic_artifact ` set cs \<subseteq> names"
    by blast
  then show ?case using build_scope [OF built] load_document_scope [OF doc] by (intro exI [of _ "c # cs"]) simp
qed simp

lemma commit_candidates_keeps:
  "we_load env sc a r = Inr x \<Longrightarrow>
     we_load env sc a (fst (snd (commit_candidates env operation position cs committed r s))) = Inr x"
proof (induction cs arbitrary: position committed r s)
  case (Cons c cs)
  have "we_load env sc a r1 = Inr x" if "we_commit env c r = (y, r1)" for y r1
    using commit_keeps [OF Cons.prems, of c] that by simp
  then show ?case using Cons by (auto split: prod.splits sum.splits)
qed simp

lemma commit_candidates_loads:
  "commit_candidates env operation position cs committed r s = (Inr entries, r', s') \<Longrightarrow>
     \<forall>c\<in>set cs. admissible (ic_artifact c) \<Longrightarrow>
     (\<forall>(sc, a)\<in>set committed. \<exists>x. we_load env sc a r = Inr x) \<Longrightarrow>
     entries = committed @ map (\<lambda>c. (ic_scope c, ic_artifact c)) cs
       \<and> (\<forall>(sc, a)\<in>set entries. \<exists>x. we_load env sc a r' = Inr x)"
proof (induction cs arbitrary: position committed r s)
  case (Cons c cs)
  from Cons.prems(1) obtain sc a r1 s1 where commit: "we_commit env c r = (Inr (sc, a), r1)"
    and rest: "commit_candidates env operation (Suc position) cs (committed @ [(sc, a)]) r1 s1 = (Inr entries, r', s')"
    by (auto split: sum.splits prod.splits)
  have entry: "sc = ic_scope c \<and> a = ic_artifact c" by (rule commit_names [OF commit])
  then have new: "\<exists>x. we_load env sc a r1 = Inr x" using commit_loads [OF commit] Cons.prems(2) by simp
  have "\<exists>x. we_load env sc' a' r1 = Inr x" if "(sc', a') \<in> set committed" for sc' a'
  proof -
    from that Cons.prems(3) obtain x where "we_load env sc' a' r = Inr x" by auto
    from commit_keeps [OF this, of c] commit show ?thesis by auto
  qed
  then have "\<forall>(sc, a)\<in>set (committed @ [(sc, a)]). \<exists>x. we_load env sc a r1 = Inr x" using new by auto
  from Cons.IH [OF rest _ this] Cons.prems(2) entry show ?case by simp
qed simp

lemma discard_all_keeps: "we_load env sc a r = Inr x \<Longrightarrow> we_load env sc a (discard_all env cs r) = Inr x"
  by (induction cs arbitrary: r) (simp_all add: discard_keeps)

lemma rebuild_keeps_loadable:
  assumes "rebuild env operation docs r s = (answer, r', s')" "we_load env sc a r = Inr x"
  shows "we_load env sc a r' = Inr x"
proof -
  have built: "we_load env sc a r2 = Inr x"
    if "build_candidates env operation docs 0 (so_scope operation) [] r s1 = (y, made, r2, s2)" for s1 y made r2 s2
    using build_candidates_keeps [OF assms(2), of operation docs 0 "so_scope operation" "[]" s1] that by simp
  have committed: "we_load env sc a r3 = Inr x"
    if "commit_candidates env operation 0 made [] r2 s2 = (y, r3, s3)" "we_load env sc a r2 = Inr x" for made r2 s2 y r3 s3
    using commit_candidates_keeps [OF that(2), of operation 0 made "[]" s2] that(1) by simp
  show ?thesis
    using assms by (auto simp: rebuild_def split: prod.splits sum.splits dest!: built committed intro!: discard_all_keeps)
qed

lemma rebuild_failure_keeps:
  assumes "rebuild env operation docs r s = (Inl e, r', s')"
  shows "active_indexes (rn_jobs s') = active_indexes (rn_jobs s)"
proof -
  have "progress_stable (so_operation_id operation) (\<lambda>st. active_indexes st = active_indexes (rn_jobs s))"
    by (simp add: progress_stable_def progress_active)
  from rebuild_frame [OF this _ assms] show ?thesis by simp
qed

lemma rebuild_success_loads:
  assumes "rebuild env operation docs r s = (Inr j, r', s')" "store_ok (rn_jobs s)"
    and "distinct (map (\<lambda>sc. (notebook_id sc, index_schema_version sc)) (so_scope operation))" "\<forall>a\<in>names. admissible a"
  shows "\<forall>sc\<in>set (so_scope operation). \<exists>a t x. active_index sc (we_name env) (rn_jobs s') = Some (sc, a, t)
    \<and> we_load env sc a r' = Inr x"
proof -
  from assms(1) obtain s1 made r2 s2 entries s3 where
    start: "report_progress (we_clock env) (so_operation_id operation) (2 / 100) s = (Inr (), s1)"
    and built: "build_candidates env operation docs 0 (so_scope operation) [] r s1 = (Inr (), made, r2, s2)"
    and fin: "commit_candidates env operation 0 made [] r2 s2 = (Inr entries, r', s3)"
    and act: "rn_jobs s' = activate_indexes entries (we_name env) (we_clock env (rn_ticks s3)) (rn_jobs s3)"
    by (auto simp: rebuild_def split: prod.splits sum.splits)
  have stable: "progress_stable (so_operation_id operation) store_ok"
    by (simp add: progress_stable_def transitions_ok)
  have "store_ok (rn_jobs s1)"
    using report_progress_frame [OF stable assms(2), of "we_clock env" "2 / 100"] start by simp
  then have "store_ok (rn_jobs s2)"
    using build_candidates_frame [OF stable, of s1 docs 0 "so_scope operation" "[]" r] built by simp
  then have ok: "store_ok (rn_jobs s3)"
    using commit_candidates_frame [OF stable, of s2 env 0 made "[]" r2] fin by simp
  have made: "map ic_scope made = so_scope operation" "ic_artifact ` set made \<subseteq> names"
    using build_candidates_made [OF built] by auto
  have entries: "entries = map (\<lambda>c. (ic_scope c, ic_artifact c)) made"
    and loads: "\<forall>(sc, a)\<in>set entries. \<exists>x. we_load env sc a r' = Inr x"
    using commit_candidates_loads [OF fin] made(2) assms(4) by auto
  have "map entry_key entries = map (\<lambda>sc. (notebook_id sc, index_schema_version sc)) (so_scope operation)"
    by (simp add: entries entry_key_def flip: made(1))
  then have "distinct (map entry_key entries)" using assms(3) by simp
  note switched = active_after_activation [OF ok this, of "we_name env" "we_clock env (rn_ticks s3)"]
  show ?thesis
  proof
    fix sc assume "sc \<in> set (so_scope operation)"
    then obtain c where "c \<in> set made" "sc = ic_scope c" by (auto simp flip: made(1))
    then have "(sc, ic_artifact c) \<in> set entries" by (auto simp: entries)
    with switched loads show "\<exists>a t x. active_index sc (we_name env) (rn_jobs s') = Some (sc, a, t) \<and> we_load env sc a r' = Inr x"
      unfolding act by blast
  qed
qed

end

end
