(* ===== verification/Query_Engine.thy ===== *)
theory Query_Engine
  imports Index_Repo
begin

text \<open>
  The query pipeline of the index repository (\<open>query\<close>, \<open>_retrieve\<close> and their helpers in
  \<open>novo_chat/compute.py\<close>): the checks of its arguments and artifacts, the retrieval plan, hybrid
  retrieval by reciprocal rank fusion, the generated answer and the validation of its citations.
  Scores are values of a linear order \<open>'x\<close> whose floating-point operations are given by a record,
  so no rounding is idealised; embeddings, BM25 (\<open>rank_bm25\<close>), the model that plans and the one
  that answers are functions.
\<close>

section \<open>Services and scores\<close>

datatype evidence = Original | Semantic_Expansion | Lexical_Expansion

text \<open>\<open>sc_rrf e rank\<close> is \<open>weight / (60 + rank)\<close>; the two bonuses are those of hybrid search.\<close>

record 'x score_ops =
  sc_zero :: 'x
  sc_add :: "'x \<Rightarrow> 'x \<Rightarrow> 'x"
  sc_rrf :: "evidence \<Rightarrow> nat \<Rightarrow> 'x"
  sc_of_count :: "nat \<Rightarrow> 'x"
  sc_weigh_expansion :: "'x \<Rightarrow> 'x"
  sc_bonus :: "'x \<Rightarrow> 'x \<Rightarrow> 'x"
  sc_bonus_count :: "nat \<Rightarrow> nat \<Rightarrow> 'x"

datatype generated = Answer str | Typed str "json option" | Untyped

record ('v, 'x, 'q) engine =
  en_scores :: "'x score_ops"
  en_numpy :: "'v numpy"
  en_embed_query :: "str \<Rightarrow> exn + 'q"
  en_query_ok :: "'v list \<Rightarrow> 'q \<Rightarrow> bool"
  en_dense :: "'v list \<Rightarrow> 'q \<Rightarrow> 'x list"
  en_bm25 :: "str list list \<Rightarrow> str list \<Rightarrow> 'x list"
  en_planner :: "(str \<Rightarrow> str \<Rightarrow> str \<Rightarrow> retrieval_plan option) option"
  en_generate :: "str \<Rightarrow> (int \<times> chunk) list \<Rightarrow> str \<Rightarrow> nat \<Rightarrow> exn + generated"
  en_casefold :: "str \<Rightarrow> str"
  en_text_of :: "json \<Rightarrow> str"

record 'x hit =
  hit_index :: nat
  hit_source :: nat
  hit_chunk :: chunk
  hit_score :: 'x
  hit_dense :: 'x
  hit_bm25 :: 'x

record 'x citation =
  ct_notebook :: str
  ct_page :: str
  ct_source_url :: str
  ct_title :: str
  ct_excerpt :: str
  ct_score :: 'x
  ct_source_idx :: nat
  ct_file :: str
  ct_chunk_idx :: int
  ct_bm25 :: 'x
  ct_dense :: 'x
  ct_used :: bool

record 'x query_result =
  qr_answer :: str
  qr_model :: str
  qr_citations :: "'x citation list"
  qr_timings :: "json option"
  qr_plan :: retrieval_plan

section \<open>Ranking\<close>

text \<open>\<open>np.lexsort((indices, -scores))\<close>: by descending score, ties by index.\<close>

fun insert_ranked :: "(nat \<Rightarrow> 'x::linorder) \<Rightarrow> nat \<Rightarrow> nat list \<Rightarrow> nat list" where
  "insert_ranked score i [] = [i]"
| "insert_ranked score i (j # js) =
     (if score i < score j \<or> (score i = score j \<and> j < i) then j # insert_ranked score i js else i # j # js)"

definition rank_by :: "(nat \<Rightarrow> 'x::linorder) \<Rightarrow> nat list \<Rightarrow> nat list" where
  "rank_by score indices = foldr (insert_ranked score) indices []"

text \<open>A dictionary of scores: \<open>target[i] = target.get(i, 0.0) + x\<close>, and the value of \<open>get\<close>.\<close>

definition score_at :: "'x score_ops \<Rightarrow> (nat \<times> 'x) list \<Rightarrow> nat \<Rightarrow> 'x" where
  "score_at ops m i = (case map_of m i of None \<Rightarrow> sc_zero ops | Some x \<Rightarrow> x)"

definition set_score :: "nat \<Rightarrow> 'x \<Rightarrow> (nat \<times> 'x) list \<Rightarrow> (nat \<times> 'x) list" where
  "set_score i x m = (if i \<in> fst ` set m then update_where (\<lambda>(j, _). j = i) (\<lambda>(j, _). (j, x)) m else m @ [(i, x)])"

definition add_score :: "'x score_ops \<Rightarrow> nat \<Rightarrow> 'x \<Rightarrow> (nat \<times> 'x) list \<Rightarrow> (nat \<times> 'x) list" where
  "add_score ops i x m = set_score i (sc_add ops (score_at ops m i) x) m"

definition add_ranks :: "'x score_ops \<Rightarrow> evidence \<Rightarrow> nat list \<Rightarrow> (nat \<times> 'x) list \<Rightarrow> (nat \<times> 'x) list" where
  "add_ranks ops e best m = foldl (\<lambda>m (rank, i). add_score ops i (sc_rrf ops e rank) m) m (enumerate 0 best)"

definition value_at :: "'x score_ops \<Rightarrow> 'x list \<Rightarrow> nat \<Rightarrow> 'x" where
  "value_at ops xs i = (if i < length xs then xs ! i else sc_zero ops)"

text \<open>The element-wise maximum of the score sets, zero when there is none.\<close>

fun max_scores :: "'x::linorder score_ops \<Rightarrow> 'x list list \<Rightarrow> nat \<Rightarrow> 'x" where
  "max_scores ops [] i = sc_zero ops"
| "max_scores ops [xs] i = value_at ops xs i"
| "max_scores ops (xs # ys # rest) i = max (value_at ops xs i) (max_scores ops (ys # rest) i)"

section \<open>Dense retrieval\<close>

text \<open>The question and the plan's semantic query, without a second one of the same tokens.\<close>

definition dense_key :: "(str \<Rightarrow> str) \<Rightarrow> str \<Rightarrow> str" where
  "dense_key casefold normalized = (let k = join [32] (tokenize normalized) in if k = [] then casefold normalized else k)"

definition dense_queries :: "(str \<Rightarrow> str) \<Rightarrow> str \<Rightarrow> str \<Rightarrow> (str \<times> evidence) list" where
  "dense_queries casefold asked semantic =
     (let a = py_strip asked; b = py_strip semantic
      in (if a = [] then [] else [(a, Original)])
         @ (if b = [] \<or> (a \<noteq> [] \<and> dense_key casefold b = dense_key casefold a) then [] else [(b, Semantic_Expansion)]))"

fun dense_search ::
  "('v, 'x::linorder, 'q) engine \<Rightarrow> 'v list \<Rightarrow> nat \<Rightarrow> nat \<Rightarrow> (str \<times> evidence) list
     \<Rightarrow> (nat \<times> 'x) list \<Rightarrow> (nat \<times> 'x) list \<Rightarrow> 'x list list \<Rightarrow> exn + ((nat \<times> 'x) list \<times> (nat \<times> 'x) list \<times> 'x list list)" where
  "dense_search en vectors n pool [] original expansion sets = Inr (original, expansion, sets)"
| "dense_search en vectors n pool ((text, e) # queries) original expansion sets =
     and_then (en_embed_query en text) (\<lambda>q.
     demand (coded ''QUERY_EMBEDDING_INVALID'' ''Query embedding is incompatible.'' True) (en_query_ok en vectors q)
     (let scores = en_dense en vectors q;
          best = take pool (rank_by (value_at (en_scores en) scores) [0..<n])
      in if e = Original
         then dense_search en vectors n pool queries (add_ranks (en_scores en) e best original) expansion (sets @ [scores])
         else dense_search en vectors n pool queries original (add_ranks (en_scores en) e best expansion) (sets @ [scores])))"

section \<open>Lexical retrieval\<close>

definition original_tokens :: "str \<Rightarrow> str list" where
  "original_tokens asked = (let ts = (if meaningful_search_tokens asked = [] then tokenize asked else meaningful_search_tokens asked)
     in first_distinct (length ts) [] ts)"

definition expansion_tokens :: "str \<Rightarrow> str list \<Rightarrow> str list" where
  "expansion_tokens asked terms = (let ts = concat (map meaningful_search_tokens terms)
     in first_distinct (length ts) (original_tokens asked) ts)"

text \<open>One round of the lexical loop: the ranks, and for the question in hybrid search the bonus.\<close>

definition lexical_round ::
  "('v, 'x::linorder, 'q) engine \<Rightarrow> query_strategy \<Rightarrow> str list list \<Rightarrow> nat \<Rightarrow> str list \<Rightarrow> evidence
     \<Rightarrow> (nat \<times> 'x) list \<Rightarrow> (nat \<times> 'x) list \<times> 'x list list" where
  "lexical_round en qs tokenized pool tokens e target =
     (let ops = en_scores en; n = length tokenized
      in if tokens = [] then (target, [])
         else
          (let scores = en_bm25 en tokenized tokens;
               weighted = (if e = Original then scores else map (sc_weigh_expansion ops) scores);
               overlap = (\<lambda>i. card (set tokens \<inter> set (tokenized ! i)));
               matched = filter (\<lambda>i. 0 < overlap i) [0..<n]
           in if matched = [] then (target, [weighted])
              else
               (let lexical_max = Max (set (map (value_at ops scores) matched));
                    ranking = (if sc_zero ops < lexical_max then value_at ops scores else (\<lambda>i. sc_of_count ops (overlap i)));
                    ranked = add_ranks ops e (take pool (rank_by ranking matched)) target;
                    bonus = (\<lambda>i. if sc_zero ops < lexical_max then sc_bonus ops (max (value_at ops scores i) (sc_zero ops)) lexical_max
                                  else sc_bonus_count ops (overlap i) (Max (set (map overlap [0..<n]))))
                in (if qs = HYBRID \<and> e = Original
                    then foldl (\<lambda>m i. add_score ops i (bonus i) m) ranked (filter (\<lambda>i. sc_zero ops < bonus i) [0..<n])
                    else ranked, [weighted]))))"

section \<open>Fusion\<close>

text \<open>
  Expansions fill gaps: a chunk gets the larger of its original evidence and the better of its
  two expansion scores.
\<close>

definition fuse :: "'x::linorder score_ops \<Rightarrow> (nat \<times> 'x) list \<Rightarrow> (nat \<times> 'x) list \<Rightarrow> (nat \<times> 'x) list \<Rightarrow> (nat \<times> 'x) list" where
  "fuse ops original semantic lexical =
     foldl (\<lambda>m i. set_score i (max (score_at ops m i) (max (score_at ops semantic i) (score_at ops lexical i))) m)
       original (remdups (map fst semantic @ map fst lexical))"

definition retrieve ::
  "('v, 'x::linorder, 'q) engine \<Rightarrow> chunk list \<Rightarrow> 'v list \<Rightarrow> str \<Rightarrow> retrieval_plan \<Rightarrow> query_strategy \<Rightarrow> nat \<Rightarrow> exn + 'x hit list" where
  "retrieve en chunks vectors asked plan qs wanted =
     (let ops = en_scores en; n = length chunks; pool = min 240 n;
          tokenized = map (\<lambda>c. tokenize (str_or_empty (en_text_of en) (map_of c (lit ''indexed_text'')))) chunks
      in and_then (if qs = HYBRID \<or> qs = SEMANTIC
                   then dense_search en vectors n pool (dense_queries (en_casefold en) asked (semantic_query plan)) [] [] []
                   else Inr ([], [], [])) (\<lambda>(original, semantic, dense_sets).
         let (original, sets1) = (if qs = HYBRID \<or> qs = LEXICAL
               then lexical_round en qs tokenized pool (original_tokens asked) Original original else (original, []));
             (lexical, sets2) = (if qs = HYBRID \<or> qs = LEXICAL
               then lexical_round en qs tokenized pool (expansion_tokens asked (bm25_terms plan)) Lexical_Expansion [] else ([], []));
             lexical_score = (\<lambda>i. if sets1 @ sets2 = [] then sc_zero ops else max (max_scores ops (sets1 @ sets2) i) (sc_zero ops));
             fused = fuse ops original semantic lexical;
             ranked = map (\<lambda>i. (i, score_at ops fused i)) (rank_by (score_at ops fused) (map fst fused));
             selected = diversify_by_page (chunk_page (en_text_of en) chunks) MAX_CHUNKS_PER_PAGE (min wanted n) ranked
         in Inr (map (\<lambda>(k, (i, score)). \<lparr>hit_index = i, hit_source = k, hit_chunk = chunks ! i, hit_score = score,
                        hit_dense = max_scores ops dense_sets i, hit_bm25 = lexical_score i\<rparr>) (enumerate 1 selected))))"

section \<open>The query\<close>

definition query_plan :: "('v, 'x, 'q) engine \<Rightarrow> str \<Rightarrow> str \<Rightarrow> str \<Rightarrow> bool \<Rightarrow> exn + retrieval_plan" where
  "query_plan en asked contextual model_id use_model =
     and_then (or_raise Value_Error (fallback_retrieval_plan (en_casefold en) asked (Some contextual))) (\<lambda>fallback.
     if \<not> use_model then Inr fallback
     else case en_planner en of
       None \<Rightarrow> Inr fallback
     | Some planner \<Rightarrow>
         (case planner asked contextual model_id of
            None \<Rightarrow> Inr fallback
          | Some planned \<Rightarrow>
              (case make_plan (en_casefold en) asked (semantic_query planned) (bm25_terms planned) (plan_mode planned) of
                 None \<Rightarrow> Inr fallback | Some plan \<Rightarrow> Inr plan)))"

definition generation_result :: "generated \<Rightarrow> exn + (str \<times> json option)" where
  "generation_result value = (case value of Answer a \<Rightarrow> Inr (a, None) | Typed a t \<Rightarrow> Inr (a, t)
     | Untyped \<Rightarrow> Inl (coded ''GENERATION_RESULT_INVALID'' ''The configured generation service returned an invalid result.'' True))"

definition validated_answer :: "str \<Rightarrow> nat list \<Rightarrow> exn + str" where
  "validated_answer answer source_ids =
     (let normalized = fst (normalize_citation_glyphs answer);
          failed = coded ''CITATION_VALIDATION_FAILED'' ''Generated answer did not contain valid source citations.'' True
      in demand failed (source_ids \<noteq> [] \<or> disclaims normalized)
         (demand failed (check_ok (check_citations normalized source_ids)) (Inr normalized)))"

definition MAX_CITATION_EXCERPT_CHARS :: nat where "MAX_CITATION_EXCERPT_CHARS = 16000"

text \<open>\<open>Citation(...)\<close>: a missing key is a \<open>KeyError\<close>, a refused field a \<open>ValidationError\<close>.\<close>

definition citation_of :: "(json \<Rightarrow> str) \<Rightarrow> nat \<Rightarrow> nat \<times> 'x hit \<Rightarrow> exn + 'x citation" where
  "citation_of text_of used = (\<lambda>(position, h).
     (let c = hit_chunk h; text = str_or_empty text_of in
      and_then (or_raise Value_Error (map_of c (lit ''notebook_id''))) (\<lambda>nb.
      and_then (or_raise Value_Error (map_of c (lit ''page_id''))) (\<lambda>pg.
      and_then (or_raise Value_Error (if truthy (map_of c (lit ''chunk_idx'')) then int_field (map_of c (lit ''chunk_idx'')) else Some 0)) (\<lambda>number.
      and_then (or_raise Value_Error (map_of c (lit ''source_url''))) (\<lambda>url.
      let ct = \<lparr>ct_notebook = py_str text_of nb, ct_page = py_str text_of pg, ct_source_url = py_str text_of url,
                ct_title = text (map_of c (lit ''title'')), ct_excerpt = take MAX_CITATION_EXCERPT_CHARS (text (map_of c (lit ''text''))),
                ct_score = hit_score h, ct_source_idx = hit_source h, ct_file = text (map_of c (lit ''file'')),
                ct_chunk_idx = number, ct_bm25 = hit_bm25 h, ct_dense = hit_dense h, ct_used = (position \<le> used)\<rparr>
      in demand Value_Error
           (valid_same_origin_path (ct_source_url ct) \<and> length (ct_title ct) \<le> 4096 \<and> 1 \<le> ct_source_idx ct \<and> ct_source_idx ct \<le> 32
            \<and> 1 \<le> length (ct_file ct) \<and> length (ct_file ct) \<le> 1024 \<and> 0 \<le> ct_chunk_idx ct) (Inr ct)))))))"

text \<open>The loop over the artifacts: their chunks and, of those that have any, their vectors.\<close>

fun gather ::
  "('v, 'x, 'q) engine \<Rightarrow> str list \<Rightarrow> nat option \<Rightarrow> 'v loaded_index list \<Rightarrow> exn + (chunk list \<times> 'v list)" where
  "gather en allowed dimension [] = Inr ([], [])"
| "gather en allowed dimension (a # as) =
     demand (coded ''INDEX_SCOPE_VIOLATION'' ''Stored index exceeded requested notebook scope.'' False)
       (\<forall>c\<in>set (la_chunks a). str_or_empty (en_text_of en) (map_of c (lit ''notebook_id'')) \<in> set allowed)
     (let shape = nd_shape (en_numpy en) (la_vectors a); some_rows = (shape ! 0 \<noteq> 0)
      in demand (coded ''INDEX_INCOMPATIBLE'' ''Requested indexes use incompatible embeddings.'' False)
           (\<not> some_rows \<or> dimension = None \<or> dimension = Some (shape ! 1))
         (and_then (gather en allowed (if some_rows then Some (shape ! 1) else dimension) as) (\<lambda>(cs, vs).
            Inr (la_chunks a @ cs, if some_rows then la_vectors a # vs else vs))))"

text \<open>\<open>JobProgressDetail(...)\<close> followed by the callback.\<close>

definition notify_detail :: "(progress_detail \<Rightarrow> 's \<Rightarrow> (exn + unit) \<times> 's) \<Rightarrow> progress_detail \<Rightarrow> 's \<Rightarrow> (exn + unit) \<times> 's" where
  "notify_detail notify d s = (if progress_detail_ok d then notify d s else (Inl Value_Error, s))"

text \<open>The part of \<open>query\<close> after the retrieval: progress, generation, validation, citations.\<close>

definition answer_query ::
  "('v, 'x, 'q) engine \<Rightarrow> str \<Rightarrow> str \<Rightarrow> nat \<Rightarrow> retrieval_plan \<Rightarrow> 'x hit list
     \<Rightarrow> (progress_detail \<Rightarrow> 's \<Rightarrow> (exn + unit) \<times> 's) \<Rightarrow> 's \<Rightarrow> (exn + 'x query_result) \<times> 's" where
  "answer_query en asked model_id max_used plan hits notify s =
     (let prompt_hits = take max_used hits in
      case notify_detail notify \<lparr>pd_stage = ANSWERING, pd_plan = Some plan, pd_count = Some (int (length prompt_hits))\<rparr> s of
        (Inl e, s') \<Rightarrow> (Inl e, s')
      | (Inr _, s') \<Rightarrow>
          (and_then (en_generate en asked (map (\<lambda>h. (int (hit_source h), hit_chunk h)) prompt_hits) model_id max_used) (\<lambda>value.
           and_then (generation_result value) (\<lambda>(raw, timings).
           and_then (validated_answer raw (map hit_source prompt_hits)) (\<lambda>answer.
           and_then (map_err (citation_of (en_text_of en) (length prompt_hits)) (enumerate 1 hits)) (\<lambda>citations.
             Inr \<lparr>qr_answer = answer, qr_model = model_id, qr_citations = citations, qr_timings = timings, qr_plan = plan\<rparr>)))), s'))"

definition query_artifacts ::
  "('v, 'x::linorder, 'q) engine \<Rightarrow> 'v loaded_index list \<Rightarrow> str \<Rightarrow> str \<Rightarrow> str \<Rightarrow> query_strategy \<Rightarrow> int \<Rightarrow> int
     \<Rightarrow> (progress_detail \<Rightarrow> 's \<Rightarrow> (exn + unit) \<times> 's) \<Rightarrow> 's \<Rightarrow> (exn + 'x query_result) \<times> 's" where
  "query_artifacts en as asked contextual model_id qs max_used top_k notify s =
     (case
        demand (coded ''QUERY_OPTIONS_INVALID'' ''maxSources must be an integer between 1 and 100.'' False) (1 \<le> max_used \<and> max_used \<le> 100)
        (demand (coded ''QUERY_OPTIONS_INVALID'' ''retrievalTopK must be an integer between 1 and 32.'' False) (1 \<le> top_k \<and> top_k \<le> 32)
        (and_then (gather en (map (notebook_id \<circ> la_scope) as) None as) (\<lambda>(chunks, vectors).
         and_then (query_plan en asked contextual model_id (chunks \<noteq> [])) (\<lambda>plan. Inr (chunks, vectors, plan))))) of
        Inl e \<Rightarrow> (Inl e, s)
      | Inr (chunks, vectors, plan) \<Rightarrow>
          (case notify_detail notify \<lparr>pd_stage = SEARCHING, pd_plan = Some plan, pd_count = None\<rparr> s of
             (Inl e, s') \<Rightarrow> (Inl e, s')
           | (Inr _, s') \<Rightarrow>
               if chunks = [] then answer_query en asked model_id (nat max_used) plan [] notify s'
               else (case retrieve en chunks vectors asked plan qs (nat top_k) of
                       Inl e \<Rightarrow> (Inl e, s')
                     | Inr hits \<Rightarrow> answer_query en asked model_id (nat max_used) plan hits notify s')))"

end
