(* ===== verification/Repo_Env.thy ===== *)
theory Repo_Env
  imports Executor_Props Query_Engine
begin

text \<open>
  The runner put together with the index repository and its query engine, as \<open>WorkerExecutor\<close>
  is built in \<open>novo_chat/worker.py\<close>, and the proof that they keep the contracts the runner relies
  on. What follows from the contracts holds for the worker as it is built.
\<close>

section \<open>The worker's services\<close>

text \<open>
  What stays outside: the clock, digests, pydantic, NumPy, the embedding service, random names,
  the planning and answering models, the JSON form of a query result (its scores are floats), the
  model controller and the readiness probe.
\<close>

record ('v, 'x, 'q, 'm) services =
  sv_name :: str
  sv_clock :: "nat \<Rightarrow> int"
  sv_sha :: "bytes \<Rightarrow> str"
  sv_scope_model :: "json \<Rightarrow> notebook_scope option"
  sv_page_model :: "json \<Rightarrow> page_document option"
  sv_embed :: "str list \<Rightarrow> notebook_scope \<Rightarrow> (int \<times> int) list \<times> (exn + 'v)"
  sv_nonce :: "nat \<Rightarrow> str \<Rightarrow> str"
  sv_suffix :: "nat \<Rightarrow> str \<Rightarrow> str"
  sv_built_at :: "nat \<Rightarrow> str \<Rightarrow> int"
  sv_engine :: "('v, 'x, 'q) engine"
  sv_dump :: "'x query_result \<Rightarrow> json"
  sv_control :: "control_action \<Rightarrow> str \<Rightarrow> stored_operation \<Rightarrow> 'm \<Rightarrow> (exn + control_reply) \<times> 'm"
  sv_ready :: "str \<Rightarrow> 'm \<Rightarrow> bool"
  sv_wait :: "str \<Rightarrow> 'm \<Rightarrow> nat \<times> bool"
  sv_approved :: "str list"

definition sv_text_of :: "('v, 'x, 'q, 'm) services \<Rightarrow> json \<Rightarrow> str" where
  "sv_text_of sv = en_text_of (sv_engine sv)"

definition sv_numpy :: "('v, 'x, 'q, 'm) services \<Rightarrow> 'v numpy" where
  "sv_numpy sv = en_numpy (sv_engine sv)"

definition repo_query ::
  "('v, 'x::linorder, 'q, 'm) services \<Rightarrow> 'v loaded_index list \<Rightarrow> query_args
     \<Rightarrow> (progress_detail \<Rightarrow> run_state \<Rightarrow> (exn + unit) \<times> run_state) \<Rightarrow> run_state \<Rightarrow> (exn + json) \<times> run_state" where
  "repo_query sv as args notify s =
     (let (answer, s') = query_artifacts (sv_engine sv) as (qa_question args) (qa_retrieval args) (qa_model args)
            (qa_strategy args) (qa_max_sources args) (qa_top_k args) notify s
      in (map_sum id (sv_dump sv) answer, s'))"

definition repo_env :: "('v, 'x::linorder, 'q, 'm) services \<Rightarrow> ('v index_store, 'v loaded_index, 'm) worker_env" where
  "repo_env sv =
     \<lparr>we_name = sv_name sv, we_clock = sv_clock sv, we_sha = sv_sha sv, we_text_of = sv_text_of sv,
      we_scope_model = sv_scope_model sv, we_page_model = sv_page_model sv,
      we_build = (\<lambda>k i report. build_candidate (sv_sha sv) (sv_text_of sv) (sv_scope_model sv) (sv_numpy sv) (sv_embed sv)
                    report i (sv_nonce sv k i) (sv_suffix sv k i) (sv_built_at sv k i)),
      we_commit = commit_candidate (sv_text_of sv) (sv_scope_model sv) (sv_numpy sv),
      we_discard = discard_candidate (sv_numpy sv),
      we_load = load_active (sv_text_of sv) (sv_scope_model sv) (sv_numpy sv),
      we_query = repo_query sv, we_control = sv_control sv, we_ready = sv_ready sv, we_wait = sv_wait sv,
      we_approved = sv_approved sv\<rparr>"

section \<open>Frames\<close>

lemma report_all_frame:
  "(\<And>v s. P s \<Longrightarrow> P (snd (report v s))) \<Longrightarrow> P s \<Longrightarrow> P (snd (report_all report vs s))"
proof (induction vs arbitrary: s)
  case (Cons v vs)
  have "P s'" if "report v s = (x, s')" for x s' using Cons.prems(1) [OF Cons.prems(2), of v] that by simp
  then show ?case using Cons by (auto split: prod.splits sum.splits)
qed simp

lemma prepare_frame:
  assumes "\<And>v s. P s \<Longrightarrow> P (snd (report v s))" "P s"
  shows "P (snd (prepare_candidate sha np embed_docs report operation nonce doc st s))"
proof -
  have all: "P s''" if "report_all report vs s' = (x, s'')" "P s'" for vs x s' s''
    using report_all_frame [of P report s' vs, OF assms(1) that(2)] that(1) by simp
  have one: "P s''" if "report v s' = (x, s'')" "P s'" for v x s' s'' using assms(1) [OF that(2), of v] that(1) by simp
  show ?thesis
    unfolding prepare_candidate_def Let_def using assms(2)
    by (auto simp del: report_all.simps split: prod.splits sum.splits dest: all one)
qed

lemma build_candidate_frame:
  assumes "\<And>v s. P s \<Longrightarrow> P (snd (report v s))" "P s"
  shows "P (snd (snd (build_candidate sha text_of scope_model np embed_docs report operation nonce suffix now doc st s)))"
proof -
  have prep: "P s'" if "prepare_candidate sha np embed_docs report operation nonce doc st s = (x, s')" for x s'
    using prepare_frame [of P report s, OF assms] that by (metis snd_conv)
  have one: "P s''" if "report v s' = (x, s'')" "P s'" for v x s' s'' using assms(1) [OF that(2), of v] that(1) by simp
  show ?thesis
    unfolding build_candidate_def Let_def by (auto split: prod.splits sum.splits dest!: prep dest: one)
qed

lemma notify_detail_frame:
  "(\<And>d s. P s \<Longrightarrow> P (snd (notify d s))) \<Longrightarrow> P s \<Longrightarrow> P (snd (notify_detail notify d s))"
  by (simp add: notify_detail_def)

lemma answer_query_frame:
  assumes "\<And>d s. P s \<Longrightarrow> P (snd (notify d s))" "P s"
  shows "P (snd (answer_query en asked model_id max_used plan hits notify s))"
proof -
  have one: "P s'" if "notify_detail notify d s = (x, s')" for d x s'
    using notify_detail_frame [of P notify s d, OF assms] that by simp
  show ?thesis unfolding answer_query_def Let_def by (auto split: prod.splits sum.splits dest!: one)
qed

lemma query_artifacts_frame:
  assumes "\<And>d s. P s \<Longrightarrow> P (snd (notify d s))" "P s"
  shows "P (snd (query_artifacts en as asked contextual model_id qs max_used top_k notify s))"
proof -
  have one: "P s'" if "notify_detail notify d s = (x, s')" for d x s'
    using notify_detail_frame [of P notify s d, OF assms] that by simp
  show ?thesis
    unfolding query_artifacts_def using assms(2)
    by (auto split: prod.splits sum.splits dest!: one intro!: answer_query_frame [of P notify, OF assms(1)])
qed

section \<open>What stays loadable\<close>

lemma build_candidate_artifacts:
  "artifacts (fst (snd (build_candidate sha text_of scope_model np embed_docs report operation nonce suffix now doc st s))) = artifacts st"
  unfolding build_candidate_def Let_def by (auto split: prod.splits sum.splits)

lemma build_candidate_Inr:
  assumes "build_candidate sha text_of scope_model np embed_docs report operation nonce suffix now doc st s = (Inr c, st', s')"
  shows "ic_scope c = fd_scope doc \<and> ic_artifact c \<in> range sha"
proof -
  obtain chunks vectors artifact_id s1 where
    prep: "prepare_candidate sha np embed_docs report operation nonce doc st s = (Inr (chunks, vectors, artifact_id), s1)"
    and c: "ic_scope c = fd_scope doc" "ic_artifact c = artifact_id"
    using assms unfolding build_candidate_def Let_def by (auto split: prod.splits sum.splits)
  have "artifact_id \<in> range sha"
    using prep unfolding prepare_candidate_def Let_def
    by (auto split: prod.splits sum.splits simp: and_then_Inr artifact_name_def)
  with c show ?thesis by simp
qed

lemma load_active_Inr:
  "load_active text_of scope_model np s a st = Inr x \<longleftrightarrow> storage_name a
     \<and> load_path text_of scope_model np s a (find_artifact a (artifacts st)) = Inr x"
  by (simp add: load_active_def)

lemma load_path_None [simp]: "load_path text_of scope_model np s a None = Inl index_corrupt"
  by (simp add: load_path_def)

lemma find_artifact_append:
  "find_artifact a ds = Some d \<Longrightarrow> find_artifact a (ds @ es) = Some d"
  by (simp add: find_artifact_def find_append)

lemma load_active_append:
  assumes "load_active text_of scope_model np s a st = Inr x" "artifacts st' = artifacts st @ ds"
  shows "load_active text_of scope_model np s a st' = Inr x"
proof -
  from assms(1) obtain d where "find_artifact a (artifacts st) = Some d"
    by (cases "find_artifact a (artifacts st)") (simp_all add: load_active_Inr)
  with assms show ?thesis by (simp add: load_active_Inr find_artifact_append)
qed

lemma commit_candidate_cases:
  assumes "commit_candidate text_of scope_model np c st = (answer, st')"
  obtains (lost) "answer = Inl Other_Error" "st' = st"
  | (moved) ds where "artifacts st' = artifacts st @ ds"
      "answer = and_then (load_path text_of scope_model np (ic_scope c) (ic_artifact c) (find_artifact (ic_artifact c) (artifacts st')))
                  (\<lambda>_. Inr (ic_scope c, ic_artifact c))"
proof (cases "find_artifact (ic_artifact c) (artifacts st) = None \<and> find_artifact (ic_path c) (candidates st) = None")
  case True
  with assms show thesis by (intro lost) (simp_all add: commit_candidate_def)
next
  case False
  show thesis
  proof (cases "find_artifact (ic_artifact c) (artifacts st) = None")
    case True
    with False obtain d where "find_artifact (ic_path c) (candidates st) = Some d" by auto
    with True assms show thesis
      by (intro moved [of "[d\<lparr>ad_name := ic_artifact c\<rparr>]"]) (auto simp: commit_candidate_def Let_def)
  next
    case False
    with assms show thesis by (intro moved [of "[]"]) (auto simp: commit_candidate_def Let_def)
  qed
qed

lemma commit_candidate_Inr:
  assumes "commit_candidate text_of scope_model np c st = (Inr entry, st')"
  shows "entry = (ic_scope c, ic_artifact c)
    \<and> (\<exists>x. load_path text_of scope_model np (ic_scope c) (ic_artifact c) (find_artifact (ic_artifact c) (artifacts st')) = Inr x)"
  using assms
proof (cases rule: commit_candidate_cases)
  case (moved ds)
  from moved(2) [symmetric] show ?thesis by (auto simp: and_then_Inr)
qed simp

interpretation repo: index_provider "repo_env sv" storage_name "range (sv_sha sv)" for sv :: "('v, 'x::linorder, 'q, 'm) services"
proof
  fix P :: "run_state \<Rightarrow> bool" and report :: "rat \<Rightarrow> run_state \<Rightarrow> (exn + unit) \<times> run_state"
    and s position operation_id doc and r :: "'v index_store"
  assume "\<And>v s. P s \<Longrightarrow> P (snd (report v s))" "P s"
  then show "P (snd (snd (we_build (repo_env sv) position operation_id report doc r s)))"
    by (simp add: repo_env_def build_candidate_frame [of P])
next
  fix P :: "run_state \<Rightarrow> bool" and notify :: "progress_detail \<Rightarrow> run_state \<Rightarrow> (exn + unit) \<times> run_state"
    and s args and as :: "'v loaded_index list"
  assume a: "\<And>d s. P s \<Longrightarrow> P (snd (notify d s))" "P s"
  show "P (snd (we_query (repo_env sv) as args notify s))"
    using query_artifacts_frame [of P notify s, OF a] by (simp add: repo_env_def repo_query_def split_beta)
next
  fix sc a x position operation_id doc s and r :: "'v index_store" and report :: "rat \<Rightarrow> run_state \<Rightarrow> (exn + unit) \<times> run_state"
  assume "we_load (repo_env sv) sc a r = Inr x"
  then show "we_load (repo_env sv) sc a (fst (snd (we_build (repo_env sv) position operation_id report doc r s))) = Inr x"
    by (simp add: repo_env_def load_active_def build_candidate_artifacts)
next
  fix position operation_id doc s c s' and r r' :: "'v index_store" and report :: "rat \<Rightarrow> run_state \<Rightarrow> (exn + unit) \<times> run_state"
  assume "we_build (repo_env sv) position operation_id report doc r s = (Inr c, r', s')"
  then show "ic_scope c = fd_scope doc \<and> ic_artifact c \<in> range (sv_sha sv)"
    by (simp add: repo_env_def build_candidate_Inr)
next
  fix sc a x c and r :: "'v index_store"
  assume a: "we_load (repo_env sv) sc a r = Inr x"
  show "we_load (repo_env sv) sc a (snd (we_commit (repo_env sv) c r)) = Inr x"
  proof (cases "commit_candidate (sv_text_of sv) (sv_scope_model sv) (sv_numpy sv) c r")
    case (Pair y r')
    have load: "load_active (sv_text_of sv) (sv_scope_model sv) (sv_numpy sv) sc a r = Inr x" using a by (simp add: repo_env_def)
    have "load_active (sv_text_of sv) (sv_scope_model sv) (sv_numpy sv) sc a r' = Inr x"
      using Pair
    proof (cases rule: commit_candidate_cases)
      case lost then show ?thesis using load by simp
    next
      case (moved ds) then show ?thesis by (intro load_active_append [OF load])
    qed
    then show ?thesis by (simp add: repo_env_def Pair)
  qed
next
  fix c sc a and r r' :: "'v index_store"
  assume a: "we_commit (repo_env sv) c r = (Inr (sc, a), r')"
  then have step: "commit_candidate (sv_text_of sv) (sv_scope_model sv) (sv_numpy sv) c r = (Inr (sc, a), r')"
    by (simp add: repo_env_def)
  note facts = commit_candidate_Inr [OF step]
  then show "sc = ic_scope c \<and> a = ic_artifact c" by simp
  assume "storage_name a"
  with facts show "\<exists>x. we_load (repo_env sv) sc a r' = Inr x" by (auto simp: repo_env_def load_active_Inr)
next
  fix sc a x c and r :: "'v index_store"
  assume "we_load (repo_env sv) sc a r = Inr x"
  then show "we_load (repo_env sv) sc a (we_discard (repo_env sv) c r) = Inr x"
    by (simp add: repo_env_def load_active_def discard_candidate_def)
qed

end
