(* ===== verification/Worker.thy ===== *)
theory Worker
  imports Framing Repo_Env
begin

text \<open>
  The worker's internal API (\<open>novo_chat/worker.py\<close>): its configuration, start-up and storage
  maintenance, the middleware that authenticates every request and signs every response, and
  the endpoints. The state is the \<open>worker\<close> record of theory \<open>Executor\<close>, over the concrete index
  repository. FastAPI and pydantic are outside: the parsers of the request bodies, the rendering
  of responses and what the framework answers to unknown routes are fields of \<open>app\<close>, as
  are random identifiers and the health of disks and threads. Times are microseconds.
\<close>

section \<open>Configuration\<close>

record display_details =
  dd_model_size :: "str option"
  dd_max_tokens :: int
  dd_max_model_len :: "int option"
  dd_thinking :: "str option"
  dd_total_vram_gb :: "rat option"

definition display_text_ok :: "str option \<Rightarrow> bool" where
  "display_text_ok x \<longleftrightarrow> (case x of None \<Rightarrow> True
     | Some s \<Rightarrow> 1 \<le> length s \<and> length s \<le> 128 \<and> list_all (\<lambda>c. \<not> (c < 32 \<or> c = 127)) s)"

definition display_details_ok :: "display_details \<Rightarrow> bool" where
  "display_details_ok d \<longleftrightarrow>
     display_text_ok (dd_model_size d) \<and> 1 \<le> dd_max_tokens d \<and> dd_max_tokens d \<le> 65536
     \<and> (case dd_max_model_len d of None \<Rightarrow> True | Some n \<Rightarrow> 1 \<le> n \<and> n \<le> 2000000)
     \<and> display_text_ok (dd_thinking d)
     \<and> (case dd_total_vram_gb d of None \<Rightarrow> True | Some x \<Rightarrow> 0 < x \<and> x \<le> 10000)"

record worker_config =
  cf_environment :: str
  cf_request_secrets :: "(str \<times> secret) list"
  cf_response_key_id :: str
  cf_response_secret :: secret
  cf_audience :: str
  cf_approved_models :: "str list"
  cf_model_details :: "(str \<times> display_details) list"
  cf_index_schema_versions :: "str list"
  cf_max_clock_skew :: int
  cf_max_request_bytes :: int
  cf_max_scope_entries :: int
  cf_max_ingest_pages :: int
  cf_max_active_operations :: int
  cf_executor_poll :: rat
  cf_model_start_timeout :: rat
  cf_job_retention :: int
  cf_orphan_grace :: int
  cf_document_quota :: int
  cf_index_quota :: int

text \<open>\<open>__post_init__\<close>: every violation is a \<open>ValueError\<close>.\<close>

definition worker_config_ok :: "worker_config \<Rightarrow> bool" where
  "worker_config_ok cf \<longleftrightarrow>
     cf_request_secrets cf \<noteq> [] \<and> distinct (cf_approved_models cf)
     \<and> list_all (\<lambda>(i, d). i \<in> set (cf_approved_models cf) \<and> display_details_ok d) (cf_model_details cf)
     \<and> cf_index_schema_versions cf \<noteq> [] \<and> distinct (cf_index_schema_versions cf)
     \<and> \<not> cf_max_clock_skew cf < 1 \<and> \<not> cf_max_request_bytes cf < 1024
     \<and> \<not> (cf_max_scope_entries cf < 1 \<or> cf_max_scope_entries cf > 256)
     \<and> \<not> (cf_max_ingest_pages cf < 1 \<or> cf_max_ingest_pages cf > 250)
     \<and> \<not> cf_max_active_operations cf < 1 \<and> \<not> cf_executor_poll cf \<le> 0 \<and> \<not> cf_model_start_timeout cf < 1
     \<and> \<not> cf_job_retention cf < 1 \<and> \<not> cf_orphan_grace cf < 1
     \<and> \<not> cf_document_quota cf < 1 \<and> \<not> cf_index_quota cf < 1
     \<and> \<not> cf_orphan_grace cf > cf_job_retention cf"

section \<open>Responses\<close>

record job_view =
  jv_job_id :: str
  jv_operation :: job_operation
  jv_state :: job_state
  jv_created_at :: int
  jv_updated_at :: int
  jv_progress :: rat
  jv_result :: "json option"
  jv_error :: "(str \<times> str \<times> bool) option"
  jv_progress_detail :: "json option"

text \<open>\<open>_job_view\<close>: an error code makes an error, with a default message.\<close>

definition job_view :: "stored_job \<Rightarrow> job_view" where
  "job_view job =
     \<lparr>jv_job_id = sj_job_id job, jv_operation = sj_operation job, jv_state = sj_state job,
      jv_created_at = sj_created_at job, jv_updated_at = sj_updated_at job, jv_progress = sj_progress job,
      jv_result = sj_result job,
      jv_error = map_option (\<lambda>code. (code,
        (case or_none (sj_error_message job) of Some m \<Rightarrow> m | None \<Rightarrow> lit ''The operation failed.''), sj_retryable job))
        (or_none (sj_error_code job)),
      jv_progress_detail = sj_progress_detail job\<rparr>"

datatype api_response =
    Error_Response str protocol_error
  | Health_Response str str bool bool bool
  | Capabilities_Response str worker_config
  | Index_Status_Response str "(notebook_scope \<times> index_artifact_status) list"
  | Submission_Response str job_view
  | Job_Status_Response str job_view
  | Model_Status_Response str "(str \<times> model_runtime_state) list"
  | Framework_Response int bytes

fun response_status :: "api_response \<Rightarrow> int" where
  "response_status (Error_Response rid e) = error_status e"
| "response_status (Submission_Response rid view) = 202"
| "response_status (Framework_Response status body) = status"
| "response_status r = 200"

abbreviation internal_error :: protocol_error where
  "internal_error \<equiv> WorkerAPIError 500 ''INTERNAL_ERROR'' ''The worker could not process the request.'' True"

section \<open>The application\<close>

record index_status_request =
  is_request_id :: str
  is_actor_user_id :: str
  is_scope :: "notebook_scope list"

record health_report =
  hl_jobs :: bool
  hl_documents :: bool
  hl_index :: bool
  hl_execution :: bool

record ('v, 'x, 'q, 'm) app =
  ap_config :: worker_config
  ap_services :: "('v, 'x, 'q, 'm) services"
  ap_mac :: "bytes \<Rightarrow> bytes \<Rightarrow> str"
  ap_parse_index_status :: "bytes \<Rightarrow> index_status_request option"
  ap_parse_ingest_batch :: "bytes \<Rightarrow> ingest_batch_request option"
  ap_parse_ingest_finalize :: "bytes \<Rightarrow> ingest_finalize_request option"
  ap_parse_rebuild :: "bytes \<Rightarrow> rebuild_request option"
  ap_parse_query :: "bytes \<Rightarrow> query_request option"
  ap_parse_model_job :: "bytes \<Rightarrow> model_job_request option"
  ap_view_ok :: "job_view \<Rightarrow> bool"
  ap_unrouted :: "http_request \<Rightarrow> int \<times> bytes"
  ap_dump :: "api_response \<Rightarrow> bytes"
  ap_headers :: "api_response \<Rightarrow> (str \<times> str) list"
  ap_new_request_id :: "nat \<Rightarrow> str"
  ap_new_handles :: "nat \<Rightarrow> str \<times> str"
  ap_timestamp :: "int \<Rightarrow> str"
  ap_health :: "nat \<Rightarrow> health_report"
  ap_model_status :: "str \<Rightarrow> str \<Rightarrow> 'm \<Rightarrow> (exn + control_reply) \<times> 'm"

type_synonym ('v, 'm) app_state = "('v index_store, 'm) worker"

definition seconds :: "int \<Rightarrow> int" where
  "seconds us = us div 1000000"

text \<open>\<open>clock()\<close>: the reading, and the worker after it.\<close>

definition clock_now :: "('v, 'x, 'q, 'm) app \<Rightarrow> ('v, 'm) app_state \<Rightarrow> int" where
  "clock_now app w = sv_clock (ap_services app) (w_ticks w)"

definition tick :: "('v, 'm) app_state \<Rightarrow> ('v, 'm) app_state" where
  "tick w = w\<lparr>w_ticks := Suc (w_ticks w)\<rparr>"

abbreviation environment_of :: "('v, 'x, 'q, 'm) app \<Rightarrow> str" where
  "environment_of app \<equiv> cf_environment (ap_config app)"

text \<open>The environment of the executor that \<open>create_worker_app\<close> builds.\<close>

definition runner_env :: "('v, 'x::linorder, 'q, 'm) app \<Rightarrow> ('v index_store, 'v loaded_index, 'm) worker_env" where
  "runner_env app = repo_env ((ap_services app)\<lparr>sv_name := environment_of app, sv_approved := cf_approved_models (ap_config app)\<rparr>)"

section \<open>Storage maintenance and start-up\<close>

record maintenance_report =
  mr_expired_indexes :: nat
  mr_documents_removed :: "nat \<times> nat"
  mr_indexes_removed :: "nat \<times> nat"

text \<open>\<open>perform_storage_maintenance\<close>; the answer \<open>None\<close> is \<open>skipped\<close>.\<close>

definition perform_storage_maintenance ::
  "('v, 'x, 'q, 'm) app \<Rightarrow> ('v, 'm) app_state \<Rightarrow> (exn + maintenance_report option) \<times> ('v, 'm) app_state" where
  "perform_storage_maintenance app w =
     (let sv = ap_services app; cf = ap_config app; maintenance_time = clock_now app w;
          active_cutoff = maintenance_time - cf_job_retention cf * 1000000;
          orphan_cutoff = maintenance_time - cf_orphan_grace cf * 1000000;
          (snapshot, jobs) = storage_retention_snapshot (cf_environment cf) active_cutoff (w_jobs w);
          w1 = (tick w)\<lparr>w_jobs := jobs\<rparr>
      in if \<not> rs_idle snapshot then (Inr None, w1)
         else case map_err (\<lambda>s. or_raise Value_Error (scope_key (sv_sha sv) s)) (rs_active_scopes snapshot) of
           Inl e \<Rightarrow> (Inl e, w1)
         | Inr retained \<Rightarrow>
             (case prune_documents retained [] orphan_cutoff (w_docs w1) of
                (Inl e, docs) \<Rightarrow> (Inl e, w1\<lparr>w_docs := docs\<rparr>)
              | (Inr documents_removed, docs) \<Rightarrow>
                  (case prune_index (sv_numpy sv) (rs_active_artifact_ids snapshot) orphan_cutoff (w_index w1) of
                     (Inl e, index) \<Rightarrow> (Inl e, w1\<lparr>w_docs := docs, w_index := index\<rparr>)
                   | (Inr indexes_removed, index) \<Rightarrow>
                       (Inr (Some \<lparr>mr_expired_indexes = rs_expired_indexes snapshot,
                          mr_documents_removed = documents_removed, mr_indexes_removed = indexes_removed\<rparr>),
                        w1\<lparr>w_docs := docs, w_index := index\<rparr>))))"

text \<open>
  Opening the stores recounts their bytes; recovery, a purge and a maintenance pass come
  before the first request, and what they raise prevents the start (\<open>None\<close>).
\<close>

definition create_worker_app :: "('v, 'x, 'q, 'm) app \<Rightarrow> ('v, 'm) app_state \<Rightarrow> ('v, 'm) app_state option" where
  "create_worker_app app w =
     (let cf = ap_config app; startup_time = clock_now app w in
      case initialize (w_jobs w) of None \<Rightarrow> None
      | Some opened \<Rightarrow>
          (case recover_interrupted_operations startup_time opened of
             (Inl e, jobs) \<Rightarrow> None
           | (Inr _, restarted) \<Rightarrow>
               (let (removed, jobs) = purge_terminal_operations (cf_environment cf)
                      (startup_time - cf_job_retention cf * 1000000) restarted;
                    docs = (w_docs w)\<lparr>bytes_used := int (tree_size (w_docs w)), max_bytes := cf_document_quota cf\<rparr>;
                    index = (w_index w)\<lparr>ix_bytes := int (index_tree_size (sv_numpy (ap_services app)) (w_index w)),
                                        ix_max := cf_index_quota cf\<rparr>
                in case perform_storage_maintenance app ((tick w)\<lparr>w_jobs := jobs, w_docs := docs, w_index := index\<rparr>) of
                     (Inl e, w') \<Rightarrow> None
                   | (Inr _, w') \<Rightarrow> Some w')))"

section \<open>Checks\<close>

definition bind_request :: "verified_request \<Rightarrow> str \<Rightarrow> protocol_error + str" where
  "bind_request v body_request_id =
     demand (WorkerAPIError 400 ''REQUEST_ID_MISMATCH'' ''Signed and body request IDs do not match.'' False)
       (vr_request_id v = body_request_id) (Inr (vr_request_id v))"

definition validate_scope :: "worker_config \<Rightarrow> notebook_scope list \<Rightarrow> protocol_error + unit" where
  "validate_scope cf scopes =
     demand (WorkerAPIError 400 ''SCOPE_TOO_LARGE'' ''Notebook scope exceeds the configured limit.'' False)
       (\<not> int (length scopes) > cf_max_scope_entries cf)
    (demand (WorkerAPIError 400 ''INDEX_SCHEMA_NOT_SUPPORTED'' ''Index schema version is not supported.'' False)
       (filter (\<lambda>s. index_schema_version s \<notin> set (cf_index_schema_versions cf)) scopes = []) (Inr ()))"

definition require_approved_model :: "worker_config \<Rightarrow> str \<Rightarrow> protocol_error + unit" where
  "require_approved_model cf model_id =
     demand (WorkerAPIError 404 ''MODEL_NOT_APPROVED'' ''Requested model is not available.'' False)
       (model_id \<in> set (cf_approved_models cf)) (Inr ())"

definition submission_error :: "job_store_error \<Rightarrow> protocol_error" where
  "submission_error e = (case e of
     IdempotencyConflict \<Rightarrow> WorkerAPIError 409 ''IDEMPOTENCY_CONFLICT''
       ''Idempotency key was already used for a different request.'' False
   | QueueFull \<Rightarrow> WorkerAPIError 429 ''QUEUE_FULL'' ''Worker queue is full.'' True
   | _ \<Rightarrow> internal_error)"

text \<open>\<open>submit_job\<close>: purge and submission are transactions of their own, each at its own time.\<close>

definition submit_job ::
  "('v, 'x, 'q, 'm) app \<Rightarrow> 'z job_request_scheme \<Rightarrow> job_operation \<Rightarrow> json \<Rightarrow> ('v, 'm) app_state
     \<Rightarrow> (protocol_error + api_response) \<times> ('v, 'm) app_state" where
  "submit_job app r operation payload w =
     (let cf = ap_config app in
      case validate_scope cf (scope r) of Inl e \<Rightarrow> (Inl e, w)
      | Inr _ \<Rightarrow>
          (let (removed, jobs1) = purge_terminal_operations (cf_environment cf)
                 (clock_now app w - cf_job_retention cf * 1000000) (w_jobs w);
               w1 = tick w;
               (op_handle, job_handle) = ap_new_handles app (w_ticks w1);
               (outcome, jobs2) = submit (sv_sha (ap_services app)) op_handle job_handle
                 \<lparr>sc_environment = cf_environment cf, sc_actor = actor_user_id r, sc_key = idempotency_key r,
                  sc_request_id = request_id r, sc_operation = operation, sc_scope = scope r, sc_payload = payload,
                  sc_dedupe = None, sc_max_active = Some (nat (cf_max_active_operations cf)), sc_now = clock_now app w1\<rparr> jobs1;
               w2 = (tick w1)\<lparr>w_jobs := jobs2\<rparr>
           in case outcome of Inl e \<Rightarrow> (Inl (submission_error e), w2)
              | Inr out \<Rightarrow> (let view = job_view (outcome_job out) in
                  (demand internal_error (ap_view_ok app view) (Inr (Submission_Response (request_id r) view)), w2))))"

section \<open>Endpoints\<close>

text \<open>A handler checks first and then submits; a check that fails changes nothing.\<close>

definition checked ::
  "protocol_error + unit \<Rightarrow> ('s \<Rightarrow> (protocol_error + api_response) \<times> 's) \<Rightarrow> 's \<Rightarrow> (protocol_error + api_response) \<times> 's" where
  "checked check run w = (case check of Inl e \<Rightarrow> (Inl e, w) | Inr _ \<Rightarrow> run w)"

abbreviation ignore :: "'e + 'a \<Rightarrow> 'e + unit" where
  "ignore r \<equiv> and_then r (\<lambda>_. Inr ())"

definition health :: "('v, 'x, 'q, 'm) app \<Rightarrow> verified_request \<Rightarrow> ('v, 'm) app_state \<Rightarrow> api_response" where
  "health app v w =
     (let cf = ap_config app; report = ap_health app (w_ticks w);
          healthy = (hl_jobs report \<and> hl_documents report \<and> hl_index report \<and> hl_execution report);
          active_count = (if healthy then int (active_operation_count (w_jobs w) (cf_environment cf)) else cf_max_active_operations cf)
      in Health_Response (vr_request_id v) (cf_environment cf) healthy
           (healthy \<and> active_count < cf_max_active_operations cf) (hl_documents report \<and> hl_index report))"

text \<open>\<open>CapabilitiesResponse\<close> validates the keys of the model details.\<close>

definition capabilities :: "('v, 'x, 'q, 'm) app \<Rightarrow> verified_request \<Rightarrow> protocol_error + api_response" where
  "capabilities app v =
     (let cf = ap_config app in
      demand internal_error
        (list_all (\<lambda>(i, d). validate_safe_token i \<and> i \<in> set (cf_approved_models cf)) (cf_model_details cf))
        (Inr (Capabilities_Response (vr_request_id v) cf)))"

text \<open>\<open>index_repository.artifact_status(store.active_index(entry))\<close>.\<close>

definition entry_status ::
  "('v, 'x, 'q, 'm) app \<Rightarrow> ('v, 'm) app_state \<Rightarrow> notebook_scope \<Rightarrow> exn + index_artifact_status" where
  "entry_status app w entry =
     (let sv = ap_services app in
      artifact_status (sv_text_of sv) (sv_scope_model sv) (sv_numpy sv)
        (map_option (\<lambda>(s, artifact_id, activated). (s, artifact_id, ap_timestamp app activated))
          (active_index entry (environment_of app) (w_jobs w)))
        (w_index w))"

definition index_status_endpoint ::
  "('v, 'x, 'q, 'm) app \<Rightarrow> verified_request \<Rightarrow> index_status_request \<Rightarrow> ('v, 'm) app_state \<Rightarrow> protocol_error + api_response" where
  "index_status_endpoint app v body w =
     and_then (bind_request v (is_request_id body)) (\<lambda>_.
     and_then (validate_scope (ap_config app) (is_scope body)) (\<lambda>_.
     (case map_err (entry_status app w) (is_scope body) of
        Inl e \<Rightarrow> Inl internal_error
      | Inr states \<Rightarrow> Inr (Index_Status_Response (is_request_id body) (zip (is_scope body) states)))))"

definition ingest_batch_endpoint ::
  "('v, 'x, 'q, 'm) app \<Rightarrow> verified_request \<Rightarrow> ingest_batch_request \<Rightarrow> ('v, 'm) app_state
     \<Rightarrow> (protocol_error + api_response) \<times> ('v, 'm) app_state" where
  "ingest_batch_endpoint app v body =
     checked (and_then (bind_request v (request_id body)) (\<lambda>_.
        and_then (validate_scope (ap_config app) (scope body)) (\<lambda>_.
        demand (WorkerAPIError 400 ''INGEST_BATCH_TOO_LARGE'' ''Ingest batch exceeds the configured page limit.'' False)
          (\<not> int (length (pages body)) > cf_max_ingest_pages (ap_config app))
       (and_then (or_raise internal_error (ingest_pages_checksum (sv_sha (ap_services app)) (pages body))) (\<lambda>expected.
        demand (WorkerAPIError 400 ''CHECKSUM_MISMATCH'' ''Ingest batch checksum does not match its content.'' False)
          (batch_checksum body = expected) (Inr ()))))))
       (submit_job app body INGEST_BATCH (JObj
          [(lit ''batchNumber'', JInt (batch_number body)),
           (lit ''batchChecksum'', JStr (batch_checksum body)),
           (lit ''pages'', JArr (map page_json (pages body)))]))"

definition ingest_finalize_endpoint ::
  "('v, 'x, 'q, 'm) app \<Rightarrow> verified_request \<Rightarrow> ingest_finalize_request \<Rightarrow> ('v, 'm) app_state
     \<Rightarrow> (protocol_error + api_response) \<times> ('v, 'm) app_state" where
  "ingest_finalize_endpoint app v body =
     checked (ignore (bind_request v (request_id body)))
       (submit_job app body INGEST_FINALIZE (JObj
          [(lit ''documentChecksum'', JStr (document_checksum body)),
           (lit ''pageCount'', JInt (page_count body)),
           (lit ''batchCount'', JInt (batch_count body))]))"

definition rebuild_endpoint ::
  "('v, 'x, 'q, 'm) app \<Rightarrow> verified_request \<Rightarrow> rebuild_request \<Rightarrow> ('v, 'm) app_state
     \<Rightarrow> (protocol_error + api_response) \<times> ('v, 'm) app_state" where
  "rebuild_endpoint app v body =
     checked (ignore (bind_request v (request_id body)))
       (submit_job app body INDEX_REBUILD (JObj [(lit ''force'', JBool (force body))]))"

text \<open>\<open>all(artifact_ready(\<dots>))\<close> stops at the first index that is not ready.\<close>

fun all_ready :: "('v, 'x, 'q, 'm) app \<Rightarrow> ('v, 'm) app_state \<Rightarrow> notebook_scope list \<Rightarrow> exn + bool" where
  "all_ready app w [] = Inr True"
| "all_ready app w (entry # entries) =
     and_then (entry_status app w entry) (\<lambda>status.
       if as_exact_ready status then all_ready app w entries else Inr False)"

fun strategy_value :: "query_strategy \<Rightarrow> str" where
  "strategy_value HYBRID = lit ''hybrid''"
| "strategy_value LEXICAL = lit ''lexical''"
| "strategy_value SEMANTIC = lit ''semantic''"

definition query_endpoint ::
  "('v, 'x, 'q, 'm) app \<Rightarrow> verified_request \<Rightarrow> query_request \<Rightarrow> ('v, 'm) app_state
     \<Rightarrow> (protocol_error + api_response) \<times> ('v, 'm) app_state" where
  "query_endpoint app v body w =
     checked (and_then (bind_request v (request_id body)) (\<lambda>_.
        and_then (validate_scope (ap_config app) (scope body)) (\<lambda>_.
        and_then (require_approved_model (ap_config app) (query_model body)) (\<lambda>_.
        (case all_ready app w (scope body) of
           Inl e \<Rightarrow> Inl internal_error
         | Inr ready \<Rightarrow>
             demand (WorkerAPIError 409 ''INDEX_NOT_READY'' ''An exact requested notebook index is not ready.'' True)
               ready (Inr ()))))))
       (submit_job app body QUERY (JObj
          [(lit ''question'', JStr (question body)),
           (lit ''retrievalQuestion'', opt_json (retrieval_question body)),
           (lit ''model'', JStr (query_model body)),
           (lit ''strategy'', JStr (strategy_value (strategy body))),
           (lit ''maxSources'', JInt (max_sources body)),
           (lit ''retrievalTopK'', JInt (retrieval_top_k body))])) w"

definition model_job_endpoint ::
  "('v, 'x, 'q, 'm) app \<Rightarrow> verified_request \<Rightarrow> job_operation \<Rightarrow> model_job_request \<Rightarrow> ('v, 'm) app_state
     \<Rightarrow> (protocol_error + api_response) \<times> ('v, 'm) app_state" where
  "model_job_endpoint app v operation body =
     checked (and_then (bind_request v (request_id body)) (\<lambda>_. require_approved_model (ap_config app) (model body)))
       (submit_job app body operation (JObj [(lit ''model'', JStr (model body))]))"

text \<open>\<open>models_status\<close>: whatever goes wrong with one model is the state \<open>failed\<close> of that model.\<close>

fun models_status ::
  "('v, 'x, 'q, 'm) app \<Rightarrow> str \<Rightarrow> str list \<Rightarrow> 'm \<Rightarrow> (str \<times> model_runtime_state) list \<times> 'm" where
  "models_status app rid [] m = ([], m)"
| "models_status app rid (model_id # rest) m =
     (let (reply, m1) = ap_model_status app model_id rid m;
          state = (case reply of Inl e \<Rightarrow> MODEL_FAILED
            | Inr r \<Rightarrow> if in_service (controller_state r)
                      then (if sv_ready (ap_services app) model_id m1 then READY else STARTING)
                      else if controller_state r = lit ''stopped'' then STOPPED else MODEL_FAILED);
          (states, m2) = models_status app rid rest m1
      in ((model_id, state) # states, m2))"

definition job_id_ok :: "str \<Rightarrow> bool" where
  "job_id_ok s \<longleftrightarrow> take 4 s = lit ''job_'' \<and> 24 \<le> length s \<and> length s \<le> 84
     \<and> list_all (\<lambda>c. is_alnum c \<or> c = 95 \<or> c = 45) (drop 4 s)"

definition job_status_endpoint ::
  "('v, 'x, 'q, 'm) app \<Rightarrow> verified_request \<Rightarrow> str \<Rightarrow> ('v, 'm) app_state \<Rightarrow> protocol_error + api_response" where
  "job_status_endpoint app v job_id w =
     (let missing = WorkerAPIError 404 ''JOB_NOT_FOUND'' ''Job was not found.'' False in
      demand missing (job_id_ok job_id)
      (case get_job (w_jobs w) job_id (environment_of app) of
         Inl e \<Rightarrow> Inl missing
       | Inr job \<Rightarrow> demand internal_error (ap_view_ok app (job_view job))
           (Inr (Job_Status_Response (vr_request_id v) (job_view job)))))"

section \<open>Routing\<close>

datatype worker_route = Health | Capabilities | Index_Status | Ingest_Batch | Ingest_Finalize | Rebuild | Query
  | Models_Status | Model_Job job_operation | Job_Status str

definition INTERNAL_PREFIX :: str where "INTERNAL_PREFIX = lit ''/internal/v1''"

definition route_of :: "str \<Rightarrow> str \<Rightarrow> worker_route option" where
  "route_of verb path =
     (if take 12 path \<noteq> INTERNAL_PREFIX then None
      else let p = drop 12 path in
        if verb = lit ''GET'' then
          (if p = lit ''/health'' then Some Health
           else if p = lit ''/capabilities'' then Some Capabilities
           else if p = lit ''/models/status'' then Some Models_Status
           else if take 6 p = lit ''/jobs/'' \<and> drop 6 p \<noteq> [] \<and> 47 \<notin> set (drop 6 p) then Some (Job_Status (drop 6 p))
           else None)
        else if verb = lit ''POST'' then
          (if p = lit ''/indexes/status'' then Some Index_Status
           else if p = lit ''/ingest/batches'' then Some Ingest_Batch
           else if p = lit ''/ingest/finalize'' then Some Ingest_Finalize
           else if p = lit ''/indexes/rebuild'' then Some Rebuild
           else if p = lit ''/query'' then Some Query
           else if p = lit ''/models/start'' then Some (Model_Job MODEL_START)
           else if p = lit ''/models/stop'' then Some (Model_Job MODEL_STOP)
           else None)
        else None)"

text \<open>A body that pydantic refuses is \<open>RequestValidationError\<close>.\<close>

definition with_body ::
  "'b option \<Rightarrow> ('b \<Rightarrow> 's \<Rightarrow> (protocol_error + api_response) \<times> 's) \<Rightarrow> 's \<Rightarrow> (protocol_error + api_response) \<times> 's" where
  "with_body parsed run w =
     (case parsed of None \<Rightarrow> (Inl (WorkerAPIError 400 ''INVALID_REQUEST'' ''Request body is invalid.'' False), w)
      | Some b \<Rightarrow> run b w)"

text \<open>\<open>call_next\<close>: the endpoint of the route.\<close>

definition call_next ::
  "('v, 'x, 'q, 'm) app \<Rightarrow> verified_request \<Rightarrow> http_request \<Rightarrow> bytes \<Rightarrow> ('v, 'm) app_state
     \<Rightarrow> (protocol_error + api_response) \<times> ('v, 'm) app_state" where
  "call_next app v r body w =
     (case route_of (hr_method r) (hr_path r) of
        None \<Rightarrow> (case ap_unrouted app r of (status, content) \<Rightarrow> (Inr (Framework_Response status content), w))
      | Some Health \<Rightarrow> (Inr (health app v w), w)
      | Some Capabilities \<Rightarrow> (capabilities app v, w)
      | Some Index_Status \<Rightarrow> with_body (ap_parse_index_status app body) (\<lambda>b w. (index_status_endpoint app v b w, w)) w
      | Some Ingest_Batch \<Rightarrow> with_body (ap_parse_ingest_batch app body) (ingest_batch_endpoint app v) w
      | Some Ingest_Finalize \<Rightarrow> with_body (ap_parse_ingest_finalize app body) (ingest_finalize_endpoint app v) w
      | Some Rebuild \<Rightarrow> with_body (ap_parse_rebuild app body) (rebuild_endpoint app v) w
      | Some Query \<Rightarrow> with_body (ap_parse_query app body) (query_endpoint app v) w
      | Some Models_Status \<Rightarrow>
          (case models_status app (vr_request_id v) (cf_approved_models (ap_config app)) (w_control w) of
             (states, m) \<Rightarrow> (Inr (Model_Status_Response (vr_request_id v) states), w\<lparr>w_control := m\<rparr>))
      | Some (Model_Job operation) \<Rightarrow> with_body (ap_parse_model_job app body) (model_job_endpoint app v operation) w
      | Some (Job_Status job_id) \<Rightarrow> (job_status_endpoint app v job_id w, w))"

section \<open>The middleware\<close>

definition response_request_id :: "('v, 'x, 'q, 'm) app \<Rightarrow> http_request \<Rightarrow> nat \<Rightarrow> str" where
  "response_request_id app r n =
     (case validate_request_id (case get_header (hr_headers r) ''x-novo-chat-request-id'' of Some v \<Rightarrow> v | None \<Rightarrow> []) of
        Some rid \<Rightarrow> rid | None \<Rightarrow> ap_new_request_id app n)"

text \<open>Framing, authentication with the durable replay guard, and the endpoint.\<close>

definition authenticate ::
  "('v, 'x, 'q, 'm) app \<Rightarrow> http_request \<Rightarrow> bytes \<Rightarrow> ('v, 'm) app_state
     \<Rightarrow> (protocol_error + verified_request) \<times> ('v, 'm) app_state" where
  "authenticate app r body w =
     (let cf = ap_config app;
          (answer, jobs) = verify_request (sv_sha (ap_services app)) (ap_mac app) (Some claim) (map_of (cf_request_secrets cf))
            (cf_environment cf) (cf_audience cf) (hr_headers r) (hr_method r) (hr_path r) (QueryBytes (hr_query r)) body
            (seconds (clock_now app w)) (cf_max_clock_skew cf) (w_jobs w)
      in (answer, (tick w)\<lparr>w_jobs := jobs\<rparr>))"

definition handle_request ::
  "('v, 'x, 'q, 'm) app \<Rightarrow> http_request \<Rightarrow> ('v, 'm) app_state \<Rightarrow> (str \<times> api_response) \<times> ('v, 'm) app_state" where
  "handle_request app r w =
     (let rid = response_request_id app r (w_ticks w) in
      case worker_body (nat (cf_max_request_bytes (ap_config app))) r of
        Inl e \<Rightarrow> ((rid, Error_Response rid e), w)
      | Inr body \<Rightarrow>
          (case authenticate app r body w of
             (Inl e, w1) \<Rightarrow> ((rid, Error_Response rid e), w1)
           | (Inr v, w1) \<Rightarrow>
               (let (answer, w2) = call_next app v r body w1
                in ((vr_request_id v, case answer of Inl e \<Rightarrow> Error_Response (vr_request_id v) e | Inr x \<Rightarrow> x), w2))))"

record http_response =
  hp_status :: int
  hp_headers :: "(str \<times> str) list"
  hp_body :: bytes

definition replaced_headers :: "str list" where
  "replaced_headers = map lit
     [''content-length'', ''x-novo-chat-protocol'', ''x-novo-chat-audience'', ''x-novo-chat-environment'',
      ''x-novo-chat-key-id'', ''x-novo-chat-timestamp'', ''x-novo-chat-request-id'', ''x-novo-chat-status'',
      ''x-novo-chat-signature'']"

text \<open>
  \<open>authenticate_and_sign\<close>: the response carries the framework's headers but for the replaced
  ones, and the signed headers. \<open>None\<close> is the \<open>ValueError\<close> of \<open>sign_response\<close>, after which
  the server answers on its own.
\<close>

definition authenticate_and_sign ::
  "('v, 'x, 'q, 'm) app \<Rightarrow> http_request \<Rightarrow> ('v, 'm) app_state \<Rightarrow> http_response option \<times> ('v, 'm) app_state" where
  "authenticate_and_sign app r w =
     (let cf = ap_config app; ((rid, response), w1) = handle_request app r w; body = ap_dump app response
      in (map_option (\<lambda>signed_headers.
             \<lparr>hp_status = response_status response,
              hp_headers = filter (\<lambda>(k, v). lower k \<notin> set replaced_headers) (ap_headers app response)
                @ [(lit ''Cache-Control'', lit ''private, no-store'')] @ signed_headers,
              hp_body = body\<rparr>)
           (sign_response (sv_sha (ap_services app)) (ap_mac app) (cf_response_secret cf) (cf_response_key_id cf)
              (cf_environment cf) rid (response_status response) body (cf_audience cf) (seconds (clock_now app w1))),
          tick w1))"

end
