(* ===== verification/Gateway_Store.thy ===== *)
theory Gateway_Store
  imports Protocol
begin

text \<open>
  The gateway's job ownership store (\<open>novo_chat/gateway/store.py\<close>): which Novo user submitted a
  worker job, and for which exact notebook revisions. The table \<open>job_owners\<close> is the list of its
  rows. Every operation first deletes the expired rows in the same transaction; one that raises
  leaves the table as it was. The creation times are ISO texts of UTC instants, of which the source
  compares the text; texts of this form are ordered as the instants are, which are microseconds here.
  A row of the schema before revisions has no scope.
\<close>

section \<open>Rows and scopes\<close>

record owned_job =
  oj_job :: str
  oj_user :: str
  oj_operation :: str
  oj_notebooks :: "str list"
  oj_scope :: "notebook_scope list option"
  oj_created :: int

type_synonym owner_store = "owned_job list"

text \<open>
  \<open>NotebookScope.model_validate\<close> strips the fields, by pydantic's \<open>strip\<close>, and checks them;
  \<open>_normalized_scope\<close> validates every entry, sorts by notebook and refuses duplicates.
\<close>

definition validate_entry :: "(str \<Rightarrow> str) \<Rightarrow> notebook_scope \<Rightarrow> notebook_scope option" where
  "validate_entry strip s =
     (let stripped = \<lparr>notebook_id = strip (notebook_id s), content_revision = strip (content_revision s),
                      index_schema_version = strip (index_schema_version s)\<rparr>
      in if scope_ok stripped then Some stripped else None)"

definition normalized_scope :: "(str \<Rightarrow> str) \<Rightarrow> notebook_scope list \<Rightarrow> notebook_scope list option" where
  "normalized_scope strip scopes =
     (case option_list (map (validate_entry strip) scopes) of None \<Rightarrow> None
      | Some validated \<Rightarrow>
          (let normalized = sort_key notebook_id validated
           in if distinct (map notebook_id normalized) then Some normalized else None))"

section \<open>Operations\<close>

definition purge_expired_connection :: "int \<Rightarrow> int \<Rightarrow> owner_store \<Rightarrow> nat \<times> owner_store" where
  "purge_expired_connection ttl now rows =
     (let cutoff = now - ttl * 1000000
      in (count_where (\<lambda>r. oj_created r < cutoff) rows, delete_where (\<lambda>r. oj_created r < cutoff) rows))"

definition find_owner :: "str \<Rightarrow> owner_store \<Rightarrow> owned_job option" where
  "find_owner job_id rows = find (\<lambda>r. oj_job r = job_id) rows"

text \<open>
  \<open>_add_sync\<close> inserts unless the job is known, and then requires that the known row binds the job
  in the same way; a row without a scope is completed. \<open>Other_Error\<close> is the \<open>RuntimeError\<close>. The
  result is the creation time of the row.
\<close>

definition insert_or_ignore :: "owned_job \<Rightarrow> owner_store \<Rightarrow> owner_store" where
  "insert_or_ignore row rows = (if oj_job row \<in> oj_job ` set rows then rows else rows @ [row])"

definition same_binding :: "owned_job \<Rightarrow> owned_job \<Rightarrow> bool" where
  "same_binding existing row \<longleftrightarrow>
     oj_user existing = oj_user row \<and> oj_operation existing = oj_operation row \<and> oj_notebooks existing = oj_notebooks row"

definition add_txn :: "int \<Rightarrow> int \<Rightarrow> owned_job \<Rightarrow> owner_store \<Rightarrow> exn + (int \<times> owner_store)" where
  "add_txn ttl now row rows =
     (let inserted = insert_or_ignore row (snd (purge_expired_connection ttl now rows)) in
      and_then (or_raise Other_Error (find_owner (oj_job row) inserted)) (\<lambda>existing.
      demand Other_Error (same_binding existing row)
      (case oj_scope existing of
         None \<Rightarrow> Inr (oj_created existing, update_where (\<lambda>r. oj_job r = oj_job row \<and> oj_scope r = None)
                   (\<lambda>r. r\<lparr>oj_scope := oj_scope row\<rparr>) inserted)
       | Some existing_scope \<Rightarrow> demand Other_Error (Some existing_scope = oj_scope row) (Inr (oj_created existing, inserted)))))"

text \<open>\<open>add\<close>: \<open>created_at\<close> is read before the transaction, \<open>now\<close> inside it.\<close>

definition add_owner ::
  "(str \<Rightarrow> str) \<Rightarrow> int \<Rightarrow> int \<Rightarrow> int \<Rightarrow> str \<Rightarrow> str \<Rightarrow> str \<Rightarrow> notebook_scope list \<Rightarrow> owner_store \<Rightarrow> (exn + owned_job) \<times> owner_store" where
  "add_owner strip ttl created_at now job_id user_id operation scopes rows =
     (case normalized_scope strip scopes of
        None \<Rightarrow> (Inl Value_Error, rows)
      | Some normalized \<Rightarrow>
          (let row = \<lparr>oj_job = job_id, oj_user = user_id, oj_operation = operation,
                      oj_notebooks = map notebook_id normalized, oj_scope = Some normalized, oj_created = created_at\<rparr>
           in case add_txn ttl now row rows of
                Inl e \<Rightarrow> (Inl e, rows)
              | Inr (created, rows') \<Rightarrow> (Inr (row\<lparr>oj_created := created\<rparr>), rows')))"

definition get_owner :: "int \<Rightarrow> int \<Rightarrow> str \<Rightarrow> owner_store \<Rightarrow> owned_job option \<times> owner_store" where
  "get_owner ttl now job_id rows =
     (let kept = snd (purge_expired_connection ttl now rows) in (find_owner job_id kept, kept))"

section \<open>The store over time\<close>

text \<open>A step of the store at the time \<open>now\<close>, and the tables reached by steps up to the time \<open>until\<close>.\<close>

inductive owner_step :: "int \<Rightarrow> int \<Rightarrow> owner_store \<Rightarrow> owner_store \<Rightarrow> bool" for ttl now where
  step_add: "owner_step ttl now rows (snd (add_owner strip ttl created_at now job_id user_id operation scopes rows))"
| step_get: "owner_step ttl now rows (snd (get_owner ttl now job_id rows))"
| step_purge: "owner_step ttl now rows (snd (purge_expired_connection ttl now rows))"

inductive owner_steps :: "int \<Rightarrow> int \<Rightarrow> owner_store \<Rightarrow> owner_store \<Rightarrow> bool" for ttl until rows where
  steps_none: "owner_steps ttl until rows rows"
| steps_more: "owner_steps ttl until rows rows' \<Longrightarrow> now \<le> until \<Longrightarrow> owner_step ttl now rows' rows'' \<Longrightarrow> owner_steps ttl until rows rows''"

text \<open>Every row binds its job once, to the notebooks of its scope.\<close>

definition owner_row_ok :: "owned_job \<Rightarrow> bool" where
  "owner_row_ok r \<longleftrightarrow> (case oj_scope r of None \<Rightarrow> True
     | Some scopes \<Rightarrow> list_all scope_ok scopes \<and> sorted (map notebook_id scopes) \<and> distinct (map notebook_id scopes)
         \<and> oj_notebooks r = map notebook_id scopes)"

definition owners_ok :: "owner_store \<Rightarrow> bool" where
  "owners_ok rows \<longleftrightarrow> unique_by oj_job rows \<and> list_all owner_row_ok rows"

lemma normalized_scope_ok:
  assumes "normalized_scope strip scopes = Some s"
  shows "list_all scope_ok s \<and> sorted (map notebook_id s) \<and> distinct (map notebook_id s)"
proof -
  obtain validated where v: "option_list (map (validate_entry strip) scopes) = Some validated" "s = sort_key notebook_id validated"
    and "distinct (map notebook_id s)"
    using assms by (auto simp: normalized_scope_def Let_def split: option.splits if_splits)
  have "scope_ok e" if "e \<in> set validated" for e
  proof -
    have "Some e \<in> set (map (validate_entry strip) scopes)" using that v(1) by (simp add: option_list_Some)
    then show ?thesis by (auto simp: validate_entry_def Let_def split: if_splits)
  qed
  then show ?thesis using v(2) \<open>distinct (map notebook_id s)\<close> by (auto simp: list_all_iff)
qed

lemma purge_simps [simp]:
  "snd (purge_expired_connection ttl now rows) = delete_where (\<lambda>r. oj_created r < now - ttl * 1000000) rows"
  by (simp add: purge_expired_connection_def Let_def)

lemma find_owner_Some: "unique_by oj_job rows \<Longrightarrow> find_owner j rows = Some r \<longleftrightarrow> r \<in> set rows \<and> oj_job r = j"
  unfolding find_owner_def using find_by_key [of oj_job rows r] find_SomeD [of "\<lambda>r. oj_job r = j" rows r] by blast

lemma find_owner_None: "find_owner j rows = None \<longleftrightarrow> j \<notin> oj_job ` set rows"
  by (auto simp: find_owner_def find_None_iff)

text \<open>The rows after a successful \<open>add\<close>, in the three cases of the transaction.\<close>

lemma add_txn_cases:
  assumes "add_txn ttl now row rows = Inr (created, rows')" "kept = delete_where (\<lambda>r. oj_created r < now - ttl * 1000000) rows"
    and "oj_scope row \<noteq> None"
  obtains
    (new) "oj_job row \<notin> oj_job ` set kept" "rows' = kept @ [row]" "created = oj_created row"
  | (known) existing where "find_owner (oj_job row) kept = Some existing" "same_binding existing row"
      "oj_scope existing = oj_scope row" "rows' = kept" "created = oj_created existing"
  | (completed) existing where "find_owner (oj_job row) kept = Some existing" "same_binding existing row" "oj_scope existing = None"
      "rows' = update_where (\<lambda>r. oj_job r = oj_job row \<and> oj_scope r = None) (\<lambda>r. r\<lparr>oj_scope := oj_scope row\<rparr>) kept"
      "created = oj_created existing"
proof (cases "oj_job row \<in> oj_job ` set kept")
  case True
  then obtain existing where existing: "find_owner (oj_job row) kept = Some existing"
    by (cases "find_owner (oj_job row) kept") (auto simp: find_owner_None)
  have "insert_or_ignore row kept = kept" using True by (simp add: insert_or_ignore_def)
  then have run: "demand Other_Error (same_binding existing row) (case oj_scope existing of
      None \<Rightarrow> Inr (oj_created existing, update_where (\<lambda>r. oj_job r = oj_job row \<and> oj_scope r = None) (\<lambda>r. r\<lparr>oj_scope := oj_scope row\<rparr>) kept)
    | Some existing_scope \<Rightarrow> demand Other_Error (Some existing_scope = oj_scope row) (Inr (oj_created existing, kept))) = Inr (created, rows')"
    using assms(1) existing by (simp add: add_txn_def Let_def flip: assms(2))
  show thesis
    using run known [OF existing] completed [OF existing] by (cases "oj_scope existing") auto
next
  case False
  then have "find_owner (oj_job row) (kept @ [row]) = Some row"
    by (simp add: find_owner_def find_append flip: find_owner_None)
  then show thesis
    using assms False new by (auto simp: add_txn_def Let_def insert_or_ignore_def)
qed

lemma owners_ok_step:
  assumes "owner_step ttl now rows rows'" "owners_ok rows"
  shows "owners_ok rows'"
proof -
  let ?kept = "delete_where (\<lambda>r. oj_created r < now - ttl * 1000000) rows"
  have kept: "owners_ok ?kept" using assms(2) by (auto simp: owners_ok_def list_all_iff set_delete_where intro: unique_by_delete)
  show ?thesis
    using assms(1)
  proof (cases rule: owner_step.cases)
    case (step_add strip created_at job_id user_id operation scopes)
    show ?thesis
    proof (cases "fst (add_owner strip ttl created_at now job_id user_id operation scopes rows)")
      case (Inl e)
      then show ?thesis using step_add assms(2) by (auto simp: add_owner_def Let_def split: option.splits sum.splits)
    next
      case (Inr r)
      then obtain s created where s: "normalized_scope strip scopes = Some s"
        "add_txn ttl now \<lparr>oj_job = job_id, oj_user = user_id, oj_operation = operation, oj_notebooks = map notebook_id s,
           oj_scope = Some s, oj_created = created_at\<rparr> rows = Inr (created, rows')" (is "add_txn _ _ ?row _ = _")
        using step_add by (auto simp: add_owner_def Let_def split: option.splits sum.splits)
      have row: "owner_row_ok ?row" by (simp add: owner_row_ok_def normalized_scope_ok [OF s(1)])
      have "oj_scope ?row \<noteq> None" by simp
      with s(2) refl show ?thesis
      proof (cases rule: add_txn_cases)
        case new
        then show ?thesis using kept row by (auto simp: owners_ok_def intro: unique_by_insert)
      next
        case (completed existing)
        have "owner_row_ok (r\<lparr>oj_scope := Some s\<rparr>)" if "r \<in> set ?kept" "oj_job r = job_id" for r
        proof -
          have "r = existing"
            using that completed(1) kept by (auto simp: owners_ok_def find_owner_Some dest: unique_byD)
          then show ?thesis using completed(2) normalized_scope_ok [OF s(1)] by (simp add: owner_row_ok_def same_binding_def)
        qed
        then show ?thesis
          using kept completed(4) by (auto simp: owners_ok_def list_all_iff set_update_where intro!: unique_by_update)
      qed (use kept in simp)
    qed
  qed (use kept in \<open>auto simp: get_owner_def Let_def\<close>)
qed

lemma owner_kept_step:
  assumes "owner_step ttl now rows rows'" "owners_ok rows" "find_owner j rows = Some r" "now \<le> oj_created r + ttl * 1000000"
  shows "\<exists>r'. find_owner j rows' = Some r' \<and> same_binding r r' \<and> oj_created r' = oj_created r
    \<and> (oj_scope r \<noteq> None \<longrightarrow> oj_scope r' = oj_scope r)"
proof -
  let ?kept = "delete_where (\<lambda>r. oj_created r < now - ttl * 1000000) rows"
  have kept: "owners_ok ?kept" using assms(2) by (auto simp: owners_ok_def list_all_iff set_delete_where intro: unique_by_delete)
  have found: "find_owner j ?kept = Some r"
    using assms(2-4) kept by (auto simp: owners_ok_def find_owner_Some set_delete_where)
  show ?thesis
    using assms(1)
  proof (cases rule: owner_step.cases)
    case (step_add strip created_at job_id user_id operation scopes)
    show ?thesis
    proof (cases "fst (add_owner strip ttl created_at now job_id user_id operation scopes rows)")
      case (Inl e)
      then have "rows' = rows" using step_add by (auto simp: add_owner_def Let_def split: option.splits sum.splits)
      then show ?thesis using assms(3) by (simp add: same_binding_def)
    next
      case (Inr x)
      then obtain s created where run: "add_txn ttl now \<lparr>oj_job = job_id, oj_user = user_id, oj_operation = operation,
           oj_notebooks = map notebook_id s, oj_scope = Some s, oj_created = created_at\<rparr> rows = Inr (created, rows')" (is "add_txn _ _ ?row _ = _")
        using step_add by (auto simp: add_owner_def Let_def split: option.splits sum.splits)
      have "oj_scope ?row \<noteq> None" by simp
      with run refl show ?thesis
      proof (cases rule: add_txn_cases)
        case new
        then show ?thesis using found by (simp add: find_owner_def find_append same_binding_def)
      next
        case (completed existing)
        then show ?thesis using found
          by (auto simp: find_owner_def find_update_where_other same_binding_def)
      qed (use found in \<open>simp add: same_binding_def\<close>)
    qed
  qed (use found in \<open>auto simp: get_owner_def Let_def same_binding_def\<close>)
qed

text \<open>
  C5: the owner of a job is fixed. While a row is within its retention time, whatever is added, looked up or
  purged, the job stays bound to the same user, operation, notebooks and creation time, and to the same scope once it has one.
\<close>

theorem job_owner_fixed:
  assumes "owner_steps ttl until rows rows'" "owners_ok rows"
    and "find_owner job_id rows = Some r" "until \<le> oj_created r + ttl * 1000000"
  shows "\<exists>r'. find_owner job_id rows' = Some r' \<and> same_binding r r' \<and> oj_created r' = oj_created r
    \<and> (oj_scope r \<noteq> None \<longrightarrow> oj_scope r' = oj_scope r)"
proof -
  have "owners_ok rows' \<and> (\<exists>r'. find_owner job_id rows' = Some r' \<and> same_binding r r' \<and> oj_created r' = oj_created r
    \<and> (oj_scope r \<noteq> None \<longrightarrow> oj_scope r' = oj_scope r))"
    using assms(1)
  proof induction
    case steps_none
    then show ?case using assms(2,3) by (simp add: same_binding_def)
  next
    case (steps_more rows' now rows'')
    then obtain r' where r': "find_owner job_id rows' = Some r'" "same_binding r r'" "oj_created r' = oj_created r"
      "oj_scope r \<noteq> None \<longrightarrow> oj_scope r' = oj_scope r" by blast
    have "now \<le> oj_created r' + ttl * 1000000" using steps_more(2) assms(4) r'(3) by simp
    then show ?case
      using owner_kept_step [OF steps_more(3) _ r'(1)] owners_ok_step [OF steps_more(3)] steps_more.IH r'
      by (fastforce simp: same_binding_def)
  qed
  then show ?thesis by blast
qed

definition ex_owners :: owner_store where
  "ex_owners = snd (add_owner id 600 0 0 (lit ''job_1'') (lit ''alice'') (lit ''query'')
     [\<lparr>notebook_id = lit ''nb'', content_revision = lit ''r1'', index_schema_version = lit ''v1''\<rparr>] [])"

text \<open>Mallory's attempt to take the job over, ten seconds later.\<close>

theorem job_owner_fixed_witness:
  "\<exists>r. find_owner (lit ''job_1'') (snd (add_owner id 600 10000000 10000000 (lit ''job_1'') (lit ''mallory'') (lit ''query'') [] ex_owners)) = Some r
     \<and> oj_user r = lit ''alice''"
proof -
  let ?rows = "snd (add_owner id 600 10000000 10000000 (lit ''job_1'') (lit ''mallory'') (lit ''query'') [] ex_owners)"
  have "owner_steps 600 10000000 ex_owners ?rows" by (rule steps_more [OF steps_none _ step_add]) simp
  moreover have "owners_ok ex_owners"
    unfolding ex_owners_def by (rule owners_ok_step [OF step_add]) (simp add: owners_ok_def)
  moreover obtain r where r: "find_owner (lit ''job_1'') ex_owners = Some r" "oj_user r = lit ''alice''" "oj_created r = 0"
  proof -
    have "case find_owner (lit ''job_1'') ex_owners of None \<Rightarrow> False | Some r \<Rightarrow> oj_user r = lit ''alice'' \<and> oj_created r = 0"
      by code_simp
    then show thesis using that by (auto split: option.splits)
  qed
  ultimately show ?thesis
    using job_owner_fixed [of 600 10000000 ex_owners ?rows "lit ''job_1''" r] by (auto simp: same_binding_def)
qed

end
