(* ===== verification/Gateway_Client.thy ===== *)
theory Gateway_Client
  imports Worker Gateway_Store
begin

text \<open>
  The gateway's clients: the errors it tells apart and its reading of worker payloads
  (\<open>gateway/worker_client.py\<close>), the authenticated client of the worker's API
  (\<open>gateway/worker_http_client.py\<close>), the client of the Novo integration API
  (\<open>gateway/novo_client.py\<close>) and the file secrets (\<open>gateway/secrets.py\<close>). The HTTP library is a
  parameter: it takes method, path, headers and body to a response, or to \<open>None\<close> when it raises. So
  are pydantic's parsers, and its \<open>strip\<close> of text fields.
\<close>

section \<open>Errors\<close>

datatype gateway_error =
    Novo_Unauthenticated
  | Novo_Integration_Unavailable str
  | Novo_Revision_Changed str str
  | Novo_Notebook_Unavailable
  | Worker_Unavailable str str bool
  | Worker_Rejected str str bool int
  | Indexes_Not_Ready nat nat
  | Timed_Out
  | Synchronization_Timeout
  | Export_Limit_Exceeded
  | Synchronization_Error str
  | Http_Error http_exception
  | Unhandled_Error

definition safe_error_code :: "str \<Rightarrow> bool" where
  "safe_error_code s \<longleftrightarrow> s \<noteq> [] \<and> length s \<le> 64 \<and> 65 \<le> hd s \<and> hd s \<le> 90
     \<and> list_all (\<lambda>c. (65 \<le> c \<and> c \<le> 90) \<or> is_digit c \<or> c = 95) s"

definition error_code :: "str \<Rightarrow> string \<Rightarrow> str" where
  "error_code value fallback = (if safe_error_code value then value else lit fallback)"

definition WorkerUnavailable :: "str \<Rightarrow> str \<Rightarrow> bool \<Rightarrow> gateway_error" where
  "WorkerUnavailable message code retryable = Worker_Unavailable message (error_code code ''WORKER_UNAVAILABLE'') retryable"

definition WorkerRejected :: "str \<Rightarrow> str \<Rightarrow> bool \<Rightarrow> int \<Rightarrow> gateway_error" where
  "WorkerRejected message code retryable status_code =
     Worker_Rejected message (error_code code ''WORKER_REJECTED'') retryable
       (if status_code \<in> {400, 404, 409, 413, 422, 429, 502} then status_code else 502)"

abbreviation rejected :: "string \<Rightarrow> gateway_error" where
  "rejected message \<equiv> WorkerRejected (lit message) (lit ''WORKER_REJECTED'') False 502"

abbreviation transport_unavailable :: gateway_error where
  "transport_unavailable \<equiv> WorkerUnavailable (lit ''Authenticated compute transport is unavailable'') (lit ''WORKER_UNAVAILABLE'') True"

section \<open>Worker payloads\<close>

type_synonym fields = "(str \<times> json) list"

definition unwrap_job :: "fields \<Rightarrow> gateway_error + fields" where
  "unwrap_job payload = (case map_of payload (lit ''job'') of
     None \<Rightarrow> Inr payload
   | Some (JObj job) \<Rightarrow> Inr job
   | Some _ \<Rightarrow> Inl (rejected ''Worker returned an invalid job response''))"

text \<open>\<open>value.get(name)\<close>, where an absent field is \<open>None\<close>.\<close>

definition get_field :: "fields \<Rightarrow> string \<Rightarrow> json" where
  "get_field job name = (case map_of job (lit name) of None \<Rightarrow> JNull | Some j \<Rightarrow> j)"

definition text_or :: "(json \<Rightarrow> str) \<Rightarrow> fields \<Rightarrow> string \<Rightarrow> string \<Rightarrow> str" where
  "text_or text_of job name fallback =
     (if truthy (map_of job (lit name)) then py_str text_of (get_field job name) else lit fallback)"

record public_job =
  pj_job_id :: str
  pj_state :: str
  pj_operation :: str
  pj_progress :: json
  pj_error :: "(str \<times> str \<times> bool) option"
  pj_created_at :: json
  pj_updated_at :: json
  pj_progress_detail :: "json option"

definition public_error :: "(json \<Rightarrow> str) \<Rightarrow> json \<Rightarrow> (str \<times> str \<times> bool) option" where
  "public_error text_of j = (case j of
     JObj e \<Rightarrow> Some (error_code (text_or text_of e ''code'' '''') ''WORKER_JOB_FAILED'',
       take 2000 (text_or text_of e ''message'' ''The worker job failed.''), get_field e ''retryable'' = JBool True)
   | _ \<Rightarrow> if truthy (Some j) then Some (lit ''WORKER_JOB_FAILED'', take 2000 (py_str text_of j), False) else None)"

definition public_job_status ::
  "(json \<Rightarrow> str) \<Rightarrow> (json \<Rightarrow> progress_detail option) \<Rightarrow> fields \<Rightarrow> gateway_error + public_job" where
  "public_job_status text_of detail_model payload =
     and_then (unwrap_job payload) (\<lambda>job.
     and_then (if get_field job ''progressDetail'' = JNull then Inr None
        else and_then (or_raise (rejected ''Worker returned invalid progress detail'') (detail_model (get_field job ''progressDetail'')))
          (\<lambda>d. Inr (Some (progress_detail_json d)))) (\<lambda>detail.
     Inr \<lparr>pj_job_id = (if truthy (map_of job (lit ''jobId'')) then py_str text_of (get_field job ''jobId'') else text_or text_of job ''id'' ''''),
          pj_state = text_or text_of job ''state'' ''unknown'', pj_operation = text_or text_of job ''operation'' '''',
          pj_progress = get_field job ''progress'', pj_error = public_error text_of (get_field job ''error''),
          pj_created_at = get_field job ''createdAt'', pj_updated_at = get_field job ''updatedAt'', pj_progress_detail = detail\<rparr>))"

text \<open>\<open>str.lower\<close> is compared with ASCII words only, so that it matters on ASCII letters only.\<close>

definition state_in :: "(json \<Rightarrow> str) \<Rightarrow> fields \<Rightarrow> string list \<Rightarrow> bool" where
  "state_in text_of job states \<longleftrightarrow> lower (text_or text_of job ''state'' '''') \<in> set (map lit states)"

definition completed_result :: "(json \<Rightarrow> str) \<Rightarrow> fields \<Rightarrow> gateway_error + json" where
  "completed_result text_of payload =
     and_then (unwrap_job payload) (\<lambda>job.
     demand (WorkerRejected (lit ''Worker job is not complete (state='' @ lower (text_or text_of job ''state'' ''unknown'') @ lit '')'')
         (lit ''WORKER_REJECTED'') False 502)
       (state_in text_of job [''completed'', ''succeeded'', ''success''])
    (or_raise (rejected ''Completed worker job has no result'') (map_of job (lit ''result''))))"

section \<open>File secrets\<close>

record secret_file =
  sf_mode :: nat
  sf_mtime :: int
  sf_contents :: bytes

record file_secret =
  fs_minimum :: nat
  fs_cached :: "(int \<times> bytes) option"

text \<open>\<open>read_bytes\<close>: \<open>None\<close> is \<open>OSError\<close> or \<open>RuntimeError\<close>; the value is cached by modification time.\<close>

definition ascii_space :: "nat \<Rightarrow> bool" where
  "ascii_space c \<longleftrightarrow> c = 32 \<or> (9 \<le> c \<and> c \<le> 13)"

definition read_secret :: "secret_file option \<Rightarrow> file_secret \<Rightarrow> bytes option \<times> file_secret" where
  "read_secret file s = (case file of None \<Rightarrow> (None, s)
     | Some f \<Rightarrow>
         if sf_mode f mod 8 \<noteq> 0 then (None, s)
         else (case fs_cached s of
           Some (mtime, value) \<Rightarrow>
             if mtime = sf_mtime f then (Some value, s)
             else (let fresh = strip_by ascii_space (sf_contents f)
                   in if length fresh < fs_minimum s then (None, s)
                      else (Some fresh, s\<lparr>fs_cached := Some (sf_mtime f, fresh)\<rparr>))
         | None \<Rightarrow> (let fresh = strip_by ascii_space (sf_contents f)
                   in if length fresh < fs_minimum s then (None, s)
                      else (Some fresh, s\<lparr>fs_cached := Some (sf_mtime f, fresh)\<rparr>))))"

section \<open>The worker's client\<close>

record 'w worker_client =
  wc_sha :: "bytes \<Rightarrow> str"
  wc_mac :: "bytes \<Rightarrow> bytes \<Rightarrow> str"
  wc_strip :: "str \<Rightarrow> str"
  wc_base_path :: str
  wc_request_key_id :: str
  wc_response_key_id :: str
  wc_environment :: str
  wc_audience :: str
  wc_request_secret :: "bytes option"
  wc_response_secret :: "bytes option"
  wc_transport :: "str \<Rightarrow> str \<Rightarrow> (str \<times> str) list \<Rightarrow> bytes \<Rightarrow> 'w \<Rightarrow> http_response option \<times> 'w"
  wc_parse_error :: "bytes \<Rightarrow> (str \<times> str \<times> bool) option"

text \<open>
  \<open>_request\<close> for an authentic response: errors of the worker are passed on by class, anything
  unparsable is rejected. \<open>parse\<close> is \<open>response_model.model_validate_json\<close>.
\<close>

definition read_response ::
  "(bytes \<Rightarrow> (str \<times> str \<times> bool) option) \<Rightarrow> (bytes \<Rightarrow> 'r option) \<Rightarrow> int \<Rightarrow> bytes \<Rightarrow> gateway_error + 'r" where
  "read_response parse_error parse status response_body =
     (if status \<ge> 400 then
        (case (case parse_error response_body of Some e \<Rightarrow> e
               | None \<Rightarrow> (lit ''WORKER_REJECTED'', lit ''Compute worker rejected the request'', False)) of
           (code, message, retryable) \<Rightarrow>
             if status \<ge> 500 then Inl (WorkerUnavailable message code retryable)
             else Inl (WorkerRejected message code retryable
                    (if status \<in> {400, 404, 409, 413, 422, 429} then status else 502)))
      else or_raise (rejected ''Worker returned an invalid signed response'') (parse response_body))"

text \<open>
  \<open>_request\<close>: every failure up to the verified response is \<open>WorkerUnavailable\<close>. The times of
  signing and of verifying, the nonce and the request ID are arguments; \<open>body\<close> is \<open>None\<close> when
  \<open>canonical_json\<close> raises its \<open>ValueError\<close>, which is outside the \<open>try\<close>.
\<close>

definition signed_request_headers ::
  "'w worker_client \<Rightarrow> str \<Rightarrow> str \<Rightarrow> str \<Rightarrow> bytes \<Rightarrow> int \<Rightarrow> str \<Rightarrow> (str \<times> str) list option" where
  "signed_request_headers wc rid verb route body timestamp nonce =
     (case wc_request_secret wc of None \<Rightarrow> None
      | Some s \<Rightarrow> map_option (\<lambda>h. h @ (if body \<noteq> [] then [(lit ''Content-Type'', lit ''application/json'')] else []))
          (sign_request (wc_sha wc) (wc_mac wc) (SecretBytes s) (wc_request_key_id wc) (wc_environment wc) (wc_audience wc) rid
             verb (wc_base_path wc @ route) (QueryStr []) body timestamp nonce))"

definition worker_call ::
  "'w worker_client \<Rightarrow> (bytes \<Rightarrow> 'r option) \<Rightarrow> str \<Rightarrow> str \<Rightarrow> str \<Rightarrow> bytes \<Rightarrow> int \<Rightarrow> str \<Rightarrow> int \<Rightarrow> int \<Rightarrow> 'w
     \<Rightarrow> (gateway_error + 'r) \<times> 'w" where
  "worker_call wc parse rid verb route body signed_at nonce verified_at skew w =
     (case signed_request_headers wc rid verb route body signed_at nonce of
        None \<Rightarrow> (Inl transport_unavailable, w)
      | Some headers \<Rightarrow>
          (case wc_transport wc verb (wc_base_path wc @ route) headers body w of
             (None, w') \<Rightarrow> (Inl transport_unavailable, w')
           | (Some response, w') \<Rightarrow>
               (case wc_response_secret wc of None \<Rightarrow> (Inl transport_unavailable, w')
                | Some s \<Rightarrow>
                    (case verify_response (wc_sha wc) (wc_mac wc) [wc_response_key_id wc \<mapsto> SecretBytes s] (wc_environment wc)
                            (wc_audience wc) (hp_headers response) rid (hp_status response) (hp_body response) verified_at skew of
                       Inl e \<Rightarrow> (Inl transport_unavailable, w')
                     | Inr v \<Rightarrow> (read_response (wc_parse_error wc) parse (hp_status response) (hp_body response), w')))))"

section \<open>Requests to the worker\<close>

datatype gateway_operation = ASK | GW_INDEX_REBUILD | GW_MODEL_START | GW_MODEL_STOP

record gateway_job_request =
  gj_operation :: gateway_operation
  gj_corpus :: "str option"
  gj_question :: "str option"
  gj_retrieval :: "str option"
  gj_model :: "str option"
  gj_strategy :: str
  gj_max_sources :: int
  gj_top_k :: int
  gj_force :: bool

definition gateway_token :: "str \<Rightarrow> bool" where
  "gateway_token s \<longleftrightarrow> s \<noteq> [] \<and> length s \<le> 192 \<and> is_alnum (hd s)
     \<and> list_all (\<lambda>c. is_alnum c \<or> c = 46 \<or> c = 95 \<or> c = 58 \<or> c = 45) s"

definition gateway_job_request_ok :: "gateway_job_request \<Rightarrow> bool" where
  "gateway_job_request_ok r \<longleftrightarrow>
     (case gj_corpus r of None \<Rightarrow> True | Some c \<Rightarrow> length c \<le> 197 \<and> take 5 c = lit ''novo:'' \<and> gateway_token (drop 5 c))
     \<and> (case gj_question r of None \<Rightarrow> True | Some q \<Rightarrow> 1 \<le> length q \<and> length q \<le> 20000 \<and> validate_query_text q)
     \<and> (case gj_retrieval r of None \<Rightarrow> True | Some q \<Rightarrow> length q \<le> 30000 \<and> validate_query_text q)
     \<and> (case gj_model r of None \<Rightarrow> True | Some m \<Rightarrow> gateway_token m)
     \<and> gj_strategy r \<in> {lit ''auto'', lit ''hybrid'', lit ''fts''}
     \<and> 1 \<le> gj_max_sources r \<and> gj_max_sources r \<le> 100 \<and> 1 \<le> gj_top_k r \<and> gj_top_k r \<le> 32
     \<and> (case gj_operation r of
          ASK \<Rightarrow> gj_corpus r \<noteq> None \<and> gj_question r \<noteq> None \<and> gj_model r \<noteq> None
        | GW_INDEX_REBUILD \<Rightarrow> gj_corpus r \<noteq> None
        | _ \<Rightarrow> gj_model r \<noteq> None)"

text \<open>The operation of the worker that a command becomes, and the strategy sent.\<close>

fun worker_operation :: "gateway_operation \<Rightarrow> str" where
  "worker_operation ASK = lit ''query''"
| "worker_operation GW_INDEX_REBUILD = lit ''index_rebuild''"
| "worker_operation GW_MODEL_START = lit ''model_start''"
| "worker_operation GW_MODEL_STOP = lit ''model_stop''"

definition wire_strategy :: "str \<Rightarrow> str" where
  "wire_strategy s = (let chosen = (if s = [] then lit ''hybrid'' else s) in
     if chosen = lit ''auto'' then lit ''hybrid'' else if chosen = lit ''fts'' then lit ''lexical'' else chosen)"

text \<open>The request models of \<open>submit\<close>; every text field is stripped and then checked.\<close>

definition common_fields ::
  "(str \<Rightarrow> str) \<Rightarrow> str \<Rightarrow> str \<Rightarrow> str \<Rightarrow> notebook_scope list \<Rightarrow> job_request option" where
  "common_fields strip rid key actor scopes =
     (case (option_list (map (validate_entry strip) scopes), validate_request_id (strip rid)) of
        (Some validated, Some canonical_id) \<Rightarrow>
          (let r = \<lparr>request_id = canonical_id, idempotency_key = strip key, actor_user_id = strip actor, scope = validated\<rparr>
           in if job_request_ok r then Some r else None)
      | _ \<Rightarrow> None)"

definition query_model_of :: "(str \<Rightarrow> str) \<Rightarrow> job_request \<Rightarrow> gateway_job_request \<Rightarrow> query_request option" where
  "query_model_of strip c r =
     (case (gj_question r, gj_model r, strategy_of (wire_strategy (gj_strategy r))) of
        (Some q, Some m, Some chosen) \<Rightarrow>
          (let built = job_request.extend c \<lparr>question = strip q, retrieval_question = map_option strip (gj_retrieval r),
                 query_model = strip m, strategy = chosen, max_sources = gj_max_sources r, retrieval_top_k = gj_top_k r\<rparr>
           in if query_ok built then Some built else None)
      | _ \<Rightarrow> None)"

text \<open>\<open>model_dump(mode="json", by_alias=True)\<close> of the request models.\<close>

definition common_json :: "'a job_request_scheme \<Rightarrow> fields" where
  "common_json r = [(lit ''requestId'', JStr (request_id r)), (lit ''idempotencyKey'', JStr (idempotency_key r)),
     (lit ''actorUserId'', JStr (actor_user_id r)), (lit ''scope'', JArr (map scope_json (scope r)))]"

definition query_json :: "query_request \<Rightarrow> json" where
  "query_json r = JObj (common_json r @
     [(lit ''question'', JStr (question r)), (lit ''retrievalQuestion'', opt_json (retrieval_question r)),
      (lit ''model'', JStr (query_model r)), (lit ''strategy'', JStr (strategy_value (strategy r))),
      (lit ''maxSources'', JInt (max_sources r)), (lit ''retrievalTopK'', JInt (retrieval_top_k r))])"

definition rebuild_json :: "rebuild_request \<Rightarrow> json" where
  "rebuild_json r = JObj (common_json r @ [(lit ''force'', JBool (force r))])"

definition model_job_json :: "model_job_request \<Rightarrow> json" where
  "model_job_json r = JObj (common_json r @ [(lit ''model'', JStr (model r))])"

definition ingest_batch_json :: "ingest_batch_request \<Rightarrow> json" where
  "ingest_batch_json r = JObj (common_json r @
     [(lit ''batchNumber'', JInt (batch_number r)), (lit ''batchChecksum'', JStr (batch_checksum r)),
      (lit ''pages'', JArr (map page_json (pages r)))])"

definition ingest_finalize_json :: "ingest_finalize_request \<Rightarrow> json" where
  "ingest_finalize_json r = JObj (common_json r @
     [(lit ''documentChecksum'', JStr (document_checksum r)), (lit ''pageCount'', JInt (page_count r)),
      (lit ''batchCount'', JInt (batch_count r))])"

text \<open>\<open>submit\<close> up to the call: the route, the request ID of the model and its JSON.\<close>

definition submit_request ::
  "(str \<Rightarrow> str) \<Rightarrow> str \<Rightarrow> str \<Rightarrow> str \<Rightarrow> notebook_scope list \<Rightarrow> gateway_job_request \<Rightarrow> gateway_error + (str \<times> str \<times> json)" where
  "submit_request strip rid key actor scopes r =
     or_raise (rejected ''Job did not satisfy the compute protocol'')
       (case common_fields strip rid key actor scopes of None \<Rightarrow> None
        | Some c \<Rightarrow>
            (case gj_operation r of
               ASK \<Rightarrow> map_option (\<lambda>m. (lit ''/query'', request_id m, query_json m)) (query_model_of strip c r)
             | GW_INDEX_REBUILD \<Rightarrow>
                 (let m = job_request.extend c \<lparr>force = gj_force r\<rparr>
                  in if rebuild_ok m then Some (lit ''/indexes/rebuild'', request_id m, rebuild_json m) else None)
             | operation \<Rightarrow>
                 (case gj_model r of None \<Rightarrow> None
                  | Some model_id \<Rightarrow> (let m = job_request.extend c \<lparr>model = strip model_id\<rparr>
                      in if model_job_ok m
                         then Some (if operation = GW_MODEL_START then lit ''/models/start'' else lit ''/models/stop'', request_id m, model_job_json m)
                         else None))))"

section \<open>The methods of the client\<close>

text \<open>What one exchange takes from outside: the clock when signing and when verifying, and the nonce.\<close>

record exchange =
  xc_signed_at :: int
  xc_nonce :: str
  xc_verified_at :: int
  xc_skew :: int

definition post_model ::
  "'w worker_client \<Rightarrow> exchange \<Rightarrow> (bytes \<Rightarrow> fields option) \<Rightarrow> str \<Rightarrow> str \<Rightarrow> json \<Rightarrow> 'w \<Rightarrow> (gateway_error + fields) \<times> 'w" where
  "post_model wc xc parse route rid document w =
     (case canonical_json document of None \<Rightarrow> (Inl Unhandled_Error, w)
      | Some body \<Rightarrow> worker_call wc parse rid (lit ''POST'') route body (xc_signed_at xc) (xc_nonce xc) (xc_verified_at xc) (xc_skew xc) w)"

definition client_submit ::
  "'w worker_client \<Rightarrow> exchange \<Rightarrow> (bytes \<Rightarrow> fields option) \<Rightarrow> str \<Rightarrow> str \<Rightarrow> str \<Rightarrow> notebook_scope list
     \<Rightarrow> gateway_job_request \<Rightarrow> 'w \<Rightarrow> (gateway_error + fields) \<times> 'w" where
  "client_submit wc xc parse rid key actor scopes r w =
     (case submit_request (wc_strip wc) rid key actor scopes r of
        Inl e \<Rightarrow> (Inl e, w) | Inr (route, model_rid, document) \<Rightarrow> post_model wc xc parse route model_rid document w)"

definition index_status_request_ok :: "index_status_request \<Rightarrow> bool" where
  "index_status_request_ok r \<longleftrightarrow> validate_request_id (is_request_id r) = Some (is_request_id r)
     \<and> 1 \<le> length (is_actor_user_id r) \<and> length (is_actor_user_id r) \<le> 192 \<and> validate_safe_token (is_actor_user_id r)
     \<and> 1 \<le> length (is_scope r) \<and> length (is_scope r) \<le> 256 \<and> list_all scope_ok (is_scope r) \<and> unique_notebooks (is_scope r)"

definition client_index_status ::
  "'w worker_client \<Rightarrow> exchange \<Rightarrow> (bytes \<Rightarrow> fields option) \<Rightarrow> str \<Rightarrow> str \<Rightarrow> notebook_scope list \<Rightarrow> 'w \<Rightarrow> (gateway_error + fields) \<times> 'w" where
  "client_index_status wc xc parse rid actor scopes w =
     (case (option_list (map (validate_entry (wc_strip wc)) scopes), validate_request_id (wc_strip wc rid)) of
        (Some validated, Some canonical_id) \<Rightarrow>
          (let r = \<lparr>is_request_id = canonical_id, is_actor_user_id = wc_strip wc actor, is_scope = validated\<rparr>
           in if index_status_request_ok r
              then post_model wc xc parse (lit ''/indexes/status'') canonical_id
                (JObj [(lit ''requestId'', JStr canonical_id), (lit ''actorUserId'', JStr (is_actor_user_id r)),
                       (lit ''scope'', JArr (map scope_json validated))]) w
              else (Inl (rejected ''Index status did not satisfy the compute protocol''), w))
      | _ \<Rightarrow> (Inl (rejected ''Index status did not satisfy the compute protocol''), w))"

text \<open>The pages are validated again and their checksum is computed here; \<open>page_model\<close> is pydantic's.\<close>

definition client_ingest_batch ::
  "'w worker_client \<Rightarrow> exchange \<Rightarrow> (bytes \<Rightarrow> fields option) \<Rightarrow> (json \<Rightarrow> page_document option) \<Rightarrow> str \<Rightarrow> str \<Rightarrow> str \<Rightarrow> notebook_scope
     \<Rightarrow> int \<Rightarrow> json list \<Rightarrow> 'w \<Rightarrow> (gateway_error + fields) \<times> 'w" where
  "client_ingest_batch wc xc parse page_model rid key actor s number page_dicts w =
     (let refused = (Inl (rejected ''Ingest batch did not satisfy the compute protocol''), w) in
      case option_list (map page_model page_dicts) of None \<Rightarrow> refused
      | Some ps \<Rightarrow>
          (case (ingest_pages_checksum (wc_sha wc) ps, common_fields (wc_strip wc) rid key actor [s]) of
             (Some checksum, Some c) \<Rightarrow>
               (let m = job_request.extend c \<lparr>batch_number = number, batch_checksum = checksum, pages = ps\<rparr>
                in if ingest_batch_ok m then post_model wc xc parse (lit ''/ingest/batches'') (request_id m) (ingest_batch_json m) w
                   else refused)
           | _ \<Rightarrow> refused))"

definition client_ingest_finalize ::
  "'w worker_client \<Rightarrow> exchange \<Rightarrow> (bytes \<Rightarrow> fields option) \<Rightarrow> str \<Rightarrow> str \<Rightarrow> str \<Rightarrow> notebook_scope
     \<Rightarrow> str \<Rightarrow> int \<Rightarrow> int \<Rightarrow> 'w \<Rightarrow> (gateway_error + fields) \<times> 'w" where
  "client_ingest_finalize wc xc parse rid key actor s checksum page_total batch_total w =
     (let refused = (Inl (rejected ''Ingest finalization did not satisfy the compute protocol''), w) in
      case common_fields (wc_strip wc) rid key actor [s] of None \<Rightarrow> refused
      | Some c \<Rightarrow>
          (let m = job_request.extend c \<lparr>document_checksum = wc_strip wc checksum, page_count = page_total, batch_count = batch_total\<rparr>
           in if ingest_finalize_ok m then post_model wc xc parse (lit ''/ingest/finalize'') (request_id m) (ingest_finalize_json m) w
              else refused))"

text \<open>\<open>quote(job_id, safe='-._~')\<close>, whose extra characters are safe anyway, raises \<open>ValueError\<close> on text that UTF-8 cannot encode.\<close>

definition client_job_status ::
  "'w worker_client \<Rightarrow> exchange \<Rightarrow> (bytes \<Rightarrow> fields option) \<Rightarrow> str \<Rightarrow> str \<Rightarrow> 'w \<Rightarrow> (gateway_error + fields) \<times> 'w" where
  "client_job_status wc xc parse new_rid job_id w =
     (if job_id = [] \<or> length job_id > 192 then (Inl (rejected ''Invalid worker job identifier''), w)
      else case quote no_safe job_id of None \<Rightarrow> (Inl Unhandled_Error, w)
      | Some quoted \<Rightarrow> worker_call wc parse new_rid (lit ''GET'') (lit ''/jobs/'' @ quoted) []
          (xc_signed_at xc) (xc_nonce xc) (xc_verified_at xc) (xc_skew xc) w)"

definition client_get ::
  "'w worker_client \<Rightarrow> exchange \<Rightarrow> (bytes \<Rightarrow> fields option) \<Rightarrow> str \<Rightarrow> string \<Rightarrow> 'w \<Rightarrow> (gateway_error + fields) \<times> 'w" where
  "client_get wc xc parse new_rid route w = worker_call wc parse new_rid (lit ''GET'') (lit route) []
     (xc_signed_at xc) (xc_nonce xc) (xc_verified_at xc) (xc_skew xc) w"

definition client_health ::
  "'w worker_client \<Rightarrow> exchange \<Rightarrow> (bytes \<Rightarrow> fields option) \<Rightarrow> str \<Rightarrow> 'w \<Rightarrow> (gateway_error + fields) \<times> 'w" where
  "client_health wc xc parse new_rid w =
     (case client_get wc xc parse new_rid ''/health'' w of
        (Inl e, w') \<Rightarrow> (Inl e, w')
      | (Inr payload, w') \<Rightarrow> (Inr (payload @ [(lit ''ok'', JBool (get_field payload ''state'' = JStr (lit ''ready'')
            \<and> get_field payload ''queueHealthy'' = JBool True \<and> get_field payload ''indexServiceHealthy'' = JBool True))]), w'))"

section \<open>Novo\<close>

record novo_user =
  us_id :: str
  us_email :: str
  us_first_name :: str
  us_last_name :: str
  us_display_name :: str
  us_role :: str

definition user_label :: "novo_user \<Rightarrow> str" where
  "user_label u = (if us_display_name u \<noteq> [] then us_display_name u
     else let parts = join [32] (filter (\<lambda>part. part \<noteq> []) [us_first_name u, us_last_name u])
       in if parts \<noteq> [] then parts else us_email u)"

record novo_notebook =
  nb_id :: str
  nb_name :: str
  nb_access_role :: str
  nb_revision :: str
  nb_updated_at :: "str option"
  nb_page_count :: int
  nb_attachment_count :: int
  nb_text_chars :: int

definition public_corpus :: "novo_notebook \<Rightarrow> json" where
  "public_corpus nb = JObj
     [(lit ''id'', JStr (nb_id nb)), (lit ''corpus_key'', JStr (lit ''novo:'' @ nb_id nb)), (lit ''name'', JStr (nb_name nb)),
      (lit ''access_role'', JStr (nb_access_role nb)), (lit ''content_revision'', JStr (nb_revision nb)),
      (lit ''updated_at'', opt_json (nb_updated_at nb)), (lit ''page_count'', JInt (nb_page_count nb)),
      (lit ''attachment_count'', JInt (nb_attachment_count nb)), (lit ''text_chars'', JInt (nb_text_chars nb))]"

record novo_context =
  cx_user :: novo_user
  cx_notebooks :: "novo_notebook list"

record export_page =
  ep_id :: str
  ep_title :: str
  ep_text :: str
  ep_status :: "str option"
  ep_created_at :: "str option"
  ep_updated_at :: "str option"
  ep_tags :: "str list"
  ep_attachments :: "attachment list"
  ep_source_url :: str

text \<open>
  \<open>worker_document\<close> leaves the general \<open>updatedAt\<close> out, so that a revision has one document. The
  fields of an export attachment are those of the worker's.
\<close>

definition worker_document :: "export_page \<Rightarrow> json" where
  "worker_document p = JObj
     [(lit ''pageId'', JStr (ep_id p)), (lit ''title'', JStr (ep_title p)), (lit ''text'', JStr (ep_text p)),
      (lit ''status'', opt_json (ep_status p)), (lit ''createdAt'', opt_json (ep_created_at p)),
      (lit ''tags'', JArr (map JStr (ep_tags p))), (lit ''attachments'', JArr (map attachment_json (ep_attachments p))),
      (lit ''sourceUrl'', JStr (ep_source_url p))]"

record pages_response =
  pr_notebook_id :: str
  pr_revision :: str
  pr_pages :: "export_page list"
  pr_next_cursor :: "str option"
  pr_complete :: bool

text \<open>
  \<open>context\<close> and \<open>export_pages\<close> on what \<open>_get\<close> returned: the exception of \<open>_get\<close>, or the status and the
  parsed body, \<open>None\<close> when parsing fails. \<open>export_request_ok\<close> holds what is checked before the call.
\<close>

definition unavailable :: "string \<Rightarrow> gateway_error" where
  "unavailable message = Novo_Integration_Unavailable (lit message)"

definition novo_context_call :: "gateway_error + (int \<times> novo_context option) \<Rightarrow> gateway_error + novo_context" where
  "novo_context_call got = and_then got (\<lambda>(status, parsed).
     demand Novo_Unauthenticated (status \<notin> {401, 403})
    (demand (Novo_Integration_Unavailable (lit ''Novo integration API returned HTTP '' @ render_int status)) (status = 200)
    (or_raise (unavailable ''Novo integration API returned an invalid context'') parsed)))"

definition export_request_ok :: "str \<Rightarrow> int \<Rightarrow> gateway_error + unit" where
  "export_request_ok revision limit =
     demand Unhandled_Error (1 \<le> limit \<and> limit \<le> 250)
    (demand (unavailable ''Novo returned an invalid content revision'')
       (revision \<noteq> [] \<and> list_all (\<lambda>c. c \<notin> {34, 92, 13, 10}) revision) (Inr ()))"

definition export_pages :: "str \<Rightarrow> str \<Rightarrow> int \<Rightarrow> gateway_error + (int \<times> pages_response option) \<Rightarrow> gateway_error + pages_response" where
  "export_pages nb revision limit got =
     and_then (export_request_ok revision limit) (\<lambda>_.
     and_then got (\<lambda>(status, parsed).
     demand (Novo_Revision_Changed nb revision) (status \<noteq> 412)
    (demand Novo_Unauthenticated (status \<notin> {401, 403})
    (demand Novo_Notebook_Unavailable (status \<noteq> 404)
    (demand (Novo_Integration_Unavailable (lit ''Novo page export returned HTTP '' @ render_int status)) (status = 200)
    (and_then (or_raise (unavailable ''Novo page export returned an invalid response'') parsed) (\<lambda>page.
     demand (Novo_Revision_Changed nb revision) (pr_notebook_id page = nb \<and> pr_revision page = revision)
    (demand (unavailable ''Novo page export exceeded the requested page limit'') (int (length (pr_pages page)) \<le> limit)
    (demand (unavailable ''Completed Novo export returned another cursor'') (\<not> (pr_complete page \<and> or_none (pr_next_cursor page) \<noteq> None))
    (demand (unavailable ''Incomplete Novo export omitted its next cursor'') (\<not> (\<not> pr_complete page \<and> or_none (pr_next_cursor page) = None))
      (Inr page)))))))))))"

section \<open>Browser security\<close>

text \<open>
  \<open>csrf_token\<close> (\<open>None\<close> when \<open>encode\<close> raises) and \<open>require_same_origin_json_csrf\<close>. The secret is read by \<open>FileSecret\<close>; \<open>split\<close>
  is \<open>urlsplit\<close> to scheme and authority, \<open>None\<close> for its \<open>ValueError\<close>; \<open>url_scheme\<close> is the scheme of the
  request's own URL. \<open>compare_digest\<close> raises on text that is not ASCII.
\<close>

definition csrf_token :: "(bytes \<Rightarrow> bytes \<Rightarrow> str) \<Rightarrow> bytes \<Rightarrow> str \<Rightarrow> str option" where
  "csrf_token mac key session_value = map_option (mac key) (utf8_encode session_value)"

definition first_of :: "nat \<Rightarrow> str \<Rightarrow> str" where
  "first_of separator s = py_strip (takeWhile (\<lambda>c. c \<noteq> separator) s)"

definition header_or :: "(str \<times> str) list \<Rightarrow> string \<Rightarrow> str \<Rightarrow> str" where
  "header_or headers name fallback = (case get_header headers name of Some v \<Rightarrow> v | None \<Rightarrow> fallback)"

definition request_origin :: "str \<Rightarrow> str \<Rightarrow> (str \<times> str) list \<Rightarrow> str" where
  "request_origin public_origin url_scheme headers =
     (if public_origin \<noteq> [] then public_origin
      else first_of 44 (header_or headers ''x-forwarded-proto'' url_scheme) @ lit ''://''
        @ first_of 44 (header_or headers ''x-forwarded-host'' (header_or headers ''host'' [])))"

definition require_same_origin_json_csrf ::
  "(bytes \<Rightarrow> bytes \<Rightarrow> str) \<Rightarrow> (str \<Rightarrow> (str \<times> str) option) \<Rightarrow> str \<Rightarrow> str \<Rightarrow> bytes option \<Rightarrow> str \<Rightarrow> (str \<times> str) list
     \<Rightarrow> gateway_error + unit" where
  "require_same_origin_json_csrf mac split public_origin url_scheme key session_value headers =
     demand (Http_Error (HTTPException 415 ''JSON is required''))
       (lower (first_of 59 (header_or headers ''content-type'' [])) = lit ''application/json'')
    (and_then (or_raise (Http_Error (HTTPException 403 ''A same-origin request is required'')) (or_none (get_header headers ''origin''))) (\<lambda>origin.
     and_then (or_raise Unhandled_Error (split origin)) (\<lambda>supplied_origin.
     and_then (or_raise Unhandled_Error (split (request_origin public_origin url_scheme headers))) (\<lambda>expected_origin.
     demand (Http_Error (HTTPException 403 ''Cross-origin request rejected'')) (supplied_origin = expected_origin)
    (and_then (or_raise Unhandled_Error (case key of None \<Rightarrow> None | Some k \<Rightarrow> csrf_token mac k session_value)) (\<lambda>expected.
     let supplied = header_or headers ''x-csrf-token'' [] in
     demand (Http_Error (HTTPException 403 ''Invalid CSRF token'')) (supplied \<noteq> [])
    (demand Unhandled_Error (list_all (\<lambda>c. c < 128) supplied)
    (demand (Http_Error (HTTPException 403 ''Invalid CSRF token'')) (supplied = expected) (Inr ())))))))))"

end
