(* ===== verification/Gateway_Sync.thy ===== *)
theory Gateway_Sync
  imports Gateway_Client
begin

text \<open>
  The gateway's synchroniser (\<open>gateway/sync.py\<close>): which notebooks lack an exact index, and the
  export of a notebook from Novo into batches that the worker ingests. Novo and the worker are
  two worlds, \<open>'n\<close> and \<open>'w\<close>, that the calls in \<open>upstream\<close> change. \<open>asyncio.timeout\<close> may end any
  call with \<open>TimeoutError\<close> (\<open>Timed_Out\<close>); the loop that polls a job, which only that timeout bounds, has
  the number of its polls as fuel, and running out is the timeout.
\<close>

section \<open>The services\<close>

record ('n, 'w) upstream =
  up_sha :: "bytes \<Rightarrow> str"
  up_text_of :: "json \<Rightarrow> str"
  up_page_model :: "json \<Rightarrow> page_document option"
  up_context :: "'n \<Rightarrow> (gateway_error + (int \<times> novo_context option)) \<times> 'n"
  up_export :: "str \<Rightarrow> str \<Rightarrow> str option \<Rightarrow> int \<Rightarrow> 'n \<Rightarrow> (gateway_error + (int \<times> pages_response option)) \<times> 'n"
  up_index_status :: "str \<Rightarrow> notebook_scope list \<Rightarrow> 'w \<Rightarrow> (gateway_error + fields) \<times> 'w"
  up_ingest_batch :: "str \<Rightarrow> str \<Rightarrow> notebook_scope \<Rightarrow> nat \<Rightarrow> page_document list \<Rightarrow> 'w \<Rightarrow> (gateway_error + fields) \<times> 'w"
  up_ingest_finalize :: "str \<Rightarrow> str \<Rightarrow> notebook_scope \<Rightarrow> str \<Rightarrow> nat \<Rightarrow> nat \<Rightarrow> 'w \<Rightarrow> (gateway_error + fields) \<times> 'w"
  up_submit :: "str \<Rightarrow> str \<Rightarrow> str \<Rightarrow> notebook_scope list \<Rightarrow> gateway_job_request \<Rightarrow> 'w \<Rightarrow> (gateway_error + fields) \<times> 'w"
  up_job_status :: "str \<Rightarrow> 'w \<Rightarrow> (gateway_error + fields) \<times> 'w"
  up_polls :: nat

record sync_settings =
  st_index_schema_version :: str
  st_export_max_batches :: nat
  st_export_max_pages :: nat
  st_export_page_limit :: int
  st_ingest_batch_max_bytes :: nat
  st_revision_retries :: nat

section \<open>Missing indexes\<close>

type_synonym index_key = "str \<times> str \<times> str"

definition scope_index_key :: "notebook_scope \<Rightarrow> index_key" where
  "scope_index_key s = (notebook_id s, content_revision s, index_schema_version s)"

definition row_index_key :: "(json \<Rightarrow> str) \<Rightarrow> fields \<Rightarrow> index_key" where
  "row_index_key text_of row =
     (text_or text_of row ''notebookId'' [], text_or text_of row ''contentRevision'' [], text_or text_of row ''indexSchemaVersion'' [])"

fun read_index_rows :: "(json \<Rightarrow> str) \<Rightarrow> (index_key \<times> bool) list \<Rightarrow> json list \<Rightarrow> gateway_error + (index_key \<times> bool) list" where
  "read_index_rows text_of by_key [] = Inr by_key"
| "read_index_rows text_of by_key (JObj row # rows) =
     (let key = row_index_key text_of row in
      demand (rejected ''Worker returned duplicate index-status entries'') (key \<notin> fst ` set by_key)
      (case get_field row ''exactReady'' of
         JBool exact_ready \<Rightarrow> read_index_rows text_of (by_key @ [(key, exact_ready)]) rows
       | _ \<Rightarrow> Inl (rejected ''Worker returned an invalid index-status readiness value'')))"
| "read_index_rows text_of by_key (_ # rows) = Inl (rejected ''Worker returned an invalid index-status response'')"

fun collect_missing :: "(index_key \<times> bool) list \<Rightarrow> notebook_scope list \<Rightarrow> gateway_error + notebook_scope list" where
  "collect_missing by_key [] = Inr []"
| "collect_missing by_key (entry # entries) =
     (case map_of by_key (scope_index_key entry) of
        None \<Rightarrow> Inl (rejected ''Worker omitted an index-status entry'')
      | Some exact_ready \<Rightarrow> and_then (collect_missing by_key entries)
          (\<lambda>missing. Inr (if exact_ready then missing else entry # missing)))"

definition missing_scope ::
  "('n, 'w) upstream \<Rightarrow> str \<Rightarrow> notebook_scope list \<Rightarrow> 'w \<Rightarrow> (gateway_error + notebook_scope list) \<times> 'w" where
  "missing_scope up actor scopes w =
     (let (response, w') = up_index_status up actor scopes w in
      (and_then response (\<lambda>payload.
         case get_field payload ''indexes'' of
           JArr rows \<Rightarrow> demand (rejected ''Worker returned an invalid index-status response'') (length rows = length scopes)
             (and_then (read_index_rows (up_text_of up) [] rows) (\<lambda>by_key. collect_missing by_key scopes))
         | _ \<Rightarrow> Inl (rejected ''Worker returned an invalid index-status response'')), w'))"

definition require_indexes_ready :: "('n, 'w) upstream \<Rightarrow> str \<Rightarrow> notebook_scope list \<Rightarrow> 'w \<Rightarrow> (gateway_error + unit) \<times> 'w" where
  "require_indexes_ready up actor scopes w =
     (let (missing, w') = missing_scope up actor scopes w in
      (and_then missing (\<lambda>m. demand (Indexes_Not_Ready (length m) (length scopes)) (m = []) (Inr ())), w'))"

section \<open>Batches and checksums\<close>

text \<open>
  \<open>CanonicalDocumentChecksum\<close>: the bytes fed to the hash so far, and whether a page came. \<open>None\<close> is the
  \<open>ValueError\<close> of \<open>canonical_json\<close>.
\<close>

record checksum_state =
  cd_fed :: bytes
  cd_first :: bool

definition checksum_start :: checksum_state where
  "checksum_start = \<lparr>cd_fed = [91], cd_first = True\<rparr>"

fun checksum_add :: "page_document list \<Rightarrow> checksum_state \<Rightarrow> checksum_state option" where
  "checksum_add [] c = Some c"
| "checksum_add (p # ps) c =
     (case canonical_json (page_json p) of None \<Rightarrow> None
      | Some encoded \<Rightarrow> checksum_add ps \<lparr>cd_fed = cd_fed c @ (if cd_first c then [] else [44]) @ encoded, cd_first = False\<rparr>)"

definition checksum_hexdigest :: "(bytes \<Rightarrow> str) \<Rightarrow> checksum_state \<Rightarrow> str" where
  "checksum_hexdigest sha c = lit ''sha256:'' @ sha (cd_fed c @ [93])"

text \<open>
  \<open>_partition_page_batches\<close> is a generator: \<open>next_batch\<close> runs it to its next \<open>yield\<close> or its end, and
  gives the batch with the pages that are left, of which the first opens the next batch.
\<close>

fun next_batch :: "nat \<Rightarrow> page_document list \<Rightarrow> nat \<Rightarrow> page_document list \<Rightarrow> gateway_error + (page_document list \<times> page_document list)" where
  "next_batch limit batch batch_bytes [] = Inr (batch, [])"
| "next_batch limit batch batch_bytes (p # ps) =
     and_then (or_raise Unhandled_Error (canonical_json (page_json p))) (\<lambda>encoded.
      let candidate_bytes = batch_bytes + length encoded + (if batch = [] then 0 else 1) in
      if candidate_bytes > limit then (if batch = [] then Inl Export_Limit_Exceeded else Inr (batch, p # ps))
      else next_batch limit (batch @ [p]) candidate_bytes ps)"

lemma next_batch_split:
  "next_batch limit batch n ps = Inr (b, rest) \<Longrightarrow> b @ rest = batch @ ps \<and> (batch \<noteq> [] \<or> ps \<noteq> [] \<longrightarrow> b \<noteq> [])"
  by (induction batch n ps rule: next_batch.induct [of _ limit]) (auto simp: and_then_Inr Let_def split: if_splits)

lemma next_batch_shorter: "next_batch limit [] 2 (p # ps) = Inr (b, rest) \<Longrightarrow> length rest < Suc (length ps)"
proof -
  assume "next_batch limit [] 2 (p # ps) = Inr (b, rest)"
  from next_batch_split [OF this] have "length b + length rest = Suc (length ps)" "b \<noteq> []"
    by (auto dest: arg_cong [where f = length])
  then show ?thesis by (cases b) auto
qed

function partition_page_batches :: "nat \<Rightarrow> page_document list \<Rightarrow> gateway_error + page_document list list" where
  "partition_page_batches limit [] = Inr []"
| "partition_page_batches limit (p # ps) =
     (case next_batch limit [] 2 (p # ps) of Inl e \<Rightarrow> Inl e
      | Inr (batch, rest) \<Rightarrow> and_then (partition_page_batches limit rest) (\<lambda>batches. Inr (batch # batches)))"
  by pat_completeness auto
termination
  by (relation "measure (\<lambda>(limit, ps). length ps)") (auto simp del: next_batch.simps dest: next_batch_shorter)

section \<open>Exporting a notebook\<close>

text \<open>\<open>_idempotency_key\<close>; \<open>None\<close> when \<open>canonical_json\<close> raises.\<close>

definition sync_key :: "(bytes \<Rightarrow> str) \<Rightarrow> string \<Rightarrow> notebook_scope list \<Rightarrow> str \<Rightarrow> str option" where
  "sync_key sha operation scopes extra =
     map_option (\<lambda>material. lit ''sync-'' @ sha material)
       (canonical_json (JObj [(lit ''operation'', JStr (lit operation)), (lit ''scope'', JArr (map scope_json scopes)),
          (lit ''extra'', JStr extra)]))"

text \<open>\<open>_wait_for_job\<close>: the job of the response, then the polls.\<close>

definition job_matches :: "(json \<Rightarrow> str) \<Rightarrow> fields \<Rightarrow> str \<Rightarrow> string \<Rightarrow> bool" where
  "job_matches text_of job job_id operation \<longleftrightarrow>
     text_or text_of job ''jobId'' [] = job_id \<and> text_or text_of job ''operation'' [] = lit operation"

fun poll_job :: "('n, 'w) upstream \<Rightarrow> string \<Rightarrow> str \<Rightarrow> nat \<Rightarrow> fields \<Rightarrow> 'w \<Rightarrow> (gateway_error + fields) \<times> 'w" where
  "poll_job up operation job_id fuel job w =
     (if state_in (up_text_of up) job [''succeeded'', ''success'', ''completed''] then (Inr job, w)
      else if state_in (up_text_of up) job [''failed'', ''canceled'', ''cancelled''] then
        (Inl (Synchronization_Error (case get_field job ''error'' of
            JObj e \<Rightarrow> text_or (up_text_of up) e ''message'' ''Notebook preparation failed'' | _ \<Rightarrow> lit ''Notebook preparation failed'')), w)
      else if \<not> state_in (up_text_of up) job [''queued'', ''running''] then
        (Inl (rejected ''Worker returned an invalid synchronization job state''), w)
      else (case fuel of 0 \<Rightarrow> (Inl Timed_Out, w)
        | Suc fuel' \<Rightarrow>
            (case up_job_status up job_id w of
               (Inl e, w') \<Rightarrow> (Inl e, w')
             | (Inr payload, w') \<Rightarrow>
                 (case unwrap_job payload of Inl e \<Rightarrow> (Inl e, w')
                  | Inr next_job \<Rightarrow>
                      if job_matches (up_text_of up) next_job job_id operation then poll_job up operation job_id fuel' next_job w'
                      else (Inl (rejected ''Worker returned the wrong synchronization job''), w')))))"

declare poll_job.simps [simp del]

definition wait_for_job :: "('n, 'w) upstream \<Rightarrow> string \<Rightarrow> fields \<Rightarrow> 'w \<Rightarrow> (gateway_error + fields) \<times> 'w" where
  "wait_for_job up operation submitted w =
     (case unwrap_job submitted of Inl e \<Rightarrow> (Inl e, w)
      | Inr job \<Rightarrow>
          (let job_id = text_or (up_text_of up) job ''jobId'' [] in
           if job_id \<noteq> [] \<and> job_matches (up_text_of up) job job_id operation then poll_job up operation job_id (up_polls up) job w
           else (Inl (rejected ''Worker returned an invalid synchronization job''), w)))"

text \<open>One batch: its checksum and key, the call, and the wait for the job.\<close>

definition ingest_one ::
  "('n, 'w) upstream \<Rightarrow> str \<Rightarrow> notebook_scope \<Rightarrow> nat \<Rightarrow> page_document list \<Rightarrow> 'w \<Rightarrow> (gateway_error + unit) \<times> 'w" where
  "ingest_one up actor s number batch w =
     (case and_then (or_raise Unhandled_Error (ingest_pages_checksum (up_sha up) batch)) (\<lambda>checksum.
          or_raise Unhandled_Error (sync_key (up_sha up) ''ingest-batch'' [s] (render_nat number @ [58] @ checksum))) of
        Inl e \<Rightarrow> (Inl e, w)
      | Inr key \<Rightarrow>
          (case up_ingest_batch up key actor s number batch w of
             (Inl e, w1) \<Rightarrow> (Inl e, w1)
           | (Inr submitted, w1) \<Rightarrow> (case wait_for_job up ''ingest_batch'' submitted w1 of
               (Inl e, w2) \<Rightarrow> (Inl e, w2) | (Inr job, w2) \<Rightarrow> (Inr (), w2))))"

definition finalize_one ::
  "('n, 'w) upstream \<Rightarrow> str \<Rightarrow> notebook_scope \<Rightarrow> str \<Rightarrow> nat \<Rightarrow> nat \<Rightarrow> 'w \<Rightarrow> (gateway_error + unit) \<times> 'w" where
  "finalize_one up actor s checksum page_total batch_total w =
     (case or_raise Unhandled_Error (sync_key (up_sha up) ''ingest-finalize'' [s]
          (render_nat page_total @ [58] @ render_nat batch_total @ [58] @ checksum)) of
        Inl e \<Rightarrow> (Inl e, w)
      | Inr key \<Rightarrow>
          (case up_ingest_finalize up key actor s checksum page_total batch_total w of
             (Inl e, w1) \<Rightarrow> (Inl e, w1)
           | (Inr submitted, w1) \<Rightarrow> (case wait_for_job up ''ingest_finalize'' submitted w1 of
               (Inl e, w2) \<Rightarrow> (Inl e, w2) | (Inr job, w2) \<Rightarrow> (Inr (), w2))))"

text \<open>The inner loop: each batch of the generator is ingested before the next one is formed.\<close>

function ingest_pages ::
  "('n, 'w) upstream \<Rightarrow> nat \<Rightarrow> str \<Rightarrow> notebook_scope \<Rightarrow> nat \<Rightarrow> page_document list \<Rightarrow> 'w \<Rightarrow> (gateway_error + nat) \<times> 'w" where
  "ingest_pages up limit actor s number [] w = (Inr number, w)"
| "ingest_pages up limit actor s number (p # ps) w =
     (case next_batch limit [] 2 (p # ps) of Inl e \<Rightarrow> (Inl e, w)
      | Inr (batch, rest) \<Rightarrow>
          (case ingest_one up actor s number batch w of
             (Inl e, w') \<Rightarrow> (Inl e, w')
           | (Inr u, w') \<Rightarrow> ingest_pages up limit actor s (Suc number) rest w'))"
  by pat_completeness auto
termination
  by (relation "measure (\<lambda>(up, limit, actor, s, number, ps, w). length ps)") (auto simp del: next_batch.simps dest: next_batch_shorter)

text \<open>The variables of the outer loop, one round of it, and the loop.\<close>

record export_state =
  xs_cursor :: "str option"
  xs_seen_cursors :: "str list"
  xs_seen_pages :: "str list"
  xs_page_count :: nat
  xs_batch_count :: nat
  xs_requests :: nat
  xs_checksum :: checksum_state

definition export_start :: export_state where
  "export_start = \<lparr>xs_cursor = None, xs_seen_cursors = [], xs_seen_pages = [], xs_page_count = 0, xs_batch_count = 0,
     xs_requests = 0, xs_checksum = checksum_start\<rparr>"

text \<open>What a round checks of an exported page list, and the checksum with it.\<close>

definition accept_pages ::
  "('n, 'w) upstream \<Rightarrow> sync_settings \<Rightarrow> export_state \<Rightarrow> pages_response
     \<Rightarrow> gateway_error + (page_document list \<times> checksum_state)" where
  "accept_pages up st x exported =
     and_then (or_raise (Synchronization_Error (lit ''Novo page export contained unsupported page content''))
       (option_list (map (up_page_model up \<circ> worker_document) (pr_pages exported)))) (\<lambda>documents.
     let ids = map page_id documents in
     demand (Synchronization_Error (lit ''Novo page export returned a duplicate page''))
       (distinct ids \<and> set ids \<inter> set (xs_seen_pages x) = {})
    (demand Export_Limit_Exceeded (xs_page_count x + length documents \<le> st_export_max_pages st)
    (and_then (or_raise Unhandled_Error (checksum_add documents (xs_checksum x))) (\<lambda>c. Inr (documents, c)))))"

definition export_round ::
  "('n, 'w) upstream \<Rightarrow> sync_settings \<Rightarrow> str \<Rightarrow> notebook_scope \<Rightarrow> export_state \<Rightarrow> 'n \<times> 'w
     \<Rightarrow> (gateway_error + (export_state \<times> bool)) \<times> ('n \<times> 'w)" where
  "export_round up st actor s x world =
     (let (nv, w) = world; requests = Suc (xs_requests x) in
      if requests > st_export_max_batches st then (Inl Export_Limit_Exceeded, world)
      else case export_request_ok (content_revision s) (st_export_page_limit st) of Inl e \<Rightarrow> (Inl e, world)
      | Inr _ \<Rightarrow>
          (let (got, nv') = up_export up (notebook_id s) (content_revision s) (xs_cursor x) (st_export_page_limit st) nv in
           case and_then (export_pages (notebook_id s) (content_revision s) (st_export_page_limit st) got) (\<lambda>exported.
                  and_then (accept_pages up st x exported) (\<lambda>(documents, c). Inr (exported, documents, c))) of
             Inl e \<Rightarrow> (Inl e, (nv', w))
           | Inr (exported, documents, c) \<Rightarrow>
               (case ingest_pages up (st_ingest_batch_max_bytes st) actor s (xs_batch_count x) documents w of
                  (Inl e, w') \<Rightarrow> (Inl e, (nv', w'))
                | (Inr batch_count', w') \<Rightarrow>
                    (let x' = x\<lparr>xs_seen_pages := xs_seen_pages x @ map page_id documents,
                         xs_page_count := xs_page_count x + length documents, xs_batch_count := batch_count',
                         xs_requests := requests, xs_checksum := c\<rparr> in
                     (if pr_complete exported then Inr (x', True)
                      else case or_none (pr_next_cursor exported) of
                        None \<Rightarrow> Inl (Synchronization_Error (lit ''Novo page export returned an invalid cursor sequence''))
                      | Some next_cursor \<Rightarrow>
                          demand (Synchronization_Error (lit ''Novo page export returned an invalid cursor sequence''))
                            (next_cursor \<notin> set (xs_seen_cursors x))
                            (Inr (x'\<lparr>xs_seen_cursors := xs_seen_cursors x @ [next_cursor], xs_cursor := Some next_cursor\<rparr>, False)),
                      (nv', w'))))))"

lemma export_round_requests:
  "export_round up st actor s x world = (Inr (x', finished), world') \<Longrightarrow>
     xs_requests x' = Suc (xs_requests x) \<and> xs_requests x < st_export_max_batches st"
  by (auto simp: export_round_def Let_def split: prod.splits if_splits sum.splits option.splits)

function export_loop ::
  "('n, 'w) upstream \<Rightarrow> sync_settings \<Rightarrow> str \<Rightarrow> notebook_scope \<Rightarrow> export_state \<Rightarrow> 'n \<times> 'w
     \<Rightarrow> (gateway_error + export_state) \<times> ('n \<times> 'w)" where
  "export_loop up st actor s x world =
     (case export_round up st actor s x world of
        (Inl e, world') \<Rightarrow> (Inl e, world')
      | (Inr (x', finished), world') \<Rightarrow> if finished then (Inr x', world') else export_loop up st actor s x' world')"
  by pat_completeness auto
termination
  by (relation "measure (\<lambda>(up, st, actor, s, x, world). st_export_max_batches st - xs_requests x)")
    (auto dest!: export_round_requests [OF sym])

declare export_loop.simps [simp del]

record export_summary =
  es_notebook_id :: str
  es_page_count :: nat
  es_batch_count :: nat
  es_document_checksum :: str

definition export_and_ingest ::
  "('n, 'w) upstream \<Rightarrow> sync_settings \<Rightarrow> str \<Rightarrow> notebook_scope \<Rightarrow> 'n \<times> 'w \<Rightarrow> (gateway_error + export_summary) \<times> ('n \<times> 'w)" where
  "export_and_ingest up st actor s world =
     (case export_loop up st actor s export_start world of
        (Inl e, world') \<Rightarrow> (Inl e, world')
      | (Inr x, (nv, w)) \<Rightarrow>
          (let checksum = checksum_hexdigest (up_sha up) (xs_checksum x) in
           case finalize_one up actor s checksum (xs_page_count x) (xs_batch_count x) w of
             (Inl e, w') \<Rightarrow> (Inl e, (nv, w'))
           | (Inr u, w') \<Rightarrow>
               (Inr \<lparr>es_notebook_id = notebook_id s, es_page_count = xs_page_count x, es_batch_count = xs_batch_count x,
                     es_document_checksum = checksum\<rparr>, (nv, w'))))"

text \<open>\<open>prepare_documents_for_rebuild\<close>: the missing notebooks in turn, under one timeout.\<close>

fun export_missing ::
  "('n, 'w) upstream \<Rightarrow> sync_settings \<Rightarrow> str \<Rightarrow> notebook_scope list \<Rightarrow> 'n \<times> 'w \<Rightarrow> (gateway_error + unit) \<times> ('n \<times> 'w)" where
  "export_missing up st actor [] world = (Inr (), world)"
| "export_missing up st actor (s # rest) world =
     (case export_and_ingest up st actor s world of
        (Inl e, world') \<Rightarrow> (Inl e, world') | (Inr summary, world') \<Rightarrow> export_missing up st actor rest world')"

definition on_timeout :: "gateway_error + 'a \<Rightarrow> gateway_error + 'a" where
  "on_timeout r = (case r of Inl Timed_Out \<Rightarrow> Inl Synchronization_Timeout | _ \<Rightarrow> r)"

definition prepare_documents_for_rebuild ::
  "('n, 'w) upstream \<Rightarrow> sync_settings \<Rightarrow> str \<Rightarrow> notebook_scope list \<Rightarrow> 'n \<times> 'w \<Rightarrow> (gateway_error + unit) \<times> ('n \<times> 'w)" where
  "prepare_documents_for_rebuild up st actor scopes world =
     (let (missing, w') = missing_scope up actor scopes (snd world);
          (outcome, world') = (case missing of Inl e \<Rightarrow> (Inl e, (fst world, w'))
             | Inr m \<Rightarrow> export_missing up st actor m (fst world, w'))
      in (on_timeout outcome, world'))"

end
