(* ===== verification/Gateway_App.thy ===== *)
theory Gateway_App
  imports Gateway_Sync
begin

text \<open>
  The gateway's API (\<open>gateway/app.py\<close>): which notebook revisions a command covers, the preparation
  of a stable scope, submission, and the release of job states and results to their owner. The
  state is Novo, the worker, the ownership store and the number of clock readings; the services are
  those of theory \<open>Gateway_Sync\<close> for the session of the browser. Cookies, pydantic and the clock are
  parameters.
\<close>

section \<open>State and services\<close>

record ('n, 'w) gateway =
  gw_novo :: 'n
  gw_worker :: 'w
  gw_owners :: owner_store
  gw_ticks :: nat

record ('n, 'w) gateway_services =
  gs_upstream :: "str \<Rightarrow> ('n, 'w) upstream"
  gs_settings :: sync_settings
  gs_session :: "http_request \<Rightarrow> str"
  gs_mac :: "bytes \<Rightarrow> bytes \<Rightarrow> str"
  gs_split :: "str \<Rightarrow> (str \<times> str) option"
  gs_public_origin :: str
  gs_url_scheme :: str
  gs_csrf_secret :: "bytes option"
  gs_max_request_bytes :: nat
  gs_parse :: "bytes \<Rightarrow> gateway_job_request option"
  gs_detail_model :: "json \<Rightarrow> progress_detail option"
  gs_strip :: "str \<Rightarrow> str"
  gs_new_request_id :: "nat \<Rightarrow> str"
  gs_clock :: "nat \<Rightarrow> int"
  gs_ownership_ttl :: int

abbreviation http_error :: "int \<Rightarrow> string \<Rightarrow> gateway_error" where
  "http_error status detail \<equiv> Http_Error (HTTPException status detail)"

abbreviation schema_version :: "('n, 'w) gateway_services \<Rightarrow> str" where
  "schema_version sv \<equiv> st_index_schema_version (gs_settings sv)"

text \<open>\<open>novo_client.context\<close>, \<open>session_and_context\<close>, and calls of the worker.\<close>

definition load_context ::
  "('n, 'w) gateway_services \<Rightarrow> str \<Rightarrow> ('n, 'w) gateway \<Rightarrow> (gateway_error + novo_context) \<times> ('n, 'w) gateway" where
  "load_context sv session_value g =
     (let (got, nv) = up_context (gs_upstream sv session_value) (gw_novo g) in (novo_context_call got, g\<lparr>gw_novo := nv\<rparr>))"

definition session_and_context ::
  "('n, 'w) gateway_services \<Rightarrow> http_request \<Rightarrow> ('n, 'w) gateway \<Rightarrow> (gateway_error + novo_context) \<times> ('n, 'w) gateway" where
  "session_and_context sv r g =
     (if gs_session sv r = [] then (Inl Novo_Unauthenticated, g) else load_context sv (gs_session sv r) g)"

definition call_worker ::
  "('w \<Rightarrow> (gateway_error + 'a) \<times> 'w) \<Rightarrow> ('n, 'w) gateway \<Rightarrow> (gateway_error + 'a) \<times> ('n, 'w) gateway" where
  "call_worker call g = (let (answer, w) = call (gw_worker g) in (answer, g\<lparr>gw_worker := w\<rparr>))"

section \<open>Scopes\<close>

text \<open>The dictionary of the notebooks by identifier: a later one replaces an earlier one in place.\<close>

definition by_id :: "novo_notebook list \<Rightarrow> novo_notebook list" where
  "by_id notebooks = map (\<lambda>i. the (map_of (rev (map (\<lambda>nb. (nb_id nb, nb)) notebooks)) i))
     (rev (remdups (rev (map nb_id notebooks))))"

definition notebook_ids :: "novo_context \<Rightarrow> str list" where
  "notebook_ids cx = map nb_id (cx_notebooks cx)"

definition revision_of :: "novo_context \<Rightarrow> str \<Rightarrow> str option" where
  "revision_of cx = map_of (rev (map (\<lambda>nb. (nb_id nb, nb_revision nb)) (cx_notebooks cx)))"

abbreviation lifecycle_operation :: "gateway_operation \<Rightarrow> bool" where
  "lifecycle_operation operation \<equiv> operation = GW_MODEL_START \<or> operation = GW_MODEL_STOP"

definition resolve_scope :: "novo_context \<Rightarrow> gateway_job_request \<Rightarrow> str \<Rightarrow> gateway_error + notebook_scope list" where
  "resolve_scope cx submitted schema =
     (if lifecycle_operation (gj_operation submitted) then Inr []
      else let known = by_id (cx_notebooks cx) in
        and_then (case gj_corpus submitted of None \<Rightarrow> Inl (http_error 404 ''Corpus not found'')
          | Some corpus \<Rightarrow>
              if corpus = lit ''novo:all'' then Inr known
              else if take 5 corpus = lit ''novo:'' then
                (case find (\<lambda>nb. nb_id nb = drop 5 corpus) known of
                   None \<Rightarrow> Inl (http_error 404 ''Corpus not found'') | Some nb \<Rightarrow> Inr [nb])
              else Inl (http_error 404 ''Corpus not found'')) (\<lambda>selected.
        demand (http_error 409 ''No readable notebooks are available'') (selected \<noteq> [])
          (Inr (map (\<lambda>nb. \<lparr>notebook_id = nb_id nb, content_revision = nb_revision nb, index_schema_version = schema\<rparr>)
            (sort_key nb_id selected)))))"

section \<open>A stable scope\<close>

text \<open>One attempt of \<open>synchronized_scope\<close>: prepare, and read Novo's context again.\<close>

definition prepare_scope ::
  "('n, 'w) gateway_services \<Rightarrow> str \<Rightarrow> gateway_job_request \<Rightarrow> str \<Rightarrow> notebook_scope list \<Rightarrow> ('n, 'w) gateway
     \<Rightarrow> (gateway_error + unit) \<times> ('n, 'w) gateway" where
  "prepare_scope sv session_value submitted actor scopes g =
     (let up = gs_upstream sv session_value in
      if gj_operation submitted = ASK then call_worker (require_indexes_ready up actor scopes) g
      else let (outcome, (nv, w)) = prepare_documents_for_rebuild up (gs_settings sv) actor scopes (gw_novo g, gw_worker g)
        in (outcome, g\<lparr>gw_novo := nv, gw_worker := w\<rparr>))"

definition scope_attempt ::
  "('n, 'w) gateway_services \<Rightarrow> str \<Rightarrow> gateway_job_request \<Rightarrow> novo_context \<Rightarrow> ('n, 'w) gateway
     \<Rightarrow> (gateway_error + (novo_context \<times> notebook_scope list)) \<times> ('n, 'w) gateway" where
  "scope_attempt sv session_value submitted cx g =
     (case resolve_scope cx submitted (schema_version sv) of Inl e \<Rightarrow> (Inl e, g)
      | Inr scopes \<Rightarrow>
          (case prepare_scope sv session_value submitted (us_id (cx_user cx)) scopes g of
             (Inl e, g1) \<Rightarrow> (Inl e, g1)
           | (Inr u, g1) \<Rightarrow>
               (let (loaded, g2) = load_context sv session_value g1 in
                (and_then loaded (\<lambda>refreshed.
                   demand Novo_Unauthenticated (us_id (cx_user refreshed) = us_id (cx_user cx))
                  (and_then (resolve_scope refreshed submitted (schema_version sv)) (\<lambda>refreshed_scope.
                   demand (Novo_Revision_Changed (notebook_id (hd scopes)) (content_revision (hd scopes)))
                     (refreshed_scope = scopes) (Inr (refreshed, refreshed_scope))))), g2))))"

definition worth_retrying :: "gateway_error \<Rightarrow> bool" where
  "worth_retrying e \<longleftrightarrow> (case e of Novo_Revision_Changed _ _ \<Rightarrow> True | Novo_Notebook_Unavailable \<Rightarrow> True | _ \<Rightarrow> False)"

text \<open>The loop over the attempts; the number is of the retries that are left.\<close>

primrec scope_attempts ::
  "('n, 'w) gateway_services \<Rightarrow> str \<Rightarrow> gateway_job_request \<Rightarrow> nat \<Rightarrow> novo_context \<Rightarrow> ('n, 'w) gateway
     \<Rightarrow> (gateway_error + (novo_context \<times> notebook_scope list)) \<times> ('n, 'w) gateway" where
  "scope_attempts sv session_value submitted 0 cx g =
     (let (outcome, g') = scope_attempt sv session_value submitted cx g in
      (case outcome of Inl e \<Rightarrow> if worth_retrying e
           then Inl (http_error 409 ''Novo notebook content or access changed during preparation. Try again.'') else Inl e
         | Inr x \<Rightarrow> Inr x, g'))"
| "scope_attempts sv session_value submitted (Suc retries) cx g =
     (case scope_attempt sv session_value submitted cx g of
        (Inr x, g') \<Rightarrow> (Inr x, g')
      | (Inl e, g') \<Rightarrow>
          if worth_retrying e
          then (case load_context sv session_value g' of
                  (Inl e', g'') \<Rightarrow> (Inl e', g'')
                | (Inr cx', g'') \<Rightarrow> scope_attempts sv session_value submitted retries cx' g'')
          else (Inl e, g'))"

definition synchronized_scope ::
  "('n, 'w) gateway_services \<Rightarrow> str \<Rightarrow> novo_context \<Rightarrow> gateway_job_request \<Rightarrow> ('n, 'w) gateway
     \<Rightarrow> (gateway_error + (novo_context \<times> notebook_scope list)) \<times> ('n, 'w) gateway" where
  "synchronized_scope sv session_value initial_context submitted g =
     (if lifecycle_operation (gj_operation submitted) then (Inr (initial_context, []), g)
      else scope_attempts sv session_value submitted (st_revision_retries (gs_settings sv)) initial_context g)"

section \<open>Submitting\<close>

record job_accepted =
  ja_job_id :: str
  ja_state :: str
  ja_operation :: str

definition idempotency_key_ok :: "str \<Rightarrow> bool" where
  "idempotency_key_ok s \<longleftrightarrow> 8 \<le> length s \<and> gateway_token s"

text \<open>What is checked before the worker is involved: the command, the request ID and the key.\<close>

definition read_command ::
  "('n, 'w) gateway_services \<Rightarrow> http_request \<Rightarrow> str \<Rightarrow> gateway_error + (gateway_job_request \<times> str)" where
  "read_command sv r rid =
     and_then (require_same_origin_json_csrf (gs_mac sv) (gs_split sv) (gs_public_origin sv) (gs_url_scheme sv)
        (gs_csrf_secret sv) (gs_session sv r) (hr_headers r)) (\<lambda>_.
     and_then (case read_bounded_json_body (gs_max_request_bytes sv) r of
          Inl None \<Rightarrow> Inl Unhandled_Error | Inl (Some e) \<Rightarrow> Inl (Http_Error e) | Inr body \<Rightarrow> Inr body) (\<lambda>body.
     and_then (or_raise (http_error 400 ''Request body is invalid'') (gs_parse sv body)) (\<lambda>submitted.
     let key = (case or_none (get_header (hr_headers r) ''idempotency-key'') of Some k \<Rightarrow> k | None \<Rightarrow> rid) in
     demand (http_error 400 ''Invalid Idempotency-Key'') (idempotency_key_ok key) (Inr (submitted, key)))))"

definition record_owner ::
  "('n, 'w) gateway_services \<Rightarrow> str \<Rightarrow> str \<Rightarrow> str \<Rightarrow> notebook_scope list \<Rightarrow> ('n, 'w) gateway
     \<Rightarrow> (gateway_error + owned_job) \<times> ('n, 'w) gateway" where
  "record_owner sv job_id user_id operation scopes g =
     (let (outcome, rows) = add_owner (gs_strip sv) (gs_ownership_ttl sv) (gs_clock sv (gw_ticks g)) (gs_clock sv (Suc (gw_ticks g)))
            job_id user_id operation scopes (gw_owners g)
      in (case outcome of Inl e \<Rightarrow> Inl Unhandled_Error | Inr row \<Rightarrow> Inr row,
          g\<lparr>gw_owners := rows, gw_ticks := gw_ticks g + 2\<rparr>))"

definition submit_gateway_job ::
  "('n, 'w) gateway_services \<Rightarrow> http_request \<Rightarrow> ('n, 'w) gateway \<Rightarrow> (gateway_error + job_accepted) \<times> ('n, 'w) gateway" where
  "submit_gateway_job sv r g =
     (case session_and_context sv r g of (Inl e, g1) \<Rightarrow> (Inl e, g1)
      | (Inr cx, g1) \<Rightarrow>
        (let rid = gs_new_request_id sv (gw_ticks g1) in
         case read_command sv r rid of Inl e \<Rightarrow> (Inl e, g1)
         | Inr (submitted, key) \<Rightarrow>
          (case synchronized_scope sv (gs_session sv r) cx submitted g1 of (Inl e, g2) \<Rightarrow> (Inl e, g2)
           | (Inr (cx2, scopes), g2) \<Rightarrow>
            (case call_worker (up_submit (gs_upstream sv (gs_session sv r)) rid key (us_id (cx_user cx2)) scopes submitted) g2 of
               (Inl e, g3) \<Rightarrow> (Inl e, g3)
             | (Inr response, g3) \<Rightarrow>
              (let text_of = up_text_of (gs_upstream sv (gs_session sv r)) in
               case and_then (unwrap_job response) (\<lambda>job.
                    let job_id = text_or text_of job ''jobId'' [] in
                    demand (rejected ''Worker did not return a jobId'') (job_id \<noteq> []) (Inr (job_id, job))) of
                 Inl e \<Rightarrow> (Inl e, g3)
               | Inr (job_id, job) \<Rightarrow>
                (case record_owner sv job_id (us_id (cx_user cx2)) (worker_operation (gj_operation submitted)) scopes g3 of
                   (Inl e, g4) \<Rightarrow> (Inl e, g4)
                 | (Inr row, g4) \<Rightarrow>
                     (Inr \<lparr>ja_job_id = job_id, ja_state = text_or text_of job ''state'' ''queued'',
                           ja_operation = worker_operation (gj_operation submitted)\<rparr>, g4)))))))"

section \<open>Releasing job states and results\<close>

text \<open>\<open>job_store.get\<close>, at one reading of the clock.\<close>

definition load_owner ::
  "('n, 'w) gateway_services \<Rightarrow> str \<Rightarrow> ('n, 'w) gateway \<Rightarrow> owned_job option \<times> ('n, 'w) gateway" where
  "load_owner sv job_id g =
     (let (owned, rows) = get_owner (gs_ownership_ttl sv) (gs_clock sv (gw_ticks g)) job_id (gw_owners g)
      in (owned, g\<lparr>gw_owners := rows, gw_ticks := Suc (gw_ticks g)\<rparr>))"

definition check_owned :: "novo_context \<Rightarrow> owned_job option \<Rightarrow> str \<Rightarrow> gateway_error + owned_job" where
  "check_owned cx owned schema =
     and_then (or_raise (http_error 404 ''Job not found'') owned) (\<lambda>job.
     demand (http_error 404 ''Job not found'') (oj_user job = us_id (cx_user cx))
    (demand (http_error 403 ''Notebook access changed before job release'') (set (oj_notebooks job) \<subseteq> set (notebook_ids cx))
    (and_then (or_raise (http_error 409 ''Notebook content changed before job release. Submit a new request.'') (oj_scope job)) (\<lambda>scopes.
     demand (http_error 409 ''Notebook content changed before job release. Submit a new request.'')
       (list_all (\<lambda>s. revision_of cx (notebook_id s) = Some (content_revision s) \<and> index_schema_version s = schema) scopes)
       (Inr job)))))"

definition authorize_owned_job ::
  "('n, 'w) gateway_services \<Rightarrow> http_request \<Rightarrow> str \<Rightarrow> ('n, 'w) gateway
     \<Rightarrow> (gateway_error + (novo_context \<times> owned_job)) \<times> ('n, 'w) gateway" where
  "authorize_owned_job sv r job_id g =
     (case session_and_context sv r g of (Inl e, g1) \<Rightarrow> (Inl e, g1)
      | (Inr cx, g1) \<Rightarrow>
          (let (owned, g2) = load_owner sv job_id g1
           in (and_then (check_owned cx owned (schema_version sv)) (\<lambda>job. Inr (cx, job)), g2)))"

text \<open>
  \<open>assert_result_scope\<close>: the rows of the result's lists name allowed notebooks only, and every
  source URL is a path of the same origin. A field that is no string is read by \<open>str\<close>.
\<close>

definition result_rows :: "fields \<Rightarrow> json list" where
  "result_rows fs = concat (map (\<lambda>name. case get_field fs name of JArr rows \<Rightarrow> rows | _ \<Rightarrow> [])
     [''hits'', ''sources'', ''citations'', ''indexes''])"

definition row_notebook :: "(json \<Rightarrow> str) \<Rightarrow> fields \<Rightarrow> str option" where
  "row_notebook text_of row =
     (if truthy (map_of row (lit ''notebookId'')) then Some (py_str text_of (get_field row ''notebookId''))
      else if truthy (map_of row (lit ''notebook_id'')) then Some (py_str text_of (get_field row ''notebook_id'')) else None)"

definition row_urls :: "(json \<Rightarrow> str) \<Rightarrow> fields \<Rightarrow> str list" where
  "row_urls text_of row = map (py_str text_of) (filter (\<lambda>j. j \<noteq> JNull)
     (map (get_field row) [''sourceUrl'', ''source_url'', ''novoUrl'', ''novo_url'']))"

definition check_row :: "(json \<Rightarrow> str) \<Rightarrow> str list \<Rightarrow> json \<Rightarrow> gateway_error + unit" where
  "check_row text_of allowed j = (case j of
     JObj row \<Rightarrow>
       demand (rejected ''Worker result exceeded the authorized notebook scope'')
         (case row_notebook text_of row of None \<Rightarrow> True | Some nb \<Rightarrow> nb \<in> set allowed)
      (demand (rejected ''Worker result contained an unsafe source URL'') (list_all valid_same_origin_path (row_urls text_of row)) (Inr ()))
   | _ \<Rightarrow> Inr ())"

definition assert_result_scope :: "(json \<Rightarrow> str) \<Rightarrow> json \<Rightarrow> str list \<Rightarrow> str list \<Rightarrow> gateway_error + unit" where
  "assert_result_scope text_of result submitted current =
     (let allowed = filter (\<lambda>i. i \<in> set current) submitted in
      case result of JObj fs \<Rightarrow> and_then (map_err (check_row text_of allowed) (result_rows fs)) (\<lambda>_. Inr ()) | _ \<Rightarrow> Inr ())"

text \<open>\<open>JobPublicStatus.model_validate\<close>: only the times can fail, the other fields have their types.\<close>

definition optional_text :: "json \<Rightarrow> bool" where
  "optional_text j \<longleftrightarrow> (case j of JNull \<Rightarrow> True | JStr s \<Rightarrow> True | _ \<Rightarrow> False)"

definition fetch_status ::
  "('n, 'w) gateway_services \<Rightarrow> http_request \<Rightarrow> str \<Rightarrow> ('n, 'w) gateway
     \<Rightarrow> (gateway_error + (fields \<times> public_job)) \<times> ('n, 'w) gateway" where
  "fetch_status sv r job_id g =
     (let up = gs_upstream sv (gs_session sv r); (response, g') = call_worker (up_job_status up job_id) g in
      (and_then response (\<lambda>payload.
         and_then (public_job_status (up_text_of up) (gs_detail_model sv) payload) (\<lambda>public.
         demand (rejected ''Worker returned the wrong job'') (pj_job_id public = job_id) (Inr (payload, public)))), g'))"

definition job_status ::
  "('n, 'w) gateway_services \<Rightarrow> http_request \<Rightarrow> str \<Rightarrow> ('n, 'w) gateway \<Rightarrow> (gateway_error + public_job) \<times> ('n, 'w) gateway" where
  "job_status sv r job_id g =
     (case authorize_owned_job sv r job_id g of (Inl e, g1) \<Rightarrow> (Inl e, g1)
      | (Inr x, g1) \<Rightarrow>
          (let (answer, g2) = fetch_status sv r job_id g1 in
           (and_then answer (\<lambda>(payload, public).
              demand Unhandled_Error (optional_text (pj_created_at public) \<and> optional_text (pj_updated_at public)) (Inr public)), g2)))"

text \<open>\<open>job_result\<close> authorises before the worker is asked and again before the result is released.\<close>

definition job_result ::
  "('n, 'w) gateway_services \<Rightarrow> http_request \<Rightarrow> str \<Rightarrow> ('n, 'w) gateway \<Rightarrow> (gateway_error + json) \<times> ('n, 'w) gateway" where
  "job_result sv r job_id g =
     (case authorize_owned_job sv r job_id g of (Inl e, g1) \<Rightarrow> (Inl e, g1)
      | (Inr x, g1) \<Rightarrow>
          (case fetch_status sv r job_id g1 of (Inl e, g2) \<Rightarrow> (Inl e, g2)
           | (Inr (payload, public), g2) \<Rightarrow>
               (let text_of = up_text_of (gs_upstream sv (gs_session sv r)) in
                case completed_result text_of payload of Inl e \<Rightarrow> (Inl e, g2)
                | Inr result \<Rightarrow>
                    (case authorize_owned_job sv r job_id g2 of (Inl e, g3) \<Rightarrow> (Inl e, g3)
                     | (Inr (cx, owned), g3) \<Rightarrow>
                         (and_then (assert_result_scope text_of result (oj_notebooks owned) (notebook_ids cx)) (\<lambda>_. Inr result), g3)))))"

section \<open>Index status\<close>

record index_item =
  ii_notebook_id :: str
  ii_notebook_name :: str
  ii_revision :: str
  ii_exact_ready :: bool
  ii_activated_at :: json
  ii_chunk_count :: json

abbreviation invalid_index_status :: gateway_error where
  "invalid_index_status \<equiv> rejected ''Worker returned an invalid index-status response''"

definition index_row_ok :: "fields \<Rightarrow> bool" where
  "index_row_ok row \<longleftrightarrow> (\<exists>b\<in>{True, False}. get_field row ''exactReady'' = JBool b)
     \<and> (case get_field row ''activatedAt'' of JNull \<Rightarrow> True | JStr s \<Rightarrow> length s \<le> 64 | _ \<Rightarrow> False)
     \<and> (case get_field row ''chunkCount'' of JNull \<Rightarrow> True | JInt n \<Rightarrow> 0 \<le> n | _ \<Rightarrow> False)"

fun key_rows :: "(json \<Rightarrow> str) \<Rightarrow> index_key list \<Rightarrow> (index_key \<times> fields) list \<Rightarrow> json list \<Rightarrow> gateway_error + (index_key \<times> fields) list" where
  "key_rows text_of requested by_key [] = Inr by_key"
| "key_rows text_of requested by_key (JObj row # rows) =
     (let key = row_index_key text_of row in
      demand invalid_index_status (key \<in> set requested \<and> key \<notin> fst ` set by_key \<and> index_row_ok row)
        (key_rows text_of requested (by_key @ [(key, row)]) rows))"
| "key_rows text_of requested by_key (_ # rows) = Inl invalid_index_status"

definition index_item_of :: "novo_context \<Rightarrow> (index_key \<times> fields) list \<Rightarrow> notebook_scope \<Rightarrow> gateway_error + index_item" where
  "index_item_of cx by_key entry =
     and_then (or_raise invalid_index_status (map_of by_key (scope_index_key entry))) (\<lambda>row.
     let name = (case map_of (rev (map (\<lambda>nb. (nb_id nb, nb_name nb)) (cx_notebooks cx))) (notebook_id entry) of Some n \<Rightarrow> n | None \<Rightarrow> []) in
     demand Unhandled_Error (notebook_id entry \<noteq> [] \<and> length (notebook_id entry) \<le> 192 \<and> length name \<le> 4096
         \<and> content_revision entry \<noteq> [] \<and> length (content_revision entry) \<le> 256)
       (Inr \<lparr>ii_notebook_id = notebook_id entry, ii_notebook_name = name, ii_revision = content_revision entry,
             ii_exact_ready = (get_field row ''exactReady'' = JBool True), ii_activated_at = get_field row ''activatedAt'',
             ii_chunk_count = get_field row ''chunkCount''\<rparr>))"

definition public_index_status ::
  "(json \<Rightarrow> str) \<Rightarrow> str \<Rightarrow> novo_context \<Rightarrow> notebook_scope list \<Rightarrow> fields \<Rightarrow> gateway_error + (bool \<times> index_item list)" where
  "public_index_status text_of corpus cx requested response =
     (case get_field response ''indexes'' of
        JArr rows \<Rightarrow>
          demand invalid_index_status (length rows = length requested)
         (and_then (key_rows text_of (map scope_index_key requested) [] rows) (\<lambda>by_key.
          and_then (map_err (index_item_of cx by_key) requested) (\<lambda>items.
          demand Unhandled_Error (items \<noteq> [] \<and> length items \<le> 256 \<and> corpus \<noteq> [] \<and> length corpus \<le> 197)
            (Inr (list_all ii_exact_ready items, items)))))
      | _ \<Rightarrow> Inl invalid_index_status)"

definition index_command :: "str \<Rightarrow> gateway_job_request" where
  "index_command corpus = \<lparr>gj_operation = GW_INDEX_REBUILD, gj_corpus = Some corpus, gj_question = None, gj_retrieval = None,
     gj_model = None, gj_strategy = lit ''hybrid'', gj_max_sources = 6, gj_top_k = 16, gj_force = False\<rparr>"

definition gateway_index_status ::
  "('n, 'w) gateway_services \<Rightarrow> http_request \<Rightarrow> str \<Rightarrow> ('n, 'w) gateway \<Rightarrow> (gateway_error + (bool \<times> index_item list)) \<times> ('n, 'w) gateway" where
  "gateway_index_status sv r corpus g =
     (case session_and_context sv r g of (Inl e, g1) \<Rightarrow> (Inl e, g1)
      | (Inr cx, g1) \<Rightarrow>
        (case resolve_scope cx (index_command corpus) (schema_version sv) of Inl e \<Rightarrow> (Inl e, g1)
         | Inr scopes \<Rightarrow>
          (case call_worker (up_index_status (gs_upstream sv (gs_session sv r)) (us_id (cx_user cx)) scopes) g1 of
             (Inl e, g2) \<Rightarrow> (Inl e, g2)
           | (Inr response, g2) \<Rightarrow>
              (case session_and_context sv r g2 of (Inl e, g3) \<Rightarrow> (Inl e, g3)
               | (Inr refreshed, g3) \<Rightarrow>
                  (demand Novo_Unauthenticated (us_id (cx_user refreshed) = us_id (cx_user cx))
                  (and_then (case resolve_scope refreshed (index_command corpus) (schema_version sv) of
                       Inl e \<Rightarrow> Inl (http_error 409 ''Novo notebook content or access changed during the status check. Try again.'')
                     | Inr s \<Rightarrow> Inr s) (\<lambda>refreshed_scope.
                   demand (http_error 409 ''Novo notebook content or access changed during the status check. Try again.'') (refreshed_scope = scopes)
                   (public_index_status (up_text_of (gs_upstream sv (gs_session sv r))) corpus refreshed scopes response))), g3)))))"

section \<open>Availability, corpora and error responses\<close>

text \<open>\<open>worker_availability\<close> on what the three calls return; any exception is the degraded state.\<close>

record availability =
  wa_available :: bool
  wa_detail :: str
  wa_capabilities :: fields
  wa_model_status :: json

definition worker_availability ::
  "(json \<Rightarrow> str) \<Rightarrow> gateway_error + fields \<Rightarrow> gateway_error + fields \<Rightarrow> gateway_error + fields \<Rightarrow> availability" where
  "worker_availability text_of health_reply capabilities_reply models_reply =
     (let down = (\<lambda>detail. \<lparr>wa_available = False, wa_detail = lit detail, wa_capabilities = [], wa_model_status = JObj []\<rparr>) in
      case health_reply of
        Inl e \<Rightarrow> down ''The compute service may be offline or reconnecting. Novo is still available.''
      | Inr h \<Rightarrow>
          (let protocol_ready = state_in text_of h [''ready'']
                 \<and> (case map_of h (lit ''queueHealthy'') of Some j \<Rightarrow> j | None \<Rightarrow> get_field h ''queue_healthy'') = JBool True
                 \<and> (case map_of h (lit ''indexServiceHealthy'') of Some j \<Rightarrow> j | None \<Rightarrow> get_field h ''index_service_healthy'') = JBool True;
               healthy = (if get_field h ''ok'' \<noteq> JNull then truthy (map_of h (lit ''ok''))
                 else get_field h ''status'' = JStr (lit ''ok'') \<or> protocol_ready)
           in if \<not> healthy then down ''The compute worker reported an unhealthy state.''
              else (case (capabilities_reply, models_reply) of
                 (Inr caps, Inr models) \<Rightarrow>
                   \<lparr>wa_available = True, wa_detail = lit ''The compute service is available.'', wa_capabilities = caps,
                    wa_model_status = (case map_of models (lit ''models'') of Some j \<Rightarrow> j | None \<Rightarrow> JObj models)\<rparr>
               | _ \<Rightarrow> down ''The compute service may be offline or reconnecting. Novo is still available.'')))"

text \<open>\<open>casefold\<close> is Unicode's; the revision of all notebooks is a digest, \<open>None\<close> when \<open>encode\<close> raises.\<close>

definition aggregate_revision :: "(bytes \<Rightarrow> str) \<Rightarrow> novo_notebook list \<Rightarrow> str option" where
  "aggregate_revision sha notebooks =
     map_option (\<lambda>material. lit ''sha256:'' @ sha material)
       (utf8_encode (join [10] (map (\<lambda>nb. nb_id nb @ [58] @ nb_revision nb) notebooks)))"

definition public_corpora :: "(bytes \<Rightarrow> str) \<Rightarrow> (str \<Rightarrow> str) \<Rightarrow> novo_context \<Rightarrow> json list option" where
  "public_corpora sha casefold cx =
     (let notebooks = sort_key (\<lambda>nb. [casefold (nb_name nb), nb_id nb]) (cx_notebooks cx);
          times = filter (\<lambda>t. t \<noteq> []) (List.map_filter nb_updated_at notebooks)
      in map_option (\<lambda>revision. JObj
           [(lit ''id'', JStr (lit ''all'')), (lit ''corpus_key'', JStr (lit ''novo:all'')), (lit ''name'', JStr (lit ''All notebooks'')),
            (lit ''content_revision'', JStr revision),
            (lit ''updated_at'', (if times = [] then JNull else JStr (fold max times []))),
            (lit ''notebook_count'', JInt (int (length notebooks)))]
           # map public_corpus notebooks)
         (aggregate_revision sha notebooks))"

text \<open>The exception handlers: status, message, and the code with its retry flag where there is one.\<close>

definition error_reply :: "gateway_error \<Rightarrow> int \<times> str \<times> (str \<times> bool) option" where
  "error_reply e = (case e of
     Novo_Unauthenticated \<Rightarrow> (401, lit ''Novo sign-in is required'', None)
   | Novo_Integration_Unavailable message \<Rightarrow> (503, message, None)
   | Worker_Unavailable message code retryable \<Rightarrow> (503, lit ''The compute service is unavailable or reconnecting.'', Some (code, retryable))
   | Worker_Rejected message code retryable status_code \<Rightarrow> (status_code, message, Some (code, retryable))
   | Indexes_Not_Ready missing total_count \<Rightarrow> (409,
       (if total_count = 1 then lit ''This notebook needs its index rebuilt. Click Rebuild index, then ask again.''
        else render_nat missing @ lit '' of '' @ render_nat total_count @ lit '' selected notebooks need their indexes rebuilt. ''
          @ lit ''Click Rebuild index, or select a notebook with a ready index.''), Some (lit ''INDEX_REBUILD_REQUIRED'', False))
   | Synchronization_Timeout \<Rightarrow> (504, lit ''Notebook preparation timed out. Try again.'', None)
   | Export_Limit_Exceeded \<Rightarrow> (413, lit ''This notebook is too large for the current Chat export limits.'', None)
   | Synchronization_Error message \<Rightarrow> (502, lit ''Notebook preparation failed. Try again.'', None)
   | Http_Error x \<Rightarrow> (he_status x, he_detail x, None)
   | _ \<Rightarrow> (500, lit ''Internal Server Error'', None))"

end
