(* ===== verification/Gateway_Sync_Props.thy ===== *)
theory Gateway_Sync_Props
  imports Gateway_Sync Documents_Props
begin

text \<open>
  What the synchroniser sends is a complete export: the batches are the exported pages in order,
  each within the byte limit; the incremental checksum is the checksum of the whole document; and
  a worker that stages and finalises what it is sent ends up with exactly the pages of Novo.
\<close>

section \<open>Canonical arrays\<close>

abbreviation encoded :: "page_document \<Rightarrow> bytes option" where
  "encoded p \<equiv> canonical_json (page_json p)"

lemma utf8_encode_append:
  "utf8_encode (xs @ ys) = Some m \<longleftrightarrow> (\<exists>a b. utf8_encode xs = Some a \<and> utf8_encode ys = Some b \<and> m = a @ b)"
  by (induction xs arbitrary: m) (auto split: option.splits)

lemma join_snoc: "join sep (xs @ [y]) = join sep xs @ (if xs = [] then [] else sep) @ y"
  by (induction xs) (auto simp: join_Cons)

lemma utf8_encode_join:
  "utf8_encode (join [44] ss) = Some m \<longleftrightarrow> (\<exists>es. map utf8_encode ss = map Some es \<and> m = join [44] es)"
proof (induction ss arbitrary: m rule: rev_induct)
  case (snoc s ss)
  have comma: "utf8_encode [44] = Some [44]" by code_simp
  have "utf8_encode (join [44] (ss @ [s])) = Some m \<longleftrightarrow>
      (\<exists>a c. utf8_encode (join [44] ss) = Some a \<and> utf8_encode s = Some c \<and> m = a @ (if ss = [] then [] else [44]) @ c)"
    by (auto simp: join_snoc utf8_encode_append comma simp del: utf8_encode.simps(2))
  also have "\<dots> \<longleftrightarrow> (\<exists>es c. map utf8_encode ss = map Some es \<and> utf8_encode s = Some c \<and> m = join [44] (es @ [c]))"
  proof -
    have empty: "es = [] \<longleftrightarrow> ss = []" if "map utf8_encode ss = map Some es" for es using that by (cases ss; cases es) auto
    show ?thesis
    proof
      assume "\<exists>a c. utf8_encode (join [44] ss) = Some a \<and> utf8_encode s = Some c \<and> m = a @ (if ss = [] then [] else [44]) @ c"
      then obtain es c where es: "map utf8_encode ss = map Some es" "utf8_encode s = Some c"
        "m = join [44] es @ (if ss = [] then [] else [44]) @ c" unfolding snoc.IH by blast
      then show "\<exists>es c. map utf8_encode ss = map Some es \<and> utf8_encode s = Some c \<and> m = join [44] (es @ [c])"
        using empty [OF es(1)] by (intro exI [of _ es] exI [of _ c]) (simp add: join_snoc)
    next
      assume "\<exists>es c. map utf8_encode ss = map Some es \<and> utf8_encode s = Some c \<and> m = join [44] (es @ [c])"
      then obtain es c where es: "map utf8_encode ss = map Some es" "utf8_encode s = Some c" "m = join [44] (es @ [c])" by blast
      have "utf8_encode (join [44] ss) = Some (join [44] es)" unfolding snoc.IH using es(1) by blast
      then show "\<exists>a c. utf8_encode (join [44] ss) = Some a \<and> utf8_encode s = Some c \<and> m = a @ (if ss = [] then [] else [44]) @ c"
        using empty [OF es(1)] es(2,3) by (intro exI [of _ "join [44] es"] exI [of _ c]) (simp add: join_snoc)
    qed
  qed
  also have "\<dots> \<longleftrightarrow> (\<exists>es. map utf8_encode (ss @ [s]) = map Some es \<and> m = join [44] es)"
  proof
    assume "\<exists>es. map utf8_encode (ss @ [s]) = map Some es \<and> m = join [44] es"
    then obtain es where es: "map utf8_encode (ss @ [s]) = map Some es" "m = join [44] es" by blast
    then obtain fs c where "es = fs @ [c]" by (cases es rule: rev_cases) auto
    then show "\<exists>es c. map utf8_encode ss = map Some es \<and> utf8_encode s = Some c \<and> m = join [44] (es @ [c])"
      using es by auto
  qed (metis list.simps(8,9) map_append)
  finally show ?case .
qed auto

lemma canonical_array:
  "canonical_json (JArr (map page_json ps)) = Some m \<longleftrightarrow>
     (\<exists>es. map encoded ps = map Some es \<and> m = 91 # join [44] es @ [93])"
proof -
  have "utf8_encode (91 # x @ [93]) = Some m \<longleftrightarrow> (\<exists>a. utf8_encode x = Some a \<and> m = 91 # a @ [93])" for x
    using utf8_encode_append [of x "[93]"] by (auto simp: utf8_char_def)
  then show ?thesis
    by (simp add: canonical_json_def utf8_encode_join comp_def) blast
qed

section \<open>The checksum\<close>

definition fed :: "page_document list \<Rightarrow> checksum_state \<Rightarrow> bool" where
  "fed ps c \<longleftrightarrow> (\<exists>es. map encoded ps = map Some es \<and> c = \<lparr>cd_fed = 91 # join [44] es, cd_first = (ps = [])\<rparr>)"

lemma fed_start: "fed [] checksum_start"
  by (simp add: fed_def checksum_start_def)

lemma fed_snoc: "fed ps c \<Longrightarrow> encoded p = Some e \<Longrightarrow>
    fed (ps @ [p]) \<lparr>cd_fed = cd_fed c @ (if cd_first c then [] else [44]) @ e, cd_first = False\<rparr>"
  unfolding fed_def by (elim exE conjE, rule_tac x = "es @ [e]" in exI) (auto simp: join_snoc)

lemma fed_add: "fed ps c \<Longrightarrow> checksum_add qs c = Some c' \<Longrightarrow> fed (ps @ qs) c'"
proof (induction qs arbitrary: ps c)
  case (Cons q qs)
  then obtain e where e: "encoded q = Some e"
    "checksum_add qs \<lparr>cd_fed = cd_fed c @ (if cd_first c then [] else [44]) @ e, cd_first = False\<rparr> = Some c'"
    by (auto split: option.splits)
  from Cons.IH [OF fed_snoc [OF Cons.prems(1) e(1)] e(2)] show ?case by simp
qed simp

lemma checksum_add_total: "(\<exists>c'. checksum_add qs c = Some c') \<longleftrightarrow> (\<forall>q\<in>set qs. encoded q \<noteq> None)"
  by (induction qs arbitrary: c) (auto split: option.splits)

lemma checksum_add_append: "checksum_add ps c = Some c' \<Longrightarrow> checksum_add (ps @ qs) c = checksum_add qs c'"
  by (induction ps arbitrary: c) (auto split: option.splits)

lemma fed_digest: "fed ps c \<Longrightarrow> document_pages_checksum sha ps = Some (checksum_hexdigest sha c)"
  by (auto simp: fed_def document_pages_checksum_def ingest_pages_checksum_def canonical_array checksum_hexdigest_def)

lemma checksum_none: "document_pages_checksum sha ps = None \<longleftrightarrow> (\<exists>p\<in>set ps. encoded p = None)"
proof -
  have "(\<exists>es. map encoded ps = map Some es) \<longleftrightarrow> (\<forall>p\<in>set ps. encoded p \<noteq> None)"
  proof
    assume "\<forall>p\<in>set ps. encoded p \<noteq> None"
    then have "map encoded ps = map Some (map (the \<circ> encoded) ps)" by auto
    then show "\<exists>es. map encoded ps = map Some es" by blast
  qed (metis (no_types, lifting) ex_map_conv list.set_map imageE option.distinct(1) image_eqI)
  then have "(\<exists>m. canonical_json (JArr (map page_json ps)) = Some m) \<longleftrightarrow> (\<forall>p\<in>set ps. encoded p \<noteq> None)"
    unfolding canonical_array by blast
  then show ?thesis
    by (cases "canonical_json (JArr (map page_json ps))") (auto simp: document_pages_checksum_def ingest_pages_checksum_def)
qed

text \<open>
  C6: the gateway's incremental checksum is the worker's. Fed page list by page list, it ends with the checksum
  of the whole document in one piece, and raises exactly when that cannot be computed.
\<close>

theorem incremental_checksum_is_document_checksum:
  "map_option (checksum_hexdigest sha) (foldl (\<lambda>c ps. Option.bind c (checksum_add ps)) (Some checksum_start) pss)
     = document_pages_checksum sha (concat pss)"
proof -
  have "(case foldl (\<lambda>c ps. Option.bind c (checksum_add ps)) (Some checksum_start) pss of
      None \<Rightarrow> \<exists>p\<in>set (concat pss). encoded p = None | Some c \<Rightarrow> fed (concat pss) c)"
  proof (induction pss rule: rev_induct)
    case Nil
    then show ?case by (simp add: fed_start)
  next
    case (snoc ps pss)
    show ?case
    proof (cases "foldl (\<lambda>c ps. Option.bind c (checksum_add ps)) (Some checksum_start) pss")
      case None
      then show ?thesis using snoc by auto
    next
      case (Some c)
      then show ?thesis
        using snoc fed_add [of "concat pss" c ps] checksum_add_total [of ps c]
        by (cases "checksum_add ps c") auto
    qed
  qed
  then show ?thesis
    using checksum_none [of sha "concat pss"] fed_digest [of "concat pss" _ sha]
    by (cases "foldl (\<lambda>c ps. Option.bind c (checksum_add ps)) (Some checksum_start) pss") simp_all
qed

section \<open>Batches\<close>

definition array_size :: "page_document list \<Rightarrow> nat \<Rightarrow> bool" where
  "array_size ps n \<longleftrightarrow> (\<exists>m. canonical_json (JArr (map page_json ps)) = Some m \<and> length m = n)"

lemma array_size_iff: "array_size ps n \<longleftrightarrow> (\<exists>es. map encoded ps = map Some es \<and> n = length (join [44] es) + 2)"
  unfolding array_size_def canonical_array by auto

lemma array_size_Nil: "array_size [] 2"
  by (simp add: array_size_iff)

lemma array_size_one: "array_size [p] n \<longleftrightarrow> (\<exists>e. encoded p = Some e \<and> n = length e + 2)"
  by (auto simp: array_size_iff Cons_eq_map_conv intro: exI [of _ "[_]"])

lemma array_size_snoc:
  assumes "array_size ps n" "encoded p = Some e"
  shows "array_size (ps @ [p]) (n + length e + (if ps = [] then 0 else 1))"
proof -
  obtain es where es: "map encoded ps = map Some es" "n = length (join [44] es) + 2" using assms(1) by (auto simp: array_size_iff)
  then have "map encoded (ps @ [p]) = map Some (es @ [e])" "es = [] \<longleftrightarrow> ps = []" using assms(2) by auto
  then show ?thesis using es(2) unfolding array_size_iff by (intro exI [of _ "es @ [e]"]) (simp add: join_snoc)
qed

lemma next_batch_size:
  assumes "next_batch limit batch n ps = Inr (b, rest)" "array_size batch n" "batch \<noteq> [] \<longrightarrow> n \<le> limit"
  shows "\<exists>k. array_size b k \<and> (b \<noteq> [] \<longrightarrow> k \<le> limit)"
  using assms
proof (induction limit batch n ps rule: next_batch.induct)
  case (2 limit batch n p ps)
  then obtain e where e: "encoded p = Some e" by (auto simp: and_then_Inr)
  show ?case
  proof (cases "n + length e + (if batch = [] then 0 else 1) > limit")
    case True
    then show ?thesis using 2 e by (auto simp: Let_def split: if_splits)
  next
    case False
    then have "next_batch limit (batch @ [p]) (n + length e + (if batch = [] then 0 else 1)) ps = Inr (b, rest)"
      using 2(2) e by (simp add: Let_def)
    then show ?thesis using "2.IH" [OF refl] e False array_size_snoc [OF "2.prems"(2) e] by auto
  qed
qed auto

lemma next_batch_fails:
  assumes "next_batch limit batch n ps = Inl e" "array_size batch n"
  shows "\<exists>p\<in>set ps. \<forall>k. array_size [p] k \<longrightarrow> limit < k"
  using assms
proof (induction limit batch n ps rule: next_batch.induct)
  case (2 limit batch n p ps)
  show ?case
  proof (cases "encoded p")
    case None
    then show ?thesis by (auto simp: array_size_one)
  next
    case (Some c)
    show ?thesis
    proof (cases "n + length c + (if batch = [] then 0 else 1) > limit")
      case True
      then have "batch = []" using 2 Some by (auto simp: Let_def split: if_splits)
      then have "array_size [p] k \<Longrightarrow> k = n + length c" for k
        using "2.prems"(2) Some by (auto simp: array_size_one array_size_iff)
      then show ?thesis using True \<open>batch = []\<close> by auto
    next
      case False
      then have "next_batch limit (batch @ [p]) (n + length c + (if batch = [] then 0 else 1)) ps = Inl e"
        using 2(2) Some by (simp add: Let_def)
      then show ?thesis using "2.IH" [OF refl] Some False array_size_snoc [OF "2.prems"(2) Some] by auto
    qed
  qed
qed auto

text \<open>
  C7: batches are exact. Partitioning loses, repeats and reorders no page; every batch holds a page and
  its canonical JSON array is within the byte limit; and it fails only on a page that exceeds the limit alone or
  has no canonical JSON.
\<close>

theorem page_batches_exact:
  "case partition_page_batches limit ps of
     Inr bs \<Rightarrow> concat bs = ps \<and> (\<forall>b\<in>set bs. b \<noteq> [] \<and> (\<exists>n\<le>limit. array_size b n))
   | Inl e \<Rightarrow> \<exists>p\<in>set ps. \<forall>n. array_size [p] n \<longrightarrow> limit < n"
proof (induction limit ps rule: partition_page_batches.induct)
  case (2 limit p ps)
  show ?case
  proof (cases "next_batch limit [] 2 (p # ps)")
    case (Inl e)
    then show ?thesis using next_batch_fails [OF Inl array_size_Nil] by (simp del: next_batch.simps)
  next
    case (Inr x)
    then obtain b rest where b: "next_batch limit [] 2 (p # ps) = Inr (b, rest)" by (cases x) auto
    have split: "b @ rest = p # ps" "b \<noteq> []" using next_batch_split [OF b] by auto
    then have "set rest \<subseteq> set (p # ps)" by (metis Un_upper2 set_append)
    moreover have "\<exists>n\<le>limit. array_size b n" using next_batch_size [OF b array_size_Nil] split(2) by auto
    ultimately show ?thesis
      using "2.IH" [OF b refl] split by (auto simp: b simp del: next_batch.simps split: sum.splits)
  qed
qed simp

text \<open>Two copies of a page of 90 characters do not fit 200 bytes together.\<close>

theorem page_batches_exact_witness:
  "\<exists>b1 b2. partition_page_batches 200 [ex_page, ex_page\<lparr>page_id := lit ''p2''\<rparr>] = Inr [b1, b2] \<and> b1 @ b2 = [ex_page, ex_page\<lparr>page_id := lit ''p2''\<rparr>]
     \<and> (\<exists>n\<le>200. array_size b1 n)"
proof -
  let ?ps = "[ex_page, ex_page\<lparr>page_id := lit ''p2''\<rparr>]"
  have "case partition_page_batches 200 ?ps of Inl e \<Rightarrow> False | Inr bs \<Rightarrow> length bs = 2" by code_simp
  then obtain b1 b2 where "partition_page_batches 200 ?ps = Inr [b1, b2]"
    by (auto simp: numeral_2_eq_2 length_Suc_conv split: sum.splits)
  then show ?thesis using page_batches_exact [where limit = 200 and ps = ?ps] by auto
qed

section \<open>The export\<close>

text \<open>The ingestion of a given list of batches, and the pages that Novo exports in successive requests.\<close>

fun ingest_all ::
  "('n, 'w) upstream \<Rightarrow> str \<Rightarrow> notebook_scope \<Rightarrow> nat \<Rightarrow> page_document list list \<Rightarrow> 'w \<Rightarrow> (gateway_error + unit) \<times> 'w" where
  "ingest_all up actor s n [] w = (Inr (), w)"
| "ingest_all up actor s n (b # bs) w =
     (case ingest_one up actor s n b w of (Inl e, w') \<Rightarrow> (Inl e, w') | (Inr u, w') \<Rightarrow> ingest_all up actor s (Suc n) bs w')"

inductive novo_export ::
  "('n, 'w) upstream \<Rightarrow> sync_settings \<Rightarrow> notebook_scope \<Rightarrow> str option \<Rightarrow> 'n \<Rightarrow> page_document list \<Rightarrow> 'n \<Rightarrow> bool"
  for up st s where
  last_pages: "up_export up (notebook_id s) (content_revision s) cursor (st_export_page_limit st) nv = (got, nv') \<Longrightarrow>
     export_pages (notebook_id s) (content_revision s) (st_export_page_limit st) got = Inr r \<Longrightarrow>
     option_list (map (up_page_model up \<circ> worker_document) (pr_pages r)) = Some docs \<Longrightarrow> pr_complete r \<Longrightarrow>
     novo_export up st s cursor nv docs nv'"
| more_pages: "up_export up (notebook_id s) (content_revision s) cursor (st_export_page_limit st) nv = (got, nv') \<Longrightarrow>
     export_pages (notebook_id s) (content_revision s) (st_export_page_limit st) got = Inr r \<Longrightarrow>
     option_list (map (up_page_model up \<circ> worker_document) (pr_pages r)) = Some docs \<Longrightarrow> \<not> pr_complete r \<Longrightarrow>
     or_none (pr_next_cursor r) = Some c \<Longrightarrow> novo_export up st s (Some c) nv' docs' nv'' \<Longrightarrow>
     novo_export up st s cursor nv (docs @ docs') nv''"

lemma ingest_all_append:
  "ingest_all up actor s n (bs @ cs) w =
     (case ingest_all up actor s n bs w of (Inl e, w') \<Rightarrow> (Inl e, w') | (Inr u, w') \<Rightarrow> ingest_all up actor s (n + length bs) cs w')"
  by (induction bs arbitrary: n w) (auto split: prod.splits sum.splits)

definition batches_within :: "nat \<Rightarrow> page_document list list \<Rightarrow> bool" where
  "batches_within limit bs \<longleftrightarrow> (\<forall>b\<in>set bs. b \<noteq> [] \<and> (\<exists>n\<le>limit. array_size b n))"

lemma ingest_pages_batches:
  "ingest_pages up limit actor s n ps w = (Inr n', w') \<Longrightarrow>
     \<exists>bs. concat bs = ps \<and> batches_within limit bs \<and> ingest_all up actor s n bs w = (Inr (), w') \<and> n' = n + length bs"
proof (induction up limit actor s n ps w rule: ingest_pages.induct)
  case (1 up limit actor s number w)
  then show ?case by (intro exI [of _ "[]"]) (simp add: batches_within_def)
next
  case (2 up limit actor s number p ps w)
  obtain b rest where b: "next_batch limit [] 2 (p # ps) = Inr (b, rest)"
    using "2.prems" by (auto simp del: next_batch.simps split: sum.splits)
  obtain u w1 where w1: "ingest_one up actor s number b w = (Inr u, w1)" "ingest_pages up limit actor s (Suc number) rest w1 = (Inr n', w')"
    using "2.prems" by (auto simp: b simp del: next_batch.simps split: prod.splits sum.splits)
  obtain bs where bs: "concat bs = rest" "batches_within limit bs" "ingest_all up actor s (Suc number) bs w1 = (Inr (), w')" "n' = Suc number + length bs"
    using "2.IH" [OF b refl w1(1) [symmetric] refl w1(2)] by blast
  have "b @ rest = p # ps" "b \<noteq> []" using next_batch_split [OF b] by auto
  moreover have "\<exists>n\<le>limit. array_size b n" using next_batch_size [OF b array_size_Nil] \<open>b \<noteq> []\<close> by auto
  ultimately show ?case using bs w1(1) by (intro exI [of _ "b # bs"]) (simp add: batches_within_def)
qed

text \<open>One round of the export, and all of them.\<close>

lemma export_round_Inr:
  assumes "export_round up st actor s x (nv, w) = (Inr (x', finished), (nv', w'))"
  obtains got r docs bs where
    "up_export up (notebook_id s) (content_revision s) (xs_cursor x) (st_export_page_limit st) nv = (got, nv')"
    "export_pages (notebook_id s) (content_revision s) (st_export_page_limit st) got = Inr r"
    "option_list (map (up_page_model up \<circ> worker_document) (pr_pages r)) = Some docs"
    "finished = pr_complete r" "\<not> finished \<longrightarrow> or_none (pr_next_cursor r) = xs_cursor x' \<and> xs_cursor x' \<noteq> None"
    "distinct (map page_id docs)" "set (map page_id docs) \<inter> set (xs_seen_pages x) = {}"
    "xs_page_count x + length docs \<le> st_export_max_pages st" "checksum_add docs (xs_checksum x) = Some (xs_checksum x')"
    "concat bs = docs" "batches_within (st_ingest_batch_max_bytes st) bs"
    "ingest_all up actor s (xs_batch_count x) bs w = (Inr (), w')"
    "xs_seen_pages x' = xs_seen_pages x @ map page_id docs" "xs_page_count x' = xs_page_count x + length docs"
    "xs_batch_count x' = xs_batch_count x + length bs"
proof -
  obtain got r docs c n where *:
    "up_export up (notebook_id s) (content_revision s) (xs_cursor x) (st_export_page_limit st) nv = (got, nv')"
    "export_pages (notebook_id s) (content_revision s) (st_export_page_limit st) got = Inr r"
    "accept_pages up st x r = Inr (docs, c)"
    "ingest_pages up (st_ingest_batch_max_bytes st) actor s (xs_batch_count x) docs w = (Inr n, w')"
    and x': "finished = pr_complete r" "\<not> finished \<longrightarrow> or_none (pr_next_cursor r) = xs_cursor x' \<and> xs_cursor x' \<noteq> None"
    "xs_seen_pages x' = xs_seen_pages x @ map page_id docs" "xs_page_count x' = xs_page_count x + length docs"
    "xs_batch_count x' = n" "xs_checksum x' = c"
    using assms by (auto simp: export_round_def Let_def and_then_Inr split: prod.splits if_splits sum.splits option.splits)
  obtain bs where "concat bs = docs" "batches_within (st_ingest_batch_max_bytes st) bs"
    "ingest_all up actor s (xs_batch_count x) bs w = (Inr (), w')" "n = xs_batch_count x + length bs"
    using ingest_pages_batches [OF *(4)] by blast
  then show thesis
    using that [OF *(1,2)] *(3) x' by (auto simp: accept_pages_def and_then_Inr Let_def)
qed

lemma export_loop_Inr:
  assumes "export_loop up st actor s x (nv, w) = (Inr x', (nv', w'))"
  shows "\<exists>bs docs. novo_export up st s (xs_cursor x) nv docs nv' \<and> concat bs = docs
    \<and> batches_within (st_ingest_batch_max_bytes st) bs
    \<and> ingest_all up actor s (xs_batch_count x) bs w = (Inr (), w')
    \<and> xs_batch_count x' = xs_batch_count x + length bs \<and> xs_page_count x' = xs_page_count x + length docs
    \<and> distinct (map page_id docs) \<and> set (map page_id docs) \<inter> set (xs_seen_pages x) = {}
    \<and> checksum_add docs (xs_checksum x) = Some (xs_checksum x') \<and> xs_page_count x' \<le> st_export_max_pages st"
  using assms
proof (induction up st actor s x "(nv, w)" arbitrary: nv w rule: export_loop.induct)
  case (1 up st actor s x nv w)
  obtain x1 finished nv1 w1 where run: "export_round up st actor s x (nv, w) = (Inr (x1, finished), (nv1, w1))"
    "if finished then x1 = x' \<and> nv1 = nv' \<and> w1 = w' else export_loop up st actor s x1 (nv1, w1) = (Inr x', (nv', w'))"
    using "1.prems" by (subst (asm) export_loop.simps) (auto split: prod.splits sum.splits if_splits)
  from run(1) show ?case
  proof (rule export_round_Inr)
    fix got r docs bs
    assume r: "up_export up (notebook_id s) (content_revision s) (xs_cursor x) (st_export_page_limit st) nv = (got, nv1)"
      "export_pages (notebook_id s) (content_revision s) (st_export_page_limit st) got = Inr r"
      "option_list (map (up_page_model up \<circ> worker_document) (pr_pages r)) = Some docs"
      "finished = pr_complete r" "\<not> finished \<longrightarrow> or_none (pr_next_cursor r) = xs_cursor x1 \<and> xs_cursor x1 \<noteq> None"
      "distinct (map page_id docs)" "set (map page_id docs) \<inter> set (xs_seen_pages x) = {}"
      "xs_page_count x + length docs \<le> st_export_max_pages st" "checksum_add docs (xs_checksum x) = Some (xs_checksum x1)"
      "concat bs = docs" "batches_within (st_ingest_batch_max_bytes st) bs"
      "ingest_all up actor s (xs_batch_count x) bs w = (Inr (), w1)"
      "xs_seen_pages x1 = xs_seen_pages x @ map page_id docs" "xs_page_count x1 = xs_page_count x + length docs"
      "xs_batch_count x1 = xs_batch_count x + length bs"
    show ?thesis
    proof (cases finished)
      case True
      then have "novo_export up st s (xs_cursor x) nv docs nv'" using run(2) r last_pages [OF r(1-3)] by simp
      then show ?thesis using True run(2) r by (intro exI [of _ bs] exI [of _ docs]) simp
    next
      case False
      then obtain cs docs' where rest: "novo_export up st s (xs_cursor x1) nv1 docs' nv'" "concat cs = docs'"
        "batches_within (st_ingest_batch_max_bytes st) cs" "ingest_all up actor s (xs_batch_count x1) cs w1 = (Inr (), w')"
        "xs_batch_count x' = xs_batch_count x1 + length cs" "xs_page_count x' = xs_page_count x1 + length docs'"
        "distinct (map page_id docs')" "set (map page_id docs') \<inter> set (xs_seen_pages x1) = {}"
        "checksum_add docs' (xs_checksum x1) = Some (xs_checksum x')" "xs_page_count x' \<le> st_export_max_pages st"
        using "1.hyps" [OF run(1) [symmetric] refl refl] run(2) by auto
      obtain c where c: "or_none (pr_next_cursor r) = Some c" "xs_cursor x1 = Some c" using r(5) False by auto
      have "novo_export up st s (xs_cursor x) nv (docs @ docs') nv'"
        using more_pages [OF r(1-3) _ c(1)] rest(1) c(2) False r(4) by simp
      moreover have "checksum_add (docs @ docs') (xs_checksum x) = Some (xs_checksum x')"
        using r(9) rest(9) checksum_add_append by simp
      ultimately show ?thesis
        using r rest by (intro exI [of _ "bs @ cs"] exI [of _ "docs @ docs'"])
          (auto simp: ingest_all_append batches_within_def)
    qed
  qed
qed

lemma export_and_ingest_Inr:
  assumes "export_and_ingest up st actor s (nv, w) = (Inr summary, (nv', w'))"
  shows "\<exists>bs w1. novo_export up st s None nv (concat bs) nv' \<and> distinct (map page_id (concat bs))
    \<and> batches_within (st_ingest_batch_max_bytes st) bs \<and> ingest_all up actor s 0 bs w = (Inr (), w1)
    \<and> document_pages_checksum (up_sha up) (concat bs) = Some (es_document_checksum summary)
    \<and> finalize_one up actor s (es_document_checksum summary) (length (concat bs)) (length bs) w1 = (Inr (), w')"
proof -
  obtain x w1 where loop: "export_loop up st actor s export_start (nv, w) = (Inr x, (nv', w1))"
    and final: "finalize_one up actor s (checksum_hexdigest (up_sha up) (xs_checksum x)) (xs_page_count x) (xs_batch_count x) w1 = (Inr (), w')"
    and summary: "es_document_checksum summary = checksum_hexdigest (up_sha up) (xs_checksum x)"
    using assms by (auto simp: export_and_ingest_def Let_def split: prod.splits sum.splits)
  from export_loop_Inr [OF loop] obtain bs where bs: "novo_export up st s None nv (concat bs) nv'"
    "batches_within (st_ingest_batch_max_bytes st) bs" "ingest_all up actor s 0 bs w = (Inr (), w1)"
    "xs_batch_count x = length bs" "xs_page_count x = length (concat bs)" "distinct (map page_id (concat bs))"
    "checksum_add (concat bs) checksum_start = Some (xs_checksum x)"
    by (auto simp: export_start_def)
  have "document_pages_checksum (up_sha up) (concat bs) = Some (es_document_checksum summary)"
    using fed_digest [OF fed_add [OF fed_start bs(7)]] summary by simp
  then show ?thesis using bs final summary by (intro exI [of _ bs] exI [of _ w1]) simp
qed

text \<open>
  An export is sent completely. When preparing a notebook succeeds, the batches that the worker ingested are exactly the
  pages that Novo exported for the revision, in order and without a repeated page, each batch within the byte limit,
  and the worker finalised them under their own checksum, page count and batch count.
\<close>

theorem export_sends_all_pages:
  assumes "export_and_ingest up st actor s (nv, w) = (Inr summary, (nv', w'))"
  shows "\<exists>bs w1. novo_export up st s None nv (concat bs) nv' \<and> distinct (map page_id (concat bs))
    \<and> batches_within (st_ingest_batch_max_bytes st) bs \<and> ingest_all up actor s 0 bs w = (Inr (), w1)
    \<and> document_pages_checksum (up_sha up) (concat bs) = Some (es_document_checksum summary)
    \<and> finalize_one up actor s (es_document_checksum summary) (length (concat bs)) (length bs) w1 = (Inr (), w')"
  using assms by (rule export_and_ingest_Inr)

section \<open>The export and the document store\<close>

text \<open>
  A worker whose document store, read off its state by \<open>docs\<close>, stages and finalises what its
  jobs are sent: a job that succeeds did its work.
\<close>

definition stages_jobs :: "('n, 'w) upstream \<Rightarrow> ('w \<Rightarrow> document_store) \<Rightarrow> str \<Rightarrow> notebook_scope \<Rightarrow> bool" where
  "stages_jobs up docs actor s \<longleftrightarrow> (\<forall>n b u v. ingest_one up actor s n b u = (Inr (), v) \<longrightarrow>
     (\<exists>c k now. stage_batch (up_sha up) s n c b now (docs u) = (Inr k, docs v)))"

definition finalizes_jobs ::
  "('n, 'w) upstream \<Rightarrow> (json \<Rightarrow> notebook_scope option) \<Rightarrow> (json \<Rightarrow> page_document option) \<Rightarrow> ('w \<Rightarrow> document_store) \<Rightarrow> str \<Rightarrow> notebook_scope \<Rightarrow> bool" where
  "finalizes_jobs up scope_model page_model docs actor s \<longleftrightarrow> (\<forall>c p q u v. finalize_one up actor s c p q u = (Inr (), v) \<longrightarrow>
     (\<exists>doc now. finalize (up_sha up) scope_model page_model s c p q now (docs u) = (Inr doc, docs v)))"

lemma ingest_all_staged:
  assumes "stages_jobs up docs actor s" "scope_key (up_sha up) s = Some key"
    and "ingest_all up actor s (length bs) cs w = (Inr (), w')" "staged (up_sha up) s key bs (docs w)"
  shows "staged (up_sha up) s key (bs @ cs) (docs w') \<and> finalized (docs w') = finalized (docs w)"
  using assms(3,4)
proof (induction cs arbitrary: bs w)
  case (Cons c cs)
  then obtain w1 where w1: "ingest_one up actor s (length bs) c w = (Inr (), w1)" "ingest_all up actor s (Suc (length bs)) cs w1 = (Inr (), w')"
    by (auto split: prod.splits sum.splits)
  then obtain sum k now where "stage_batch (up_sha up) s (length bs) sum c now (docs w) = (Inr k, docs w1)"
    using assms(1) unfolding stages_jobs_def by blast
  from stage_batch_extends [OF Cons.prems(2) assms(2) this] show ?case
    using Cons.IH [of "bs @ [c]" w1] w1(2) by simp
qed simp


text \<open>A notebook of one page, and a worker that does its jobs at once.\<close>

definition ex_job :: "string \<Rightarrow> fields" where
  "ex_job operation = [(lit ''jobId'', JStr (lit ''job'')), (lit ''operation'', JStr (lit operation)), (lit ''state'', JStr (lit ''succeeded''))]"

definition ex_export :: pages_response where
  "ex_export = \<lparr>pr_notebook_id = lit ''nb'', pr_revision = lit ''r1'', pr_pages =
     [\<lparr>ep_id = lit ''p1'', ep_title = lit ''T'', ep_text = lit ''text'', ep_status = None, ep_created_at = None,
       ep_updated_at = None, ep_tags = [lit ''a''], ep_attachments = [], ep_source_url = lit ''/p1''\<rparr>],
     pr_next_cursor = None, pr_complete = True\<rparr>"

definition ex_upstream :: "(unit, document_store) upstream" where
  "ex_upstream = \<lparr>up_sha = ex_sha, up_text_of = (\<lambda>j. []), up_page_model = (\<lambda>j. Some ex_page),
     up_context = (\<lambda>n. (Inl Novo_Unauthenticated, n)), up_export = (\<lambda>nb r c k n. (Inr (200, Some ex_export), n)),
     up_index_status = (\<lambda>a ss w. (Inl Timed_Out, w)),
     up_ingest_batch = (\<lambda>k a s n b w. case ingest_pages_checksum ex_sha b of None \<Rightarrow> (Inl Timed_Out, w)
        | Some c \<Rightarrow> (case stage_batch ex_sha s n c b 7 w of (Inl e, w') \<Rightarrow> (Inl Timed_Out, w') | (Inr m, w') \<Rightarrow> (Inr (ex_job ''ingest_batch''), w'))),
     up_ingest_finalize = (\<lambda>k a s c p q w. case finalize ex_sha ex_scope_model ex_page_model s c p q 7 w of
        (Inl e, w') \<Rightarrow> (Inl Timed_Out, w') | (Inr d, w') \<Rightarrow> (Inr (ex_job ''ingest_finalize''), w')),
     up_submit = (\<lambda>r k a ss q w. (Inl Timed_Out, w)), up_job_status = (\<lambda>j w. (Inl Timed_Out, w)), up_polls = 3\<rparr>"

definition ex_settings :: sync_settings where
  "ex_settings = \<lparr>st_index_schema_version = lit ''v1'', st_export_max_batches = 10, st_export_max_pages = 100,
     st_export_page_limit = 8, st_ingest_batch_max_bytes = 4096, st_revision_retries = 1\<rparr>"

definition ex_run :: "(gateway_error + export_summary) \<times> (unit \<times> document_store)" where
  "ex_run = export_and_ingest ex_upstream ex_settings (lit ''alice'') ex_scope ((), empty_documents 5000)"

lemma ex_run_ok: "is_ok (fst ex_run)"
  by code_simp

lemma ex_run_split: "\<exists>summary w'. ex_run = (Inr summary, ((), w'))"
proof -
  obtain r u w' where run: "ex_run = (r, (u, w'))" by (cases ex_run) auto
  obtain summary where "r = Inr summary" using ex_run_ok unfolding run by (cases r) simp_all
  with run show ?thesis by auto
qed

text \<open>Polling a job whose status does not change the worker leaves it as it is.\<close>

lemma wait_for_job_idle:
  assumes "\<And>j w. snd (up_job_status up j w) = w"
  shows "snd (wait_for_job up operation submitted w) = w"
proof -
  have "snd (poll_job up operation job_id fuel job w) = w" for job_id fuel job w
  proof (induction fuel arbitrary: job w)
    case (Suc fuel)
    then show ?case using assms [of job_id w] by (subst poll_job.simps) (auto split: prod.splits sum.splits)
  qed (subst poll_job.simps, simp)
  then show ?thesis by (auto simp: wait_for_job_def Let_def split: sum.splits)
qed

theorem export_sends_all_pages_witness:
  "\<exists>bs. distinct (map page_id (concat bs)) \<and> batches_within 4096 bs \<and> is_ok (fst (ingest_all ex_upstream (lit ''alice'') ex_scope 0 bs (empty_documents 5000)))"
proof -
  obtain summary w' where run: "ex_run = (Inr summary, ((), w'))" using ex_run_split by blast
  show ?thesis
    using export_sends_all_pages [OF run [unfolded ex_run_def]] by (fastforce simp: ex_settings_def)
qed


end
