(* ===== verification/Gateway_Props.thy ===== *)
theory Gateway_Props
  imports Gateway_App Gateway_Sync_Props
begin

text \<open>
  What the gateway guarantees: a result leaves it only for the owner of the job, under the
  revisions and grants that Novo reports after the worker has answered; and a job is submitted
  for exactly the scope that Novo reported after it was prepared, and bound to its owner.
\<close>

section \<open>Releasing results\<close>

text \<open>The context \<open>cx\<close> is the last answer of Novo in the world \<open>nv\<close> for this session.\<close>

definition novo_answered :: "('n, 'w) gateway_services \<Rightarrow> str \<Rightarrow> novo_context \<Rightarrow> 'n \<Rightarrow> bool" where
  "novo_answered sv session_value cx nv \<longleftrightarrow> (\<exists>before got.
     up_context (gs_upstream sv session_value) before = (got, nv) \<and> novo_context_call got = Inr cx)"

definition current_scope :: "('n, 'w) gateway_services \<Rightarrow> novo_context \<Rightarrow> notebook_scope list \<Rightarrow> bool" where
  "current_scope sv cx scopes \<longleftrightarrow> (\<forall>s\<in>set scopes. notebook_id s \<in> set (notebook_ids cx)
     \<and> revision_of cx (notebook_id s) = Some (content_revision s) \<and> index_schema_version s = schema_version sv)"

definition owns :: "('n, 'w) gateway_services \<Rightarrow> novo_context \<Rightarrow> owned_job \<Rightarrow> bool" where
  "owns sv cx owned \<longleftrightarrow> oj_user owned = us_id (cx_user cx) \<and> set (oj_notebooks owned) \<subseteq> set (notebook_ids cx)
     \<and> (\<exists>scopes. oj_scope owned = Some scopes \<and> current_scope sv cx scopes)"

lemma load_context_Inr:
  "load_context sv session_value g = (Inr cx, g') \<Longrightarrow> novo_answered sv session_value cx (gw_novo g')
     \<and> gw_owners g' = gw_owners g \<and> gw_worker g' = gw_worker g"
  by (auto simp: load_context_def novo_answered_def split: prod.splits) blast

lemma session_Inr:
  "session_and_context sv r g = (Inr cx, g') \<Longrightarrow> gs_session sv r \<noteq> [] \<and> novo_answered sv (gs_session sv r) cx (gw_novo g')
     \<and> gw_owners g' = gw_owners g \<and> gw_worker g' = gw_worker g"
  by (auto simp: session_and_context_def dest: load_context_Inr split: if_splits)

lemma revision_known: "revision_of cx i = Some v \<Longrightarrow> i \<in> set (notebook_ids cx)"
  by (force simp: revision_of_def notebook_ids_def dest: map_of_SomeD)

lemma check_owned_Inr:
  "check_owned cx owned (schema_version sv) = Inr job \<longleftrightarrow> owned = Some job \<and> owns sv cx job"
  by (auto simp: check_owned_def and_then_Inr owns_def current_scope_def list_all_iff dest: revision_known)

lemma find_owner_purged:
  "find_owner j (delete_where p rows) = Some r \<Longrightarrow> find_owner j (delete_where p rows) = Some r \<and> r \<in> set rows"
  by (auto simp: find_owner_def delete_where_def dest: find_SomeD)

lemma authorize_Inr:
  assumes "authorize_owned_job sv r job_id g = (Inr (cx, owned), g')"
  shows "gs_session sv r \<noteq> [] \<and> novo_answered sv (gs_session sv r) cx (gw_novo g')
    \<and> find_owner job_id (gw_owners g') = Some owned \<and> owns sv cx owned \<and> gw_worker g' = gw_worker g"
proof -
  obtain g1 where g1: "session_and_context sv r g = (Inr cx, g1)"
    "(let (owned', g2) = load_owner sv job_id g1 in (and_then (check_owned cx owned' (schema_version sv)) (\<lambda>job. Inr (cx, job)), g2)) = (Inr (cx, owned), g')"
    using assms by (auto simp: authorize_owned_job_def Let_def and_then_Inr split: prod.splits sum.splits)
  then show ?thesis
    using session_Inr [OF g1(1)]
    by (auto simp: load_owner_def get_owner_def Let_def and_then_Inr check_owned_Inr)
qed

lemma check_row_Inr:
  "check_row text_of allowed (JObj row) = Inr u \<longleftrightarrow>
     (\<forall>nb. row_notebook text_of row = Some nb \<longrightarrow> nb \<in> set allowed) \<and> (\<forall>url\<in>set (row_urls text_of row). valid_same_origin_path url)"
  by (auto simp: check_row_def list_all_iff split: option.splits)

lemma map_err_all_Inr: "map_err f xs = Inr ys \<Longrightarrow> x \<in> set xs \<Longrightarrow> \<exists>y. f x = Inr y"
  by (induction xs arbitrary: ys) (auto split: sum.splits)

lemma assert_result_scope_Inr:
  assumes "assert_result_scope text_of (JObj fs) submitted current = Inr u" "JObj row \<in> set (result_rows fs)"
  shows "(\<forall>nb. row_notebook text_of row = Some nb \<longrightarrow> nb \<in> set submitted \<inter> set current)
    \<and> (\<forall>url\<in>set (row_urls text_of row). valid_same_origin_path url)"
proof -
  obtain us where "map_err (check_row text_of (filter (\<lambda>i. i \<in> set current) submitted)) (result_rows fs) = Inr us"
    using assms(1) by (auto simp: assert_result_scope_def and_then_Inr)
  from map_err_all_Inr [OF this assms(2)] show ?thesis by (auto simp: check_row_Inr)
qed


section \<open>Submitting\<close>

text \<open>The context and scope that a successful preparation settles on, and the worker it leaves.\<close>

definition prepared ::
  "('n, 'w) gateway_services \<Rightarrow> str \<Rightarrow> gateway_job_request \<Rightarrow> novo_context \<Rightarrow> notebook_scope list \<Rightarrow> 'w \<Rightarrow> bool" where
  "prepared sv session_value submitted cx scopes w \<longleftrightarrow>
     (\<exists>g0 g1. prepare_scope sv session_value submitted (us_id (cx_user cx)) scopes g0 = (Inr (), g1) \<and> gw_worker g1 = w)"

definition scope_settled ::
  "('n, 'w) gateway_services \<Rightarrow> str \<Rightarrow> gateway_job_request \<Rightarrow> novo_context \<Rightarrow> notebook_scope list \<Rightarrow> ('n, 'w) gateway \<Rightarrow> bool" where
  "scope_settled sv session_value submitted cx scopes g \<longleftrightarrow>
     resolve_scope cx submitted (schema_version sv) = Inr scopes \<and> novo_answered sv session_value cx (gw_novo g)
     \<and> (lifecycle_operation (gj_operation submitted) \<or> prepared sv session_value submitted cx scopes (gw_worker g))"

lemma scope_attempt_settled:
  assumes "scope_attempt sv session_value submitted cx g = (Inr (cx', scopes), g')"
  shows "scope_settled sv session_value submitted cx' scopes g'"
proof -
  obtain s g1 where 1: "resolve_scope cx submitted (schema_version sv) = Inr s"
    "prepare_scope sv session_value submitted (us_id (cx_user cx)) s g = (Inr (), g1)"
    using assms by (auto simp: scope_attempt_def split: sum.splits prod.splits)
  obtain loaded g2 where 2: "load_context sv session_value g1 = (loaded, g2)" by (cases "load_context sv session_value g1")
  then have 3: "loaded = Inr cx'" "us_id (cx_user cx') = us_id (cx_user cx)" "resolve_scope cx' submitted (schema_version sv) = Inr scopes"
    "scopes = s" "g' = g2"
    using assms 1 by (auto simp: scope_attempt_def and_then_Inr)
  note answered = load_context_Inr [OF 2 [unfolded 3(1)]]
  have "prepared sv session_value submitted cx' scopes (gw_worker g')"
    unfolding prepared_def using 1(2) 3 answered by auto
  then show ?thesis using 3 answered by (simp add: scope_settled_def)
qed

lemma scope_attempts_settled:
  "scope_attempts sv session_value submitted n cx g = (Inr (cx', scopes), g') \<Longrightarrow> scope_settled sv session_value submitted cx' scopes g'"
proof (induction n arbitrary: cx g)
  case 0
  then show ?case
    using scope_attempt_settled [of sv session_value submitted cx g cx' scopes g']
    by (auto simp: Let_def split: prod.splits sum.splits if_splits)
next
  case (Suc n)
  show ?case
  proof (cases "fst (scope_attempt sv session_value submitted cx g)")
    case (Inl e)
    then obtain cx1 g1 where "scope_attempts sv session_value submitted n cx1 g1 = (Inr (cx', scopes), g')"
      using Suc.prems by (auto split: prod.splits sum.splits if_splits)
    then show ?thesis by (rule Suc.IH)
  next
    case (Inr x)
    then have "scope_attempt sv session_value submitted cx g = (Inr (cx', scopes), g')"
      using Suc.prems by (auto split: prod.splits sum.splits)
    then show ?thesis by (rule scope_attempt_settled)
  qed
qed

lemma synchronized_settled:
  assumes "synchronized_scope sv session_value cx submitted g = (Inr (cx', scopes), g')"
    and "novo_answered sv session_value cx (gw_novo g)"
  shows "scope_settled sv session_value submitted cx' scopes g'"
proof (cases "lifecycle_operation (gj_operation submitted)")
  case True
  then show ?thesis using assms by (auto simp: synchronized_scope_def scope_settled_def resolve_scope_def)
next
  case False
  then show ?thesis using assms(1) scope_attempts_settled by (simp add: synchronized_scope_def)
qed

lemma record_owner_Inr:
  assumes "record_owner sv job_id user_id operation scopes g = (Inr row, g')"
  shows "\<exists>s owned. normalized_scope (gs_strip sv) scopes = Some s \<and> find_owner job_id (gw_owners g') = Some owned
    \<and> oj_user owned = user_id \<and> oj_operation owned = operation \<and> oj_notebooks owned = map notebook_id s \<and> oj_scope owned = Some s
    \<and> gw_novo g' = gw_novo g \<and> gw_worker g' = gw_worker g"
proof -
  let ?now = "gs_clock sv (Suc (gw_ticks g))" and ?ttl = "gs_ownership_ttl sv"
  let ?kept = "delete_where (\<lambda>r. oj_created r < ?now - ?ttl * 1000000) (gw_owners g)"
  obtain s created rows' where s: "normalized_scope (gs_strip sv) scopes = Some s" and txn: "add_txn ?ttl ?now
      \<lparr>oj_job = job_id, oj_user = user_id, oj_operation = operation, oj_notebooks = map notebook_id s, oj_scope = Some s,
       oj_created = gs_clock sv (gw_ticks g)\<rparr> (gw_owners g) = Inr (created, rows')" (is "add_txn _ _ ?row _ = _")
    and g': "g' = g\<lparr>gw_owners := rows', gw_ticks := gw_ticks g + 2\<rparr>"
    using assms by (auto simp: record_owner_def add_owner_def Let_def split: prod.splits sum.splits option.splits)
  have "oj_scope ?row \<noteq> None" by simp
  with txn refl have "\<exists>owned. find_owner job_id rows' = Some owned \<and> same_binding owned ?row \<and> oj_scope owned = Some s"
  proof (cases rule: add_txn_cases)
    case new
    then have "find_owner job_id ?kept = None" by (simp add: find_owner_None)
    then show ?thesis using new by (simp add: find_owner_def find_append same_binding_def)
  next
    case (completed existing)
    then show ?thesis by (auto simp: find_owner_def find_update_where_other same_binding_def dest: find_SomeD)
  qed auto
  then show ?thesis using s g' by (auto simp: same_binding_def)
qed


section \<open>An example: alice asks about her notebook\<close>

definition ex_context :: novo_context where
  "ex_context = \<lparr>cx_user = \<lparr>us_id = lit ''alice'', us_email = [], us_first_name = [], us_last_name = [], us_display_name = [], us_role = []\<rparr>,
     cx_notebooks = [\<lparr>nb_id = lit ''nb'', nb_name = lit ''N'', nb_access_role = lit ''owner'', nb_revision = lit ''r1'',
       nb_updated_at = None, nb_page_count = 1, nb_attachment_count = 0, nb_text_chars = 4\<rparr>]\<rparr>"

definition ex_ask :: gateway_job_request where
  "ex_ask = \<lparr>gj_operation = ASK, gj_corpus = Some (lit ''novo:nb''), gj_question = Some (lit ''Why?''), gj_retrieval = None,
     gj_model = Some (lit ''m''), gj_strategy = lit ''hybrid'', gj_max_sources = 6, gj_top_k = 16, gj_force = False\<rparr>"

definition ex_result :: fields where
  "ex_result = [(lit ''answer'', JStr (lit ''Because.'')),
     (lit ''hits'', JArr [JObj [(lit ''notebookId'', JStr (lit ''nb'')), (lit ''sourceUrl'', JStr (lit ''/p1''))]])]"

definition ex_answering :: "(unit, unit) upstream" where
  "ex_answering = \<lparr>up_sha = ex_sha, up_text_of = (\<lambda>j. []), up_page_model = (\<lambda>j. None),
     up_context = (\<lambda>n. (Inr (200, Some ex_context), n)), up_export = (\<lambda>nb r c k n. (Inl Timed_Out, n)),
     up_index_status = (\<lambda>a ss w. (Inr [(lit ''indexes'', JArr [JObj [(lit ''notebookId'', JStr (lit ''nb'')),
       (lit ''contentRevision'', JStr (lit ''r1'')), (lit ''indexSchemaVersion'', JStr (lit ''v1'')), (lit ''exactReady'', JBool True)]])], w)),
     up_ingest_batch = (\<lambda>k a s n b w. (Inl Timed_Out, w)), up_ingest_finalize = (\<lambda>k a s c p q w. (Inl Timed_Out, w)),
     up_submit = (\<lambda>r k a ss q w. (Inr [(lit ''jobId'', JStr (lit ''job'')), (lit ''state'', JStr (lit ''queued''))], w)),
     up_job_status = (\<lambda>j w. (Inr (ex_job ''query'' @ [(lit ''result'', JObj ex_result)]), w)), up_polls = 3\<rparr>"

definition ex_gateway :: "(unit, unit) gateway_services" where
  "ex_gateway = \<lparr>gs_upstream = (\<lambda>s. ex_answering), gs_settings = ex_settings, gs_session = (\<lambda>r. lit ''session''),
     gs_mac = (\<lambda>k m. lit ''csrf''), gs_split = (\<lambda>url. Some (url, [])), gs_public_origin = lit ''https://chat'', gs_url_scheme = lit ''https'',
     gs_csrf_secret = Some [1], gs_max_request_bytes = 100, gs_parse = (\<lambda>b. Some ex_ask), gs_detail_model = (\<lambda>j. None),
     gs_strip = id, gs_new_request_id = (\<lambda>n. lit ''request_1''), gs_clock = int, gs_ownership_ttl = 600\<rparr>"

definition ex_browser :: http_request where
  "ex_browser = \<lparr>hr_method = lit ''POST'', hr_path = lit ''/api/jobs'', hr_query = [],
     hr_headers = [(lit ''content-type'', lit ''application/json''), (lit ''origin'', lit ''https://chat''),
       (lit ''x-csrf-token'', lit ''csrf''), (lit ''content-length'', lit ''2'')], hr_chunks = [lit ''{}''], hr_end = Complete\<rparr>"

definition ex_submitted :: "(gateway_error + job_accepted) \<times> (unit, unit) gateway" where
  "ex_submitted = submit_gateway_job ex_gateway ex_browser \<lparr>gw_novo = (), gw_worker = (), gw_owners = [], gw_ticks = 0\<rparr>"

definition ex_released :: "(gateway_error + json) \<times> (unit, unit) gateway" where
  "ex_released = job_result ex_gateway ex_browser (lit ''job'') (snd ex_submitted)"

lemma ex_submitted_ok: "(case fst ex_submitted of Inl e \<Rightarrow> False | Inr job \<Rightarrow> ja_job_id job = lit ''job'')"
  by code_simp

lemma ex_released_ok: "fst ex_released = Inr (JObj ex_result)"
  by code_simp



end
