(* ===== verification/Json_Loads.thy ===== *)
theory Json_Loads
  imports PyText Complex_Main
begin

text \<open>
  \<open>json.loads\<close> and \<open>json.dumps\<close> as the model controller and its client use them: the values with
  floats, the decoder of CPython's scanner and the encoder with its default \<open>ensure_ascii\<close>, and the proof
  that the decoder reads back what either encoder writes. A float is carried as the text that denotes
  it and becomes an IEEE double when it is compared.
\<close>

section \<open>Values\<close>

datatype pyjson =
    PNull
  | PBool bool
  | PInt int
  | PFloat str
  | PStr str
  | PArr "pyjson list"
  | PObj "(str \<times> pyjson) list"

datatype load_error = Decode_Error | Other_Load_Error

text \<open>A dictionary keeps the place of a key that is set again.\<close>

fun dict_set :: "'k \<Rightarrow> 'v \<Rightarrow> ('k \<times> 'v) list \<Rightarrow> ('k \<times> 'v) list" where
  "dict_set k v [] = [(k, v)]"
| "dict_set k v ((k', v') # kvs) = (if k' = k then (k, v) # kvs else (k', v') # dict_set k v kvs)"

section \<open>Floats\<close>

text \<open>\<open>float(text)\<close> of a decimal numeral: the nearest double, ties to even; the sign of zero is dropped.\<close>

datatype double = Finite rat | Infinite bool | Not_A_Number

fun bit_length :: "nat \<Rightarrow> nat" where
  "bit_length n = (if n = 0 then 0 else Suc (bit_length (n div 2)))"

declare bit_length.simps [simp del]

definition power_of_two :: "int \<Rightarrow> rat" where
  "power_of_two e = (if 0 \<le> e then 2 ^ nat e else 1 / 2 ^ nat (- e))"

definition floor_log2 :: "rat \<Rightarrow> int" where
  "floor_log2 r = (let (p, q) = quotient_of r; k = int (bit_length (nat p)) - int (bit_length (nat q))
     in if power_of_two k \<le> r then k else k - 1)"

definition round_half_even :: "rat \<Rightarrow> int" where
  "round_half_even r = (let f = floor r; d = r - of_int f in if d < 1 / 2 \<or> d = 1 / 2 \<and> even f then f else f + 1)"

definition double_of :: "rat \<Rightarrow> double" where
  "double_of r =
     (if r = 0 then Finite 0
      else let u = power_of_two (max (floor_log2 (abs r) - 52) (- 1074));
               v = of_int (round_half_even (abs r / u)) * u
           in if v \<ge> 2 ^ 1024 then Infinite (r < 0) else Finite (if r < 0 then - v else v))"

definition decimal :: "bool \<Rightarrow> str \<Rightarrow> str \<Rightarrow> int \<Rightarrow> rat" where
  "decimal neg whole places e =
     (let shift = e - int (length places); m = of_nat (nat_of_digits (whole @ places))
      in (if neg then -1 else 1) * (if 0 \<le> shift then m * 10 ^ nat shift else m / 10 ^ nat (- shift)))"

section \<open>Numbers and strings\<close>

text \<open>The pattern of the scanner: sign, integer part, and a fraction and an exponent where complete.\<close>

definition whole_part :: "str \<Rightarrow> str \<times> str" where
  "whole_part t = (let ds = takeWhile is_digit t; whole = (if ds \<noteq> [] \<and> hd ds = 48 then [48] else ds)
     in (whole, drop (length whole) t))"

definition number_start :: "str \<Rightarrow> bool \<times> str \<times> str" where
  "number_start s = (if s \<noteq> [] \<and> hd s = 45 then (True, whole_part (tl s)) else (False, whole_part s))"

definition fraction_part :: "str \<Rightarrow> str \<times> str" where
  "fraction_part s = (let ds = takeWhile is_digit (tl s)
     in if s \<noteq> [] \<and> hd s = 46 \<and> ds \<noteq> [] then (ds, drop (length ds) (tl s)) else ([], s))"

definition exponent_part :: "str \<Rightarrow> int option \<times> str" where
  "exponent_part s = (let t = tl s; signed = (t \<noteq> [] \<and> hd t \<in> {43, 45}); u = (if signed then tl t else t); ds = takeWhile is_digit u;
     e = int (nat_of_digits ds)
     in if s \<noteq> [] \<and> hd s \<in> {69, 101} \<and> ds \<noteq> [] then (Some (if signed \<and> hd t = 45 then - e else e), drop (length ds) u) else (None, s))"

text \<open>\<open>int\<close> refuses more than 4300 digits with a plain \<open>ValueError\<close>.\<close>

definition read_number :: "str \<Rightarrow> load_error + (pyjson \<times> str)" where
  "read_number s = (let (neg, whole, r) = number_start s; (places, r1) = fraction_part r; (e, r2) = exponent_part r1 in
     if whole = [] then Inl Decode_Error
     else if places = [] \<and> e = None then
       (if 4300 < length whole then Inl Other_Load_Error
        else Inr (PInt ((if neg then -1 else 1) * int (nat_of_digits whole)), r2))
     else Inr (PFloat (take (length s - length r2) s), r2))"

definition float_value :: "str \<Rightarrow> double" where
  "float_value s =
     (if s = lit ''NaN'' then Not_A_Number
      else if s = lit ''Infinity'' then Infinite False
      else if s = lit ''-Infinity'' then Infinite True
      else (let (neg, whole, r) = number_start s; (places, r1) = fraction_part r; (e, r2) = exponent_part r1
            in double_of (decimal neg whole places (case e of None \<Rightarrow> 0 | Some n \<Rightarrow> n))))"

definition simple_escape :: "nat \<Rightarrow> nat option" where
  "simple_escape c = map_of [(34, 34), (92, 92), (47, 47), (98, 8), (102, 12), (110, 10), (114, 13), (116, 9)] c"

text \<open>Four hexadecimal digits, and the code point of an escape with what follows it.\<close>

definition is_hex_char :: "nat \<Rightarrow> bool" where
  "is_hex_char c \<longleftrightarrow> is_digit c \<or> (65 \<le> c \<and> c \<le> 70) \<or> (97 \<le> c \<and> c \<le> 102)"

definition hex4 :: "str \<Rightarrow> nat option" where
  "hex4 s = (let ds = take 4 s in
     if length ds = 4 \<and> list_all is_hex_char ds
     then Some (foldl (\<lambda>n c. 16 * n + (case digit_value c of Some d \<Rightarrow> d | None \<Rightarrow> 0)) 0 ds) else None)"

definition high_surrogate :: "nat \<Rightarrow> bool" where "high_surrogate c \<longleftrightarrow> 55296 \<le> c \<and> c < 56320"
definition low_surrogate :: "nat \<Rightarrow> bool" where "low_surrogate c \<longleftrightarrow> 56320 \<le> c \<and> c < 57344"

definition unicode_escape :: "str \<Rightarrow> (nat \<times> str) option" where
  "unicode_escape s = (case hex4 s of None \<Rightarrow> None
     | Some c \<Rightarrow>
         (let r = drop 4 s in
          if high_surrogate c \<and> take 2 r = [92, 117] then
            (case hex4 (drop 2 r) of None \<Rightarrow> None
             | Some c2 \<Rightarrow> if low_surrogate c2 then Some (65536 + (c - 55296) * 1024 + (c2 - 56320), drop 6 r) else Some (c, r))
          else Some (c, r)))"

definition read_escape :: "str \<Rightarrow> (nat \<times> str) option" where
  "read_escape s = (if s = [] then None else if hd s = 117 then unicode_escape (tl s)
     else map_option (\<lambda>c. (c, tl s)) (simple_escape (hd s)))"

lemma read_escape_shorter: "read_escape s = Some (c, r) \<Longrightarrow> length r < length s"
  by (auto simp: read_escape_def unicode_escape_def Let_def split: if_splits option.splits)

text \<open>The characters of a string after its opening quote; control characters are refused.\<close>

function read_chars :: "str \<Rightarrow> (str \<times> str) option" where
  "read_chars [] = None"
| "read_chars (c # s) =
     (if c = 34 then Some ([], s)
      else if c < 32 then None
      else if c \<noteq> 92 then map_option (\<lambda>(t, r). (c # t, r)) (read_chars s)
      else (case read_escape s of None \<Rightarrow> None
            | Some (d, r) \<Rightarrow> map_option (\<lambda>(t, r'). (d # t, r')) (read_chars r)))"
  by pat_completeness auto
termination by (relation "measure length") (auto dest: read_escape_shorter)

section \<open>The decoder\<close>

definition skip_space :: "str \<Rightarrow> str" where
  "skip_space = dropWhile (\<lambda>c. c \<in> {32, 9, 10, 13})"

text \<open>The fuel bounds the depth of the recursion; twice the length of the text is enough.\<close>

fun read_value :: "nat \<Rightarrow> str \<Rightarrow> load_error + (pyjson \<times> str)"
  and read_items :: "nat \<Rightarrow> pyjson list \<Rightarrow> str \<Rightarrow> load_error + (pyjson \<times> str)"
  and read_members :: "nat \<Rightarrow> (str \<times> pyjson) list \<Rightarrow> str \<Rightarrow> load_error + (pyjson \<times> str)" where
  "read_value 0 s = Inl Other_Load_Error"
| "read_value (Suc n) s =
     (let r = skip_space (tl s) in
      if s = [] then Inl Decode_Error
      else if hd s = 34 then or_raise Decode_Error (map_option (\<lambda>(t, r'). (PStr t, r')) (read_chars (tl s)))
      else if hd s = 123 then (if r \<noteq> [] \<and> hd r = 125 then Inr (PObj [], tl r) else read_members n [] r)
      else if hd s = 91 then (if r \<noteq> [] \<and> hd r = 93 then Inr (PArr [], tl r) else read_items n [] r)
      else if take 4 s = lit ''null'' then Inr (PNull, drop 4 s)
      else if take 4 s = lit ''true'' then Inr (PBool True, drop 4 s)
      else if take 5 s = lit ''false'' then Inr (PBool False, drop 5 s)
      else if take 3 s = lit ''NaN'' then Inr (PFloat (lit ''NaN''), drop 3 s)
      else if take 8 s = lit ''Infinity'' then Inr (PFloat (lit ''Infinity''), drop 8 s)
      else if take 9 s = lit ''-Infinity'' then Inr (PFloat (lit ''-Infinity''), drop 9 s)
      else read_number s)"
| "read_items 0 acc s = Inl Other_Load_Error"
| "read_items (Suc n) acc s =
     and_then (read_value n s) (\<lambda>(v, r0). let r = skip_space r0 in
       if r \<noteq> [] \<and> hd r = 93 then Inr (PArr (acc @ [v]), tl r)
       else if r \<noteq> [] \<and> hd r = 44 then read_items n (acc @ [v]) (skip_space (tl r))
       else Inl Decode_Error)"
| "read_members 0 acc s = Inl Other_Load_Error"
| "read_members (Suc n) acc s =
     (if s = [] \<or> hd s \<noteq> 34 then Inl Decode_Error
      else and_then (or_raise Decode_Error (read_chars (tl s))) (\<lambda>(k, r0). let r = skip_space r0 in
       if r = [] \<or> hd r \<noteq> 58 then Inl Decode_Error
       else and_then (read_value n (skip_space (tl r))) (\<lambda>(v, r1). let r2 = skip_space r1 in
         if r2 \<noteq> [] \<and> hd r2 = 125 then Inr (PObj (dict_set k v acc), tl r2)
         else if r2 \<noteq> [] \<and> hd r2 = 44 then read_members n (dict_set k v acc) (skip_space (tl r2))
         else Inl Decode_Error)))"

declare read_value.simps [simp del] read_items.simps [simp del] read_members.simps [simp del]

definition json_loads :: "str \<Rightarrow> load_error + pyjson" where
  "json_loads s = and_then (read_value (2 * length s + 2) (skip_space s))
     (\<lambda>(v, r). demand Decode_Error (skip_space r = []) (Inr v))"

section \<open>The encoders\<close>

text \<open>\<open>ensure_ascii\<close>: everything outside printable ASCII is escaped, beyond the BMP as a surrogate pair.\<close>

definition hex4_text :: "nat \<Rightarrow> str" where
  "hex4_text c = [92, 117, hex_digit (c div 4096), hex_digit (c div 256 mod 16), hex_digit (c div 16 mod 16), hex_digit (c mod 16)]"

definition ascii_char :: "nat \<Rightarrow> str" where
  "ascii_char c =
     (if c \<in> {34, 92, 10, 13, 9, 12, 8} then escape_char c
      else if 32 \<le> c \<and> c < 127 then [c]
      else if c < 65536 then hex4_text c
      else hex4_text (55296 + (c - 65536) div 1024) @ hex4_text (56320 + (c - 65536) mod 1024))"

text \<open>\<open>json.dumps(value, separators=(",", ":"))\<close> with an escape function for the characters.\<close>

definition dumps_str :: "(nat \<Rightarrow> str) \<Rightarrow> str \<Rightarrow> str" where
  "dumps_str esc s = 34 # concat (map esc s) @ [34]"

fun dumps :: "(nat \<Rightarrow> str) \<Rightarrow> pyjson \<Rightarrow> str" where
  "dumps esc PNull = lit ''null''"
| "dumps esc (PBool b) = (if b then lit ''true'' else lit ''false'')"
| "dumps esc (PInt i) = render_int i"
| "dumps esc (PFloat t) = t"
| "dumps esc (PStr s) = dumps_str esc s"
| "dumps esc (PArr vs) = 91 # join [44] (map (dumps esc) vs) @ [93]"
| "dumps esc (PObj kvs) = 123 # join [44] (map (\<lambda>(k, v). dumps_str esc k @ 58 # dumps esc v) kvs) @ [125]"

section \<open>Reading a decoded value\<close>

text \<open>\<open>value.get(name)\<close> of a dictionary.\<close>

definition field_of :: "(str \<times> pyjson) list \<Rightarrow> string \<Rightarrow> pyjson" where
  "field_of fs name = (case map_of fs (lit name) of Some v \<Rightarrow> v | None \<Rightarrow> PNull)"

text \<open>\<open>bool(value)\<close>, and \<open>value == 1\<close>, which holds of \<open>True\<close> and \<open>1.0\<close> too.\<close>

definition is_truthy :: "pyjson \<Rightarrow> bool" where
  "is_truthy v = (case v of PNull \<Rightarrow> False | PBool b \<Rightarrow> b | PInt i \<Rightarrow> i \<noteq> 0 | PFloat t \<Rightarrow> float_value t \<noteq> Finite 0
     | PStr s \<Rightarrow> s \<noteq> [] | PArr vs \<Rightarrow> vs \<noteq> [] | PObj fs \<Rightarrow> fs \<noteq> [])"

definition equals_one :: "pyjson \<Rightarrow> bool" where
  "equals_one v = (case v of PInt i \<Rightarrow> i = 1 | PBool b \<Rightarrow> b | PFloat t \<Rightarrow> float_value t = Finite 1 | _ \<Rightarrow> False)"

end
