(* ===== verification/Gateway_Pages.thy ===== *)
theory Gateway_Pages
  imports Gateway_Props Json_Loads
begin

text \<open>
  The pages and the read-only endpoints of the gateway (\<open>gateway/app.py\<close>, \<open>gateway/security.py\<close>): the index page with
  its redirect to the sign-in, health, context, corpora and worker state, and the headers that every
  answer below the base path carries. The lemmas show that nothing but the sign-in link is given to a browser
  without a session, and that the CSRF token of the context is the one that submissions are checked against.
\<close>

section \<open>Settings and services of the pages\<close>

text \<open>\<open>ps_html\<close> is the text of \<open>index.html\<close>; \<open>ps_db_ok\<close> is the answer of SQLite to \<open>SELECT 1\<close>.\<close>

record 'w page_services =
  ps_base_path :: str
  ps_login_path :: str
  ps_return_parameter :: str
  ps_home_path :: str
  ps_html :: str
  ps_sha :: "bytes \<Rightarrow> str"
  ps_text_of :: "json \<Rightarrow> str"
  ps_casefold :: "str \<Rightarrow> str"
  ps_db_ok :: bool
  ps_health :: "'w \<Rightarrow> (gateway_error + fields) \<times> 'w"
  ps_capabilities :: "'w \<Rightarrow> (gateway_error + fields) \<times> 'w"
  ps_model_status :: "'w \<Rightarrow> (gateway_error + fields) \<times> 'w"

section \<open>The sign-in link\<close>

text \<open>\<open>quote_plus\<close>, and \<open>urlencode\<close> of one parameter; \<open>None\<close> when \<open>encode\<close> raises.\<close>

definition quote_plus :: "str \<Rightarrow> str option" where
  "quote_plus s = map_option (map (\<lambda>c. if c = 32 then 43 else c)) (quote (\<lambda>c. c = 32) s)"

definition login_url :: "'w page_services \<Rightarrow> str option" where
  "login_url ps = (case (quote_plus (ps_return_parameter ps), quote_plus (ps_base_path ps @ lit ''/'')) of
     (Some parameter, Some return_to) \<Rightarrow>
       Some (ps_login_path ps @ (if 63 \<in> set (ps_login_path ps) then lit ''&'' else lit ''?'') @ parameter @ lit ''='' @ return_to)
   | _ \<Rightarrow> None)"

section \<open>Reading the state of the worker\<close>

text \<open>
  \<open>WorkerHttpClient.capabilities\<close> and \<open>model_status\<close>. \<open>parse\<close> checks a response and gives its fields, so the rows of the
  models are objects of two texts.
\<close>

definition client_capabilities ::
  "'w worker_client \<Rightarrow> exchange \<Rightarrow> (bytes \<Rightarrow> fields option) \<Rightarrow> str \<Rightarrow> 'w \<Rightarrow> (gateway_error + fields) \<times> 'w" where
  "client_capabilities wc xc parse new_rid w =
     (let (answer, w') = client_get wc xc parse new_rid ''/capabilities'' w in
      (and_then answer (\<lambda>payload. Inr (payload @ [(lit ''models'', get_field payload ''approvedModels'')])), w'))"

definition add_model_row :: "json \<Rightarrow> fields \<Rightarrow> fields" where
  "add_model_row row models = (case row of
     JObj fs \<Rightarrow> (case get_field fs ''model'' of
       JStr m \<Rightarrow> dict_set m (JObj [(lit ''state'', get_field fs ''state''),
         (lit ''healthy'', JBool (get_field fs ''state'' = JStr (lit ''ready'')))]) models
     | _ \<Rightarrow> models)
   | _ \<Rightarrow> models)"

definition client_model_status ::
  "'w worker_client \<Rightarrow> exchange \<Rightarrow> (bytes \<Rightarrow> fields option) \<Rightarrow> str \<Rightarrow> 'w \<Rightarrow> (gateway_error + fields) \<times> 'w" where
  "client_model_status wc xc parse new_rid w =
     (let (answer, w') = client_get wc xc parse new_rid ''/models/status'' w in
      (and_then answer (\<lambda>payload. Inr [(lit ''models'',
         JObj (fold add_model_row (case get_field payload ''models'' of JArr rows \<Rightarrow> rows | _ \<Rightarrow> []) []))]), w'))"

section \<open>Worker availability\<close>

text \<open>
  \<open>worker_availability\<close> asks for the health first; only of a healthy worker it asks for the
  capabilities and the models, both whatever the other answers.
\<close>

definition current_availability :: "'w page_services \<Rightarrow> ('n, 'w) gateway \<Rightarrow> availability \<times> ('n, 'w) gateway" where
  "current_availability ps g =
     (let (health_reply, g1) = call_worker (ps_health ps) g in
      if wa_available (worker_availability (ps_text_of ps) health_reply (Inr []) (Inr []))
      then let (capabilities_reply, g2) = call_worker (ps_capabilities ps) g1;
               (models_reply, g3) = call_worker (ps_model_status ps) g2
           in (worker_availability (ps_text_of ps) health_reply capabilities_reply models_reply, g3)
      else (worker_availability (ps_text_of ps) health_reply (Inl Unhandled_Error) (Inl Unhandled_Error), g1))"

definition availability_json :: "availability \<Rightarrow> json" where
  "availability_json a = JObj
     [(lit ''available'', JBool (wa_available a)), (lit ''detail'', JStr (wa_detail a)),
      (lit ''capabilities'', JObj (wa_capabilities a)), (lit ''modelStatus'', wa_model_status a)]"

definition user_json :: "novo_user \<Rightarrow> json" where
  "user_json u = JObj
     [(lit ''id'', JStr (us_id u)), (lit ''email'', JStr (us_email u)), (lit ''firstName'', JStr (us_first_name u)),
      (lit ''lastName'', JStr (us_last_name u)), (lit ''displayName'', JStr (us_display_name u)), (lit ''role'', JStr (us_role u))]"

section \<open>Endpoints\<close>

text \<open>\<open>/healthz\<close> asks for no session.\<close>

definition healthz :: "'w page_services \<Rightarrow> ('n, 'w) gateway \<Rightarrow> fields \<times> ('n, 'w) gateway" where
  "healthz ps g =
     (let (worker, g') = current_availability ps g in
      ([(lit ''ok'', JBool (ps_db_ok ps)), (lit ''gateway'', JStr (lit (if ps_db_ok ps then ''ok'' else ''degraded''))),
        (lit ''worker'', availability_json worker)], g'))"

definition context_fields :: "('n, 'w) gateway_services \<Rightarrow> 'w page_services \<Rightarrow> http_request \<Rightarrow> novo_context \<Rightarrow> availability
     \<Rightarrow> gateway_error + fields" where
  "context_fields sv ps r cx worker =
     and_then (or_raise Unhandled_Error (public_corpora (ps_sha ps) (ps_casefold ps) cx)) (\<lambda>corpora.
     and_then (or_raise Unhandled_Error (case gs_csrf_secret sv of None \<Rightarrow> None
        | Some key \<Rightarrow> csrf_token (gs_mac sv) key (gs_session sv r))) (\<lambda>token.
     Inr [(lit ''apiVersion'', JStr (lit ''1'')), (lit ''user'', user_json (cx_user cx)), (lit ''corpora'', JArr corpora),
          (lit ''worker'', availability_json worker), (lit ''csrfToken'', JStr token), (lit ''novoHomePath'', JStr (ps_home_path ps)),
          (lit ''authorizationSource'', JStr (lit ''live Novo session and notebook permissions''))]))"

definition gateway_context ::
  "('n, 'w) gateway_services \<Rightarrow> 'w page_services \<Rightarrow> http_request \<Rightarrow> ('n, 'w) gateway \<Rightarrow> (gateway_error + fields) \<times> ('n, 'w) gateway" where
  "gateway_context sv ps r g =
     (case session_and_context sv r g of (Inl e, g1) \<Rightarrow> (Inl e, g1)
      | (Inr cx, g1) \<Rightarrow>
          (let (worker, g2) = current_availability ps g1 in (context_fields sv ps r cx worker, g2)))"

definition gateway_corpora ::
  "('n, 'w) gateway_services \<Rightarrow> 'w page_services \<Rightarrow> http_request \<Rightarrow> ('n, 'w) gateway \<Rightarrow> (gateway_error + fields) \<times> ('n, 'w) gateway" where
  "gateway_corpora sv ps r g =
     (let (got, g') = session_and_context sv r g in
      (and_then got (\<lambda>cx. and_then (or_raise Unhandled_Error (public_corpora (ps_sha ps) (ps_casefold ps) cx)) (\<lambda>corpora.
         Inr [(lit ''corpora'', JArr corpora), (lit ''authorizationSource'', JStr (lit ''live Novo''))])), g'))"

definition worker_status ::
  "('n, 'w) gateway_services \<Rightarrow> 'w page_services \<Rightarrow> http_request \<Rightarrow> ('n, 'w) gateway \<Rightarrow> (gateway_error + availability) \<times> ('n, 'w) gateway" where
  "worker_status sv ps r g =
     (case session_and_context sv r g of (Inl e, g1) \<Rightarrow> (Inl e, g1)
      | (Inr cx, g1) \<Rightarrow> (let (worker, g2) = current_availability ps g1 in (Inr worker, g2)))"

section \<open>Pages\<close>

datatype page =
    Redirect_To int str
  | Html_Page str str

text \<open>\<open>str.replace\<close> of a text that is not empty.\<close>

function replace_text :: "str \<Rightarrow> str \<Rightarrow> str \<Rightarrow> str" where
  "replace_text old new s =
     (if s = [] \<or> old = [] then s
      else if take (length old) s = old then new @ replace_text old new (drop (length old) s)
      else hd s # replace_text old new (tl s))"
  by pat_completeness auto
termination by (relation "measure (\<lambda>(old, new, s). length s)") (auto simp: length_greater_0_conv [symmetric] simp del: length_greater_0_conv)

declare replace_text.simps [simp del]

definition page_policy :: str where
  "page_policy = lit ''default-src 'self'; script-src 'self'; style-src 'self'; img-src 'self' data:; '' @
     lit ''connect-src 'self'; frame-ancestors 'self'; base-uri 'none'; form-action 'self'' @ [39]"

text \<open>The index page, with its content security policy.\<close>

definition index_page ::
  "('n, 'w) gateway_services \<Rightarrow> 'w page_services \<Rightarrow> http_request \<Rightarrow> ('n, 'w) gateway \<Rightarrow> (gateway_error + page) \<times> ('n, 'w) gateway" where
  "index_page sv ps r g =
     (case session_and_context sv r g of
        (Inl Novo_Unauthenticated, g1) \<Rightarrow> (and_then (or_raise Unhandled_Error (login_url ps)) (\<lambda>url. Inr (Redirect_To 303 url)), g1)
      | (Inl e, g1) \<Rightarrow> (Inl e, g1)
      | (Inr cx, g1) \<Rightarrow> (Inr (Html_Page (replace_text (lit ''__NOVO_CHAT_BASE_PATH__'') (ps_base_path ps) (ps_html ps)) page_policy), g1))"

definition base_path_redirect :: "'w page_services \<Rightarrow> page" where
  "base_path_redirect ps = Redirect_To 308 (ps_base_path ps @ lit ''/'')"

section \<open>Security headers\<close>

text \<open>Assignment to a header replaces the first of that name and drops the others, or appends it.\<close>

definition assign_header :: "string \<Rightarrow> string \<Rightarrow> (str \<times> str) list \<Rightarrow> (str \<times> str) list" where
  "assign_header name v headers =
     (if lower (lit name) \<in> (lower \<circ> fst) ` set headers
      then takeWhile (\<lambda>(k, x). lower k \<noteq> lower (lit name)) headers @ [(lower (lit name), lit v)]
        @ filter (\<lambda>(k, x). lower k \<noteq> lower (lit name)) (dropWhile (\<lambda>(k, x). lower k \<noteq> lower (lit name)) headers)
      else headers @ [(lower (lit name), lit v)])"

definition security_headers :: "'w page_services \<Rightarrow> str \<Rightarrow> (str \<times> str) list \<Rightarrow> (str \<times> str) list" where
  "security_headers ps path headers =
     (if take (length (ps_base_path ps)) path = ps_base_path ps
      then assign_header ''X-Frame-Options'' ''SAMEORIGIN'' (assign_header ''Referrer-Policy'' ''same-origin''
             (assign_header ''X-Content-Type-Options'' ''nosniff'' (assign_header ''Cache-Control'' ''private, no-store'' headers)))
      else headers)"

section \<open>What the pages guarantee\<close>

lemma session_Inl: "session_and_context sv r g = (got, g') \<Longrightarrow> gs_session sv r = [] \<Longrightarrow> got = Inl Novo_Unauthenticated \<and> g' = g"
  by (simp add: session_and_context_def)

text \<open>Without a session the read-only endpoints answer with the sign-in error and ask neither Novo nor the worker.\<close>

lemma pages_need_session:
  assumes "gs_session sv r = []"
  shows "gateway_context sv ps r g = (Inl Novo_Unauthenticated, g)" "gateway_corpora sv ps r g = (Inl Novo_Unauthenticated, g)"
    "worker_status sv ps r g = (Inl Novo_Unauthenticated, g)"
    "index_page sv ps r g = (and_then (or_raise Unhandled_Error (login_url ps)) (\<lambda>url. Inr (Redirect_To 303 url)), g)"
  using assms
  by (simp_all add: session_and_context_def gateway_context_def gateway_corpora_def worker_status_def index_page_def)

text \<open>The worker is told nothing about the session of a browser whose session Novo does not confirm.\<close>

lemma refused_session_reaches_no_worker:
  assumes "session_and_context sv r g = (Inl e, g')"
  shows "snd (gateway_context sv ps r g) = g'" "snd (worker_status sv ps r g) = g'" "snd (index_page sv ps r g) = g'"
    and "gw_worker g' = gw_worker g"
proof -
  show "snd (gateway_context sv ps r g) = g'" "snd (worker_status sv ps r g) = g'"
    using assms by (simp_all add: gateway_context_def worker_status_def)
  show "snd (index_page sv ps r g) = g'"
    using assms by (simp add: index_page_def split: gateway_error.splits)
  show "gw_worker g' = gw_worker g"
    using assms by (auto simp: session_and_context_def load_context_def split: if_splits prod.splits)
qed

lemma context_fields_Inr:
  assumes "context_fields sv ps r cx worker = Inr fs"
  shows "\<exists>key token. gs_csrf_secret sv = Some key \<and> csrf_token (gs_mac sv) key (gs_session sv r) = Some token
    \<and> get_field fs ''csrfToken'' = JStr token"
proof -
  obtain corpora token where token: "(case gs_csrf_secret sv of None \<Rightarrow> None | Some key \<Rightarrow> csrf_token (gs_mac sv) key (gs_session sv r)) = Some token"
    and fs: "fs = [(lit ''apiVersion'', JStr (lit ''1'')), (lit ''user'', user_json (cx_user cx)), (lit ''corpora'', JArr corpora),
          (lit ''worker'', availability_json worker), (lit ''csrfToken'', JStr token), (lit ''novoHomePath'', JStr (ps_home_path ps)),
          (lit ''authorizationSource'', JStr (lit ''live Novo session and notebook permissions''))]"
    using assms by (auto simp: context_fields_def and_then_Inr)
  have "get_field fs ''csrfToken'' = JStr token" by (simp add: get_field_def fs lit_eq_iff)
  with token show ?thesis by (auto split: option.splits)
qed

lemma gateway_context_Inr:
  assumes "gateway_context sv ps r g = (Inr fs, g')"
  shows "\<exists>cx worker. context_fields sv ps r cx worker = Inr fs"
  using assms by (auto simp: gateway_context_def split: prod.splits sum.splits)

text \<open>A same-origin JSON request passes the check exactly with the token of its session.\<close>

lemma csrf_check_iff:
  assumes "lower (first_of 59 (header_or headers ''content-type'' [])) = lit ''application/json''"
    and "get_header headers ''origin'' = Some origin" "origin \<noteq> []" "split origin = Some site"
    and "split (request_origin public_origin url_scheme headers) = Some site"
    and "csrf_token mac key session_value = Some tok" "tok \<noteq> []" "list_all (\<lambda>c. c < 128) tok"
  shows "require_same_origin_json_csrf mac split public_origin url_scheme (Some key) session_value headers = Inr ()
    \<longleftrightarrow> get_header headers ''x-csrf-token'' = Some tok"
proof -
  have "header_or headers ''x-csrf-token'' [] = tok \<longleftrightarrow> get_header headers ''x-csrf-token'' = Some tok"
    using assms(7) by (auto simp: header_or_def split: option.splits)
  moreover have "or_none (Some origin) = Some origin" using assms(3) by (cases origin) (simp_all add: or_none_def)
  ultimately show ?thesis using assms by (auto simp: require_same_origin_json_csrf_def Let_def)
qed

text \<open>
  C34: the token of the context endpoint is the token that submissions need. When the context was given to a session,
  a JSON request of the same origin in that session passes the check of the gateway exactly when it carries the
  token of that answer. The hypothesis on the digest states that \<open>hexdigest\<close> is ASCII text that is not empty.
\<close>

theorem context_token_admits_requests:
  assumes "gateway_context sv ps r g = (Inr fs, g')" "gs_session sv r' = gs_session sv r"
    and "\<And>k m. gs_mac sv k m \<noteq> [] \<and> list_all (\<lambda>c. c < 128) (gs_mac sv k m)"
    and "lower (first_of 59 (header_or (hr_headers r') ''content-type'' [])) = lit ''application/json''"
    and "get_header (hr_headers r') ''origin'' = Some origin" "origin \<noteq> []" "gs_split sv origin = Some site"
    and "gs_split sv (request_origin (gs_public_origin sv) (gs_url_scheme sv) (hr_headers r')) = Some site"
  shows "\<exists>token. get_field fs ''csrfToken'' = JStr token
    \<and> (require_same_origin_json_csrf (gs_mac sv) (gs_split sv) (gs_public_origin sv) (gs_url_scheme sv)
         (gs_csrf_secret sv) (gs_session sv r') (hr_headers r') = Inr ()
       \<longleftrightarrow> get_header (hr_headers r') ''x-csrf-token'' = Some token)"
proof -
  obtain key token where token: "gs_csrf_secret sv = Some key" "csrf_token (gs_mac sv) key (gs_session sv r) = Some token"
      "get_field fs ''csrfToken'' = JStr token"
    using gateway_context_Inr [OF assms(1)] context_fields_Inr by blast
  have ascii: "token \<noteq> []" "list_all (\<lambda>c. c < 128) token"
    using token(2) assms(3) by (auto simp: csrf_token_def)
  show ?thesis
    using csrf_check_iff [OF assms(4-8) token(2) ascii] token assms(2) by auto
qed

text \<open>An example: alice reads her context and submits with its token.\<close>

definition ex_pages :: "unit page_services" where
  "ex_pages = \<lparr>ps_base_path = lit ''/chat'', ps_login_path = lit ''/'', ps_return_parameter = lit ''returnTo'', ps_home_path = lit ''/'',
     ps_html = lit ''<base href='__NOVO_CHAT_BASE_PATH__'/>'', ps_sha = ex_sha, ps_text_of = (\<lambda>j. []), ps_casefold = id, ps_db_ok = True,
     ps_health = (\<lambda>w. (Inr [(lit ''ok'', JBool True)], w)), ps_capabilities = (\<lambda>w. (Inr [], w)),
     ps_model_status = (\<lambda>w. (Inr [], w))\<rparr>"

definition ex_context_answer :: "(gateway_error + fields) \<times> (unit, unit) gateway" where
  "ex_context_answer = gateway_context ex_gateway ex_pages ex_browser \<lparr>gw_novo = (), gw_worker = (), gw_owners = [], gw_ticks = 0\<rparr>"

lemma ex_context_answer_ok: "case fst ex_context_answer of Inl e \<Rightarrow> False | Inr fs \<Rightarrow> get_field fs ''csrfToken'' = JStr (lit ''csrf'')"
  by code_simp

theorem context_token_admits_requests_witness:
  "\<exists>fs. fst ex_context_answer = Inr fs \<and> get_field fs ''csrfToken'' = JStr (lit ''csrf'')
     \<and> require_same_origin_json_csrf (gs_mac ex_gateway) (gs_split ex_gateway) (gs_public_origin ex_gateway) (gs_url_scheme ex_gateway)
         (gs_csrf_secret ex_gateway) (gs_session ex_gateway ex_browser) (hr_headers ex_browser) = Inr ()"
proof -
  obtain fs where answer: "fst ex_context_answer = Inr fs" "get_field fs ''csrfToken'' = JStr (lit ''csrf'')"
    using ex_context_answer_ok by (cases "fst ex_context_answer") auto
  then have run: "ex_context_answer = (Inr fs, snd ex_context_answer)" by (simp add: prod_eq_iff)
  have mac: "gs_mac ex_gateway k m \<noteq> [] \<and> list_all (\<lambda>c. c < 128) (gs_mac ex_gateway k m)" for k m
    unfolding ex_gateway_def by (simp add: lit_def)
  have request: "lower (first_of 59 (header_or (hr_headers ex_browser) ''content-type'' [])) = lit ''application/json''"
      "get_header (hr_headers ex_browser) ''origin'' = Some (lit ''https://chat'')" "lit ''https://chat'' \<noteq> []"
      "get_header (hr_headers ex_browser) ''x-csrf-token'' = Some (lit ''csrf'')"
    by code_simp+
  have site: "gs_split ex_gateway (lit ''https://chat'') = Some (lit ''https://chat'', [])"
      "gs_split ex_gateway (request_origin (gs_public_origin ex_gateway) (gs_url_scheme ex_gateway) (hr_headers ex_browser)) = Some (lit ''https://chat'', [])"
    by code_simp+
  show ?thesis
    using context_token_admits_requests [OF run [unfolded ex_context_answer_def] refl mac request(1-3) site] answer request(4) by auto
qed

section \<open>The headers of every answer\<close>

lemma lower_lower: "lower (lower s) = lower s"
  by (simp add: lower_def lower_char_idem)

lemma getlist_other:
  "lower (lit name) \<noteq> lit wanted \<Longrightarrow> getlist (filter (\<lambda>(k, x). lower k \<noteq> lower (lit name)) headers) wanted = getlist headers wanted"
  by (induction headers) (auto simp: getlist_def)

lemma getlist_assign:
  assumes "lower (lit name) = lit wanted"
  shows "getlist (assign_header name v headers) wanted = [lit v]"
proof -
  have one: "getlist [(lit wanted, lit v)] wanted = [lit v]"
    by (simp add: getlist_def lower_lower flip: assms)
  have none: "getlist (takeWhile (\<lambda>(k, x). lower k \<noteq> lit wanted) headers) wanted = []"
    "getlist (filter (\<lambda>(k, x). lower k \<noteq> lit wanted) xs) wanted = []" for xs :: "(str \<times> str) list"
    by (auto simp: getlist_def filter_empty_conv dest: set_takeWhileD)
  have "getlist headers wanted = []" if "lit wanted \<notin> (lower \<circ> fst) ` set headers"
    using that by (force simp: getlist_def filter_empty_conv)
  then show ?thesis by (cases "lit wanted \<in> (lower \<circ> fst) ` set headers")
    (simp_all only: assign_header_def assms getlist_append one none append_Nil append_Nil2 if_True if_False refl simp_thms)
qed

lemma getlist_assign_other:
  assumes "lower (lit name) \<noteq> lit wanted"
  shows "getlist (assign_header name v headers) wanted = getlist headers wanted"
proof -
  have one: "getlist ((lower (lit name), lit v) # xs) wanted = getlist xs wanted" for xs
    using assms by (simp add: getlist_def lower_lower)
  have split: "getlist (takeWhile p headers) wanted @ getlist (dropWhile p headers) wanted = getlist headers wanted" for p
    by (simp flip: getlist_append)
  have "getlist [] wanted = []" by (simp add: getlist_def)
  then show ?thesis by (simp add: assign_header_def getlist_append one getlist_other [OF assms] split)
qed

text \<open>Below the base path each of the four headers is set exactly once, whatever the endpoint has set; other headers stay.\<close>

lemma secured_headers:
  assumes "take (length (ps_base_path ps)) path = ps_base_path ps"
  shows "getlist (security_headers ps path headers) ''cache-control'' = [lit ''private, no-store'']"
    "getlist (security_headers ps path headers) ''x-content-type-options'' = [lit ''nosniff'']"
    "getlist (security_headers ps path headers) ''referrer-policy'' = [lit ''same-origin'']"
    "getlist (security_headers ps path headers) ''x-frame-options'' = [lit ''SAMEORIGIN'']"
    and "wanted \<notin> {''cache-control'', ''x-content-type-options'', ''referrer-policy'', ''x-frame-options''}
      \<Longrightarrow> getlist (security_headers ps path headers) wanted = getlist headers wanted"
proof -
  have names: "lower (lit ''Cache-Control'') = lit ''cache-control''" "lower (lit ''X-Content-Type-Options'') = lit ''x-content-type-options''"
    "lower (lit ''Referrer-Policy'') = lit ''referrer-policy''" "lower (lit ''X-Frame-Options'') = lit ''x-frame-options''"
    by code_simp+
  note set = security_headers_def getlist_assign getlist_assign_other names lit_eq_iff
  show "getlist (security_headers ps path headers) ''cache-control'' = [lit ''private, no-store'']"
    "getlist (security_headers ps path headers) ''x-content-type-options'' = [lit ''nosniff'']"
    "getlist (security_headers ps path headers) ''referrer-policy'' = [lit ''same-origin'']"
    "getlist (security_headers ps path headers) ''x-frame-options'' = [lit ''SAMEORIGIN'']"
    using assms by (simp_all add: set)
  show "getlist (security_headers ps path headers) wanted = getlist headers wanted"
    if "wanted \<notin> {''cache-control'', ''x-content-type-options'', ''referrer-policy'', ''x-frame-options''}"
    using assms that by (auto simp: set)
qed

end
