(* ===== verification/Model_Server.thy ===== *)
theory Model_Server
  imports Executor Json_Loads
begin

text \<open>
  The privileged model controller (\<open>deploy/compute-host/modelctl_server.py\<close>): its inventory and
  configuration, the Docker commands it runs under the host lock, the request it accepts on its Unix
  socket and its answer. Docker, the lock file, the inventory file and Unicode's decimal digits are
  parameters over a state \<open>'d\<close>; containers may stop by themselves between two commands.
\<close>

section \<open>Errors and parameters\<close>

datatype ctl_error = Controller_Error str str int | Unexpected_Error

abbreviation ControllerError :: "string \<Rightarrow> string \<Rightarrow> int \<Rightarrow> ctl_error" where
  "ControllerError code message status \<equiv> Controller_Error (lit code) (lit message) status"

datatype run_error = Run_Timeout | Run_OS_Error | Run_Other_Error

record completed_process =
  cp_returncode :: int
  cp_stdout :: str
  cp_stderr :: str

text \<open>\<open>dk_lock\<close> is false when taking the host lock raises \<open>OSError\<close>; the inventory is \<open>None\<close> when it cannot be read.\<close>

record 'd docker =
  dk_run :: "str list \<Rightarrow> int \<Rightarrow> 'd \<Rightarrow> (run_error + completed_process) \<times> 'd"
  dk_lock :: "'d \<Rightarrow> bool \<times> 'd"
  dk_inventory :: "'d \<Rightarrow> str option"
  dk_digit :: "nat \<Rightarrow> nat option"

section \<open>Names\<close>

definition name_char :: "nat list \<Rightarrow> nat \<Rightarrow> bool" where
  "name_char extra c \<longleftrightarrow> is_alnum c \<or> c \<in> set extra"

definition container_name :: "str \<Rightarrow> bool" where
  "container_name = token is_alnum (name_char [95, 46, 45]) 127"

definition model_name :: "str \<Rightarrow> bool" where
  "model_name = token is_alnum (name_char [46, 95, 58, 45]) 127"

definition request_name :: "str \<Rightarrow> bool" where
  "request_name s \<longleftrightarrow> s \<noteq> [] \<and> length s \<le> 128 \<and> list_all (name_char [95, 46, 58, 45]) s"

definition actor_name :: "str \<Rightarrow> bool" where
  "actor_name s \<longleftrightarrow> s \<noteq> [] \<and> length s \<le> 128 \<and> list_all (name_char [95, 46, 58, 64, 45]) s"

section \<open>Inventory and configuration\<close>

fun distinct_containers :: "str list \<Rightarrow> pyjson list \<Rightarrow> str list option" where
  "distinct_containers seen [] = Some seen"
| "distinct_containers seen (PStr c # rest) =
     (if container_name c \<and> c \<notin> set seen then distinct_containers (seen @ [c]) rest else None)"
| "distinct_containers seen (v # rest) = None"

text \<open>\<open>None\<close>: \<open>OSError\<close>, \<open>ValueError\<close> or \<open>RuntimeError\<close>.\<close>

definition load_inventory :: "str option \<Rightarrow> str list option" where
  "load_inventory contents =
     (case map_option json_loads contents of
        Some (Inr (PObj fs)) \<Rightarrow>
          if equals_one (field_of fs ''version'')
          then (case field_of fs ''containers'' of PArr (v # vs) \<Rightarrow> distinct_containers [] (v # vs) | _ \<Rightarrow> None)
          else None
      | _ \<Rightarrow> None)"

record model_entry =
  me_container :: str
  me_stop_timeout :: int

record ctl_config =
  cc_docker :: str
  cc_models :: "(str \<times> model_entry) list"

text \<open>\<open>int(value)\<close>: truncation of a float, \<open>int\<close> of a string; \<open>None\<close> is any exception.\<close>

definition int_of :: "pyjson \<Rightarrow> int option" where
  "int_of v = (case v of PInt i \<Rightarrow> Some i | PBool b \<Rightarrow> Some (if b then 1 else 0)
     | PFloat t \<Rightarrow> (case float_value t of Finite r \<Rightarrow> Some (if r < 0 then - floor (- r) else floor r) | _ \<Rightarrow> None)
     | PStr s \<Rightarrow> py_int 10 s | _ \<Rightarrow> None)"

definition read_model :: "str list \<Rightarrow> str \<times> pyjson \<Rightarrow> (str \<times> model_entry) option" where
  "read_model exclusive kv = (case kv of (model_id, PObj raw) \<Rightarrow>
       (case field_of raw ''container'' of
          PStr c \<Rightarrow>
            if model_name model_id \<and> container_name c \<and> c \<in> set exclusive then
              (case int_of (case map_of raw (lit ''stopTimeoutSeconds'') of Some v \<Rightarrow> v | None \<Rightarrow> PInt 30) of
                 Some t \<Rightarrow> if t < 1 \<or> t > 120 then None else Some (model_id, \<lparr>me_container = c, me_stop_timeout = t\<rparr>)
               | None \<Rightarrow> None)
            else None
        | _ \<Rightarrow> None)
     | _ \<Rightarrow> None)"

text \<open>The binary is \<open>str\<close> of the configured value, which is a parameter on values that are no strings.\<close>

definition load_config :: "(pyjson \<Rightarrow> str) \<Rightarrow> str option \<Rightarrow> str option \<Rightarrow> ctl_config option" where
  "load_config text_of contents inventory =
     (case (load_inventory inventory, map_option json_loads contents) of
        (Some exclusive, Some (Inr (PObj fs))) \<Rightarrow>
          if equals_one (field_of fs ''version'') then
            (case field_of fs ''models'' of
               PObj (m # ms) \<Rightarrow>
                 map_option (\<lambda>models. \<lparr>cc_docker = (let v = field_of fs ''dockerBinary'' in
                     if is_truthy v then (case v of PStr s \<Rightarrow> s | _ \<Rightarrow> text_of v) else lit ''/usr/bin/docker''),
                   cc_models = models\<rparr>)
                   (option_list (map (read_model exclusive) (m # ms)))
             | _ \<Rightarrow> None)
          else None
      | _ \<Rightarrow> None)"

section \<open>Docker commands\<close>

definition run_command :: "'d docker \<Rightarrow> ctl_config \<Rightarrow> str list \<Rightarrow> int \<Rightarrow> 'd \<Rightarrow> (ctl_error + completed_process) \<times> 'd" where
  "run_command dk cfg args timeout d =
     (let (r, d') = dk_run dk (cc_docker cfg # args) timeout d in
      (case r of Inr p \<Rightarrow> Inr p
       | Inl Run_Timeout \<Rightarrow> Inl (ControllerError ''DOCKER_TIMEOUT'' ''Container operation timed out.'' 503)
       | Inl Run_OS_Error \<Rightarrow> Inl (ControllerError ''DOCKER_UNAVAILABLE'' ''Container controller is unavailable.'' 503)
       | Inl Run_Other_Error \<Rightarrow> Inl Unexpected_Error, d'))"

abbreviation inspect_running :: "str \<Rightarrow> str list" where
  "inspect_running c \<equiv> [lit ''inspect'', lit ''--format'', lit ''{{.State.Running}}'', c]"

abbreviation inspect_started :: "str \<Rightarrow> str list" where
  "inspect_started c \<equiv> [lit ''inspect'', lit ''--format'', lit ''{{.State.StartedAt}}'', c]"

abbreviation logs_since :: "str \<Rightarrow> str \<Rightarrow> str list" where
  "logs_since started_at c \<equiv> [lit ''logs'', lit ''--since'', started_at, lit ''--tail'', lit ''256'', c]"

abbreviation start_container :: "str \<Rightarrow> str list" where
  "start_container c \<equiv> [lit ''start'', c]"

abbreviation stop_container :: "int \<Rightarrow> str \<Rightarrow> str list" where
  "stop_container t c \<equiv> [lit ''stop'', lit ''--time'', render_int t, c]"

definition says_true :: "completed_process \<Rightarrow> bool" where
  "says_true p \<longleftrightarrow> lower (py_strip (cp_stdout p)) = lit ''true''"

definition is_running :: "'d docker \<Rightarrow> ctl_config \<Rightarrow> str \<Rightarrow> 'd \<Rightarrow> (ctl_error + bool) \<times> 'd" where
  "is_running dk cfg c d =
     (let (r, d') = run_command dk cfg (inspect_running c) 15 d in
      (and_then r (\<lambda>p. demand (ControllerError ''CONTAINER_UNAVAILABLE'' ''Configured model container is unavailable.'' 503)
         (cp_returncode p = 0) (Inr (says_true p))), d'))"

text \<open>The shapes of \<open>STARTED_AT_RE\<close> and \<open>CHECKPOINT_PROGRESS_RE\<close>; \<open>digit_of\<close> gives the value of a decimal digit.\<close>

definition started_at_ok :: "(nat \<Rightarrow> nat option) \<Rightarrow> str \<Rightarrow> bool" where
  "started_at_ok digit_of s \<longleftrightarrow>
     length s \<ge> 20 \<and> list_all2 (\<lambda>p c. if p = 100 then digit_of c \<noteq> None else c = p) (lit ''dddd-dd-ddTdd:dd:dd'') (take 19 s)
     \<and> last s = 90 \<and> (let fraction = butlast (drop 19 s) in fraction = [] \<or>
          hd fraction = 46 \<and> tl fraction \<noteq> [] \<and> list_all (\<lambda>c. digit_of c \<noteq> None) (tl fraction))"

definition progress_at :: "(nat \<Rightarrow> nat option) \<Rightarrow> str \<Rightarrow> nat option" where
  "progress_at digit_of s =
     (let p = lit ''Loading safetensors checkpoint shards:''; r = dropWhile is_space (drop (length p) s);
          ds = takeWhile (\<lambda>c. digit_of c \<noteq> None) r; r1 = drop (length ds) r; r2 = dropWhile is_space (tl r1);
          q = lit ''Completed''; r3 = dropWhile is_space (drop (length q) r2)
      in if take (length p) s = p \<and> 1 \<le> length ds \<and> length ds \<le> 3 \<and> r1 \<noteq> [] \<and> hd r1 = 37 \<and> tl r1 \<noteq> [] \<and> is_space (hd (tl r1))
            \<and> take (length q) r2 = q \<and> r3 \<noteq> [] \<and> hd r3 = 124
         then Some (foldl (\<lambda>n c. 10 * n + (case digit_of c of Some d \<Rightarrow> d | None \<Rightarrow> 0)) 0 ds) else None)"

text \<open>The last match: matches do not overlap, because one holds a single capital L.\<close>

fun last_progress :: "(nat \<Rightarrow> nat option) \<Rightarrow> str \<Rightarrow> nat option" where
  "last_progress digit_of [] = None"
| "last_progress digit_of (c # s) = (case last_progress digit_of s of Some n \<Rightarrow> Some n | None \<Rightarrow> progress_at digit_of (c # s))"

text \<open>The percentage of \<open>_startup_progress\<close>; a \<open>ControllerError\<close> of a command is no progress.\<close>

definition quiet :: "ctl_error + 'a \<Rightarrow> ctl_error + 'a option" where
  "quiet r = (case r of Inr x \<Rightarrow> Inr (Some x) | Inl (Controller_Error c m s) \<Rightarrow> Inr None | Inl Unexpected_Error \<Rightarrow> Inl Unexpected_Error)"

definition startup_progress :: "'d docker \<Rightarrow> ctl_config \<Rightarrow> str \<Rightarrow> 'd \<Rightarrow> (ctl_error + nat option) \<times> 'd" where
  "startup_progress dk cfg c d =
     (case run_command dk cfg (inspect_started c) 15 d of (started, d1) \<Rightarrow>
        (case quiet started of
           Inl e \<Rightarrow> (Inl e, d1) | Inr None \<Rightarrow> (Inr None, d1)
         | Inr (Some p) \<Rightarrow>
             (let started_at = py_strip (cp_stdout p) in
              if cp_returncode p \<noteq> 0 \<or> \<not> started_at_ok (dk_digit dk) started_at then (Inr None, d1)
              else (let (logs, d2) = run_command dk cfg (logs_since started_at c) 15 d1 in
                (and_then (quiet logs) (\<lambda>l. Inr (case l of None \<Rightarrow> None
                   | Some q \<Rightarrow> if cp_returncode q \<noteq> 0 then None
                       else (case last_progress (dk_digit dk) (cp_stdout q @ [10] @ cp_stderr q) of
                               Some k \<Rightarrow> if k \<le> 100 then Some k else None | None \<Rightarrow> None))), d2)))))"

section \<open>Operations\<close>

text \<open>A status with its \<open>changed\<close> flag and its progress in percent, where they are present.\<close>

record ctl_status =
  cs_state :: string
  cs_changed :: "bool option"
  cs_progress :: "nat option"

definition exclusive_containers :: "'d docker \<Rightarrow> ctl_config \<Rightarrow> 'd \<Rightarrow> ctl_error + str list" where
  "exclusive_containers dk cfg d =
     (case load_inventory (dk_inventory dk d) of
        Some containers \<Rightarrow>
          demand (ControllerError ''MODEL_INVENTORY_UNAVAILABLE'' ''Model exclusivity inventory is unavailable.'' 503)
            (set (map (me_container \<circ> snd) (cc_models cfg)) \<subseteq> set containers) (Inr containers)
      | None \<Rightarrow> Inl (ControllerError ''MODEL_INVENTORY_UNAVAILABLE'' ''Model exclusivity inventory is unavailable.'' 503))"

definition model_entry_of :: "ctl_config \<Rightarrow> str \<Rightarrow> ctl_error + model_entry" where
  "model_entry_of cfg model_id =
     or_raise (ControllerError ''UNKNOWN_MODEL'' ''Model is not approved.'' 404) (map_of (cc_models cfg) model_id)"

definition ctl_status_of :: "'d docker \<Rightarrow> ctl_config \<Rightarrow> model_entry \<Rightarrow> 'd \<Rightarrow> (ctl_error + ctl_status) \<times> 'd" where
  "ctl_status_of dk cfg entry d =
     (case is_running dk cfg (me_container entry) d of
        (Inl e, d1) \<Rightarrow> (Inl e, d1)
      | (Inr False, d1) \<Rightarrow> (Inr \<lparr>cs_state = ''stopped'', cs_changed = None, cs_progress = None\<rparr>, d1)
      | (Inr True, d1) \<Rightarrow>
          (let (progress, d2) = startup_progress dk cfg (me_container entry) d1
           in (and_then progress (\<lambda>k. Inr \<lparr>cs_state = ''running'', cs_changed = None, cs_progress = k\<rparr>), d2)))"

text \<open>The running containers of the inventory, asked for in its order.\<close>

fun running_of :: "'d docker \<Rightarrow> ctl_config \<Rightarrow> str list \<Rightarrow> 'd \<Rightarrow> (ctl_error + str list) \<times> 'd" where
  "running_of dk cfg [] d = (Inr [], d)"
| "running_of dk cfg (c # cs) d =
     (case is_running dk cfg c d of
        (Inl e, d1) \<Rightarrow> (Inl e, d1)
      | (Inr b, d1) \<Rightarrow>
          (let (rest, d2) = running_of dk cfg cs d1 in (and_then rest (\<lambda>r. Inr (if b then c # r else r)), d2)))"

definition start_unless_conflict ::
  "'d docker \<Rightarrow> ctl_config \<Rightarrow> str \<Rightarrow> str list \<Rightarrow> 'd \<Rightarrow> (ctl_error + ctl_status) \<times> 'd" where
  "start_unless_conflict dk cfg c running_containers d =
     (if \<exists>other\<in>set running_containers. other \<noteq> c
      then (Inl (ControllerError ''MODEL_CONFLICT'' ''Another approved model is running; drain and stop it before switching.'' 409), d)
      else if c \<in> set running_containers then (Inr \<lparr>cs_state = ''running'', cs_changed = Some False, cs_progress = None\<rparr>, d)
      else (let (r, d') = run_command dk cfg (start_container c) 60 d in
        (and_then r (\<lambda>p. demand (ControllerError ''MODEL_START_FAILED'' ''Model container could not be started.'' 503)
           (cp_returncode p = 0) (Inr \<lparr>cs_state = ''running'', cs_changed = Some True, cs_progress = None\<rparr>)), d')))"

abbreviation lock_unavailable :: ctl_error where
  "lock_unavailable \<equiv> ControllerError ''MODEL_LOCK_UNAVAILABLE'' ''Model exclusivity control is unavailable.'' 503"

definition ctl_start :: "'d docker \<Rightarrow> ctl_config \<Rightarrow> model_entry \<Rightarrow> 'd \<Rightarrow> (ctl_error + ctl_status) \<times> 'd" where
  "ctl_start dk cfg entry d =
     (case dk_lock dk d of
        (False, d1) \<Rightarrow> (Inl lock_unavailable, d1)
      | (True, d1) \<Rightarrow>
          (case exclusive_containers dk cfg d1 of Inl e \<Rightarrow> (Inl e, d1)
           | Inr containers \<Rightarrow>
               (case running_of dk cfg containers d1 of
                  (Inl e, d2) \<Rightarrow> (Inl e, d2)
                | (Inr running_containers, d2) \<Rightarrow> start_unless_conflict dk cfg (me_container entry) running_containers d2)))"

definition ctl_stop :: "'d docker \<Rightarrow> ctl_config \<Rightarrow> model_entry \<Rightarrow> 'd \<Rightarrow> (ctl_error + ctl_status) \<times> 'd" where
  "ctl_stop dk cfg entry d =
     (case dk_lock dk d of
        (False, d1) \<Rightarrow> (Inl lock_unavailable, d1)
      | (True, d1) \<Rightarrow>
          (case is_running dk cfg (me_container entry) d1 of
             (Inl e, d2) \<Rightarrow> (Inl e, d2)
           | (Inr False, d2) \<Rightarrow> (Inr \<lparr>cs_state = ''stopped'', cs_changed = Some False, cs_progress = None\<rparr>, d2)
           | (Inr True, d2) \<Rightarrow>
               (let (r, d3) = run_command dk cfg (stop_container (me_stop_timeout entry) (me_container entry)) (me_stop_timeout entry + 15) d2 in
                (and_then r (\<lambda>p. demand (ControllerError ''MODEL_STOP_FAILED'' ''Model container could not be stopped.'' 503)
                   (cp_returncode p = 0) (Inr \<lparr>cs_state = ''stopped'', cs_changed = Some True, cs_progress = None\<rparr>)), d3))))"

definition control :: "'d docker \<Rightarrow> ctl_config \<Rightarrow> control_action \<Rightarrow> str \<Rightarrow> 'd \<Rightarrow> (ctl_error + ctl_status) \<times> 'd" where
  "control dk cfg action model_id d =
     (case model_entry_of cfg model_id of Inl e \<Rightarrow> (Inl e, d)
      | Inr entry \<Rightarrow> (case action of Status \<Rightarrow> ctl_status_of dk cfg entry d | Start \<Rightarrow> ctl_start dk cfg entry d | Stop \<Rightarrow> ctl_stop dk cfg entry d))"

section \<open>Requests\<close>

record ctl_request =
  cr_request_id :: str
  cr_actor_id :: str
  cr_action :: control_action
  cr_model :: str

definition action_text :: "control_action \<Rightarrow> string" where
  "action_text a = (case a of Status \<Rightarrow> ''status'' | Start \<Rightarrow> ''start'' | Stop \<Rightarrow> ''stop'')"

text \<open>A list or an object as the action makes the membership test raise \<open>TypeError\<close>.\<close>

definition action_of :: "pyjson \<Rightarrow> ctl_error + control_action" where
  "action_of v = (case v of
     PStr s \<Rightarrow> or_raise (ControllerError ''UNKNOWN_ACTION'' ''Action is not approved.'' 400)
       (find (\<lambda>a. lit (action_text a) = s) [Status, Start, Stop])
   | PArr vs \<Rightarrow> Inl Unexpected_Error | PObj fs \<Rightarrow> Inl Unexpected_Error
   | _ \<Rightarrow> Inl (ControllerError ''UNKNOWN_ACTION'' ''Action is not approved.'' 400))"

definition named :: "(str \<Rightarrow> bool) \<Rightarrow> ctl_error \<Rightarrow> pyjson \<Rightarrow> ctl_error + str" where
  "named ok e v = (case v of PStr s \<Rightarrow> demand e (ok s) (Inr s) | _ \<Rightarrow> Inl e)"

definition parse_request :: "bytes \<Rightarrow> ctl_error + ctl_request" where
  "parse_request raw =
     and_then (or_raise (ControllerError ''INVALID_JSON'' ''Request must be valid UTF-8 JSON.'' 400) (utf8_decode raw)) (\<lambda>s.
     and_then (case json_loads s of Inr v \<Rightarrow> Inr v | Inl Other_Load_Error \<Rightarrow> Inl Unexpected_Error
       | Inl Decode_Error \<Rightarrow> Inl (ControllerError ''INVALID_JSON'' ''Request must be valid UTF-8 JSON.'' 400)) (\<lambda>v.
     and_then (case v of PObj fs \<Rightarrow> Inr fs | _ \<Rightarrow> Inl (ControllerError ''INVALID_REQUEST'' ''Request must be a JSON object.'' 400)) (\<lambda>fs.
     demand (ControllerError ''INVALID_REQUEST'' ''Request contains unsupported fields.'' 400)
       (set (map fst fs) \<subseteq> set (map lit [''version'', ''requestId'', ''actorId'', ''action'', ''model'']))
    (demand (ControllerError ''UNSUPPORTED_VERSION'' ''Unsupported controller protocol version.'' 400) (equals_one (field_of fs ''version''))
    (and_then (named request_name (ControllerError ''INVALID_REQUEST_ID'' ''A valid request ID is required.'' 400) (field_of fs ''requestId'')) (\<lambda>rid.
     and_then (named actor_name (ControllerError ''INVALID_ACTOR'' ''A valid actor ID is required.'' 400) (field_of fs ''actorId'')) (\<lambda>actor.
     and_then (action_of (field_of fs ''action'')) (\<lambda>action.
     and_then (named model_name (ControllerError ''INVALID_MODEL'' ''A valid model ID is required.'' 400) (field_of fs ''model'')) (\<lambda>m.
     Inr \<lparr>cr_request_id = rid, cr_actor_id = actor, cr_action = action, cr_model = m\<rparr>))))))))) "

text \<open>\<open>repr\<close> of the float \<open>percent / 100.0\<close>: at most two decimal places.\<close>

definition percent_text :: "nat \<Rightarrow> str" where
  "percent_text k = (if k = 100 then lit ''1.0'' else lit ''0.'' @
     (if k mod 10 = 0 then [48 + k div 10] else [48 + k div 10, 48 + k mod 10]))"

definition status_json :: "ctl_status \<Rightarrow> pyjson" where
  "status_json s = PObj ([(lit ''state'', PStr (lit (cs_state s)))]
     @ (case cs_changed s of None \<Rightarrow> [] | Some b \<Rightarrow> [(lit ''changed'', PBool b)])
     @ (case cs_progress s of None \<Rightarrow> [] | Some k \<Rightarrow> [(lit ''progress'', PFloat (percent_text k))]))"

definition error_payload :: "str \<Rightarrow> ctl_error \<Rightarrow> (str \<times> pyjson) list \<times> int" where
  "error_payload rid e =
     (let (code, message, status) = (case e of Controller_Error c m s \<Rightarrow> (c, m, s)
            | Unexpected_Error \<Rightarrow> (lit ''INTERNAL_ERROR'', lit ''Model controller failed.'', 500))
      in ([(lit ''ok'', PBool False), (lit ''version'', PInt 1), (lit ''requestId'', PStr rid),
           (lit ''error'', PObj [(lit ''code'', PStr code), (lit ''message'', PStr message)])], status))"

definition handle_control :: "'d docker \<Rightarrow> ctl_config \<Rightarrow> bytes \<Rightarrow> 'd \<Rightarrow> ((str \<times> pyjson) list \<times> int) \<times> 'd" where
  "handle_control dk cfg raw d =
     (case parse_request raw of
        Inl e \<Rightarrow> (error_payload [] e, d)
      | Inr r \<Rightarrow>
          (let (answer, d') = control dk cfg (cr_action r) (cr_model r) d in
           (case answer of
              Inl e \<Rightarrow> error_payload (cr_request_id r) e
            | Inr s \<Rightarrow> ([(lit ''ok'', PBool True), (lit ''version'', PInt 1), (lit ''requestId'', PStr (cr_request_id r)),
                (lit ''model'', PStr (cr_model r)), (lit ''action'', PStr (lit (action_text (cr_action r)))), (lit ''status'', status_json s)], 200),
            d')))"

section \<open>The socket\<close>

text \<open>
  How the reads of a line can end: with the end of the stream, a timeout, or another \<open>OSError\<close>. Both
  sides read chunks up to a newline, and refuse a line that is longer than their maximum.
\<close>

datatype socket_end = Closed | Socket_Timeout | Socket_Error

datatype line_error = Line_Too_Long | Line_Timeout | Line_Error

fun read_line :: "nat \<Rightarrow> bytes \<Rightarrow> socket_end \<Rightarrow> bytes list \<Rightarrow> line_error + bytes" where
  "read_line maximum got ending [] = (case ending of
     Closed \<Rightarrow> demand Line_Too_Long (length got \<le> maximum) (Inr got)
   | Socket_Timeout \<Rightarrow> Inl Line_Timeout | Socket_Error \<Rightarrow> Inl Line_Error)"
| "read_line maximum got ending (chunk # chunks) =
     (if chunk = [] then demand Line_Too_Long (length got \<le> maximum) (Inr got)
      else if 10 \<in> set chunk then
        (let line = got @ takeWhile (\<lambda>b. b \<noteq> 10) chunk in demand Line_Too_Long (length line \<le> maximum) (Inr line))
      else if length (got @ chunk) > maximum then Inl Line_Too_Long
      else read_line maximum (got @ chunk) ending chunks)"

text \<open>One connection of \<open>serve\<close>: the bytes sent, or \<open>None\<close> when an error of the socket ends the server.\<close>

definition serve_one :: "'d docker \<Rightarrow> ctl_config \<Rightarrow> bytes list \<Rightarrow> socket_end \<Rightarrow> 'd \<Rightarrow> bytes option \<times> 'd" where
  "serve_one dk cfg chunks ending d =
     (let send = (\<lambda>(fields, status). utf8_encode (dumps ascii_char (PObj (fields @ [(lit ''statusCode'', PInt status)])) @ [10])) in
      case read_line 8192 [] ending chunks of
        Inr raw \<Rightarrow> (let (payload, d') = handle_control dk cfg raw d in (send payload, d'))
      | Inl Line_Timeout \<Rightarrow> (send (error_payload [] (ControllerError ''REQUEST_TIMEOUT'' ''Request timed out.'' 408)), d)
      | Inl Line_Too_Long \<Rightarrow> (send (error_payload [] (ControllerError ''REQUEST_TOO_LARGE'' ''Request is too large.'' 413)), d)
      | Inl Line_Error \<Rightarrow> (None, d))"

end
