(* ===== verification/Model_Client.thy ===== *)
theory Model_Client
  imports Model_Server
begin

text \<open>
  The worker's side of model control (\<open>model_controller.py\<close>): the JSON-line client of the controller's
  socket, which lets only a checked status or one of a fixed list of errors through, and the controller
  used when none is configured. The connection is a parameter: it takes the bytes sent to the chunks
  read back and to how the reading ends, or to \<open>None\<close> when connecting or sending raises \<open>OSError\<close>.
\<close>

type_synonym 'd connection = "bytes \<Rightarrow> 'd \<Rightarrow> (bytes list \<times> socket_end) option \<times> 'd"

record client_status =
  cl_state :: str
  cl_changed :: bool
  cl_progress :: "rat option"

section \<open>Errors\<close>

abbreviation control_unavailable :: exn where
  "control_unavailable \<equiv> coded ''MODEL_CONTROLLER_UNAVAILABLE'' ''Model control is unavailable.'' True"

abbreviation response_invalid :: exn where
  "response_invalid \<equiv> coded ''MODEL_CONTROLLER_RESPONSE_INVALID'' ''Model controller returned an invalid response.'' True"

definition safe_controller_errors :: "(string \<times> string) list" where
  "safe_controller_errors =
     [(''MODEL_CONFLICT'', ''Another approved model is currently active.''),
      (''MODEL_INVENTORY_UNAVAILABLE'', ''Model control is unavailable.''),
      (''MODEL_LOCK_UNAVAILABLE'', ''Model control is unavailable.''),
      (''UNKNOWN_MODEL'', ''Requested model is not approved.''),
      (''CONTAINER_UNAVAILABLE'', ''Configured model container is unavailable.''),
      (''DOCKER_UNAVAILABLE'', ''Model control is unavailable.''),
      (''DOCKER_TIMEOUT'', ''Model control timed out.''),
      (''MODEL_START_FAILED'', ''Model could not be started.''),
      (''MODEL_STOP_FAILED'', ''Model could not be stopped.''),
      (''REQUEST_TIMEOUT'', ''Model control timed out.'')]"

text \<open>A code that is no string is in no entry of the table.\<close>

definition safe_error :: "pyjson \<Rightarrow> exn" where
  "safe_error v = (case v of
     PStr c \<Rightarrow> (case find (\<lambda>(code, message). lit code = c) safe_controller_errors of
        Some (code, message) \<Rightarrow> coded code message True | None \<Rightarrow> control_unavailable)
   | _ \<Rightarrow> control_unavailable)"

section \<open>Calls\<close>

definition request_json :: "control_action \<Rightarrow> str \<Rightarrow> str \<Rightarrow> str \<Rightarrow> pyjson" where
  "request_json action model_id rid actor = PObj
     [(lit ''version'', PInt 1), (lit ''requestId'', PStr rid), (lit ''actorId'', PStr actor),
      (lit ''action'', PStr (lit (action_text action))), (lit ''model'', PStr model_id)]"

text \<open>\<open>float\<close> of an integer beyond the doubles raises \<open>OverflowError\<close>, which nothing catches.\<close>

definition read_progress :: "pyjson option \<Rightarrow> exn + rat option" where
  "read_progress v = (case v of
     None \<Rightarrow> Inr None
   | Some (PInt i) \<Rightarrow> (case double_of (of_int i) of Finite r \<Rightarrow> demand response_invalid (0 \<le> r \<and> r \<le> 1) (Inr (Some r)) | _ \<Rightarrow> Inl Other_Error)
   | Some (PFloat t) \<Rightarrow> (case float_value t of Finite r \<Rightarrow> demand response_invalid (0 \<le> r \<and> r \<le> 1) (Inr (Some r)) | _ \<Rightarrow> Inl response_invalid)
   | _ \<Rightarrow> Inl response_invalid)"

definition read_status :: "(str \<times> pyjson) list \<Rightarrow> exn + client_status" where
  "read_status status = (case field_of status ''state'' of
     PStr state \<Rightarrow>
       demand response_invalid (state \<in> set (map lit [''running'', ''stopped'', ''starting'', ''stopping'', ''failed'']))
         (and_then (read_progress (map_of status (lit ''progress''))) (\<lambda>progress.
           Inr \<lparr>cl_state = state, cl_changed = is_truthy (field_of status ''changed''), cl_progress = progress\<rparr>))
   | _ \<Rightarrow> Inl response_invalid)"

text \<open>The answer line: an integer of more than 4300 digits makes \<open>json.loads\<close> raise an uncaught \<open>ValueError\<close>.\<close>

definition read_reply :: "control_action \<Rightarrow> str \<Rightarrow> str \<Rightarrow> bytes \<Rightarrow> exn + client_status" where
  "read_reply action model_id rid line =
     and_then (or_raise response_invalid (utf8_decode line)) (\<lambda>s.
     and_then (case json_loads s of Inr v \<Rightarrow> Inr v | Inl Decode_Error \<Rightarrow> Inl response_invalid | Inl Other_Load_Error \<Rightarrow> Inl Value_Error) (\<lambda>v.
     and_then (case v of PObj fs \<Rightarrow> Inr fs | _ \<Rightarrow> Inl response_invalid) (\<lambda>fs.
     demand response_invalid (equals_one (field_of fs ''version'') \<and> field_of fs ''requestId'' = PStr rid)
    (if field_of fs ''ok'' \<noteq> PBool True
     then Inl (safe_error (case field_of fs ''error'' of PObj e \<Rightarrow> field_of e ''code'' | _ \<Rightarrow> PNull))
     else demand response_invalid (field_of fs ''model'' = PStr model_id \<and> field_of fs ''action'' = PStr (lit (action_text action)))
       (case field_of fs ''status'' of PObj status \<Rightarrow> read_status status | _ \<Rightarrow> Inl response_invalid)))))"

text \<open>A lone surrogate in the request makes \<open>encode\<close> raise a \<open>ValueError\<close>.\<close>

definition call_controller ::
  "'d connection \<Rightarrow> nat \<Rightarrow> control_action \<Rightarrow> str \<Rightarrow> str \<Rightarrow> str \<Rightarrow> 'd \<Rightarrow> (exn + client_status) \<times> 'd" where
  "call_controller connect max_response_bytes action model_id rid actor d =
     (case utf8_encode (dumps escape_char (request_json action model_id rid actor)) of
        None \<Rightarrow> (Inl Value_Error, d)
      | Some request_line \<Rightarrow>
          (let wire = request_line @ [10] in
           if length wire > 8192
           then (Inl (coded ''MODEL_CONTROLLER_REQUEST_INVALID'' ''Model control request is invalid.'' True), d)
           else (case connect wire d of
              (None, d') \<Rightarrow> (Inl control_unavailable, d')
            | (Some (chunks, ending), d') \<Rightarrow>
                (case read_line max_response_bytes [] ending chunks of
                   Inl Line_Too_Long \<Rightarrow> (Inl response_invalid, d')
                 | Inl _ \<Rightarrow> (Inl control_unavailable, d')
                 | Inr line \<Rightarrow> (read_reply action model_id rid line, d')))))"

text \<open>The controller of an operation, as the executor calls it.\<close>

definition socket_control ::
  "'d connection \<Rightarrow> nat \<Rightarrow> control_action \<Rightarrow> str \<Rightarrow> stored_operation \<Rightarrow> 'd \<Rightarrow> (exn + control_reply) \<times> 'd" where
  "socket_control connect max_response_bytes action model_id operation d =
     (let (answer, d') = call_controller connect max_response_bytes action model_id (so_request_id operation) (so_actor_user_id operation) d
      in (and_then answer (\<lambda>s. Inr \<lparr>cr_state = cl_state s, cr_progress = cl_progress s\<rparr>), d'))"

text \<open>\<open>model_state_from_response\<close>: the public state of a response, the case of its letters ignored.\<close>

definition model_state_from_response :: "(pyjson \<Rightarrow> str) \<Rightarrow> (str \<times> pyjson) list \<Rightarrow> model_runtime_state" where
  "model_state_from_response text_of response =
     (let raw = lower (case map_of response (lit ''state'') of None \<Rightarrow> lit ''unavailable'' | Some (PStr s) \<Rightarrow> s | Some v \<Rightarrow> text_of v);
          raw = (if raw = lit ''running'' then lit ''ready'' else raw)
      in case find (\<lambda>(state, value_text). lit value_text = raw)
             [(STOPPED, ''stopped''), (STARTING, ''starting''), (READY, ''ready''), (DRAINING, ''draining''), (STOPPING, ''stopping''),
              (MODEL_FAILED, ''failed''), (UNAVAILABLE, ''unavailable'')] of
           Some (state, _) \<Rightarrow> state | None \<Rightarrow> MODEL_FAILED)"

text \<open>\<open>UnavailableModelController\<close> and \<open>UnavailableModelReadinessProbe\<close>.\<close>

definition unavailable_probe :: "str \<Rightarrow> bool" where
  "unavailable_probe model_id = False"

definition unavailable_control :: "control_action \<Rightarrow> exn + str" where
  "unavailable_control action = (if action = Status then Inr (lit ''unavailable'') else Inl control_unavailable)"

section \<open>The controller at the other end\<close>

text \<open>
  The server as the connection: what it is sent arrives cut into chunks, and so does its answer, after
  which the server closes the connection.
\<close>

definition server_connection ::
  "'d docker \<Rightarrow> ctl_config \<Rightarrow> (bytes \<Rightarrow> bytes list) \<Rightarrow> 'd connection" where
  "server_connection dk cfg chunked wire d =
     (let (answer, d') = serve_one dk cfg (chunked wire) Closed d in (map_option (\<lambda>bs. (chunked bs, Closed)) answer, d'))"

end
