(* ===== verification/Json_Round_Trip.thy ===== *)
theory Json_Round_Trip
  imports Json_Loads
begin

text \<open>
  What \<open>json.dumps\<close> writes \<open>json.loads\<close> reads back, for both encoders, on values whose objects have
  distinct keys.
\<close>

section \<open>Strings\<close>

definition escapes_back :: "(nat \<Rightarrow> str) \<Rightarrow> nat \<Rightarrow> bool" where
  "escapes_back esc c \<longleftrightarrow> (\<forall>r. read_chars (esc c @ r) = map_option (\<lambda>(t, r'). (c # t, r')) (read_chars r))"

lemma hex4_digits:
  assumes "a < 16" "b < 16" "c < 16" "d < 16"
  shows "hex4 (hex_digit a # hex_digit b # hex_digit c # hex_digit d # r) = Some (a * 4096 + b * 256 + c * 16 + d)"
proof -
  have ok: "is_hex_char (hex_digit e)" if "e < 16" for e
    using that by (auto simp: hex_digit_def is_digit_def is_hex_char_def)
  have "take 4 (hex_digit a # hex_digit b # hex_digit c # hex_digit d # r) = [hex_digit a, hex_digit b, hex_digit c, hex_digit d]"
    by (simp add: numeral_eq_Suc)
  then show ?thesis
    unfolding hex4_def Let_def using assms by (simp add: ok digit_value_hex_digit)
qed

lemma read_unicode_escape:
  assumes "c < 65536" "\<not> high_surrogate c"
  shows "read_chars (hex4_text c @ r) = map_option (\<lambda>(t, r'). (c # t, r')) (read_chars r)"
proof -
  have "hex4 (hex_digit (c div 4096) # hex_digit (c div 256 mod 16) # hex_digit (c div 16 mod 16) # hex_digit (c mod 16) # r)
      = Some (c div 4096 * 4096 + c div 256 mod 16 * 256 + c div 16 mod 16 * 16 + c mod 16)"
    using assms(1) by (intro hex4_digits) auto
  also have "c div 4096 * 4096 + c div 256 mod 16 * 256 + c div 16 mod 16 * 16 + c mod 16 = c"
  proof -
    have "c = c div 16 * 16 + c mod 16" by simp
    moreover have "c div 16 = c div 256 * 16 + c div 16 mod 16" using div_mult_mod_eq [of "c div 16" 16] by (simp add: div_mult2_eq [symmetric])
    moreover have "c div 256 = c div 4096 * 16 + c div 256 mod 16" using div_mult_mod_eq [of "c div 256" 16] by (simp add: div_mult2_eq [symmetric])
    ultimately show ?thesis by linarith
  qed
  finally have hex: "hex4 (hex_digit (c div 4096) # hex_digit (c div 256 mod 16) # hex_digit (c div 16 mod 16) # hex_digit (c mod 16) # r) = Some c" .
  have "drop 4 (w # x # y # z # r) = r" for w x y z :: nat by (simp add: numeral_eq_Suc)
  then have "unicode_escape (hex_digit (c div 4096) # hex_digit (c div 256 mod 16) # hex_digit (c div 16 mod 16) # hex_digit (c mod 16) # r) = Some (c, r)"
    using hex assms(2) by (simp only: unicode_escape_def option.case Let_def if_False simp_thms)
  then show ?thesis by (simp add: hex4_text_def read_escape_def)
qed

lemma read_simple_escape: "simple_escape e = Some c \<Longrightarrow> read_chars (92 # e # r) = map_option (\<lambda>(t, r'). (c # t, r')) (read_chars r)"
  by (auto simp: read_escape_def simple_escape_def split: if_splits)

lemma escape_char_back: "escapes_back escape_char c"
proof (cases "c \<in> {34, 92, 10, 13, 9, 12, 8} \<or> 32 \<le> c")
  case True
  then show ?thesis
    by (auto simp: escapes_back_def escape_char_def read_escape_def simple_escape_def)
next
  case False
  then have "c < 32" "c \<notin> {34, 92, 10, 13, 9, 12, 8}" by auto
  then have "escape_char c = hex4_text c"
    by (auto simp: escape_char_def hex4_text_def hex_digit_def)
  then show ?thesis
    using \<open>c < 32\<close> by (simp add: escapes_back_def read_unicode_escape high_surrogate_def)
qed

lemma ascii_char_back: "c < 55296 \<Longrightarrow> escapes_back ascii_char c"
  using escape_char_back [of c]
  by (auto simp: escapes_back_def ascii_char_def read_unicode_escape high_surrogate_def)

lemma read_dumps_str:
  assumes "\<forall>c\<in>set s. escapes_back esc c"
  shows "read_chars (concat (map esc s) @ 34 # x) = Some (s, x)"
  using assms by (induction s) (auto simp: escapes_back_def)

section \<open>Numbers\<close>

lemma render_nat_zero: "hd (render_nat n) = 48 \<Longrightarrow> n = 0"
proof (induction n rule: render_nat.induct)
  case (1 n)
  show ?case
  proof (cases "n < 10")
    case True then show ?thesis using 1(2) by (simp add: render_nat.simps [of n])
  next
    case False
    then have "hd (render_nat (n div 10)) = 48"
      using 1(2) render_nat_nonempty [of "n div 10"] by (simp add: render_nat.simps [of n])
    then show ?thesis using 1(1) [OF False] False by simp
  qed
qed

lemma stops_heads: "stops x \<Longrightarrow> takeWhile is_digit (ds @ x) = takeWhile is_digit ds"
  by (induction ds) (cases x; auto simp: is_digit_def)+

lemma stops_parts: "stops x \<Longrightarrow> fraction_part x = ([], x) \<and> exponent_part x = (None, x)"
  by (cases x) (auto simp: fraction_part_def exponent_part_def Let_def)

lemma digits_render_nat: "takeWhile is_digit (render_nat n) = render_nat n"
  using render_nat_digits [of n] by (intro takeWhile_eq_all_conv [THEN iffD2]) (auto simp: digit_def is_digit_def)

lemma whole_part_nat:
  assumes "stops x" shows "whole_part (render_nat n @ x) = (render_nat n, x)"
proof -
  have "render_nat 0 = [48]" by (simp add: render_nat.simps)
  then show ?thesis
    using assms render_nat_zero [of n] by (auto simp: whole_part_def stops_heads digits_render_nat Let_def)
qed

lemma number_start_int:
  assumes "stops x" shows "number_start (render_int i @ x) = (i < 0, render_nat (nat (abs i)), x)"
proof -
  have "hd (render_nat n) \<noteq> 45" for n
    using render_nat_no_sign [of n x] by (cases "render_nat n") (auto simp: render_nat_nonempty)
  then show ?thesis
    using whole_part_nat [OF assms] by (simp add: number_start_def render_int_def render_nat_nonempty)
qed

lemma read_number_int:
  assumes "stops x" "length (render_nat (nat (abs i))) \<le> 4300"
  shows "read_number (render_int i @ x) = Inr (PInt i, x)"
  using assms by (simp add: read_number_def number_start_int stops_parts render_nat_nonempty)

section \<open>Values\<close>

text \<open>The text of a float that starts with a digit and is read to its end.\<close>

definition float_text :: "str \<Rightarrow> bool" where
  "float_text t \<longleftrightarrow> t \<noteq> [] \<and> is_digit (hd t) \<and> (\<forall>x. stops x \<longrightarrow> read_number (t @ x) = Inr (PFloat t, x))"

fun writable :: "(nat \<Rightarrow> str) \<Rightarrow> pyjson \<Rightarrow> bool" where
  "writable esc (PInt i) \<longleftrightarrow> length (render_nat (nat (abs i))) \<le> 4300"
| "writable esc (PFloat t) \<longleftrightarrow> float_text t"
| "writable esc (PStr s) \<longleftrightarrow> (\<forall>c\<in>set s. escapes_back esc c)"
| "writable esc (PArr vs) \<longleftrightarrow> (\<forall>v\<in>set vs. writable esc v)"
| "writable esc (PObj kvs) \<longleftrightarrow> distinct (map fst kvs) \<and> (\<forall>(k, v)\<in>set kvs. (\<forall>c\<in>set k. escapes_back esc c) \<and> writable esc v)"
| "writable esc v \<longleftrightarrow> True"

text \<open>How the text of a value starts: never like a separator, a closing bracket or white space.\<close>

lemma render_int_head: "\<exists>c r. render_int i = c # r \<and> (is_digit c \<or> c = 45 \<and> (\<exists>d r'. r = d # r' \<and> is_digit d))"
proof -
  have "\<exists>c r. render_nat n = c # r \<and> is_digit c" for n
    using render_nat_digits [of n] render_nat_nonempty [of n] by (cases "render_nat n") (auto simp: digit_def is_digit_def)
  then show ?thesis by (cases "i < 0") (fastforce simp: render_int_def)+
qed

lemma dumps_head:
  assumes "writable esc v"
  obtains c r where "dumps esc v = c # r" "c \<notin> {32, 9, 10, 13, 93, 125, 44, 58}"
proof (cases v)
  case (PInt i)
  then show thesis using render_int_head [of i] that by (fastforce simp: is_digit_def)
next
  case (PFloat t)
  then show thesis using assms that by (cases t) (auto simp: float_text_def is_digit_def)
next
  case (PBool b)
  then show thesis using that by (cases b) (simp_all add: lit_def)
qed (use that in \<open>auto simp: lit_def dumps_str_def\<close>)

lemma skip_space_dumps: "writable esc v \<Longrightarrow> skip_space (dumps esc v @ x) = dumps esc v @ x"
  by (erule dumps_head [of _ v]) (simp add: skip_space_def)

lemma skip_space_Cons [simp]: "skip_space [] = []" "c \<notin> {32, 9, 10, 13} \<Longrightarrow> skip_space (c # s) = c # s"
  by (auto simp: skip_space_def)

lemma skip_space_stops: "stops x \<Longrightarrow> skip_space x = x"
  by (cases x) (auto simp: skip_space_def)

lemma dict_set_new: "k \<notin> fst ` set acc \<Longrightarrow> dict_set k v acc = acc @ [(k, v)]"
  by (induction acc) auto

definition reads :: "(nat \<Rightarrow> str) \<Rightarrow> pyjson \<Rightarrow> bool" where
  "reads esc v \<longleftrightarrow> (\<forall>n x. stops x \<longrightarrow> 2 * length (dumps esc v) \<le> n \<longrightarrow> read_value n (dumps esc v @ x) = Inr (v, x))"

lemma readsI:
  assumes "writable esc v"
    and "\<And>m x. stops x \<Longrightarrow> 2 * length (dumps esc v) \<le> Suc m \<Longrightarrow> read_value (Suc m) (dumps esc v @ x) = Inr (v, x)"
  shows "reads esc v"
proof -
  have "dumps esc v \<noteq> []" using dumps_head [OF assms(1)] by (metis list.distinct(1))
  then show ?thesis unfolding reads_def using assms(2) by (metis One_nat_def Suc_le_D le_trans length_greater_0_conv Suc_leI mult_2 le_add1)
qed

lemma join_nonempty: "xs \<noteq> [] \<Longrightarrow> join sep (x # xs) = x @ sep @ join sep xs"
  by (cases xs) auto

lemma read_items_back:
  assumes "vs \<noteq> []" "\<forall>v\<in>set vs. writable esc v \<and> reads esc v" "2 * length (join [44] (map (dumps esc) vs)) < n"
  shows "read_items n acc (join [44] (map (dumps esc) vs) @ 93 # x) = Inr (PArr (acc @ vs), x)"
  using assms
proof (induction vs arbitrary: n acc)
  case (Cons v vs)
  obtain m where m: "n = Suc m" using Cons.prems(3) by (cases n) auto
  show ?case
  proof (cases "vs = []")
    case True
    then show ?thesis using Cons.prems by (simp add: m read_items.simps reads_def)
  next
    case False
    let ?rest = "join [44] (map (dumps esc) vs)"
    have len: "2 * length (dumps esc v) \<le> m" "2 * length ?rest < m"
      using Cons.prems(3) False by (simp_all add: m join_nonempty)
    have "skip_space (?rest @ 93 # x) = ?rest @ 93 # x"
      using skip_space_dumps [of esc "hd vs"] Cons.prems(2) False
      by (cases vs; cases "tl vs") (auto simp: join_nonempty)
    then show ?thesis
      using Cons.prems(2) Cons.IH [OF False _ len(2)] False len(1)
      by (simp add: m read_items.simps reads_def join_nonempty skip_space_stops)
  qed
qed simp

abbreviation member_text :: "(nat \<Rightarrow> str) \<Rightarrow> str \<times> pyjson \<Rightarrow> str" where
  "member_text esc \<equiv> (\<lambda>(k, v). dumps_str esc k @ 58 # dumps esc v)"

lemma read_members_back:
  assumes "kvs \<noteq> []" "\<forall>(k, v)\<in>set kvs. (\<forall>c\<in>set k. escapes_back esc c) \<and> writable esc v \<and> reads esc v"
    and "distinct (map fst (acc @ kvs))" "2 * length (join [44] (map (member_text esc) kvs)) < n"
  shows "read_members n acc (join [44] (map (member_text esc) kvs) @ 125 # x) = Inr (PObj (acc @ kvs), x)"
  using assms
proof (induction kvs arbitrary: n acc)
  case (Cons kv kvs)
  obtain k v where kv: "kv = (k, v)" by (cases kv)
  obtain m where m: "n = Suc m" using Cons.prems(4) by (cases n) auto
  have ok: "\<forall>c\<in>set k. escapes_back esc c" "writable esc v" "reads esc v" "k \<notin> fst ` set acc"
    using Cons.prems(2,3) by (auto simp: kv)
  show ?case
  proof (cases "kvs = []")
    case True
    then show ?thesis using Cons.prems(4) ok
      by (simp add: m kv read_members.simps dumps_str_def read_dumps_str reads_def skip_space_dumps dict_set_new)
  next
    case False
    let ?rest = "join [44] (map (member_text esc) kvs)"
    have len: "2 * length (dumps esc v) \<le> m" "2 * length ?rest < m"
      using Cons.prems(4) False by (simp_all add: m kv join_nonempty)
    have "?rest \<noteq> [] \<and> hd ?rest = 34"
      using False by (cases kvs; cases "tl kvs") (auto simp: join_nonempty dumps_str_def)
    then have "skip_space (?rest @ 125 # x) = ?rest @ 125 # x"
      using skip_space_Cons(2) [of 34 "tl ?rest @ 125 # x"] by (cases ?rest) simp_all
    moreover have "skip_space (58 # y) = 58 # y" for y by simp
    ultimately show ?thesis
      using Cons.prems(2,3) Cons.IH [OF False _ _ len(2), of "acc @ [(k, v)]"] False len(1) ok
      by (simp add: m kv read_members.simps dumps_str_def read_dumps_str reads_def join_nonempty skip_space_stops skip_space_dumps dict_set_new)
  qed
qed simp

lemma minus_head: "is_digit d \<Longrightarrow> read_value (Suc n) (45 # d # s) = read_number (45 # d # s)"
  by (auto simp: read_value.simps is_digit_def lit_def numeral_eq_Suc)

lemma number_head: "is_digit c \<Longrightarrow> read_value (Suc n) (c # s) = read_number (c # s)"
  by (auto simp: read_value.simps is_digit_def lit_def numeral_eq_Suc)

lemma reads_dumps: "writable esc v \<Longrightarrow> reads esc v"
proof (induction v)
  case (PInt i)
  have "read_value (Suc n) (render_int i @ x) = read_number (render_int i @ x)" for n x
    using render_int_head [of i] by (auto simp: number_head minus_head)
  then show ?case using PInt read_number_int by (intro readsI) auto
next
  case (PFloat t)
  then obtain c r where "t = c # r" "is_digit c" by (cases t) (auto simp: float_text_def)
  then show ?case using PFloat by (intro readsI) (auto simp: float_text_def number_head)
next
  case (PStr s)
  then show ?case by (intro readsI) (auto simp: dumps_str_def read_value.simps read_dumps_str)
next
  case (PArr vs)
  show ?case
  proof (rule readsI [OF PArr.prems])
    fix m x assume n: "2 * length (dumps esc (PArr vs)) \<le> Suc m"
    show "read_value (Suc m) (dumps esc (PArr vs) @ x) = Inr (PArr vs, x)"
    proof (cases vs)
      case Nil
      then show ?thesis by (simp add: read_value.simps)
    next
      case (Cons v us)
      then have "writable esc v" using PArr.prems by simp
      from dumps_head [OF this] obtain c r where c: "dumps esc v = c # r" "c \<notin> {32, 9, 10, 13, 93, 125, 44, 58}" by blast
      then obtain r' where items: "join [44] (map (dumps esc) vs) = c # r'" by (cases us) (auto simp: Cons)
      have "read_items m [] (join [44] (map (dumps esc) vs) @ 93 # x) = Inr (PArr vs, x)"
        using read_items_back [of vs esc m "[]" x] PArr n Cons by auto
      then show ?thesis using c(2) by (simp add: read_value.simps items)
    qed
  qed
next
  case (PObj kvs)
  show ?case
  proof (rule readsI [OF PObj.prems])
    fix m x assume n: "2 * length (dumps esc (PObj kvs)) \<le> Suc m"
    show "read_value (Suc m) (dumps esc (PObj kvs) @ x) = Inr (PObj kvs, x)"
    proof (cases kvs)
      case Nil
      then show ?thesis by (simp add: read_value.simps)
    next
      case (Cons kv us)
      then obtain r' where items: "join [44] (map (member_text esc) kvs) = 34 # r'"
        by (cases us; cases kv) (auto simp: dumps_str_def)
      have "read_members m [] (join [44] (map (member_text esc) kvs) @ 125 # x) = Inr (PObj kvs, x)"
        using read_members_back [of kvs esc "[]" m x] PObj n Cons by fastforce
      then show ?thesis by (simp add: read_value.simps items)
    qed
  qed
qed (auto intro!: readsI simp: read_value.simps lit_def)

lemma json_loads_dumps:
  assumes "writable esc v" shows "json_loads (dumps esc v) = Inr v"
proof -
  have "read_value (2 * length (dumps esc v) + 2) (dumps esc v) = Inr (v, [])"
    using reads_dumps [OF assms] unfolding reads_def by (metis append_Nil2 le_add1 stops_simps(1))
  then show ?thesis
    using skip_space_dumps [OF assms, of "[]"] by (simp add: json_loads_def)
qed

end
