(* ===== verification/Model_Control_Props.thy ===== *)
theory Model_Control_Props
  imports Model_Client Json_Round_Trip
begin

text \<open>
  Model control end to end: a call over the socket does what the controller does in place. The lemmas follow
  one request through encoding, framing, parsing, the controller and the checks of the reply.
\<close>

section \<open>Lines\<close>

lemma takeWhile_append_notin: "x \<notin> set xs \<Longrightarrow> takeWhile (\<lambda>y. y \<noteq> x) (xs @ ys) = xs @ takeWhile (\<lambda>y. y \<noteq> x) ys"
  by (induction xs) auto

text \<open>However a line is cut into chunks, the reader gets the bytes before the newline.\<close>

lemma read_line_chunks:
  assumes "[] \<notin> set chunks" "10 \<in> set (concat chunks)"
  shows "read_line maximum got ending chunks =
     demand Line_Too_Long (length got + length (takeWhile (\<lambda>b. b \<noteq> 10) (concat chunks)) \<le> maximum)
       (Inr (got @ takeWhile (\<lambda>b. b \<noteq> 10) (concat chunks)))"
  using assms
proof (induction chunks arbitrary: got)
  case (Cons chunk chunks)
  show ?case
  proof (cases "10 \<in> set chunk")
    case True
    then have "takeWhile (\<lambda>b. b \<noteq> 10) (chunk @ concat chunks) = takeWhile (\<lambda>b. b \<noteq> 10) chunk"
      by (auto simp: takeWhile_append)
    then show ?thesis using True Cons.prems(1) by (auto simp: Let_def)
  next
    case False
    then show ?thesis
      using Cons.prems Cons.IH [of "got @ chunk"] takeWhile_append_notin [OF False] by (auto simp: demand_def)
  qed
qed simp

lemma read_line_sent:
  assumes "concat chunks = line @ [10]" "[] \<notin> set chunks" "10 \<notin> set line" "length line \<le> maximum"
  shows "read_line maximum [] ending chunks = Inr line"
  using assms read_line_chunks [of chunks maximum "[]" ending] by (simp add: takeWhile_append_notin)

section \<open>Floats between 0 and 1\<close>

lemma bit_length_mono: "m \<le> n \<Longrightarrow> bit_length m \<le> bit_length n"
proof (induction m arbitrary: n rule: bit_length.induct)
  case (1 m)
  show ?case
  proof (cases "m = 0")
    case False
    then have "bit_length (m div 2) \<le> bit_length (n div 2)" using 1 by (intro 1(1)) (auto simp: div_le_mono)
    then show ?thesis using False 1(2) by (simp add: bit_length.simps [of m] bit_length.simps [of n])
  qed (simp add: bit_length.simps)
qed

lemma floor_log2_le_1:
  assumes "0 < r" "r \<le> 1" shows "floor_log2 r \<le> 0"
proof -
  obtain p q where pq: "quotient_of r = (p, q)" by (cases "quotient_of r")
  have q: "0 < q" by (rule quotient_of_denom_pos [OF pq])
  have "of_int p \<le> (of_int q :: rat)" using assms(2) q quotient_of_div [OF pq] by (simp add: field_simps)
  then have "nat p \<le> nat q" by simp
  from bit_length_mono [OF this] show ?thesis by (auto simp: floor_log2_def pq Let_def)
qed

lemma round_half_even_le: "r \<le> of_int n \<Longrightarrow> round_half_even r \<le> n"
proof -
  assume r: "r \<le> of_int n"
  then have f: "floor r \<le> n" by (simp add: floor_le_iff)
  show ?thesis
  proof (cases "floor r = n")
    case True
    then have "r - of_int (floor r) = 0" using r floor_correct [of r] by linarith
    then show ?thesis using True by (simp add: round_half_even_def Let_def)
  next
    case False
    then show ?thesis using f by (simp add: round_half_even_def Let_def)
  qed
qed

lemma round_half_even_nonneg: "0 \<le> r \<Longrightarrow> 0 \<le> round_half_even r"
  by (simp add: round_half_even_def Let_def)

lemma double_of_unit:
  assumes "0 \<le> r" "r \<le> 1"
  shows "\<exists>v. double_of r = Finite v \<and> 0 \<le> v \<and> v \<le> 1"
proof (cases "r = 0")
  case False
  define e where "e = max (floor_log2 r - 52) (- 1074)"
  define u where "u = power_of_two e"
  define n :: int where "n = 2 ^ nat (- e)"
  have "e \<le> 0" using floor_log2_le_1 [of r] assms False by (simp add: e_def)
  then have u: "u = 1 / of_int n" "0 < n" by (auto simp: u_def n_def power_of_two_def)
  then have "r / u \<le> of_int n" "0 \<le> r / u" using assms by (auto simp: mult_left_le_one_le)
  then have bounds: "round_half_even (r / u) \<le> n" "0 \<le> round_half_even (r / u)"
    by (auto intro: round_half_even_le round_half_even_nonneg)
  define v where "v = of_int (round_half_even (r / u)) * u"
  have v: "0 \<le> v" "v \<le> 1" using bounds u by (auto simp: v_def divide_le_eq)
  have "(1 :: rat) < 2 ^ 1024" by (rule one_less_power) auto
  then have "\<not> v \<ge> 2 ^ 1024" using v(2) by linarith
  then have "double_of r = Finite v"
    using False assms by (simp add: double_of_def Let_def v_def u_def e_def)
  then show ?thesis using v by blast
qed (simp add: double_of_def)

text \<open>Numerals of one digit and a decimal fraction, as percentages are written.\<close>

lemma digits_then_stops: "stops x \<Longrightarrow> list_all is_digit ds \<Longrightarrow> takeWhile is_digit (ds @ x) = ds"
  by (simp only: stops_heads takeWhile_eq_all_conv list_all_iff)

lemma point_numeral_parts:
  assumes "is_digit w" "list_all is_digit ds" "ds \<noteq> []" "stops x"
  shows "number_start (w # 46 # ds @ x) = (False, [w], 46 # ds @ x)" "fraction_part (46 # ds @ x) = (ds, x)"
proof -
  have "w \<noteq> 45" "\<not> is_digit 46" using assms(1) by (auto simp: is_digit_def)
  then show "number_start (w # 46 # ds @ x) = (False, [w], 46 # ds @ x)"
    using assms(1) by (simp add: number_start_def whole_part_def Let_def)
  show "fraction_part (46 # ds @ x) = (ds, x)"
    using digits_then_stops [OF assms(4,2)] assms(3) by (simp add: fraction_part_def)
qed

lemma point_numeral_text:
  assumes "is_digit w" "list_all is_digit ds" "ds \<noteq> []"
  shows "float_text (w # 46 # ds)"
  using assms point_numeral_parts [OF assms] stops_parts
  by (simp add: float_text_def read_number_def)

lemma point_numeral_value:
  assumes "is_digit w" "list_all is_digit ds" "ds \<noteq> []"
  shows "float_value (w # 46 # ds) = double_of (of_nat (nat_of_digits (w # ds)) / 10 ^ length ds)"
  using assms(1) point_numeral_parts [OF assms, of "[]"] stops_parts [of "[]"]
  using assms(3) by (auto simp: float_value_def decimal_def is_digit_def lit_def Let_def)

lemma percent_numeral:
  assumes "k \<le> 100"
  obtains w ds where "percent_text k = w # 46 # ds" "is_digit w" "list_all is_digit ds" "ds \<noteq> []"
    "(of_nat (nat_of_digits (w # ds)) / 10 ^ length ds :: rat) = of_nat k / 100"
proof (cases "k = 100")
  case True
  show thesis
    by (rule that [of 49 "[48]"]) (simp_all add: True percent_text_def lit_def is_digit_def nat_of_digits_def)
next
  case False
  have split: "of_nat k = 10 * of_nat (k div 10) + (of_nat (k mod 10) :: rat)"
    by (metis div_mult_mod_eq mult.commute of_nat_add of_nat_mult of_nat_numeral)
  have digits: "is_digit (48 + k div 10)" "is_digit (48 + k mod 10)" using assms False by (auto simp: is_digit_def)
  show thesis
  proof (cases "k mod 10 = 0")
    case True
    then show thesis using False digits split
      by (intro that [of 48 "[48 + k div 10]"]) (simp_all add: percent_text_def lit_def nat_of_digits_def is_digit_def)
  next
    case nonzero: False
    then show thesis using False digits split
      by (intro that [of 48 "[48 + k div 10, 48 + k mod 10]"]) (simp_all add: percent_text_def lit_def nat_of_digits_def is_digit_def)
  qed
qed

definition percent :: "nat \<Rightarrow> rat" where
  "percent k = (case double_of (of_nat k / 100) of Finite r \<Rightarrow> r | _ \<Rightarrow> 0)"

lemma percent_text_read:
  assumes "k \<le> 100"
  shows "float_text (percent_text k)" "float_value (percent_text k) = Finite (percent k)" "0 \<le> percent k" "percent k \<le> 1"
    "length (percent_text k) \<le> 4"
proof -
  obtain w ds where p: "percent_text k = w # 46 # ds" "is_digit w" "list_all is_digit ds" "ds \<noteq> []"
    "(of_nat (nat_of_digits (w # ds)) / 10 ^ length ds :: rat) = of_nat k / 100"
    using percent_numeral [OF assms] .
  show "float_text (percent_text k)" using point_numeral_text [OF p(2-4)] by (simp only: p(1))
  have "float_value (percent_text k) = double_of (of_nat k / 100)"
    using point_numeral_value [OF p(2-4)] by (simp only: p(1,5))
  moreover obtain v where "double_of (of_nat k / 100) = Finite v" "0 \<le> v" "v \<le> 1"
    using double_of_unit [of "of_nat k / 100"] assms by auto
  ultimately show "float_value (percent_text k) = Finite (percent k)" "0 \<le> percent k" "percent k \<le> 1"
    by (simp_all add: percent_def)
  show "length (percent_text k) \<le> 4" by (simp add: percent_text_def)
qed

section \<open>Plain values\<close>

definition plain_char :: "nat \<Rightarrow> bool" where
  "plain_char c \<longleftrightarrow> 32 \<le> c \<and> c < 127 \<and> c \<noteq> 34 \<and> c \<noteq> 92"

lemma plain_escapes: "plain_char c \<Longrightarrow> escape_char c = [c]" "plain_char c \<Longrightarrow> ascii_char c = [c]"
  by (auto simp: plain_char_def escape_char_def ascii_char_def)

lemma dumps_plain_str:
  "list_all plain_char s \<Longrightarrow> dumps_str escape_char s = 34 # s @ [34] \<and> dumps_str ascii_char s = 34 # s @ [34]"
  by (induction s) (auto simp: dumps_str_def plain_escapes)

lemma plain_escapes_back: "plain_char c \<Longrightarrow> escapes_back escape_char c \<and> escapes_back ascii_char c"
  using escape_char_back ascii_char_back [of c] by (auto simp: plain_char_def)

fun plain_value :: "pyjson \<Rightarrow> bool" where
  "plain_value (PFloat t) \<longleftrightarrow> list_all plain_char t \<and> float_text t"
| "plain_value (PInt i) \<longleftrightarrow> 0 \<le> i \<and> i < 1000"
| "plain_value (PStr s) \<longleftrightarrow> list_all plain_char s"
| "plain_value (PArr vs) \<longleftrightarrow> (\<forall>v\<in>set vs. plain_value v)"
| "plain_value (PObj kvs) \<longleftrightarrow> distinct (map fst kvs) \<and> (\<forall>(k, v)\<in>set kvs. list_all plain_char k \<and> plain_value v)"
| "plain_value v \<longleftrightarrow> True"

lemma render_small: "n < 1000 \<Longrightarrow> length (render_nat n) \<le> 3"
proof -
  assume "n < 1000"
  then have "n div 10 div 10 < 10" by auto
  then show ?thesis by (simp add: render_nat.simps [of n] render_nat.simps [of "n div 10"] render_nat.simps [of "n div 10 div 10"])
qed

lemma render_int_small: "0 \<le> i \<Longrightarrow> i < 1000 \<Longrightarrow> length (render_int i) \<le> 3"
  using render_small [of "nat i"] by (simp add: render_int_def)

lemma plain_writable: "plain_value v \<Longrightarrow> writable escape_char v \<and> writable ascii_char v"
proof (induction v)
  case (PInt i)
  then have "nat i < 1000" by (simp add: nat_less_iff)
  from render_small [OF this] PInt show ?case by simp
next
  case (PObj kvs)
  then show ?case by (fastforce simp: list_all_iff plain_escapes_back)
qed (auto simp: list_all_iff plain_escapes_back)

definition text_char :: "nat \<Rightarrow> bool" where "text_char c \<longleftrightarrow> 32 \<le> c \<and> c < 127"

lemma list_all_join: "list_all p sep \<Longrightarrow> \<forall>x\<in>set xs. list_all p x \<Longrightarrow> list_all p (join sep xs)"
  by (induction sep xs rule: join.induct) auto

lemma plain_text: "list_all plain_char s \<Longrightarrow> list_all text_char s"
  by (auto simp: list_all_iff plain_char_def text_char_def)

lemma plain_str_text:
  "list_all plain_char s \<Longrightarrow> esc \<in> {escape_char, ascii_char} \<Longrightarrow> list_all text_char (dumps_str esc s)"
  using dumps_plain_str [of s] plain_text [of s] by (auto simp: text_char_def)

lemma dumps_text: "plain_value v \<Longrightarrow> esc \<in> {escape_char, ascii_char} \<Longrightarrow> list_all text_char (dumps esc v)"
proof (induction v)
  case (PInt i)
  then show ?case using render_nat_digits [of "nat i"] by (auto simp: list_all_iff render_int_def digit_def text_char_def)
next
  case (PArr vs)
  then show ?case by (auto simp: text_char_def intro!: list_all_join)
next
  case (PObj kvs)
  have "list_all text_char (member_text esc kv)" if "kv \<in> set kvs" for kv
  proof -
    obtain k v where kv: "kv = (k, v)" by (cases kv)
    have "list_all plain_char k" "plain_value v" using PObj.prems that by (auto simp: kv)
    moreover have "text_char 58" by (simp add: text_char_def)
    ultimately show ?thesis using PObj.IH [of kv v] PObj.prems(2) that by (simp add: kv plain_str_text)
  qed
  then have "list_all text_char (join [44] (map (member_text esc) kvs))"
    by (intro list_all_join) (simp_all add: text_char_def)
  moreover have "text_char 123" "text_char 125" by (simp_all add: text_char_def)
  ultimately show ?case by simp
qed (auto simp: plain_str_text plain_text, auto simp: lit_def text_char_def)

lemma utf8_text_char: "text_char c \<Longrightarrow> utf8_char c = Some [c]"
  by (simp add: text_char_def utf8_char_def)

lemma utf8_text:
  assumes "list_all text_char s" shows "utf8_encode s = Some s" "utf8_decode s = Some s"
proof -
  show "utf8_encode s = Some s" using assms by (induction s) (simp_all add: utf8_text_char)
  then show "utf8_decode s = Some s" by (rule utf8_round_trip)
qed

lemma utf8_line: "list_all text_char s \<Longrightarrow> utf8_encode (s @ [10]) = Some (s @ [10])"
  by (induction s) (simp_all add: utf8_text_char, simp add: utf8_char_def)

lemma text_no_newline: "list_all text_char s \<Longrightarrow> 10 \<notin> set s"
  by (auto simp: list_all_iff text_char_def)

text \<open>A plain value of bounded length sent as one line arrives as it is.\<close>

lemma plain_line:
  assumes "plain_value v" "esc \<in> {escape_char, ascii_char}"
  shows "utf8_encode (dumps esc v) = Some (dumps esc v)" "utf8_decode (dumps esc v) = Some (dumps esc v)"
    "json_loads (dumps esc v) = Inr v" "10 \<notin> set (dumps esc v)"
    "utf8_encode (dumps esc v @ [10]) = Some (dumps esc v @ [10])"
proof -
  note chars = dumps_text [OF assms]
  show "utf8_encode (dumps esc v) = Some (dumps esc v)" "utf8_decode (dumps esc v) = Some (dumps esc v)"
    "10 \<notin> set (dumps esc v)" using utf8_text [OF chars] text_no_newline [OF chars] by auto
  show "json_loads (dumps esc v) = Inr v" using plain_writable [OF assms(1)] assms(2) by (auto intro: json_loads_dumps)
  show "utf8_encode (dumps esc v @ [10]) = Some (dumps esc v @ [10])"
    using utf8_line [OF chars] .
qed

section \<open>A call over the socket is a call in place\<close>

definition control_errors :: "ctl_error list" where
  "control_errors =
     [ControllerError ''UNKNOWN_MODEL'' ''Model is not approved.'' 404,
      ControllerError ''DOCKER_TIMEOUT'' ''Container operation timed out.'' 503,
      ControllerError ''DOCKER_UNAVAILABLE'' ''Container controller is unavailable.'' 503,
      ControllerError ''CONTAINER_UNAVAILABLE'' ''Configured model container is unavailable.'' 503,
      ControllerError ''MODEL_INVENTORY_UNAVAILABLE'' ''Model exclusivity inventory is unavailable.'' 503,
      lock_unavailable,
      ControllerError ''MODEL_CONFLICT'' ''Another approved model is running; drain and stop it before switching.'' 409,
      ControllerError ''MODEL_START_FAILED'' ''Model container could not be started.'' 503,
      ControllerError ''MODEL_STOP_FAILED'' ''Model container could not be stopped.'' 503,
      Unexpected_Error]"

definition outcome_ok :: "('a \<Rightarrow> bool) \<Rightarrow> ctl_error + 'a \<Rightarrow> bool" where
  "outcome_ok ok r \<longleftrightarrow> (case r of Inl e \<Rightarrow> e \<in> set control_errors | Inr x \<Rightarrow> ok x)"

lemma outcome_ok_simps [simp]: "outcome_ok ok (Inl e) \<longleftrightarrow> e \<in> set control_errors" "outcome_ok ok (Inr x) \<longleftrightarrow> ok x"
  by (simp_all add: outcome_ok_def)

lemma outcome_and_then:
  "outcome_ok p r \<Longrightarrow> (\<And>x. r = Inr x \<Longrightarrow> p x \<Longrightarrow> outcome_ok q (f x)) \<Longrightarrow> outcome_ok q (and_then r f)"
  by (cases r) auto

lemma outcome_demand: "e \<in> set control_errors \<Longrightarrow> outcome_ok p r \<Longrightarrow> outcome_ok p (demand e c r)"
  by (cases c) auto

abbreviation any_value :: "'a \<Rightarrow> bool" where "any_value \<equiv> (\<lambda>x. True)"

lemma control_errors_mem [simp]:
  "ControllerError ''UNKNOWN_MODEL'' ''Model is not approved.'' 404 \<in> set control_errors"
  "ControllerError ''DOCKER_TIMEOUT'' ''Container operation timed out.'' 503 \<in> set control_errors"
  "ControllerError ''DOCKER_UNAVAILABLE'' ''Container controller is unavailable.'' 503 \<in> set control_errors"
  "ControllerError ''CONTAINER_UNAVAILABLE'' ''Configured model container is unavailable.'' 503 \<in> set control_errors"
  "ControllerError ''MODEL_INVENTORY_UNAVAILABLE'' ''Model exclusivity inventory is unavailable.'' 503 \<in> set control_errors"
  "lock_unavailable \<in> set control_errors"
  "ControllerError ''MODEL_CONFLICT'' ''Another approved model is running; drain and stop it before switching.'' 409 \<in> set control_errors"
  "ControllerError ''MODEL_START_FAILED'' ''Model container could not be started.'' 503 \<in> set control_errors"
  "ControllerError ''MODEL_STOP_FAILED'' ''Model container could not be stopped.'' 503 \<in> set control_errors"
  "Unexpected_Error \<in> set control_errors"
  unfolding control_errors_def by (simp_all only: list.set insert_iff simp_thms)

text \<open>Every answer of a command, an operation or a step is a value or one of these errors.\<close>

lemma run_command_outcome: "run_command dk cfg args t d = (r, d') \<Longrightarrow> outcome_ok any_value r"
  by (auto simp: run_command_def split: prod.splits sum.splits run_error.splits)

lemma is_running_outcome: "is_running dk cfg c d = (r, d') \<Longrightarrow> outcome_ok any_value r"
  by (auto simp: is_running_def Let_def split: prod.splits intro!: outcome_and_then outcome_demand dest: run_command_outcome)

lemma quiet_outcome: "outcome_ok any_value (quiet r)"
  by (auto simp: quiet_def split: sum.splits ctl_error.splits)

lemma quiet_Inl: "quiet r = Inl e \<Longrightarrow> e \<in> set control_errors"
  using quiet_outcome [of r] by simp

lemma startup_progress_outcome:
  "startup_progress dk cfg c d = (r, d') \<Longrightarrow> outcome_ok (\<lambda>p. \<forall>k. p = Some k \<longrightarrow> k \<le> 100) r"
  by (auto simp: startup_progress_def Let_def split: prod.splits sum.splits option.splits if_splits
      intro!: outcome_and_then [OF quiet_outcome] dest: quiet_Inl)

lemma running_of_outcome: "running_of dk cfg cs d = (r, d') \<Longrightarrow> outcome_ok any_value r"
proof (induction cs arbitrary: d r d')
  case (Cons c cs)
  then show ?case
    by (auto split: sum.splits prod.splits intro!: outcome_and_then dest: is_running_outcome)
qed simp

definition status_ok :: "ctl_status \<Rightarrow> bool" where
  "status_ok s \<longleftrightarrow> cs_state s \<in> {''running'', ''stopped''} \<and> (\<forall>k. cs_progress s = Some k \<longrightarrow> k \<le> 100)"

lemma start_unless_conflict_outcome: "start_unless_conflict dk cfg c rs d = (r, d') \<Longrightarrow> outcome_ok status_ok r"
  by (auto simp: start_unless_conflict_def Let_def status_ok_def split: prod.splits if_splits
      intro!: outcome_and_then outcome_demand dest: run_command_outcome)

lemma exclusive_containers_outcome: "outcome_ok any_value (exclusive_containers dk cfg d)"
  by (auto simp: exclusive_containers_def split: option.splits intro!: outcome_demand)

lemma ctl_start_outcome: "ctl_start dk cfg entry d = (r, d') \<Longrightarrow> outcome_ok status_ok r"
  using exclusive_containers_outcome [of dk cfg]
  by (auto simp: ctl_start_def split: bool.splits sum.splits prod.splits dest: running_of_outcome start_unless_conflict_outcome)
    (metis outcome_ok_simps(1))

lemma ctl_stop_outcome: "ctl_stop dk cfg entry d = (r, d') \<Longrightarrow> outcome_ok status_ok r"
  by (auto simp: ctl_stop_def Let_def status_ok_def split: bool.splits sum.splits prod.splits
      intro!: outcome_and_then outcome_demand dest: is_running_outcome run_command_outcome)

lemma ctl_status_outcome: "ctl_status_of dk cfg entry d = (r, d') \<Longrightarrow> outcome_ok status_ok r"
  by (auto simp: ctl_status_of_def Let_def status_ok_def split: bool.splits sum.splits prod.splits
      intro!: outcome_and_then dest: is_running_outcome startup_progress_outcome)

lemma control_outcome: "control dk cfg action model_id d = (r, d') \<Longrightarrow> outcome_ok status_ok r"
  by (auto simp: control_def model_entry_of_def or_raise_Inl split: sum.splits control_action.splits
      dest: ctl_start_outcome ctl_stop_outcome ctl_status_outcome)

text \<open>What the client makes of the controller's answer.\<close>

definition client_view :: "ctl_error + ctl_status \<Rightarrow> exn + client_status" where
  "client_view r = (case r of
     Inr s \<Rightarrow> Inr \<lparr>cl_state = lit (cs_state s), cl_changed = (cs_changed s = Some True), cl_progress = map_option percent (cs_progress s)\<rparr>
   | Inl (Controller_Error code message status) \<Rightarrow> Inl (safe_error (PStr code))
   | Inl Unexpected_Error \<Rightarrow> Inl control_unavailable)"

definition request_ids_ok :: "str \<Rightarrow> str \<Rightarrow> str \<Rightarrow> bool" where
  "request_ids_ok model_id rid actor \<longleftrightarrow> model_name model_id \<and> request_name rid \<and> actor_name actor"

definition reply_payload :: "control_action \<Rightarrow> str \<Rightarrow> str \<Rightarrow> ctl_error + ctl_status \<Rightarrow> (str \<times> pyjson) list \<times> int" where
  "reply_payload action model_id rid answer = (case answer of
     Inl e \<Rightarrow> error_payload rid e
   | Inr s \<Rightarrow> ([(lit ''ok'', PBool True), (lit ''version'', PInt 1), (lit ''requestId'', PStr rid),
       (lit ''model'', PStr model_id), (lit ''action'', PStr (lit (action_text action))), (lit ''status'', status_json s)], 200))"

definition reply_json :: "(str \<times> pyjson) list \<times> int \<Rightarrow> pyjson" where
  "reply_json p = PObj (fst p @ [(lit ''statusCode'', PInt (snd p))])"

lemma alnum_plain: "is_alnum c \<Longrightarrow> plain_char c"
  by (auto simp: is_alnum_def is_upper_def is_lower_def is_digit_def plain_char_def)

lemma name_plain: "list_all (name_char extra) s \<Longrightarrow> list_all plain_char extra \<Longrightarrow> list_all plain_char s"
  by (auto simp: list_all_iff name_char_def alnum_plain)

lemma ids_plain:
  assumes "request_ids_ok model_id rid actor"
  shows "list_all plain_char model_id" "list_all plain_char rid" "list_all plain_char actor"
    "length model_id \<le> 128" "length rid \<le> 128" "length actor \<le> 128"
proof -
  have p: "list_all plain_char [95, 46, 58, 45]" "list_all plain_char [95, 46, 58, 64, 45]" "list_all plain_char [46, 95, 58, 45]"
    by (simp_all add: plain_char_def)
  have m: "token is_alnum (name_char [46, 95, 58, 45]) 127 model_id" using assms by (simp add: request_ids_ok_def model_name_def)
  then have "list_all (name_char [46, 95, 58, 45]) model_id"
    by (cases model_id) (auto simp: token_def name_char_def split: list.splits)
  then show "list_all plain_char model_id" using p(3) by (rule name_plain)
  show "length model_id \<le> 128" using token_length [OF m] by simp
  show "list_all plain_char rid" "list_all plain_char actor" "length rid \<le> 128" "length actor \<le> 128"
    using assms p by (auto simp: request_ids_ok_def request_name_def actor_name_def intro: name_plain)
qed

lemma action_names: "action_of (PStr (lit (action_text action))) = Inr action"
  by (cases action) (simp_all add: action_of_def action_text_def)

lemma request_plain:
  assumes "request_ids_ok model_id rid actor"
  shows "plain_value (request_json action model_id rid actor)"
    "length (dumps escape_char (request_json action model_id rid actor)) \<le> 1000"
proof -
  note ids = ids_plain [OF assms]
  show "plain_value (request_json action model_id rid actor)"
    using ids by (cases action) (simp_all add: request_json_def action_text_def lit_def plain_char_def)
  have "list_all plain_char (lit s)" if "s \<in> {''version'', ''requestId'', ''actorId'', ''action'', ''model'', ''status'', ''start'', ''stop''}" for s
    using that by (auto simp: lit_def plain_char_def)
  then have "length (dumps_str escape_char (lit s)) = length s + 2" if "s \<in> {''version'', ''requestId'', ''actorId'', ''action'', ''model'', ''status'', ''start'', ''stop''}" for s
    using that dumps_plain_str by fastforce
  then show "length (dumps escape_char (request_json action model_id rid actor)) \<le> 1000"
    using ids dumps_plain_str [of model_id] dumps_plain_str [of rid] dumps_plain_str [of actor] render_int_small [of 1]
    by (cases action) (simp_all add: request_json_def action_text_def)
qed

lemma parse_sent_request:
  assumes "request_ids_ok model_id rid actor"
  shows "parse_request (dumps escape_char (request_json action model_id rid actor))
    = Inr \<lparr>cr_request_id = rid, cr_actor_id = actor, cr_action = action, cr_model = model_id\<rparr>"
  using plain_line(2,3) [OF request_plain(1) [OF assms], of escape_char action] assms action_names [of action]
  by (simp add: parse_request_def request_json_def field_of_def equals_one_def named_def request_ids_ok_def)

definition short_error :: "ctl_error \<Rightarrow> bool" where
  "short_error e \<longleftrightarrow> (case e of Controller_Error code message status \<Rightarrow> list_all plain_char code \<and> list_all plain_char message
       \<and> length code \<le> 40 \<and> length message \<le> 100 \<and> 0 \<le> status \<and> status < 1000
   | Unexpected_Error \<Rightarrow> True)"

lemma control_errors_short: "e \<in> set control_errors \<Longrightarrow> short_error e"
proof -
  have "list_all short_error control_errors" by code_simp
  then show "e \<in> set control_errors \<Longrightarrow> short_error e" by (simp add: list_all_iff)
qed

lemma dumps_str_length: "list_all plain_char s \<Longrightarrow> length (dumps_str ascii_char s) = length s + 2"
  using dumps_plain_str [of s] by simp

definition plain_word :: "string \<Rightarrow> bool" where "plain_word s \<longleftrightarrow> list_all plain_char (lit s)"

lemma plain_words [simp]:
  "plain_word ''ok''" "plain_word ''version''" "plain_word ''requestId''" "plain_word ''model''" "plain_word ''action''" "plain_word ''status''"
  "plain_word ''error''" "plain_word ''code''" "plain_word ''message''" "plain_word ''statusCode''" "plain_word ''state''" "plain_word ''changed''"
  "plain_word ''progress''" "plain_word ''running''" "plain_word ''stopped''" "plain_word ''INTERNAL_ERROR''" "plain_word ''Model controller failed.''"
  by (simp_all add: plain_word_def lit_def plain_char_def)

lemma plain_word_lit [simp]: "plain_word s \<Longrightarrow> list_all plain_char (lit s)"
  by (simp add: plain_word_def)

lemma plain_word_action [simp]: "plain_word (action_text a)"
  by (cases a) (simp_all add: action_text_def plain_word_def lit_def plain_char_def)

lemma action_text_length: "length (action_text a) \<le> 6"
  by (cases a) (simp_all add: action_text_def)

lemma percent_plain: "k \<le> 100 \<Longrightarrow> list_all plain_char (percent_text k)"
  by (auto simp: percent_text_def lit_def plain_char_def)

lemma status_json_plain:
  assumes "status_ok s" shows "plain_value (status_json s)" "length (dumps ascii_char (status_json s)) \<le> 100"
proof -
  show "plain_value (status_json s)"
    using assms percent_text_read(1) percent_plain
    by (auto simp: status_json_def status_ok_def split: option.splits)
  show "length (dumps ascii_char (status_json s)) \<le> 100"
    using assms percent_text_read(5) [of "the (cs_progress s)"]
    by (cases "cs_changed s"; cases "cs_progress s") (auto simp: status_json_def status_ok_def dumps_str_length)
qed

lemma reply_plain:
  assumes "request_ids_ok model_id rid actor" "outcome_ok status_ok answer"
  shows "plain_value (reply_json (reply_payload action model_id rid answer))"
    "length (dumps ascii_char (reply_json (reply_payload action model_id rid answer))) \<le> 1000"
proof -
  note ids = ids_plain [OF assms(1)]
  show "plain_value (reply_json (reply_payload action model_id rid answer))"
    using ids assms(2) control_errors_short status_json_plain(1)
    by (cases answer) (fastforce simp: reply_json_def reply_payload_def error_payload_def short_error_def split: ctl_error.splits)+
  show "length (dumps ascii_char (reply_json (reply_payload action model_id rid answer))) \<le> 1000"
  proof (cases answer)
    case (Inl e)
    then have "short_error e" using assms(2) control_errors_short by simp
    then show ?thesis using Inl ids render_int_small [of 1] render_int_small [of 500]
      by (cases e) (auto simp: reply_json_def reply_payload_def error_payload_def short_error_def dumps_str_length dest!: render_int_small)
  next
    case (Inr s)
    then show ?thesis using ids render_int_small [of 1] render_int_small [of 200] status_json_plain(2) [of s] action_text_length [of action] assms(2)
      by (auto simp: reply_json_def reply_payload_def dumps_str_length)
  qed
qed

lemma read_sent_status:
  assumes "status_ok s"
  shows "\<exists>fs. status_json s = PObj fs \<and> read_status fs
    = Inr \<lparr>cl_state = lit (cs_state s), cl_changed = (cs_changed s = Some True), cl_progress = map_option percent (cs_progress s)\<rparr>"
proof -
  have "lit (cs_state s) \<in> set (map lit [''running'', ''stopped'', ''starting'', ''stopping'', ''failed''])"
    using assms by (auto simp: status_ok_def)
  then show ?thesis
    using assms percent_text_read(2-4)
    by (cases "cs_changed s"; cases "cs_progress s")
      (auto simp: status_json_def read_status_def field_of_def is_truthy_def read_progress_def status_ok_def)
qed

lemma read_sent_reply:
  assumes "request_ids_ok model_id rid actor" "outcome_ok status_ok answer"
  shows "read_reply action model_id rid (dumps ascii_char (reply_json (reply_payload action model_id rid answer))) = client_view answer"
proof -
  note line = plain_line(2,3) [OF reply_plain(1) [OF assms], of ascii_char action]
  show ?thesis
  proof (cases answer)
    case (Inl e)
    then show ?thesis using line
      by (cases e) (simp_all add: read_reply_def reply_json_def reply_payload_def error_payload_def field_of_def equals_one_def client_view_def
          safe_error_def safe_controller_errors_def)
  next
    case (Inr s)
    then obtain fs where "status_json s = PObj fs" "read_status fs
      = Inr \<lparr>cl_state = lit (cs_state s), cl_changed = (cs_changed s = Some True), cl_progress = map_option percent (cs_progress s)\<rparr>"
      using read_sent_status [of s] assms(2) by auto
    then show ?thesis using Inr line
      by (simp add: read_reply_def reply_json_def reply_payload_def field_of_def equals_one_def client_view_def)
  qed
qed

text \<open>
  C11: model control over the socket is model control in place. A call of the worker's client, with the identifiers that the
  controller admits and however both messages are cut into chunks, does to Docker exactly what the controller's operation
  does, and returns the client's view of its answer: the status, or the safe error for its code.
\<close>

theorem remote_control_is_local:
  assumes "request_ids_ok model_id rid actor" "1024 \<le> maximum"
    and "\<And>bs. concat (chunked bs) = bs" "\<And>bs. [] \<notin> set (chunked bs)"
  shows "call_controller (server_connection dk cfg chunked) maximum action model_id rid actor d
    = (let (answer, d') = control dk cfg action model_id d in (client_view answer, d'))"
proof -
  obtain answer d' where c: "control dk cfg action model_id d = (answer, d')" by fastforce
  note out = control_outcome [OF c]
  let ?req = "dumps escape_char (request_json action model_id rid actor)"
    and ?rep = "dumps ascii_char (reply_json (reply_payload action model_id rid answer))"
  note req = plain_line [OF request_plain(1) [OF assms(1)], of escape_char action]
  note rep = plain_line [OF reply_plain(1) [OF assms(1) out], of ascii_char action]
  have received: "read_line 8192 [] Closed (chunked (?req @ [10])) = Inr ?req"
    using req(4) request_plain(2) [OF assms(1), of action] assms(3,4) by (intro read_line_sent) auto
  have "read_line maximum [] Closed (chunked (?rep @ [10])) = Inr ?rep"
    using rep(4) reply_plain(2) [OF assms(1) out, of action] assms(2-4) by (intro read_line_sent) auto
  moreover have "handle_control dk cfg ?req d = (reply_payload action model_id rid answer, d')"
    using parse_sent_request [OF assms(1), of action] c by (cases answer) (simp_all add: handle_control_def reply_payload_def)
  then have "serve_one dk cfg (chunked (?req @ [10])) Closed d = (Some (?rep @ [10]), d')"
    using received rep(5) by (cases "reply_payload action model_id rid answer") (simp add: serve_one_def reply_json_def del: dumps.simps)
  ultimately show ?thesis
    using req(1) request_plain(2) [OF assms(1), of action] read_sent_reply [OF assms(1) out, of action]
    by (simp add: call_controller_def server_connection_def c)
qed

text \<open>Two models on two containers, and a Docker whose state is the list of running containers.\<close>

definition ex_inventory :: str where
  "ex_inventory = dumps ascii_char (PObj [(lit ''version'', PInt 1), (lit ''containers'', PArr [PStr (lit ''gpu-a''), PStr (lit ''gpu-b'')])])"

definition ex_ctl_config :: ctl_config where
  "ex_ctl_config = \<lparr>cc_docker = lit ''/usr/bin/docker'', cc_models =
     [(lit ''small'', \<lparr>me_container = lit ''gpu-a'', me_stop_timeout = 30\<rparr>), (lit ''large'', \<lparr>me_container = lit ''gpu-b'', me_stop_timeout = 30\<rparr>)]\<rparr>"

definition ex_docker :: "str list docker" where
  "ex_docker = \<lparr>dk_run = (\<lambda>args timeout d. let c = last args; ok = (\<lambda>out. Inr \<lparr>cp_returncode = 0, cp_stdout = out, cp_stderr = []\<rparr>) in
       if tl args = inspect_running c then (ok (if c \<in> set d then lit ''true'' else lit ''false''), d)
       else if tl args = start_container c then (ok [], c # d)
       else if args ! 1 = lit ''stop'' then (ok [], removeAll c d)
       else (ok [], d)),
     dk_lock = (\<lambda>d. (True, d)), dk_inventory = (\<lambda>d. Some ex_inventory), dk_digit = (\<lambda>c. if is_digit c then Some (c - 48) else None)\<rparr>"

definition ex_started :: "(ctl_error + ctl_status) \<times> str list" where
  "ex_started = control ex_docker ex_ctl_config Start (lit ''small'') []"

lemma ex_started_eq: "ex_started = (Inr \<lparr>cs_state = ''running'', cs_changed = Some True, cs_progress = None\<rparr>, [lit ''gpu-a''])"
  by code_simp

theorem remote_control_is_local_witness:
  "call_controller (server_connection ex_docker ex_ctl_config (map (\<lambda>b. [b]))) 1024 Start (lit ''small'') (lit ''r1'') (lit ''alice'') []
     = (Inr \<lparr>cl_state = lit ''running'', cl_changed = True, cl_progress = None\<rparr>, [lit ''gpu-a''])"
proof -
  have "request_ids_ok (lit ''small'') (lit ''r1'') (lit ''alice'')" by code_simp
  moreover have "concat (map (\<lambda>b. [b]) bs) = bs" for bs :: bytes by simp
  ultimately show ?thesis
    using remote_control_is_local [where chunked = "map (\<lambda>b. [b])" and maximum = 1024 and dk = ex_docker and cfg = ex_ctl_config
        and action = Start and model_id = "lit ''small''" and rid = "lit ''r1''" and actor = "lit ''alice''" and d = "[]"]
      ex_started_eq
    by (auto simp: ex_started_def client_view_def)
qed

end
