(* ===== verification/Model_Exclusive.thy ===== *)
theory Model_Exclusive
  imports Model_Control_Props
begin

text \<open>
  Exclusivity and confinement of the model controller: whatever arrives on the socket, at most one
  container of the inventory runs, and only a fixed set of Docker commands is run.
\<close>

section \<open>At most one container runs\<close>

text \<open>
  What is relied on of Docker: only \<open>docker start c\<close> adds a running container, and that is \<open>c\<close>, before the
  command returns; an inspected container that is reported as not running does not run; containers may
  stop at any time. The inventory file does not change, and taking the lock starts nothing.
\<close>

definition docker_obeys :: "'d docker \<Rightarrow> ('d \<Rightarrow> str set) \<Rightarrow> bool" where
  "docker_obeys dk running \<longleftrightarrow>
     (\<forall>args t d r d'. dk_run dk args t d = (r, d') \<longrightarrow>
        running d' \<subseteq> running d \<union> {c. tl args = start_container c} \<and> dk_inventory dk d' = dk_inventory dk d)
     \<and> (\<forall>b c t d p d'. dk_run dk (b # inspect_running c) t d = (Inr p, d') \<longrightarrow> cp_returncode p = 0 \<longrightarrow> \<not> says_true p \<longrightarrow> c \<notin> running d')
     \<and> (\<forall>d b d'. dk_lock dk d = (b, d') \<longrightarrow> running d' \<subseteq> running d \<and> dk_inventory dk d' = dk_inventory dk d)"

definition at_most_one :: "str set \<Rightarrow> bool" where
  "at_most_one s \<longleftrightarrow> (\<forall>a\<in>s. \<forall>b\<in>s. a = b)"

text \<open>A step: a connection is served, or containers stop while the inventory stays.\<close>

inductive ctl_step :: "'d docker \<Rightarrow> ctl_config \<Rightarrow> ('d \<Rightarrow> str set) \<Rightarrow> 'd \<Rightarrow> 'd \<Rightarrow> bool" for dk cfg running where
  connection_served: "serve_one dk cfg chunks ending d = (answer, d') \<Longrightarrow> ctl_step dk cfg running d d'"
| container_stopped: "running d' \<subseteq> running d \<Longrightarrow> dk_inventory dk d' = dk_inventory dk d \<Longrightarrow> ctl_step dk cfg running d d'"

inductive ctl_steps :: "'d docker \<Rightarrow> ctl_config \<Rightarrow> ('d \<Rightarrow> str set) \<Rightarrow> 'd \<Rightarrow> 'd \<Rightarrow> bool" for dk cfg running where
  no_step: "ctl_steps dk cfg running d d"
| more_steps: "ctl_steps dk cfg running d d' \<Longrightarrow> ctl_step dk cfg running d' d'' \<Longrightarrow> ctl_steps dk cfg running d d''"

text \<open>What a quiet command does: containers may stop, the inventory stays.\<close>

definition shrinks :: "'d docker \<Rightarrow> ('d \<Rightarrow> str set) \<Rightarrow> 'd \<Rightarrow> 'd \<Rightarrow> bool" where
  "shrinks dk running d d' \<longleftrightarrow> running d' \<subseteq> running d \<and> dk_inventory dk d' = dk_inventory dk d"

lemma shrinks_refl: "shrinks dk running d d"
  by (simp add: shrinks_def)

lemma shrinks_at_most_one: "shrinks dk running d d' \<Longrightarrow> at_most_one (running d \<inter> s) \<Longrightarrow> at_most_one (running d' \<inter> s)"
  unfolding shrinks_def at_most_one_def by blast

lemma shrinks_trans: "shrinks dk running d d' \<Longrightarrow> shrinks dk running d' d'' \<Longrightarrow> shrinks dk running d d''"
  by (auto simp: shrinks_def)

lemma run_effect:
  assumes "docker_obeys dk running" "run_command dk cfg args t d = (r, d')"
  shows "running d' \<subseteq> running d \<union> {c. args = start_container c}" "dk_inventory dk d' = dk_inventory dk d"
proof -
  obtain y where "dk_run dk (cc_docker cfg # args) t d = (y, d')"
    using assms(2) by (auto simp: run_command_def split: prod.splits)
  then have "running d' \<subseteq> running d \<union> {c. tl (cc_docker cfg # args) = start_container c} \<and> dk_inventory dk d' = dk_inventory dk d"
    using assms(1) unfolding docker_obeys_def by blast
  then show "running d' \<subseteq> running d \<union> {c. args = start_container c}" "dk_inventory dk d' = dk_inventory dk d" by simp_all
qed

lemma run_shrinks:
  assumes "docker_obeys dk running" "run_command dk cfg args t d = (r, d')" "\<forall>c. args \<noteq> start_container c"
  shows "shrinks dk running d d'"
  using run_effect [OF assms(1,2)] assms(3) by (auto simp: shrinks_def)

lemma lock_shrinks: "docker_obeys dk running \<Longrightarrow> dk_lock dk d = (b, d') \<Longrightarrow> shrinks dk running d d'"
  unfolding docker_obeys_def shrinks_def by blast

lemma is_running_shrinks:
  assumes "docker_obeys dk running" "is_running dk cfg c d = (r, d')"
  shows "shrinks dk running d d'" "r = Inr False \<Longrightarrow> c \<notin> running d'"
proof -
  obtain x where x: "run_command dk cfg (inspect_running c) 15 d = (x, d')"
    and r: "r = and_then x (\<lambda>p. demand (ControllerError ''CONTAINER_UNAVAILABLE'' ''Configured model container is unavailable.'' 503)
         (cp_returncode p = 0) (Inr (says_true p)))"
    using assms(2) by (auto simp: is_running_def split: prod.splits)
  show "shrinks dk running d d'" by (rule run_shrinks [OF assms(1) x]) simp
  assume "r = Inr False"
  then obtain p where "x = Inr p" "cp_returncode p = 0" "\<not> says_true p" by (auto simp: r and_then_Inr)
  then have "dk_run dk (cc_docker cfg # inspect_running c) 15 d = (Inr p, d')"
    using x by (auto simp: run_command_def split: prod.splits sum.splits run_error.splits)
  then show "c \<notin> running d'"
    using assms(1) \<open>cp_returncode p = 0\<close> \<open>\<not> says_true p\<close> unfolding docker_obeys_def by blast
qed

text \<open>The containers that are not in the list do not run at the end.\<close>

lemma running_of_shrinks:
  assumes "docker_obeys dk running"
  shows "running_of dk cfg cs d = (r, d') \<Longrightarrow> shrinks dk running d d' \<and> (\<forall>rs. r = Inr rs \<longrightarrow> running d' \<inter> set cs \<subseteq> set rs)"
proof (induction cs arbitrary: d r d')
  case (Cons c cs)
  obtain x d1 where x: "is_running dk cfg c d = (x, d1)" by fastforce
  note first = is_running_shrinks [OF assms x]
  show ?case
  proof (cases x)
    case (Inl e)
    then show ?thesis using Cons.prems x first by auto
  next
    case (Inr b)
    obtain y where y: "running_of dk cfg cs d1 = (y, d')" "r = and_then y (\<lambda>rest. Inr (if b then c # rest else rest))"
      using Cons.prems by (auto simp: x Inr split: prod.splits)
    note rest = Cons.IH [OF y(1)]
    have "shrinks dk running d d'" by (rule shrinks_trans [OF first(1) conjunct1 [OF rest]])
    moreover have "running d' \<subseteq> running d1" using rest by (simp add: shrinks_def)
    ultimately show ?thesis using rest first(2) Inr by (cases b) (auto simp: y(2) and_then_Inr)
  qed
qed (simp add: shrinks_refl)

lemma start_unless_conflict_one:
  assumes "docker_obeys dk running" "start_unless_conflict dk cfg c rs d = (r, d')" "running d \<inter> set inventory \<subseteq> set rs"
    and "at_most_one (running d \<inter> set inventory)"
  shows "at_most_one (running d' \<inter> set inventory) \<and> dk_inventory dk d' = dk_inventory dk d"
proof (cases "(\<exists>other\<in>set rs. other \<noteq> c) \<or> c \<in> set rs")
  case True
  then have "d' = d" using assms(2) by (cases "\<exists>other\<in>set rs. other \<noteq> c") (simp_all add: start_unless_conflict_def del: bex_simps)
  then show ?thesis using assms(4) by simp
next
  case False
  then have "rs = []" by (cases rs) auto
  then have none: "running d \<inter> set inventory = {}" using assms(3) by simp
  obtain x where x: "run_command dk cfg (start_container c) 60 d = (x, d')"
    using assms(2) False unfolding start_unless_conflict_def by (simp split: prod.splits)
  have "running d' \<subseteq> running d \<union> {c}" "dk_inventory dk d' = dk_inventory dk d"
    using run_effect [OF assms(1) x] by auto
  then show ?thesis using none by (auto simp: at_most_one_def)
qed

lemma startup_progress_shrinks:
  assumes "docker_obeys dk running" "startup_progress dk cfg c d = (r, d')"
  shows "shrinks dk running d d'"
proof -
  obtain started d1 where s: "run_command dk cfg (inspect_started c) 15 d = (started, d1)" by fastforce
  have 1: "shrinks dk running d d1" by (rule run_shrinks [OF assms(1) s]) simp
  have 2: "shrinks dk running d d2" if "run_command dk cfg (logs_since started_at c) 15 d1 = (x, d2)" for x d2 started_at
    by (rule shrinks_trans [OF 1 run_shrinks [OF assms(1) that]]) simp
  show ?thesis
    using assms(2) 1 2 by (auto simp: startup_progress_def s Let_def split: prod.splits sum.splits option.splits if_splits)
qed

lemma ctl_stop_shrinks:
  assumes "docker_obeys dk running" "ctl_stop dk cfg entry d = (r, d')"
  shows "shrinks dk running d d'"
proof -
  obtain ok d1 where l: "dk_lock dk d = (ok, d1)" by fastforce
  note 1 = lock_shrinks [OF assms(1) l]
  obtain x d2 where x: "is_running dk cfg (me_container entry) d1 = (x, d2)" by fastforce
  note 2 = shrinks_trans [OF 1 is_running_shrinks(1) [OF assms(1) x]]
  have 3: "shrinks dk running d d3" if "run_command dk cfg (stop_container t c) u d2 = (y, d3)" for y d3 t c u
    by (rule shrinks_trans [OF 2 run_shrinks [OF assms(1) that]]) simp
  show ?thesis
    using assms(2) 1 2 3 by (auto simp: ctl_stop_def l x Let_def split: prod.splits sum.splits bool.splits)
qed

lemma ctl_status_shrinks:
  assumes "docker_obeys dk running" "ctl_status_of dk cfg entry d = (r, d')"
  shows "shrinks dk running d d'"
proof -
  obtain x d1 where x: "is_running dk cfg (me_container entry) d = (x, d1)" by fastforce
  note 1 = is_running_shrinks(1) [OF assms(1) x]
  have 2: "shrinks dk running d d2" if "startup_progress dk cfg c d1 = (y, d2)" for y d2 c
    by (rule shrinks_trans [OF 1 startup_progress_shrinks [OF assms(1) that]])
  show ?thesis
    using assms(2) 1 2 by (auto simp: ctl_status_of_def x Let_def split: prod.splits sum.splits bool.splits)
qed

lemma control_one:
  assumes "docker_obeys dk running" "control dk cfg action model_id d = (r, d')" "load_inventory (dk_inventory dk d) = Some inventory"
    and "at_most_one (running d \<inter> set inventory)"
  shows "at_most_one (running d' \<inter> set inventory) \<and> dk_inventory dk d' = dk_inventory dk d"
proof -
  have quiet: ?thesis if "shrinks dk running d d'"
    using shrinks_at_most_one [OF that assms(4)] that by (simp add: shrinks_def)
  show ?thesis
  proof (cases "model_entry_of cfg model_id")
    case (Inl e)
    then show ?thesis using assms(2,4) by (simp add: control_def)
  next
    case (Inr entry)
    show ?thesis
    proof (cases action)
      case Status
      then show ?thesis using assms(2) Inr by (intro quiet ctl_status_shrinks [OF assms(1)]) (simp add: control_def)
    next
      case Stop
      then show ?thesis using assms(2) Inr by (intro quiet ctl_stop_shrinks [OF assms(1)]) (simp add: control_def)
    next
      case Start
      then have start: "ctl_start dk cfg entry d = (r, d')" using assms(2) Inr by (simp add: control_def)
      obtain ok d1 where l: "dk_lock dk d = (ok, d1)" by fastforce
      note locked = lock_shrinks [OF assms(1) l]
      have inv: "load_inventory (dk_inventory dk d1) = Some inventory" using locked assms(3) by (simp add: shrinks_def)
      show ?thesis
      proof (cases "ok \<and> is_ok (exclusive_containers dk cfg d1)")
        case False
        then show ?thesis using start locked by (intro quiet) (auto simp: ctl_start_def l split: bool.splits sum.splits)
      next
        case True
        then have e: "exclusive_containers dk cfg d1 = Inr inventory"
          by (auto simp: is_ok_iff exclusive_containers_def inv)
        obtain x d2 where x: "running_of dk cfg inventory d1 = (x, d2)" by fastforce
        note seen = running_of_shrinks [OF assms(1) x]
        have shrunk: "shrinks dk running d d2" by (rule shrinks_trans [OF locked conjunct1 [OF seen]])
        have one: "at_most_one (running d2 \<inter> set inventory)"
          by (rule shrinks_at_most_one [OF shrunk assms(4)])
        show ?thesis
        proof (cases x)
          case (Inl err)
          then show ?thesis using start True e x shrunk by (intro quiet) (simp add: ctl_start_def l)
        next
          case (Inr rs)
          then have "start_unless_conflict dk cfg (me_container entry) rs d2 = (r, d')" using start True e x by (simp add: ctl_start_def l)
          from start_unless_conflict_one [OF assms(1) this _ one] show ?thesis
            using seen Inr shrunk by (simp add: shrinks_def)
        qed
      qed
    qed
  qed
qed

text \<open>
  C12: model exclusivity. If at most one container of the inventory runs at first, then after any connections
  with any bytes on them, however they are cut, and any containers that stopped in between, still at most one runs.
\<close>

theorem at_most_one_model_runs:
  assumes "ctl_steps dk cfg running d d'" "docker_obeys dk running"
    and "load_inventory (dk_inventory dk d) = Some inventory" "at_most_one (running d \<inter> set inventory)"
  shows "at_most_one (running d' \<inter> set inventory)"
proof -
  have "at_most_one (running d' \<inter> set inventory) \<and> dk_inventory dk d' = dk_inventory dk d"
    using assms
  proof induction
    case (more_steps d d' d'')
    then have before: "at_most_one (running d' \<inter> set inventory)" "dk_inventory dk d' = dk_inventory dk d" by auto
    from more_steps.hyps(2) show ?case
    proof (cases rule: ctl_step.cases)
      case (connection_served chunks ending answer)
      have "at_most_one (running d'' \<inter> set inventory) \<and> dk_inventory dk d'' = dk_inventory dk d'"
        using connection_served before more_steps.prems(2) control_one [OF more_steps.prems(1)]
        by (auto simp: serve_one_def handle_control_def Let_def split: prod.splits sum.splits line_error.splits)
      then show ?thesis using before by simp
    next
      case container_stopped
      then show ?thesis using before shrinks_at_most_one [of dk running d' d'' "set inventory"] by (simp add: shrinks_def)
    qed
  qed simp
  then show ?thesis ..
qed

text \<open>The example's Docker; the small model runs, and a start of the large one is refused.\<close>

lemma ex_docker_obeys: "docker_obeys ex_docker set"
proof -
  have "lower (py_strip (lit ''true'')) = lit ''true''" by code_simp
  then show ?thesis
    unfolding docker_obeys_def ex_docker_def by (auto simp: Let_def says_true_def split: if_splits)
qed

definition ex_attempt :: "bytes option \<times> str list" where
  "ex_attempt = serve_one ex_docker ex_ctl_config
     [dumps escape_char (request_json Start (lit ''large'') (lit ''r2'') (lit ''alice'')) @ [10]] Closed [lit ''gpu-a'']"

theorem at_most_one_model_runs_witness: "at_most_one (set (snd ex_attempt) \<inter> set [lit ''gpu-a'', lit ''gpu-b''])"
proof -
  have inv: "load_inventory (dk_inventory ex_docker d) = Some [lit ''gpu-a'', lit ''gpu-b'']" for d
  proof -
    have "load_inventory (Some ex_inventory) = Some [lit ''gpu-a'', lit ''gpu-b'']" by code_simp
    then show ?thesis by (simp add: ex_docker_def)
  qed
  have "ctl_step ex_docker ex_ctl_config set [lit ''gpu-a''] (snd ex_attempt)"
    unfolding ex_attempt_def by (rule connection_served [OF prod.collapse [symmetric]])
  then have steps: "ctl_steps ex_docker ex_ctl_config set [lit ''gpu-a''] (snd ex_attempt)" by (rule more_steps [OF no_step])
  have "at_most_one (set [lit ''gpu-a''] \<inter> set [lit ''gpu-a'', lit ''gpu-b''])" by (simp add: at_most_one_def)
  then show ?thesis by (rule at_most_one_model_runs [OF steps ex_docker_obeys inv])
qed

section \<open>Only allowed commands are run\<close>

text \<open>
  Of containers named in the configuration: start, stop with its timeout, and the reads of the start time and
  of the log. Of any name that the inventory admits, which cannot be an option: whether it runs.
\<close>

inductive allowed_command :: "ctl_config \<Rightarrow> (nat \<Rightarrow> nat option) \<Rightarrow> str list \<Rightarrow> bool" for cfg digit_of where
  "container_name c \<Longrightarrow> allowed_command cfg digit_of (inspect_running c)"
| "entry \<in> snd ` set (cc_models cfg) \<Longrightarrow> allowed_command cfg digit_of (inspect_running (me_container entry))"
| "entry \<in> snd ` set (cc_models cfg) \<Longrightarrow> allowed_command cfg digit_of (inspect_started (me_container entry))"
| "entry \<in> snd ` set (cc_models cfg) \<Longrightarrow> started_at_ok digit_of t \<Longrightarrow> allowed_command cfg digit_of (logs_since t (me_container entry))"
| "entry \<in> snd ` set (cc_models cfg) \<Longrightarrow> allowed_command cfg digit_of (start_container (me_container entry))"
| "entry \<in> snd ` set (cc_models cfg) \<Longrightarrow> allowed_command cfg digit_of (stop_container (me_stop_timeout entry) (me_container entry))"

text \<open>Two worlds that agree on the allowed commands, and on everything else but commands.\<close>

definition agree :: "ctl_config \<Rightarrow> 'd docker \<Rightarrow> 'd docker \<Rightarrow> bool" where
  "agree cfg dk dk' \<longleftrightarrow> (\<forall>args t. allowed_command cfg (dk_digit dk) args \<longrightarrow> dk_run dk (cc_docker cfg # args) t = dk_run dk' (cc_docker cfg # args) t)
     \<and> dk_lock dk = dk_lock dk' \<and> dk_inventory dk = dk_inventory dk' \<and> dk_digit dk = dk_digit dk'"

lemma agree_run: "agree cfg dk dk' \<Longrightarrow> allowed_command cfg (dk_digit dk) args \<Longrightarrow> run_command dk cfg args = run_command dk' cfg args"
  by (intro ext) (simp add: agree_def run_command_def)

lemma distinct_containers_named:
  "distinct_containers seen vs = Some cs \<Longrightarrow> \<forall>c\<in>set seen. container_name c \<Longrightarrow> \<forall>c\<in>set cs. container_name c"
  by (induction seen vs rule: distinct_containers.induct) (auto split: if_splits)

lemma inventory_named: "load_inventory contents = Some cs \<Longrightarrow> c \<in> set cs \<Longrightarrow> container_name c"
  using distinct_containers_named [of "[]"] by (fastforce simp: load_inventory_def split: option.splits sum.splits pyjson.splits if_splits list.splits)

lemma agree_running_of:
  "agree cfg dk dk' \<Longrightarrow> \<forall>c\<in>set cs. container_name c \<Longrightarrow> running_of dk cfg cs = running_of dk' cfg cs"
proof (induction cs)
  case (Cons c cs)
  then have "is_running dk cfg c = is_running dk' cfg c" "running_of dk cfg cs = running_of dk' cfg cs"
    using agree_run [OF Cons.prems(1), of "inspect_running c"] by (auto simp: is_running_def allowed_command.intros)
  then show ?case by (intro ext) (simp split: prod.splits sum.splits)
qed (simp add: fun_eq_iff)

text \<open>
  C13: confinement. Whatever bytes arrive, the outcome of a connection depends on Docker only through the allowed commands:
  two Docker installations that agree on these are left in the same state with the same answer.
\<close>

theorem control_confined:
  assumes "agree cfg dk dk'"
  shows "serve_one dk cfg chunks ending d = serve_one dk' cfg chunks ending d"
proof -
  have same: "dk_lock dk = dk_lock dk'" "dk_inventory dk = dk_inventory dk'" "dk_digit dk = dk_digit dk'"
    using assms by (simp_all add: agree_def)
  have "control dk cfg action model_id d = control dk' cfg action model_id d" for action model_id d
  proof (cases "model_entry_of cfg model_id")
    case (Inr entry)
    then have e: "entry \<in> snd ` set (cc_models cfg)" by (force simp: model_entry_of_def dest: map_of_SomeD)
    note allowed = allowed_command.intros(2-6) [OF e, THEN agree_run [OF assms]]
    have running: "is_running dk cfg (me_container entry) = is_running dk' cfg (me_container entry)"
      by (simp add: fun_eq_iff is_running_def allowed(1))
    have progress: "startup_progress dk cfg (me_container entry) = startup_progress dk' cfg (me_container entry)"
      unfolding startup_progress_def same(3) by (intro ext) (auto simp: allowed(2,3) same Let_def split: prod.splits sum.splits option.splits)
    show ?thesis
    proof (cases action)
      case Status
      then show ?thesis unfolding control_def ctl_status_of_def Inr by (simp only: sum.case control_action.case running progress)
    next
      case Stop
      then show ?thesis unfolding control_def ctl_stop_def Inr by (simp only: sum.case control_action.case running same allowed(5))
    next
      case Start
      have fresh: "start_unless_conflict dk cfg (me_container entry) = start_unless_conflict dk' cfg (me_container entry)"
        by (intro ext) (simp only: start_unless_conflict_def allowed(4))
      obtain ok d1 where l: "dk_lock dk' d = (ok, d1)" by fastforce
      have ex: "exclusive_containers dk cfg d1 = exclusive_containers dk' cfg d1" by (simp add: exclusive_containers_def same)
      have "ctl_start dk cfg entry d = ctl_start dk' cfg entry d"
      proof (cases "exclusive_containers dk' cfg d1")
        case (Inl e)
        then show ?thesis by (cases ok) (simp_all add: ctl_start_def same l ex)
      next
        case (Inr cs)
        then have "\<forall>c\<in>set cs. container_name c"
          using inventory_named by (auto simp: exclusive_containers_def split: option.splits)
        from agree_running_of [OF assms this] Inr show ?thesis unfolding ctl_start_def same l fresh by (cases ok) (simp_all add: ex)
      qed
      then show ?thesis by (simp add: control_def Inr Start)
    qed
  qed (simp add: control_def)
  then have "handle_control dk cfg = handle_control dk' cfg" by (simp add: fun_eq_iff handle_control_def split: sum.splits)
  then show ?thesis by (simp only: serve_one_def)
qed

text \<open>A Docker that also obeys other commands, as the privileged one does, serves the socket like the first.\<close>

definition ex_powerful :: "str list docker" where
  "ex_powerful = ex_docker\<lparr>dk_run := (\<lambda>args t d. if tl args = [lit ''run''] then (Inl Run_Other_Error, [lit ''evil'']) else dk_run ex_docker args t d)\<rparr>"

theorem control_confined_witness: "\<forall>chunks. serve_one ex_powerful ex_ctl_config chunks Closed [] = serve_one ex_docker ex_ctl_config chunks Closed []"
proof -
  have "args \<noteq> [lit ''run'']" if "allowed_command cfg f args" for cfg f args
    using that by cases auto
  then have "agree ex_ctl_config ex_powerful ex_docker" by (auto simp: agree_def ex_powerful_def)
  then show ?thesis by (intro allI control_confined)
qed

section \<open>The configuration\<close>

text \<open>
  C14: a configuration that loads is well-formed: distinct admissible model names, admissible containers that
  the inventory lists, and stop timeouts between one and 120 seconds; the inventory itself is nonempty, admissible and without
  repetition.
\<close>

theorem loaded_config_well_formed:
  assumes "load_config text_of contents inventory = Some cfg"
  shows "\<exists>cs. load_inventory inventory = Some cs \<and> cs \<noteq> [] \<and> distinct cs \<and> (\<forall>c\<in>set cs. container_name c)
    \<and> cc_models cfg \<noteq> [] \<and> (\<forall>(model_id, entry)\<in>set (cc_models cfg). model_name model_id
        \<and> me_container entry \<in> set cs \<and> 1 \<le> me_stop_timeout entry \<and> me_stop_timeout entry \<le> 120)"
proof -
  obtain cs fs m ms where cs: "load_inventory inventory = Some cs"
    and models: "option_list (read_model cs m # map (read_model cs) ms) = Some (cc_models cfg)"
    using assms by (auto simp: load_config_def simp del: option_list.simps split: option.splits sum.splits pyjson.splits if_splits list.splits)
  obtain v vs where "distinct_containers [] (v # vs) = Some cs"
    using cs by (auto simp: load_inventory_def split: option.splits sum.splits pyjson.splits if_splits list.splits)
  moreover have "distinct_containers seen us = Some xs \<Longrightarrow> distinct seen \<Longrightarrow> distinct xs \<and> length xs = length seen + length us" for seen us xs
    by (induction seen us rule: distinct_containers.induct) (auto split: if_splits)
  ultimately have "distinct cs" "cs \<noteq> []" by fastforce+
  moreover have "model_name model_id \<and> me_container entry \<in> set cs \<and> 1 \<le> me_stop_timeout entry \<and> me_stop_timeout entry \<le> 120"
    if "(model_id, entry) \<in> set (cc_models cfg)" for model_id entry
  proof -
    have "Some (model_id, entry) \<in> set (map (read_model cs) (m # ms))"
      using that models [unfolded option_list_Some] by simp
    then obtain kv where "read_model cs kv = Some (model_id, entry)" by (metis imageE list.set_map)
    then show ?thesis by (auto simp: read_model_def split: prod.splits pyjson.splits option.splits if_splits)
  qed
  moreover have "cc_models cfg \<noteq> []" using models by (auto split: option.splits)
  ultimately show ?thesis using cs inventory_named [OF cs] by auto
qed

definition ex_config_text :: str where
  "ex_config_text = lit ''{ ''@ [34] @ lit ''version'' @ [34] @ lit '': 1, '' @ [34] @ lit ''models'' @ [34] @ lit '': {'' @ [34] @ lit ''small'' @ [34]
     @ lit '': {'' @ [34] @ lit ''container'' @ [34] @ lit '': '' @ [34] @ lit ''gpu-a'' @ [34] @ lit ''}}}''"

theorem loaded_config_well_formed_witness:
  "\<exists>cfg. load_config (\<lambda>v. []) (Some ex_config_text) (Some ex_inventory) = Some cfg \<and> (\<forall>(model_id, entry)\<in>set (cc_models cfg). me_stop_timeout entry \<le> 120)"
proof -
  have "load_config (\<lambda>v. []) (Some ex_config_text) (Some ex_inventory) \<noteq> None" by code_simp
  then obtain cfg where cfg: "load_config (\<lambda>v. []) (Some ex_config_text) (Some ex_inventory) = Some cfg" by blast
  show ?thesis using loaded_config_well_formed [OF cfg] cfg by fastforce
qed

end
