(* ===== verification/Settings.thy ===== *)
theory Settings
  imports Gateway_Client Model_Backend
begin

text \<open>
  The settings of the gateway (\<open>gateway/config.py\<close>) and the loopback test of the model services: \<open>urlsplit\<close>
  with host and port of an authority, the checks of a public origin and of loopback URLs, and every check
  of \<open>GatewaySettings\<close>. What \<open>ipaddress\<close> and Unicode normalisation decide is a parameter.
\<close>

section \<open>URLs\<close>

text \<open>
  \<open>ul_netloc_ok\<close> stands for the checks of bracketed hosts and of characters that normalise to delimiters;
  \<open>ul_loopback\<close> is \<open>is_loopback\<close> of an IP address, \<open>None\<close> where the text is none.
\<close>

record url_library =
  ul_netloc_ok :: "str \<Rightarrow> bool"
  ul_loopback :: "str \<Rightarrow> bool option"

record split_url =
  su_scheme :: str
  su_netloc :: str
  su_path :: str
  su_query :: str
  su_fragment :: str

definition before :: "nat \<Rightarrow> str \<Rightarrow> str" where
  "before c s = takeWhile (\<lambda>x. x \<noteq> c) s"

definition after_first :: "nat \<Rightarrow> str \<Rightarrow> str" where
  "after_first c s = tl (dropWhile (\<lambda>x. x \<noteq> c) s)"

text \<open>What follows the last \<open>c\<close>, the whole text where there is none, and what precedes it.\<close>

definition after_last :: "nat \<Rightarrow> str \<Rightarrow> str" where
  "after_last c s = rev (takeWhile (\<lambda>x. x \<noteq> c) (rev s))"

definition before_last :: "nat \<Rightarrow> str \<Rightarrow> str" where
  "before_last c s = rev (tl (dropWhile (\<lambda>x. x \<noteq> c) (rev s)))"

definition cleaned_url :: "str \<Rightarrow> str" where
  "cleaned_url url = filter (\<lambda>c. c \<noteq> 9 \<and> c \<noteq> 10 \<and> c \<noteq> 13) (dropWhile (\<lambda>c. c \<le> 32) url)"

definition scheme_char :: "nat \<Rightarrow> bool" where
  "scheme_char c \<longleftrightarrow> is_alnum c \<or> c = 43 \<or> c = 45 \<or> c = 46"

definition has_scheme :: "str \<Rightarrow> bool" where
  "has_scheme url \<longleftrightarrow> 58 \<in> set url \<and> before 58 url \<noteq> [] \<and> (is_upper (hd url) \<or> is_lower (hd url)) \<and> list_all scheme_char (before 58 url)"

definition url_delimiter :: "nat \<Rightarrow> bool" where
  "url_delimiter c \<longleftrightarrow> c = 47 \<or> c = 63 \<or> c = 35"

text \<open>Scheme, authority and the rest of a cleaned URL.\<close>

definition url_scheme :: "str \<Rightarrow> str" where
  "url_scheme url = (if has_scheme url then lower (before 58 url) else [])"

definition url_rest :: "str \<Rightarrow> str" where
  "url_rest url = (if has_scheme url then after_first 58 url else url)"

definition url_netloc :: "str \<Rightarrow> str" where
  "url_netloc rest = (if take 2 rest = [47, 47] then takeWhile (\<lambda>c. \<not> url_delimiter c) (drop 2 rest) else [])"

definition url_tail :: "str \<Rightarrow> str" where
  "url_tail rest = (if take 2 rest = [47, 47] then dropWhile (\<lambda>c. \<not> url_delimiter c) (drop 2 rest) else rest)"

definition netloc_fine :: "url_library \<Rightarrow> str \<Rightarrow> bool" where
  "netloc_fine ul netloc \<longleftrightarrow> (91 \<in> set netloc) = (93 \<in> set netloc) \<and> (netloc \<noteq> [] \<longrightarrow> ul_netloc_ok ul netloc)"

text \<open>\<open>urlsplit\<close>; \<open>None\<close> is its \<open>ValueError\<close>.\<close>

definition split_url :: "url_library \<Rightarrow> str \<Rightarrow> split_url option" where
  "split_url ul given =
     (let url = cleaned_url given; rest = url_rest url; netloc = url_netloc rest; tail = url_tail rest
      in if \<not> netloc_fine ul netloc then None
         else Some \<lparr>su_scheme = url_scheme url, su_netloc = netloc,
           su_path = before 63 (before 35 tail), su_query = after_first 63 (before 35 tail), su_fragment = after_first 35 tail\<rparr>)"

text \<open>Host, port and user of an authority. The port is \<open>None\<close> where it is missing; a bad one is \<open>Inl ()\<close>.\<close>

definition host_info :: "str \<Rightarrow> str \<times> str" where
  "host_info netloc =
     (let hostinfo = after_last 64 netloc
      in if 91 \<in> set hostinfo
         then (let bracketed = after_first 91 hostinfo in (before 93 bracketed, after_first 58 (after_first 93 bracketed)))
         else (before 58 hostinfo, after_first 58 hostinfo))"

definition host_name :: "split_url \<Rightarrow> str" where
  "host_name u = (let h = fst (host_info (su_netloc u)) in lower (before 37 h) @ dropWhile (\<lambda>c. c \<noteq> 37) h)"

definition port_of :: "split_url \<Rightarrow> unit + nat option" where
  "port_of u = (let p = snd (host_info (su_netloc u)) in
     if p = [] then Inr None
     else if list_all is_digit p \<and> length p \<le> 4300 \<and> nat_of_digits p \<le> 65535 then Inr (Some (nat_of_digits p)) else Inl ())"

text \<open>The truth of \<open>username\<close> or \<open>password\<close>.\<close>

definition has_user :: "split_url \<Rightarrow> bool" where
  "has_user u \<longleftrightarrow> 64 \<in> set (su_netloc u) \<and> (let userinfo = before_last 64 (su_netloc u) in before 58 userinfo \<noteq> [] \<or> after_first 58 userinfo \<noteq> [])"

definition strip_slashes :: "str \<Rightarrow> str" where
  "strip_slashes s = rstrip_by (\<lambda>c. c = 47) s"

text \<open>\<open>localhost\<close>, or a loopback address, after lower-casing and without trailing dots.\<close>

definition loopback_host :: "url_library \<Rightarrow> str \<Rightarrow> bool" where
  "loopback_host ul name = (let host = rstrip_by (\<lambda>c. c = 46) (lower name)
     in host = lit ''localhost'' \<or> ul_loopback ul host = Some True)"

definition loopback_origin :: "url_library \<Rightarrow> str \<Rightarrow> str option" where
  "loopback_origin ul value = (case split_url ul value of None \<Rightarrow> None
     | Some u \<Rightarrow> (case port_of u of
         Inr (Some port) \<Rightarrow>
           if su_scheme u \<noteq> lit ''http'' \<or> host_name u = [] \<or> has_user u \<or> su_query u \<noteq> [] \<or> su_fragment u \<noteq> []
              \<or> su_path u \<notin> {[], [47]} then None
           else if loopback_host ul (host_name u) then Some (strip_slashes value) else None
       | _ \<Rightarrow> None))"

section \<open>Gateway settings\<close>

fun double_slash :: "str \<Rightarrow> bool" where
  "double_slash (a # b # s) \<longleftrightarrow> a = 47 \<and> b = 47 \<or> double_slash (b # s)"
| "double_slash s = False"

definition base_path_of :: "str \<Rightarrow> str option" where
  "base_path_of given =
     (let v = py_strip given; v = (if v \<noteq> [] \<and> hd v = 47 then v else 47 # v); v = strip_slashes v
      in if v = [] then None
         else if double_slash v \<or> 63 \<in> set v \<or> 35 \<in> set v then None else Some v)"

definition same_origin_setting :: "url_library \<Rightarrow> str \<Rightarrow> str option" where
  "same_origin_setting ul value = (case split_url ul value of None \<Rightarrow> None
     | Some u \<Rightarrow> if su_scheme u \<noteq> [] \<or> su_netloc u \<noteq> [] \<or> \<not> (value \<noteq> [] \<and> hd value = 47) \<or> take 2 value = [47, 47] then None else Some value)"

definition loopback_url :: "url_library \<Rightarrow> str \<Rightarrow> str option" where
  "loopback_url ul value = (case split_url ul value of None \<Rightarrow> None
     | Some u \<Rightarrow>
         if su_scheme u \<notin> {lit ''http'', lit ''https''} \<or> host_name u = [] \<or> has_user u then None
         else if loopback_host ul (host_name u) then Some (strip_slashes value) else None)"

definition validate_public_origin :: "url_library \<Rightarrow> str \<Rightarrow> str \<Rightarrow> str option" where
  "validate_public_origin ul value environment = (case split_url ul value of None \<Rightarrow> None
     | Some u \<Rightarrow> (case port_of u of Inl _ \<Rightarrow> None
       | Inr _ \<Rightarrow>
           if su_netloc u = [] \<or> host_name u = [] \<or> has_user u \<or> su_query u \<noteq> [] \<or> su_fragment u \<noteq> [] \<or> su_path u \<notin> {[], [47]} then None
           else if su_scheme u = lit ''http'' then
             (if environment \<noteq> lit ''staging'' \<or> host_name u \<notin> {lit ''127.0.0.1'', lit ''::1''} then None else Some (strip_slashes value))
           else if su_scheme u \<noteq> lit ''https'' then None else Some (strip_slashes value)))"

definition cookie_name :: "str \<Rightarrow> bool" where
  "cookie_name s \<longleftrightarrow> s \<noteq> [] \<and> list_all (\<lambda>c. is_alnum c \<or> c \<in> set (lit ''!#$%&*+.^_`|~-'') \<or> c = 39) s"

definition settings_key_id :: "str \<Rightarrow> bool" where
  "settings_key_id = token is_alnum (\<lambda>c. is_alnum c \<or> c \<in> {46, 95, 45}) 63"

definition settings_environment :: "str \<Rightarrow> bool" where
  "settings_environment = token (\<lambda>c. is_lower c \<or> is_digit c) (\<lambda>c. is_lower c \<or> is_digit c \<or> c = 45) 31"

definition settings_token :: "str \<Rightarrow> bool" where
  "settings_token = token is_alnum (\<lambda>c. is_alnum c \<or> c \<in> {46, 95, 58, 45}) 127"

text \<open>A path as \<open>pathlib\<close> holds it: none, one or two slashes at the root, and its parts.\<close>

type_synonym posix_path = "nat \<times> str list"

definition posix_path :: "str \<Rightarrow> posix_path" where
  "posix_path s =
     ((if take 1 s \<noteq> [47] then 0 else if take 2 s = [47, 47] \<and> take 3 s \<noteq> [47, 47, 47] then 2 else 1),
      filter (\<lambda>p. p \<noteq> [] \<and> p \<noteq> [46]) (split_on 47 s))"

text \<open>A timeout is a float, which may be infinite or not a number where it is read without a check.\<close>

definition at_most_zero :: "double \<Rightarrow> bool" where
  "at_most_zero d \<longleftrightarrow> (case d of Finite r \<Rightarrow> r \<le> 0 | Infinite negative \<Rightarrow> negative | Not_A_Number \<Rightarrow> False)"

definition int_below :: "int \<Rightarrow> double \<Rightarrow> bool" where
  "int_below i d \<longleftrightarrow> (case d of Finite r \<Rightarrow> of_int i < r | Infinite negative \<Rightarrow> \<not> negative | Not_A_Number \<Rightarrow> False)"

record gateway_settings =
  gs_base_path :: str
  gs_novo_api_base_url :: str
  gs_integration_secret_file :: posix_path
  gs_csrf_secret_file :: "posix_path option"
  gs_session_cookie_name :: str
  gs_home_path :: str
  gs_login_path :: str
  gs_logout_path :: str
  gs_login_return_parameter :: str
  gs_worker_base_url :: str
  gs_signing_secret_file :: posix_path
  gs_response_secret_file :: "posix_path option"
  gs_request_key_id :: str
  gs_response_key_id :: str
  gs_environment :: str
  gs_index_schema_version :: str
  gs_job_db_path :: posix_path
  gs_job_ownership_ttl :: int
  gs_public_origin :: "str option"
  gs_request_timeout :: double
  gs_max_request_bytes :: int
  gs_worker_job_timeout :: double
  gs_worker_poll_interval :: double
  gs_export_page_limit :: int
  gs_ingest_batch_max_bytes :: int
  gs_export_max_pages :: int
  gs_export_max_batches :: int
  gs_sync_revision_retries :: int

text \<open>The bounds and names of \<open>__post_init__\<close>.\<close>

definition settings_in_bounds :: "gateway_settings \<Rightarrow> bool" where
  "settings_in_bounds s \<longleftrightarrow>
     cookie_name (gs_session_cookie_name s) \<and> settings_key_id (gs_request_key_id s) \<and> settings_key_id (gs_response_key_id s)
     \<and> settings_token (gs_index_schema_version s)
     \<and> \<not> at_most_zero (gs_request_timeout s) \<and> \<not> at_most_zero (gs_worker_job_timeout s) \<and> \<not> at_most_zero (gs_worker_poll_interval s)
     \<and> 1024 \<le> gs_max_request_bytes s \<and> gs_max_request_bytes s \<le> 1024 * 1024
     \<and> \<not> int_below (gs_job_ownership_ttl s) (gs_worker_job_timeout s)
     \<and> 1 \<le> gs_export_page_limit s \<and> gs_export_page_limit s \<le> 250
     \<and> 1 \<le> gs_ingest_batch_max_bytes s \<and> gs_ingest_batch_max_bytes s \<le> 30 * 1024 * 1024
     \<and> gs_export_page_limit s \<le> gs_export_max_pages s \<and> 1 \<le> gs_export_max_batches s
     \<and> 0 \<le> gs_sync_revision_retries s \<and> gs_sync_revision_retries s \<le> 3"

text \<open>\<open>GatewaySettings(...)\<close>: the normalised settings, \<open>None\<close> for \<open>ValueError\<close>. An empty origin is left as it is.\<close>

definition settings_of :: "url_library \<Rightarrow> gateway_settings \<Rightarrow> gateway_settings option" where
  "settings_of ul s =
     (case (base_path_of (gs_base_path s), loopback_url ul (gs_novo_api_base_url s), loopback_url ul (gs_worker_base_url s)) of
        (Some base, Some novo_url, Some worker_url) \<Rightarrow>
          (if same_origin_setting ul (gs_home_path s) = None \<or> same_origin_setting ul (gs_login_path s) = None
              \<or> same_origin_setting ul (gs_logout_path s) = None \<or> \<not> settings_environment (gs_environment s) then None
           else (case (if or_none (gs_public_origin s) = None then Some (gs_public_origin s)
                   else map_option Some (validate_public_origin ul (the (gs_public_origin s)) (gs_environment s))) of
               None \<Rightarrow> None
             | Some origin \<Rightarrow>
                 if settings_in_bounds s
                 then Some (s\<lparr>gs_base_path := base, gs_novo_api_base_url := novo_url, gs_worker_base_url := worker_url, gs_public_origin := origin\<rparr>)
                 else None))
      | _ \<Rightarrow> None)"

definition effective_csrf_secret_file :: "gateway_settings \<Rightarrow> posix_path" where
  "effective_csrf_secret_file s = (case gs_csrf_secret_file s of Some p \<Rightarrow> p | None \<Rightarrow> gs_integration_secret_file s)"

definition effective_response_secret_file :: "gateway_settings \<Rightarrow> posix_path" where
  "effective_response_secret_file s = (case gs_response_secret_file s of Some p \<Rightarrow> p | None \<Rightarrow> gs_signing_secret_file s)"

section \<open>The environment\<close>

text \<open>\<open>os.getenv(name, default)\<close>: an empty variable counts as set.\<close>

definition variable_or :: "(string \<Rightarrow> str option) \<Rightarrow> string \<Rightarrow> string \<Rightarrow> str" where
  "variable_or env name default_text = (case env name of Some v \<Rightarrow> v | None \<Rightarrow> lit default_text)"

definition optional_file :: "(string \<Rightarrow> str option) \<Rightarrow> string \<Rightarrow> posix_path option" where
  "optional_file env name = map_option posix_path (or_none (env name))"

text \<open>
  \<open>GatewaySettings.from_env\<close>; \<open>read_float\<close> is \<open>float\<close> of a text. A number that cannot be read raises \<open>ValueError\<close>
  as the checks do.
\<close>

definition settings_from_env :: "url_library \<Rightarrow> (str \<Rightarrow> double option) \<Rightarrow> (string \<Rightarrow> str option) \<Rightarrow> gateway_settings option" where
  "settings_from_env ul read_float env =
     Option.bind (py_int 10 (variable_or env ''NOVO_CHAT_JOB_OWNERSHIP_TTL_S'' ''604800'')) (\<lambda>ttl.
     Option.bind (read_float (variable_or env ''NOVO_CHAT_REQUEST_TIMEOUT_S'' ''10'')) (\<lambda>request_timeout.
     Option.bind (py_int 10 (variable_or env ''NOVO_CHAT_GATEWAY_MAX_REQUEST_BYTES'' ''65536'')) (\<lambda>max_request.
     Option.bind (read_float (variable_or env ''NOVO_CHAT_WORKER_JOB_TIMEOUT_S'' ''840'')) (\<lambda>job_timeout.
     Option.bind (read_float (variable_or env ''NOVO_CHAT_WORKER_POLL_INTERVAL_S'' ''1'')) (\<lambda>poll.
     Option.bind (py_int 10 (variable_or env ''NOVO_EXPORT_PAGE_LIMIT'' ''8'')) (\<lambda>page_limit.
     Option.bind (py_int 10 (variable_or env ''NOVO_CHAT_INGEST_BATCH_MAX_BYTES'' ''25165824'')) (\<lambda>batch_bytes.
     Option.bind (py_int 10 (variable_or env ''NOVO_EXPORT_MAX_PAGES'' ''100000'')) (\<lambda>max_pages.
     Option.bind (py_int 10 (variable_or env ''NOVO_EXPORT_MAX_BATCHES'' ''10000'')) (\<lambda>max_batches.
     Option.bind (py_int 10 (variable_or env ''NOVO_CHAT_SYNC_REVISION_RETRIES'' ''1'')) (\<lambda>retries.
     settings_of ul
       \<lparr>gs_base_path = variable_or env ''NOVO_CHAT_BASE_PATH'' ''/chat'',
        gs_novo_api_base_url = variable_or env ''NOVO_INTEGRATION_API_URL'' ''http://127.0.0.1:3148/api/integrations/v1'',
        gs_integration_secret_file = posix_path (variable_or env ''NOVO_INTEGRATION_SECRET_FILE'' ''/run/secrets/novo-chat-integration-token''),
        gs_csrf_secret_file = optional_file env ''NOVO_CHAT_CSRF_SECRET_FILE'',
        gs_session_cookie_name = variable_or env ''NOVO_SESSION_COOKIE_NAME'' ''eln_session'',
        gs_home_path = variable_or env ''NOVO_HOME_PATH'' ''/'', gs_login_path = variable_or env ''NOVO_LOGIN_PATH'' ''/'',
        gs_logout_path = variable_or env ''NOVO_LOGOUT_PATH'' ''/api/auth/logout'',
        gs_login_return_parameter = variable_or env ''NOVO_LOGIN_RETURN_PARAMETER'' ''returnTo'',
        gs_worker_base_url = variable_or env ''NOVO_CHAT_WORKER_URL'' ''http://127.0.0.1:18095/internal/v1'',
        gs_signing_secret_file = posix_path (variable_or env ''NOVO_CHAT_WORKER_SIGNING_KEY_FILE'' ''/run/secrets/novo-chat-worker-signing-key''),
        gs_response_secret_file = optional_file env ''NOVO_CHAT_WORKER_RESPONSE_KEY_FILE'',
        gs_request_key_id = variable_or env ''NOVO_CHAT_WORKER_REQUEST_KEY_ID'' ''gateway'',
        gs_response_key_id = variable_or env ''NOVO_CHAT_WORKER_RESPONSE_KEY_ID'' ''compute-worker'',
        gs_environment = variable_or env ''NOVO_CHAT_ENVIRONMENT'' ''development'',
        gs_index_schema_version = variable_or env ''NOVO_CHAT_INDEX_SCHEMA_VERSION'' ''novo-chat-index-v1'',
        gs_job_db_path = posix_path (variable_or env ''NOVO_CHAT_JOB_DB'' ''/var/lib/novo-chat-gateway/jobs.sqlite3''),
        gs_job_ownership_ttl = ttl, gs_public_origin = env ''NOVO_CHAT_PUBLIC_ORIGIN'', gs_request_timeout = request_timeout,
        gs_max_request_bytes = max_request, gs_worker_job_timeout = job_timeout, gs_worker_poll_interval = poll,
        gs_export_page_limit = page_limit, gs_ingest_batch_max_bytes = batch_bytes, gs_export_max_pages = max_pages,
        gs_export_max_batches = max_batches, gs_sync_revision_retries = retries\<rparr>))))))))))"

end
