(* ===== verification/Runtime.thy ===== *)
theory Runtime
  imports Settings Model_Client
begin

text \<open>
  The fail-closed entry points (\<open>runtime.py\<close>): the environment of a deployment is read and checked, secret
  files are opened with their checks, and the settings of the gateway or the configuration of the worker is
  built. The file system is a parameter: what a path names, as \<open>stat\<close> and \<open>access\<close> report it.
\<close>

section \<open>Deployments\<close>

datatype role = Gateway_Role | Worker_Role

datatype deployment = Staging | Production

definition deployment_port :: "role \<Rightarrow> deployment \<Rightarrow> int" where
  "deployment_port r d = (case r of Gateway_Role \<Rightarrow> (case d of Staging \<Rightarrow> 3181 | Production \<Rightarrow> 3180)
     | Worker_Role \<Rightarrow> (case d of Staging \<Rightarrow> 8096 | Production \<Rightarrow> 8095))"

definition novo_port :: "deployment \<Rightarrow> nat" where
  "novo_port d = (case d of Staging \<Rightarrow> 3155 | Production \<Rightarrow> 3148)"

definition reverse_forward_port :: "deployment \<Rightarrow> nat" where
  "reverse_forward_port d = (case d of Staging \<Rightarrow> 8196 | Production \<Rightarrow> 8195)"

definition base_path_for :: "deployment \<Rightarrow> str" where
  "base_path_for d = (case d of Staging \<Rightarrow> lit ''/chat-staging'' | Production \<Rightarrow> lit ''/chat'')"

definition deployment_text :: "deployment \<Rightarrow> str" where
  "deployment_text d = (case d of Staging \<Rightarrow> lit ''staging'' | Production \<Rightarrow> lit ''production'')"

section \<open>Environment values\<close>

text \<open>A configuration error is told by the setting it names.\<close>

type_synonym config_error = string

type_synonym variables = "string \<Rightarrow> str option"

text \<open>\<open>@[A-Z][A-Z0-9_]*@\<close> anywhere in the text.\<close>

fun has_placeholder :: "str \<Rightarrow> bool" where
  "has_placeholder [] = False"
| "has_placeholder (c # s) \<longleftrightarrow>
     c = 64 \<and> s \<noteq> [] \<and> is_upper (hd s) \<and> take 1 (dropWhile (\<lambda>x. is_upper x \<or> is_digit x \<or> x = 95) (tl s)) = [64]
     \<or> has_placeholder s"

definition value_or :: "variables \<Rightarrow> string \<Rightarrow> string option \<Rightarrow> config_error + str" where
  "value_or env name default_text =
     (let raw = py_strip (case env name of Some v \<Rightarrow> v | None \<Rightarrow> (case default_text of Some d \<Rightarrow> lit d | None \<Rightarrow> []))
      in demand name (raw \<noteq> []) (demand name (\<not> has_placeholder raw) (Inr raw)))"

abbreviation required_value :: "variables \<Rightarrow> string \<Rightarrow> config_error + str" where
  "required_value env name \<equiv> value_or env name None"

definition read_environment :: "variables \<Rightarrow> config_error + deployment" where
  "read_environment env = and_then (required_value env ''NOVO_CHAT_ENVIRONMENT'') (\<lambda>v.
     if v = lit ''staging'' then Inr Staging else if v = lit ''production'' then Inr Production else Inl ''NOVO_CHAT_ENVIRONMENT'')"

definition read_bind :: "variables \<Rightarrow> role \<Rightarrow> deployment \<Rightarrow> config_error + str \<times> int" where
  "read_bind env r d =
     and_then (required_value env ''NOVO_CHAT_BIND_HOST'') (\<lambda>host.
     demand ''NOVO_CHAT_BIND_HOST'' (host = lit ''127.0.0.1'')
    (and_then (required_value env ''NOVO_CHAT_PORT'') (\<lambda>raw.
     and_then (or_raise ''NOVO_CHAT_PORT'' (py_int 10 raw)) (\<lambda>port.
     demand ''NOVO_CHAT_PORT'' (port = deployment_port r d) (Inr (host, port))))))"

definition absolute_path :: "variables \<Rightarrow> string \<Rightarrow> config_error + posix_path" where
  "absolute_path env name = and_then (required_value env name) (\<lambda>v.
     demand name (0 < fst (posix_path v) \<and> lit ''..'' \<notin> set (snd (posix_path v))) (Inr (posix_path v)))"

definition read_identifier :: "variables \<Rightarrow> string \<Rightarrow> (str \<Rightarrow> bool) \<Rightarrow> config_error + str" where
  "read_identifier env name pattern = and_then (required_value env name) (\<lambda>v. demand name (pattern v) (Inr v))"

definition csv_identifiers :: "variables \<Rightarrow> string \<Rightarrow> (str \<Rightarrow> bool) \<Rightarrow> config_error + str list" where
  "csv_identifiers env name pattern = and_then (required_value env name) (\<lambda>v.
     let values = filter (\<lambda>p. p \<noteq> []) (map py_strip (split_on 44 v))
     in demand name (values \<noteq> []) (demand name (distinct values) (demand name (list_all pattern values) (Inr values))))"

text \<open>\<open>read_float\<close> is \<open>float\<close> of a text, \<open>None\<close> for its \<open>ValueError\<close>.\<close>

definition positive_integer :: "variables \<Rightarrow> string \<Rightarrow> string \<Rightarrow> config_error + int" where
  "positive_integer env name default_text = and_then (value_or env name (Some default_text)) (\<lambda>raw.
     and_then (or_raise name (py_int 10 raw)) (\<lambda>i. demand name (0 < i) (Inr i)))"

definition positive_float :: "(str \<Rightarrow> double option) \<Rightarrow> variables \<Rightarrow> string \<Rightarrow> string \<Rightarrow> config_error + rat" where
  "positive_float read_float env name default_text = and_then (value_or env name (Some default_text)) (\<lambda>raw.
     case read_float raw of Some (Finite r) \<Rightarrow> demand name (0 < r) (Inr r) | _ \<Rightarrow> Inl name)"

definition nonnegative_integer :: "variables \<Rightarrow> string \<Rightarrow> string \<Rightarrow> config_error + int" where
  "nonnegative_integer env name default_text = and_then (value_or env name (Some default_text)) (\<lambda>raw.
     and_then (or_raise name (py_int 10 raw)) (\<lambda>i. demand name (0 \<le> i) (Inr i)))"

text \<open>\<open>_loopback_url\<close>: the literal address, the port and the path of the deployment; trailing slashes do not count.\<close>

definition deployment_url_of :: "string \<Rightarrow> nat \<Rightarrow> string \<Rightarrow> str \<Rightarrow> split_url \<Rightarrow> config_error + str" where
  "deployment_url_of name port path given u = (case port_of u of Inl _ \<Rightarrow> Inl name | Inr p \<Rightarrow>
     demand name (su_scheme u = lit ''http'' \<and> host_name u = lit ''127.0.0.1'' \<and> p = Some port \<and> \<not> has_user u
       \<and> su_query u = [] \<and> su_fragment u = [] \<and> strip_slashes (su_path u) = strip_slashes (lit path))
      (Inr (strip_slashes given)))"

definition deployment_url :: "url_library \<Rightarrow> variables \<Rightarrow> string \<Rightarrow> nat \<Rightarrow> string \<Rightarrow> config_error + str" where
  "deployment_url ul env name port path = and_then (required_value env name) (\<lambda>given.
     case split_url ul given of None \<Rightarrow> Inl name | Some u \<Rightarrow> deployment_url_of name port path given u)"

section \<open>Files\<close>

record file_stat =
  st_regular :: bool
  st_directory :: bool
  st_socket :: bool
  st_uid :: nat
  st_mode :: nat
  st_nlink :: nat
  st_size :: nat

text \<open>
  \<open>fsys_open\<close> opens for reading without following a symbolic link and gives the status of the open file with its contents; \<open>fsys_stat\<close>
  follows links, \<open>fsys_lstat\<close> does not; \<open>fsys_access\<close> is permission to read, write and search.
\<close>

record file_system =
  fsys_open :: "posix_path \<Rightarrow> (file_stat \<times> bytes) option"
  fsys_stat :: "posix_path \<Rightarrow> file_stat option"
  fsys_lstat :: "posix_path \<Rightarrow> file_stat option"
  fsys_symlink :: "posix_path \<Rightarrow> bool"
  fsys_access :: "posix_path \<Rightarrow> bool"
  fsys_writable :: "posix_path \<Rightarrow> bool"
  fsys_text :: "posix_path \<Rightarrow> str option"
  fsys_euid :: nat

text \<open>The mode bits tested by \<open>0o137\<close>, \<open>0o022\<close> and \<open>0o007\<close>.\<close>

definition secret_mode_ok :: "nat \<Rightarrow> bool" where
  "secret_mode_ok mode \<longleftrightarrow> \<not> bit mode 6 \<and> \<not> bit mode 4 \<and> \<not> bit mode 3 \<and> \<not> bit mode 2 \<and> \<not> bit mode 1 \<and> \<not> bit mode 0"

definition config_mode_ok :: "nat \<Rightarrow> bool" where
  "config_mode_ok mode \<longleftrightarrow> \<not> bit mode 4 \<and> \<not> bit mode 1"

definition socket_mode_ok :: "nat \<Rightarrow> bool" where
  "socket_mode_ok mode \<longleftrightarrow> \<not> bit mode 2 \<and> \<not> bit mode 1 \<and> \<not> bit mode 0"

definition owned_by_service :: "file_system \<Rightarrow> file_stat \<Rightarrow> bool" where
  "owned_by_service fsys st \<longleftrightarrow> st_uid st = 0 \<or> st_uid st = fsys_euid fsys"

text \<open>The contents are read up to one byte more than a secret may have.\<close>

definition open_secret :: "file_system \<Rightarrow> string \<Rightarrow> posix_path \<Rightarrow> config_error + bytes" where
  "open_secret fsys name path = (case fsys_open fsys path of None \<Rightarrow> Inl name
     | Some (st, contents) \<Rightarrow>
         demand name (st_regular st \<and> owned_by_service fsys st \<and> secret_mode_ok (st_mode st) \<and> st_nlink st = 1 \<and> st_size st \<le> 65536)
           (let v = strip_by ascii_space (take 65537 contents)
            in demand name (32 \<le> length v) (demand name (length v \<le> 65536 \<and> 0 \<notin> set v) (Inr v))))"

text \<open>The nearest ancestor that exists; the root is its own parent.\<close>

function existing_ancestor :: "file_system \<Rightarrow> posix_path \<Rightarrow> posix_path" where
  "existing_ancestor fsys (slashes, parts) =
     (if fsys_stat fsys (slashes, parts) \<noteq> None \<or> parts = [] then (slashes, parts) else existing_ancestor fsys (slashes, butlast parts))"
  by pat_completeness auto
termination by (relation "measure (\<lambda>(fsys, slashes, parts). length parts)") auto

declare existing_ancestor.simps [simp del]

definition state_target :: "file_system \<Rightarrow> string \<Rightarrow> bool \<Rightarrow> posix_path \<Rightarrow> config_error + unit" where
  "state_target fsys name directory path =
     demand name (\<not> fsys_symlink fsys path)
    (demand name (case fsys_stat fsys path of None \<Rightarrow> True | Some st \<Rightarrow> if directory then st_directory st else st_regular st)
    (let ancestor = existing_ancestor fsys (if (case fsys_stat fsys path of Some st \<Rightarrow> st_directory st | None \<Rightarrow> False) then path
            else (fst path, butlast (snd path)))
     in demand name ((case fsys_stat fsys ancestor of Some st \<Rightarrow> st_directory st | None \<Rightarrow> False) \<and> fsys_access fsys ancestor) (Inr ())))"

definition readonly_config :: "file_system \<Rightarrow> string \<Rightarrow> posix_path \<Rightarrow> config_error + unit" where
  "readonly_config fsys name path =
     and_then (or_raise name (fsys_lstat fsys path)) (\<lambda>st.
     demand name (st_regular st \<and> \<not> fsys_symlink fsys path \<and> owned_by_service fsys st \<and> config_mode_ok (st_mode st)
        \<and> 2 \<le> st_size st \<and> st_size st \<le> 1024 * 1024)
    (and_then (or_raise name (fsys_text fsys path)) (\<lambda>contents. demand name (\<not> has_placeholder contents) (Inr ()))))"

section \<open>The gateway\<close>

record gateway_runtime =
  gr_host :: str
  gr_port :: int
  gr_settings :: gateway_settings

text \<open>The four secrets of the gateway: distinct files with distinct contents, the first of them text.\<close>

definition gateway_secret_names :: "string list" where
  "gateway_secret_names = [''NOVO_INTEGRATION_SECRET_FILE'', ''NOVO_CHAT_CSRF_SECRET_FILE'',
     ''NOVO_CHAT_WORKER_SIGNING_KEY_FILE'', ''NOVO_CHAT_WORKER_RESPONSE_KEY_FILE'']"

definition gateway_secrets :: "file_system \<Rightarrow> variables \<Rightarrow> config_error + posix_path list" where
  "gateway_secrets fsys env =
     and_then (map_err (absolute_path env) gateway_secret_names) (\<lambda>paths.
     demand ''gateway secrets'' (distinct paths)
    (and_then (map_err (\<lambda>(name, path). open_secret fsys name path) (zip gateway_secret_names paths)) (\<lambda>secrets.
     demand ''gateway secrets'' (distinct secrets)
    (demand ''NOVO_INTEGRATION_SECRET_FILE'' (utf8_decode (hd secrets) \<noteq> None) (Inr paths)))))"

definition key_ids :: "variables \<Rightarrow> config_error + str \<times> str" where
  "key_ids env =
     and_then (read_identifier env ''NOVO_CHAT_WORKER_REQUEST_KEY_ID'' settings_key_id) (\<lambda>request_key.
     and_then (read_identifier env ''NOVO_CHAT_WORKER_RESPONSE_KEY_ID'' settings_key_id) (\<lambda>response_key.
     demand ''worker key IDs'' (request_key \<noteq> response_key) (Inr (request_key, response_key))))"

text \<open>The numbers of the gateway, in the order they are read.\<close>

record gateway_numbers =
  nu_ttl :: int
  nu_request_timeout :: rat
  nu_max_request :: int
  nu_job_timeout :: rat
  nu_poll :: rat
  nu_page_limit :: int
  nu_batch_bytes :: int
  nu_max_pages :: int
  nu_max_batches :: int
  nu_retries :: int

definition read_gateway_numbers :: "(str \<Rightarrow> double option) \<Rightarrow> variables \<Rightarrow> config_error + gateway_numbers" where
  "read_gateway_numbers read_float env =
     and_then (positive_integer env ''NOVO_CHAT_JOB_OWNERSHIP_TTL_S'' ''604800'') (\<lambda>ttl.
     and_then (positive_float read_float env ''NOVO_CHAT_REQUEST_TIMEOUT_S'' ''10'') (\<lambda>request_timeout.
     and_then (positive_integer env ''NOVO_CHAT_GATEWAY_MAX_REQUEST_BYTES'' ''65536'') (\<lambda>max_request.
     and_then (positive_float read_float env ''NOVO_CHAT_WORKER_JOB_TIMEOUT_S'' ''840'') (\<lambda>job_timeout.
     and_then (positive_float read_float env ''NOVO_CHAT_WORKER_POLL_INTERVAL_S'' ''1'') (\<lambda>poll.
     and_then (positive_integer env ''NOVO_EXPORT_PAGE_LIMIT'' ''8'') (\<lambda>page_limit.
     and_then (positive_integer env ''NOVO_CHAT_INGEST_BATCH_MAX_BYTES'' ''25165824'') (\<lambda>batch_bytes.
     and_then (positive_integer env ''NOVO_EXPORT_MAX_PAGES'' ''100000'') (\<lambda>max_pages.
     and_then (positive_integer env ''NOVO_EXPORT_MAX_BATCHES'' ''10000'') (\<lambda>max_batches.
     and_then (nonnegative_integer env ''NOVO_CHAT_SYNC_REVISION_RETRIES'' ''1'') (\<lambda>retries.
       Inr \<lparr>nu_ttl = ttl, nu_request_timeout = request_timeout, nu_max_request = max_request, nu_job_timeout = job_timeout,
            nu_poll = poll, nu_page_limit = page_limit, nu_batch_bytes = batch_bytes, nu_max_pages = max_pages,
            nu_max_batches = max_batches, nu_retries = retries\<rparr>))))))))))"

definition load_gateway_runtime ::
  "url_library \<Rightarrow> (str \<Rightarrow> double option) \<Rightarrow> file_system \<Rightarrow> variables \<Rightarrow> config_error + gateway_runtime" where
  "load_gateway_runtime ul read_float fsys env =
     and_then (read_environment env) (\<lambda>d.
     and_then (read_bind env Gateway_Role d) (\<lambda>(host, port).
     and_then (required_value env ''NOVO_CHAT_BASE_PATH'') (\<lambda>base.
     demand ''NOVO_CHAT_BASE_PATH'' (base = base_path_for d)
    (and_then (required_value env ''NOVO_CHAT_PUBLIC_ORIGIN'') (\<lambda>raw_origin.
     and_then (or_raise ''NOVO_CHAT_PUBLIC_ORIGIN'' (validate_public_origin ul raw_origin (deployment_text d))) (\<lambda>origin.
     and_then (deployment_url ul env ''NOVO_INTEGRATION_API_URL'' (novo_port d) ''/api/integrations/v1'') (\<lambda>novo_url.
     and_then (deployment_url ul env ''NOVO_CHAT_WORKER_URL'' (reverse_forward_port d) ''/internal/v1'') (\<lambda>worker_url.
     and_then (gateway_secrets fsys env) (\<lambda>files.
     and_then (key_ids env) (\<lambda>(request_key, response_key).
     and_then (absolute_path env ''NOVO_CHAT_JOB_DB'') (\<lambda>job_db.
     and_then (state_target fsys ''NOVO_CHAT_JOB_DB'' False job_db) (\<lambda>_.
     and_then (required_value env ''NOVO_SESSION_COOKIE_NAME'') (\<lambda>cookie.
     and_then (required_value env ''NOVO_HOME_PATH'') (\<lambda>home.
     and_then (required_value env ''NOVO_LOGIN_PATH'') (\<lambda>login.
     and_then (required_value env ''NOVO_LOGOUT_PATH'') (\<lambda>logout.
     and_then (required_value env ''NOVO_LOGIN_RETURN_PARAMETER'') (\<lambda>return_parameter.
     and_then (read_identifier env ''NOVO_CHAT_INDEX_SCHEMA_VERSION'' settings_token) (\<lambda>schema.
     and_then (read_gateway_numbers read_float env) (\<lambda>nu.
     and_then (or_raise ''gateway settings'' (settings_of ul
        \<lparr>gs_base_path = base, gs_novo_api_base_url = novo_url, gs_integration_secret_file = files ! 0, gs_csrf_secret_file = Some (files ! 1),
         gs_session_cookie_name = cookie, gs_home_path = home, gs_login_path = login, gs_logout_path = logout,
         gs_login_return_parameter = return_parameter, gs_worker_base_url = worker_url, gs_signing_secret_file = files ! 2,
         gs_response_secret_file = Some (files ! 3), gs_request_key_id = request_key, gs_response_key_id = response_key,
         gs_environment = deployment_text d, gs_index_schema_version = schema, gs_job_db_path = job_db, gs_job_ownership_ttl = nu_ttl nu,
         gs_public_origin = Some origin, gs_request_timeout = Finite (nu_request_timeout nu), gs_max_request_bytes = nu_max_request nu,
         gs_worker_job_timeout = Finite (nu_job_timeout nu), gs_worker_poll_interval = Finite (nu_poll nu),
         gs_export_page_limit = nu_page_limit nu, gs_ingest_batch_max_bytes = nu_batch_bytes nu, gs_export_max_pages = nu_max_pages nu,
         gs_export_max_batches = nu_max_batches nu, gs_sync_revision_retries = nu_retries nu\<rparr>)) (\<lambda>settings.
       Inr \<lparr>gr_host = host, gr_port = port, gr_settings = settings\<rparr>))))))))))))))))))))"

section \<open>The worker\<close>

record worker_runtime =
  wr_host :: str
  wr_port :: int
  wr_config :: worker_config
  wr_state_database :: posix_path
  wr_state_directory :: posix_path
  wr_controller_socket :: posix_path
  wr_backend :: model_backend_document

definition socket_file :: "deployment \<Rightarrow> posix_path" where
  "socket_file d = (1, [lit ''run'', lit ''novo-chat'', deployment_text d @ lit ''-modelctl.sock''])"

definition check_socket :: "file_system \<Rightarrow> posix_path \<Rightarrow> config_error + unit" where
  "check_socket fsys path =
     and_then (or_raise ''NOVO_CHAT_MODELCTL_SOCKET'' (fsys_stat fsys path)) (\<lambda>st.
     demand ''NOVO_CHAT_MODELCTL_SOCKET'' (st_socket st \<and> st_uid st = 0 \<and> socket_mode_ok (st_mode st) \<and> fsys_writable fsys path) (Inr ()))"

record worker_numbers =
  wn_poll :: rat
  wn_start_timeout :: rat
  wn_retention :: int
  wn_grace :: int
  wn_document_quota :: int
  wn_index_quota :: int

definition read_worker_numbers :: "(str \<Rightarrow> double option) \<Rightarrow> variables \<Rightarrow> config_error + worker_numbers" where
  "read_worker_numbers read_float env =
     and_then (positive_float read_float env ''NOVO_CHAT_EXECUTOR_POLL_SECONDS'' ''0.5'') (\<lambda>poll.
     and_then (positive_float read_float env ''NOVO_CHAT_MODEL_START_TIMEOUT_SECONDS'' ''600'') (\<lambda>start_timeout.
     and_then (positive_integer env ''NOVO_CHAT_JOB_RETENTION_SECONDS'' ''604800'') (\<lambda>retention.
     and_then (positive_integer env ''NOVO_CHAT_ORPHAN_GRACE_SECONDS'' ''3600'') (\<lambda>grace.
     and_then (positive_integer env ''NOVO_CHAT_DOCUMENT_STORAGE_QUOTA_BYTES'' ''53687091200'') (\<lambda>document_quota.
     and_then (positive_integer env ''NOVO_CHAT_INDEX_STORAGE_QUOTA_BYTES'' ''53687091200'') (\<lambda>index_quota.
       Inr \<lparr>wn_poll = poll, wn_start_timeout = start_timeout, wn_retention = retention, wn_grace = grace,
            wn_document_quota = document_quota, wn_index_quota = index_quota\<rparr>))))))"

definition worker_secrets :: "file_system \<Rightarrow> variables \<Rightarrow> config_error + bytes \<times> bytes" where
  "worker_secrets fsys env =
     and_then (absolute_path env ''NOVO_CHAT_WORKER_REQUEST_KEY_FILE'') (\<lambda>request_file.
     and_then (absolute_path env ''NOVO_CHAT_WORKER_RESPONSE_KEY_FILE'') (\<lambda>response_file.
     demand ''worker secrets'' (request_file \<noteq> response_file)
    (and_then (open_secret fsys ''NOVO_CHAT_WORKER_REQUEST_KEY_FILE'' request_file) (\<lambda>request_secret.
     and_then (open_secret fsys ''NOVO_CHAT_WORKER_RESPONSE_KEY_FILE'' response_file) (\<lambda>response_secret.
     demand ''worker secrets'' (request_secret \<noteq> response_secret) (Inr (request_secret, response_secret)))))))"

text \<open>The model services: \<open>parse\<close> is pydantic's reading of the document.\<close>

definition read_backend ::
  "file_system \<Rightarrow> (pyjson \<Rightarrow> model_backend_document option) \<Rightarrow> variables \<Rightarrow> str list \<Rightarrow> config_error + model_backend_document" where
  "read_backend fsys parse env models =
     and_then (absolute_path env ''NOVO_CHAT_MODEL_BACKENDS_FILE'') (\<lambda>file.
     and_then (readonly_config fsys ''NOVO_CHAT_MODEL_BACKENDS_FILE'' file) (\<lambda>_.
     and_then (or_raise ''NOVO_CHAT_MODEL_BACKENDS_FILE'' (load_model_backend_document parse (0 < fst file) (fsys_text fsys file))) (\<lambda>doc.
     demand ''NOVO_CHAT_APPROVED_MODELS'' (approved_models doc = models) (Inr doc))))"

text \<open>The fields that are not read from the environment keep the defaults of \<open>WorkerConfig\<close>.\<close>

definition load_worker_runtime ::
  "file_system \<Rightarrow> (str \<Rightarrow> double option) \<Rightarrow> (pyjson \<Rightarrow> model_backend_document option) \<Rightarrow> bool \<Rightarrow> variables \<Rightarrow> config_error + worker_runtime" where
  "load_worker_runtime fsys read_float parse require_socket env =
     and_then (read_environment env) (\<lambda>d.
     and_then (read_bind env Worker_Role d) (\<lambda>(host, port).
     and_then (absolute_path env ''NOVO_CHAT_WORKER_STATE_DB'') (\<lambda>database.
     and_then (absolute_path env ''NOVO_CHAT_WORKER_STATE_DIR'') (\<lambda>directory.
     and_then (state_target fsys ''NOVO_CHAT_WORKER_STATE_DB'' False database) (\<lambda>_.
     and_then (state_target fsys ''NOVO_CHAT_WORKER_STATE_DIR'' True directory) (\<lambda>_.
     and_then (key_ids env) (\<lambda>(request_key, response_key).
     and_then (worker_secrets fsys env) (\<lambda>(request_secret, response_secret).
     and_then (csv_identifiers env ''NOVO_CHAT_APPROVED_MODELS'' settings_token) (\<lambda>models.
     and_then (csv_identifiers env ''NOVO_CHAT_INDEX_SCHEMA_VERSIONS'' settings_token) (\<lambda>schemas.
     and_then (read_backend fsys parse env models) (\<lambda>doc.
     and_then (absolute_path env ''NOVO_CHAT_MODELCTL_SOCKET'') (\<lambda>sock.
     demand ''NOVO_CHAT_MODELCTL_SOCKET'' (sock = socket_file d)
    (and_then (if require_socket then check_socket fsys sock else Inr ()) (\<lambda>_.
     and_then (read_worker_numbers read_float env) (\<lambda>wn.
     let config = \<lparr>cf_environment = deployment_text d, cf_request_secrets = [(request_key, SecretBytes request_secret)],
           cf_response_key_id = response_key, cf_response_secret = SecretBytes response_secret, cf_audience = lit ''novo-chat-worker'',
           cf_approved_models = models, cf_model_details = model_details doc, cf_index_schema_versions = schemas,
           cf_max_clock_skew = 60, cf_max_request_bytes = 32 * 1024 * 1024, cf_max_scope_entries = 256, cf_max_ingest_pages = 250,
           cf_max_active_operations = 64, cf_executor_poll = wn_poll wn, cf_model_start_timeout = wn_start_timeout wn,
           cf_job_retention = wn_retention wn, cf_orphan_grace = wn_grace wn,
           cf_document_quota = wn_document_quota wn, cf_index_quota = wn_index_quota wn\<rparr>
     in demand ''worker configuration'' (worker_config_ok config)
          (Inr \<lparr>wr_host = host, wr_port = port, wr_config = config, wr_state_database = database, wr_state_directory = directory,
               wr_controller_socket = sock, wr_backend = doc\<rparr>))))))))))))))))"

section \<open>The command\<close>

text \<open>
  \<open>main\<close>: the status it exits with, and the server that is run, if any. \<open>env\<close> is the environment of the
  process; the arguments are parsed by \<open>argparse\<close>. A configuration error is told on standard error.
\<close>

datatype runtime_command = Serve role | Check role

definition load_role ::
  "url_library \<Rightarrow> (str \<Rightarrow> double option) \<Rightarrow> file_system \<Rightarrow> (pyjson \<Rightarrow> model_backend_document option) \<Rightarrow> variables
     \<Rightarrow> role \<Rightarrow> config_error + (gateway_runtime + worker_runtime)" where
  "load_role ul read_float fsys parse env r = (case r of
     Gateway_Role \<Rightarrow> and_then (load_gateway_runtime ul read_float fsys env) (\<lambda>rt. Inr (Inl rt))
   | Worker_Role \<Rightarrow> and_then (load_worker_runtime fsys read_float parse True env) (\<lambda>rt. Inr (Inr rt)))"

definition runtime_main ::
  "url_library \<Rightarrow> (str \<Rightarrow> double option) \<Rightarrow> file_system \<Rightarrow> (pyjson \<Rightarrow> model_backend_document option) \<Rightarrow> variables
     \<Rightarrow> runtime_command \<Rightarrow> int \<times> (gateway_runtime + worker_runtime) option" where
  "runtime_main ul read_float fsys parse env command = (case command of
     Serve r \<Rightarrow> (case load_role ul read_float fsys parse env r of Inl e \<Rightarrow> (2, None) | Inr rt \<Rightarrow> (0, Some rt))
   | Check r \<Rightarrow> (case load_role ul read_float fsys parse env r of Inl e \<Rightarrow> (2, None) | Inr rt \<Rightarrow> (0, None)))"

text \<open>What \<open>check\<close> accepts is what \<open>gateway\<close> and \<open>worker\<close> serve: no other configuration opens a listener.\<close>

lemma served_iff_checked:
  "(\<exists>rt. runtime_main ul read_float fsys parse env (Serve r) = (0, Some rt)) \<longleftrightarrow> runtime_main ul read_float fsys parse env (Check r) = (0, None)"
  by (simp add: runtime_main_def split: sum.splits)

end
