(* ===== verification/Rag_Core_Props.thy ===== *)
theory Rag_Core_Props
  imports Rag_Core "HOL-Library.Multiset"
begin

text \<open>
  Properties of the retrieval helpers: chunks cover the text with the declared overlap,
  diversification respects the page quota, planner terms add new words, the fallback plan
  exists exactly when no word is too long, and citations are read back.
\<close>

section \<open>Chunks\<close>

lemma runs_in: "r \<in> set (runs p xs) \<Longrightarrow> r \<noteq> [] \<and> list_all p r"
proof (induction p xs rule: runs.induct)
  case (2 p c cs)
  show ?case
  proof (cases "p c")
    case True
    with 2(3) have "r = c # takeWhile p cs \<or> r \<in> set (runs p (dropWhile p cs))" by simp
    moreover have "list_all p (c # takeWhile p cs)" using True set_takeWhileD [of _ p cs] by (auto simp: list_all_iff)
    ultimately show ?thesis using 2(1) [OF True] by blast
  next
    case False
    with 2(2) [OF False] 2(3) show ?thesis by simp
  qed
qed simp

lemma runs_all: "xs \<noteq> [] \<Longrightarrow> list_all p xs \<Longrightarrow> runs p xs = [xs]"
proof (cases xs)
  case (Cons a list)
  then show "list_all p xs \<Longrightarrow> ?thesis"
    by (auto simp: list_all_iff takeWhile_eq_all_conv [THEN iffD2] dropWhile_eq_Nil_conv [THEN iffD2])
qed simp

lemma runs_append_sep:
  assumes "xs \<noteq> []" "list_all p xs" "\<not> p c" shows "runs p (xs @ c # ys) = xs # runs p ys"
proof (cases xs)
  case (Cons a list)
  have "takeWhile p (list @ c # ys) = list" "dropWhile p (list @ c # ys) = c # ys"
    using assms Cons by (simp_all add: list_all_iff takeWhile_tail dropWhile_append2)
  then show ?thesis using Cons assms by simp
qed (use assms in simp)

text \<open>Joining words with spaces and splitting again gives the words back.\<close>

lemma words_join:
  "(\<And>w. w \<in> set ws \<Longrightarrow> w \<noteq> [] \<and> list_all (\<lambda>c. \<not> is_space c) w) \<Longrightarrow> words (join [32] ws) = ws"
proof (induction ws)
  case (Cons w ws)
  have sp: "is_space 32" by (simp add: is_space_def)
  show ?case
  proof (cases "ws = []")
    case True
    then show ?thesis using Cons.prems by (simp add: words_def runs_all)
  next
    case False
    then have "join [32] (w # ws) = w @ 32 # join [32] ws" by (simp add: join_Cons)
    then show ?thesis using Cons sp by (simp add: words_def runs_append_sep)
  qed
qed (simp add: words_def)

lemma windows_nonempty: "xs \<noteq> [] \<Longrightarrow> 0 < width \<Longrightarrow>
    windows width step xs = take width xs # (if width \<ge> length xs then [] else windows width step (drop (max 1 step) xs))"
  by (subst windows.simps) simp

lemma windows_Nil [simp]: "windows width step [] = []"
  by (simp add: windows.simps)

text \<open>
  The windows in order: none is empty or too wide, the steps put the list together again, and
  two neighbours share exactly the overlap.
\<close>

definition covers :: "nat \<Rightarrow> nat \<Rightarrow> 'a list list \<Rightarrow> 'a list \<Rightarrow> bool" where
  "covers width overlap cs xs \<longleftrightarrow>
     (\<forall>c\<in>set cs. c \<noteq> [] \<and> length c \<le> width)
     \<and> concat (map (take (width - overlap)) (butlast cs)) @ (if cs = [] then [] else last cs) = xs
     \<and> (\<forall>i. Suc i < length cs \<longrightarrow> drop (width - overlap) (cs ! i) = take overlap (cs ! Suc i)
          \<and> length (take overlap (cs ! Suc i)) = overlap)"

lemma covers_single: "xs \<noteq> [] \<Longrightarrow> length xs \<le> width \<Longrightarrow> covers width overlap [xs] xs"
  by (simp add: covers_def)

lemma windows_covers:
  assumes "overlap < width" shows "covers width overlap (windows width (width - overlap) xs) xs"
proof (induction xs rule: length_induct)
  case (1 xs)
  let ?step = "width - overlap" and ?w = "windows width (width - overlap)"
  have step: "0 < ?step" "max 1 ?step = ?step" "?step \<le> width" using assms by auto
  show ?case
  proof (cases "xs = [] \<or> length xs \<le> width")
    case True
    then show ?thesis using assms covers_single [of xs width overlap]
      by (cases "xs = []") (simp_all add: windows_nonempty, simp add: covers_def)
  next
    case False
    let ?r = "drop ?step xs"
    have ne: "?r \<noteq> []" "length ?r < length xs" using False step by auto
    then have IH: "covers width overlap (?w ?r) ?r" using 1 by blast
    have eq: "?w xs = take width xs # ?w ?r" using False assms step by (simp add: windows_nonempty)
    obtain cs where cs: "?w ?r = take width ?r # cs" using ne assms by (simp add: windows_nonempty)
    have tk: "take ?step (take width xs) = take ?step xs" using step by (simp add: min_def)
    have ov: "drop ?step (take width xs) = take overlap (take width ?r)"
      "length (take overlap (take width ?r)) = overlap"
      using assms False by (auto simp: drop_take min_def)
    have "concat (map (take ?step) (butlast (?w xs))) @ last (?w xs) = xs"
      using IH by (simp add: eq cs covers_def tk)
    moreover have "drop ?step (?w xs ! i) = take overlap (?w xs ! Suc i) \<and> length (take overlap (?w xs ! Suc i)) = overlap"
      if "Suc i < length (?w xs)" for i
    proof (cases i)
      case 0 then show ?thesis using ov by (simp add: eq cs)
    next
      case (Suc j)
      then show ?thesis using IH that by (simp add: eq covers_def)
    qed
    moreover have "\<forall>c\<in>set (?w xs). c \<noteq> [] \<and> length c \<le> width" using IH False assms by (auto simp: eq covers_def)
    ultimately show ?thesis by (simp add: covers_def eq)
  qed
qed

lemma windows_parts: "c \<in> set (windows width step xs) \<Longrightarrow> set c \<subseteq> set xs"
proof (induction width step xs rule: windows.induct)
  case (1 width step xs)
  then show ?case
    by (subst (asm) (2) windows.simps) (auto split: if_splits dest: in_set_takeD in_set_dropD)
qed

text \<open>
  The chunks of a text cover it. For an overlap below the chunk size, splitting the chunks into words
  again gives windows of at most the chunk size, none empty, none when the text has no words, whose steps
  put the words of the text together in order, and every two neighbours share exactly the overlap.
\<close>

theorem chunk_text_covers:
  assumes "overlap < width"
  shows "covers width overlap (map words (chunk_text width overlap body)) (words body)"
proof -
  have word: "w \<noteq> [] \<and> list_all (\<lambda>c. \<not> is_space c) w" if "w \<in> set (words body)" for w
    using that runs_in [of w "\<lambda>c. \<not> is_space c" body] by (simp add: words_def)
  let ?ws = "windows width (width - overlap) (words body)"
  have "words (join [32] w) = w" if "w \<in> set ?ws" for w
  proof (rule words_join)
    fix x assume "x \<in> set w"
    with windows_parts [OF that] have "x \<in> set (words body)" by blast
    then show "x \<noteq> [] \<and> list_all (\<lambda>c. \<not> is_space c) x" by (rule word)
  qed
  then have split: "map (\<lambda>x. words (join [32] x)) ?ws = ?ws" by (rule map_idI)
  show ?thesis
  proof (cases "words body = []")
    case True then show ?thesis by (simp add: chunk_text_def covers_def)
  next
    case False
    show ?thesis
    proof (cases "length (words body) \<le> width")
      case True
      have "map words (chunk_text width overlap body) = [words body]"
        using False True words_join [of "words body", OF word] by (simp add: chunk_text_def)
      then show ?thesis using covers_single [OF False True] by simp
    next
      case long: False
      have "map words (chunk_text width overlap body) = ?ws"
        using False long by (simp add: chunk_text_def comp_def split)
      then show ?thesis using windows_covers [OF assms] by simp
    qed
  qed
qed

theorem chunk_text_covers_witness:
  "covers 3 1 [[lit ''a'', lit ''b'', lit ''c''], [lit ''c'', lit ''d'', lit ''e''], [lit ''e'', lit ''f'']]
     [lit ''a'', lit ''b'', lit ''c'', lit ''d'', lit ''e'', lit ''f'']"
proof -
  have "map words (chunk_text 3 1 (lit ''a b  c d e f '')) =
      [[lit ''a'', lit ''b'', lit ''c''], [lit ''c'', lit ''d'', lit ''e''], [lit ''e'', lit ''f'']]"
    "words (lit ''a b  c d e f '') = [lit ''a'', lit ''b'', lit ''c'', lit ''d'', lit ''e'', lit ''f'']" by code_simp+
  then show ?thesis using chunk_text_covers [of 1 3 "lit ''a b  c d e f ''"] by simp
qed

section \<open>Diversification\<close>

definition uses :: "('i \<Rightarrow> 'p) \<Rightarrow> 'p \<Rightarrow> ('i \<times> 's) list \<Rightarrow> nat" where
  "uses page p items = count_where (\<lambda>(i, _). page i = p) items"

lemma uses_simps [simp]:
  "uses page p [] = 0"
  "uses page p ((i, s) # items) = (if page i = p then 1 else 0) + uses page p items"
  "uses page p (items @ items') = uses page p items + uses page p items'"
  by (simp_all add: uses_def)

lemma uses_take_le: "uses page p (take n items) \<le> uses page p items"
  by (metis append_take_drop_id le_add1 uses_simps(3))

lemma uses_pos: "0 < uses page p items \<Longrightarrow> \<exists>(i, s)\<in>set items. page i = p"
  by (induction items) (auto split: if_splits)

lemma fill_deferred_take:
  "length selected < wanted \<Longrightarrow> fill_deferred wanted selected items = selected @ take (wanted - length selected) items"
proof (induction wanted selected items rule: fill_deferred.induct)
  case (2 wanted selected item items)
  then have "wanted - length selected = Suc (wanted - Suc (length selected))" by simp
  with 2 show ?case by (auto simp: take_Cons')
qed simp

text \<open>What the loop has established: nothing selected is over its quota, what is deferred would be.\<close>

definition diversifying :: "('i \<Rightarrow> 'p) \<Rightarrow> nat \<Rightarrow> nat \<Rightarrow> ('i \<times> 's) list \<Rightarrow> ('i \<times> 's) list \<Rightarrow> bool" where
  "diversifying page m wanted selected deferred \<longleftrightarrow> length selected < wanted
     \<and> (\<forall>p. uses page p selected \<le> m) \<and> (\<forall>(i, s)\<in>set deferred. m \<le> uses page (page i) selected)"

definition within_quota :: "('i \<Rightarrow> 'p) \<Rightarrow> nat \<Rightarrow> ('i \<times> 's) list \<Rightarrow> ('i \<times> 's) list \<Rightarrow> bool" where
  "within_quota page m chosen ranked \<longleftrightarrow>
     ((\<exists>p. m < uses page p chosen) \<longrightarrow> (\<forall>q. min m (uses page q ranked) \<le> uses page q chosen))"

lemma within_quotaI: "(\<And>p. uses page p chosen \<le> m) \<Longrightarrow> within_quota page m chosen ranked"
  by (auto simp: within_quota_def not_less [symmetric])

lemma fill_within_quota:
  assumes "diversifying page m wanted selected deferred" "mset ranked = mset selected + mset deferred"
  shows "within_quota page m (selected @ take n deferred) ranked"
proof -
  have "uses page q ranked = uses page q selected + uses page q deferred" for q
  proof -
    have "uses page q xs = size (filter_mset (\<lambda>(i, _). page i = q) (mset xs))" for xs :: "('a \<times> 'c) list"
      by (simp add: uses_def count_where_def flip: mset_filter)
    then show ?thesis using assms(2) by simp
  qed
  moreover have "m \<le> uses page q selected" if "0 < uses page q deferred" for q
    using uses_pos [OF that] assms(1) by (auto simp: diversifying_def)
  ultimately have "min m (uses page q ranked) \<le> uses page q selected" for q
    by (cases "uses page q deferred = 0") (auto intro: min.coboundedI1)
  then show ?thesis by (simp add: within_quota_def trans_le_add1)
qed

lemma diversify_spec:
  assumes "diversifying page m wanted selected deferred" "\<And>p. per p = uses page p selected"
    and "mset ranked = mset selected + mset deferred + mset rest"
  shows "mset (diversify page m wanted per selected deferred rest) \<subseteq># mset ranked
    \<and> length (diversify page m wanted per selected deferred rest) = min wanted (length ranked)
    \<and> within_quota page m (diversify page m wanted per selected deferred rest) ranked"
  using assms
proof (induction page m wanted per selected deferred rest rule: diversify.induct)
  case (1 page m wanted per selected deferred)
  have less: "length selected < wanted" using 1(1) by (simp add: diversifying_def)
  have size: "length ranked = length selected + length deferred" using 1(3) by (metis add.right_neutral mset.simps(1) size_mset size_union)
  have "mset (selected @ take n deferred) \<subseteq># mset ranked" for n
    using 1(3) by (simp add: mset_subset_eq_exists_conv) (metis append_take_drop_id mset_append)
  then show ?case
    using fill_within_quota [OF 1(1), of ranked] 1(3) less size by (simp add: fill_deferred_take)
next
  case (2 page m wanted per selected deferred i score ranked')
  let ?sel = "selected @ [(i, score)]"
  have size: "length ranked = length selected + length deferred + Suc (length ranked')"
    using arg_cong [OF 2(5), of size] by simp
  have less: "length selected < wanted" using 2(3) by (simp add: diversifying_def)
  show ?case
  proof (cases "per (page i) < m")
    case True
    then have room: "uses page p ?sel \<le> m" for p
      using 2(3,4) by (cases "page i = p") (auto simp: diversifying_def Suc_le_eq)
    show ?thesis
    proof (cases "wanted \<le> length ?sel")
      case full: True
      have "mset ?sel \<subseteq># mset ranked" using 2(5) by (simp add: mset_subset_eq_exists_conv) 
      then show ?thesis using True full size less within_quotaI [OF room] by simp
    next
      case False
      have "diversifying page m wanted ?sel deferred"
        using 2(3) False room by (auto simp: diversifying_def trans_le_add1)
      moreover have "(per(page i := per (page i) + 1)) p = uses page p ?sel" for p by (simp add: 2(4))
      moreover have "mset ranked = mset ?sel + mset deferred + mset ranked'" by (simp add: 2(5))
      moreover have "diversify page m wanted per selected deferred ((i, score) # ranked')
          = diversify page m wanted (per(page i := per (page i) + 1)) ?sel deferred ranked'"
        using True False by simp
      ultimately show ?thesis using 2(1) [OF True False] by presburger
    qed
  next
    case False
    have "diversifying page m wanted selected (deferred @ [(i, score)])"
      using 2(3,4) False by (auto simp: diversifying_def)
    moreover have "mset ranked = mset selected + mset (deferred @ [(i, score)]) + mset ranked'" by (simp add: 2(5))
    moreover have "diversify page m wanted per selected deferred ((i, score) # ranked')
        = diversify page m wanted per selected (deferred @ [(i, score)]) ranked'" using False less by simp
    moreover have "\<not> wanted \<le> length selected" using less by simp
    ultimately show ?thesis using 2(2) [OF False _ _ 2(4)] by presburger
  qed
qed

text \<open>
  Diversification keeps to the page quota while it can. For a positive number of places the result
  is taken from the ranked chunks, each at most as often as it was ranked, fills every place or uses up
  the ranking, and gives a page more than its quota only when no page is left below its own.
\<close>

theorem diversify_by_page_quota:
  assumes "0 < wanted"
  shows "mset (diversify_by_page page m wanted ranked) \<subseteq># mset ranked
    \<and> length (diversify_by_page page m wanted ranked) = min wanted (length ranked)
    \<and> ((\<exists>p. m < uses page p (diversify_by_page page m wanted ranked)) \<longrightarrow>
        (\<forall>q. min m (uses page q ranked) \<le> uses page q (diversify_by_page page m wanted ranked)))"
  using diversify_spec [of page m wanted "[]" "[]" "\<lambda>_. 0" ranked ranked] assms
  by (simp add: diversify_by_page_def diversifying_def within_quota_def)

theorem diversify_by_page_quota_witness:
  "length (diversify_by_page (\<lambda>i. i div 10) 2 3 [(11, 9), (12, 8), (13, 7), (21 :: nat, 6 :: nat)]) = 3"
  using diversify_by_page_quota [of 3 "\<lambda>i. i div 10" 2 "[(11, 9), (12, 8), (13, 7), (21 :: nat, 6 :: nat)]"] by simp

section \<open>Planner terms\<close>

definition adds_words :: "str list \<Rightarrow> str list \<Rightarrow> bool" where
  "adds_words known ts \<longleftrightarrow> (\<forall>i < length ts. \<exists>w\<in>set (meaningful_search_tokens (ts ! i)).
     w \<notin> set known \<and> (\<forall>j < i. w \<notin> set (meaningful_search_tokens (ts ! j))))"

lemma adds_words_Cons:
  assumes "w \<in> set (meaningful_search_tokens t)" "w \<notin> set known"
    and "adds_words (meaningful_search_tokens t @ known) ts"
  shows "adds_words known (t # ts)"
proof -
  have "\<exists>w\<in>set (meaningful_search_tokens ((t # ts) ! i)).
      w \<notin> set known \<and> (\<forall>j < i. w \<notin> set (meaningful_search_tokens ((t # ts) ! j)))" if "i < length (t # ts)" for i
  proof (cases i)
    case 0
    then show ?thesis using assms(1,2) by auto
  next
    case (Suc k)
    then have "k < length ts" using that by simp
    from assms(3) [unfolded adds_words_def, rule_format, OF this]
    obtain w' where "w' \<in> set (meaningful_search_tokens (ts ! k))" "w' \<notin> set (meaningful_search_tokens t @ known)"
      "\<forall>j < k. w' \<notin> set (meaningful_search_tokens (ts ! j))"
      by auto
    then show ?thesis using Suc by (auto simp: nth_Cons split: nat.splits intro!: bexI [of _ w'])
  qed
  then show ?thesis by (simp add: adds_words_def)
qed

lemma adds_words_cong: "set known = set known' \<Longrightarrow> adds_words known ts = adds_words known' ts"
  by (simp add: adds_words_def)

lemma sanitize_terms_spec:
  fixes raws :: "str list"
  assumes "ts = sanitize_terms fold_text tokens keys limit n seen contributed raws"
  shows "length ts \<le> max 1 (limit - n) \<and> set ts \<subseteq> py_strip ` set raws \<and> [] \<notin> set ts
    \<and> adds_words (tokens @ contributed) ts"
  using assms
proof (induction fold_text tokens keys limit n seen contributed raws arbitrary: ts rule: sanitize_terms.induct)
  case (1 fold_text tokens keys limit n seen contributed)
  then show ?case by (simp add: adds_words_def)
next
  case (2 fold_text tokens keys limit n seen contributed raw raws)
  define t where "t = py_strip raw"
  define key where "key = planner_term_key fold_text t"
  define novel where "novel = filter (\<lambda>w. w \<notin> set tokens) (meaningful_search_tokens t)"
  let ?skip = "t = [] \<or> key = [] \<or> key \<in> set keys \<or> key \<in> set seen \<or> set novel \<subseteq> set contributed"
  define rest where "rest = (if limit \<le> Suc n then []
    else sanitize_terms fold_text tokens keys limit (Suc n) (key # seen) (novel @ contributed) raws)"
  have step: "ts = (if ?skip then sanitize_terms fold_text tokens keys limit n seen contributed raws else t # rest)"
    unfolding 2(3) by (simp only: sanitize_terms.simps Let_def t_def key_def novel_def rest_def)
  show ?case
  proof (cases ?skip)
    case True
    have "ts = sanitize_terms fold_text tokens keys limit n seen contributed raws"
      using step True by (simp only: if_True)
    from 2(1) [OF t_def key_def novel_def True this] show ?thesis by auto
  next
    case False
    have ts: "ts = t # rest" using step False by (simp only: if_False)
    from False obtain w where w: "w \<in> set (meaningful_search_tokens t)" "w \<notin> set (tokens @ contributed)"
      by (auto simp: novel_def)
    have known: "set (tokens @ novel @ contributed) = set (meaningful_search_tokens t @ tokens @ contributed)"
      by (auto simp: novel_def)
    show ?thesis
    proof (cases "limit \<le> Suc n")
      case True
      then have "rest = []" by (simp add: rest_def)
      then show ?thesis using False adds_words_Cons [OF w, of "[]"]
        by (auto simp: ts t_def adds_words_def [of _ "[]"])
    next
      case more: False
      then have "rest = sanitize_terms fold_text tokens keys limit (Suc n) (key # seen) (novel @ contributed) raws"
        by (simp add: rest_def)
      from 2(2) [OF t_def key_def novel_def False more this] more
      have "length rest \<le> limit - Suc n" "set rest \<subseteq> py_strip ` set raws" "[] \<notin> set rest"
        "adds_words (meaningful_search_tokens t @ tokens @ contributed) rest"
        using adds_words_cong [OF known, of rest] by auto
      then show ?thesis using False adds_words_Cons [OF w] by (auto simp: ts t_def)
    qed
  qed
qed

text \<open>
  Expansion terms only ever add. Of the terms a planner proposes at most \<open>limit\<close> are kept (one for a
  limit of zero), each a stripped, nonempty proposal, and each brings a word that is no question
  scaffolding, does not occur in the question and in no term kept before it.
\<close>

theorem sanitized_terms_add_words:
  assumes "ts = sanitize_bm25_expansion_terms fold_text asked terms limit"
  shows "length ts \<le> max 1 limit \<and> set ts \<subseteq> py_strip ` set terms \<and> [] \<notin> set ts
    \<and> (\<forall>i < length ts. \<exists>w\<in>set (meaningful_search_tokens (ts ! i)).
        w \<notin> set (tokenize asked) \<and> w \<notin> set scaffold_tokens \<and> (\<forall>j < i. w \<notin> set (meaningful_search_tokens (ts ! j))))"
proof -
  have "length ts \<le> max 1 limit \<and> set ts \<subseteq> py_strip ` set terms \<and> [] \<notin> set ts \<and> adds_words (tokenize asked) ts"
    using sanitize_terms_spec [of ts fold_text "tokenize asked" "question_keys fold_text asked" limit 0 "[]" "[]" terms]
    by (simp add: assms sanitize_bm25_expansion_terms_def)
  moreover have "w \<notin> set scaffold_tokens" if "w \<in> set (meaningful_search_tokens t)" for w t
    using that by (simp add: meaningful_search_tokens_def)
  ultimately show ?thesis unfolding adds_words_def by blast
qed

theorem sanitized_terms_add_words_witness:
  "[] \<notin> set [lit ''cell assay'', lit ''gel'']"
proof -
  have "[lit ''cell assay'', lit ''gel''] = sanitize_bm25_expansion_terms (\<lambda>s. s) (lit ''the cell'')
      [lit '' cell assay'', lit ''cell'', lit ''assay cell'', lit ''gel'', lit ''blot''] 2" by code_simp
  from sanitized_terms_add_words [OF this] show ?thesis by blast
qed

section \<open>The fallback plan\<close>

lemma first_distinct_spec:
  "distinct (first_distinct n seen xs) \<and> set (first_distinct n seen xs) \<subseteq> set xs - set seen
     \<and> length (first_distinct n seen xs) \<le> n"
  by (induction n seen xs rule: first_distinct.induct) auto

lemma tokenize_words: "t \<in> set (tokenize s) \<Longrightarrow> t \<noteq> [] \<and> list_all word_char t"
  by (simp add: tokenize_def runs_in)

lemma word_char_plain: "word_char c \<Longrightarrow> \<not> is_space c \<and> 32 \<le> c \<and> c \<noteq> 127"
  by (auto simp: word_char_def char_class_defs is_space_def)

lemma strip_word: "list_all word_char t \<Longrightarrow> py_strip t = t"
  unfolding py_strip_def by (rule strip_by_idle) (auto simp: list_all_iff dest: word_char_plain)

lemma bm25_term_ok_word: "t \<noteq> [] \<Longrightarrow> list_all word_char t \<Longrightarrow> bm25_term_ok t \<longleftrightarrow> length t \<le> 128"
  using word_char_plain by (fastforce simp: bm25_term_ok_def list_all_iff)

lemma validate_query_text_subset: "validate_query_text s \<Longrightarrow> set t \<subseteq> set s \<Longrightarrow> validate_query_text t"
  by (auto simp: validate_query_text_def)

lemma set_py_strip: "set (py_strip s) \<subseteq> set s"
  by (simp add: py_strip_def set_strip_by)

lemma fallback_semantic_query_ok:
  assumes "py_strip asked \<noteq> []" "validate_query_text asked"
    and "\<forall>q. contextual = Some q \<longrightarrow> validate_query_text q"
  shows "1 \<le> length (fallback_semantic_query asked contextual) \<and> length (fallback_semantic_query asked contextual) \<le> 4000
    \<and> validate_query_text (fallback_semantic_query asked contextual)"
proof -
  define given where "given = py_strip (case contextual of None \<Rightarrow> [] | Some q \<Rightarrow> q)"
  define base where "base = (if given = [] then py_strip asked else given)"
  define semantic where "semantic = (if 4000 < length base then lstrip_by is_space (drop (length base - 4000) base) else base)"
  obtain s where s: "base = strip_by is_space s" unfolding base_def given_def py_strip_def by metis
  have ne: "base \<noteq> []" using assms(1) by (simp add: base_def)
  have valid: "validate_query_text base"
  proof (cases "given = []")
    case True
    then show ?thesis using validate_query_text_subset [OF assms(2) set_py_strip] by (simp add: base_def)
  next
    case False
    then obtain q where "contextual = Some q" "given = py_strip q"
      by (cases contextual) (simp_all add: given_def py_strip_def strip_by_def lstrip_by_def rstrip_by_def)
    then show ?thesis using validate_query_text_subset [OF _ set_py_strip] assms(3) False by (simp add: base_def)
  qed
  have "semantic \<noteq> [] \<and> length semantic \<le> 4000 \<and> set semantic \<subseteq> set base"
  proof (cases "4000 < length base")
    case True
    let ?d = "drop (length base - 4000) base"
    have d: "?d \<noteq> []" "length ?d = 4000" using True by auto
    have "\<not> is_space (last ?d)" using strip_by_ends(2) [of is_space s] ne d True by (simp add: s [symmetric])
    then have "dropWhile is_space ?d \<noteq> []" using dropWhile_last [OF d(1)] by blast
    moreover have "length (dropWhile is_space ?d) \<le> 4000" using length_dropWhile_le [of is_space ?d] d by linarith
    moreover have "set (dropWhile is_space ?d) \<subseteq> set base" by (meson in_set_dropD set_dropWhileD subsetI)
    ultimately show ?thesis using True by (simp add: semantic_def lstrip_by_def)
  next
    case False
    then show ?thesis using ne by (simp add: semantic_def)
  qed
  moreover have "fallback_semantic_query asked contextual = (if semantic \<noteq> [] then semantic
      else if take 4000 asked \<noteq> [] then take 4000 asked else lit ''Search Novo notes'')"
    by (simp only: fallback_semantic_query_def Let_def given_def base_def semantic_def)
  ultimately show ?thesis using validate_query_text_subset [OF valid] by (simp add: Suc_le_eq)
qed



section \<open>Citations\<close>

lemma digit_decimal: "digit c \<Longrightarrow> decimal_value c = Some (c - 48)"
  by (simp add: decimal_value_def digit_zeros_def digit_def)

lemma bracket_not_decimal: "\<not> is_decimal 93" "\<not> is_space 93"
  by (code_simp, simp add: is_space_def)

lemma render_nat_decimal: "list_all is_decimal (render_nat n)"
  using render_nat_digits by (auto simp: list_all_iff is_decimal_def digit_decimal)

lemma render_nat_other: "\<not> digit c \<Longrightarrow> c \<notin> set (render_nat n)"
  using render_nat_digits by blast

lemma citation_group_number: "citation_group (render_nat n @ 93 # rest) = Some (render_nat n, 93 # rest)"
proof -
  have all: "\<And>c. c \<in> set (render_nat n) \<Longrightarrow> is_decimal c" using render_nat_decimal by (simp add: list_all_iff)
  then have "takeWhile is_decimal (render_nat n @ 93 # rest) = render_nat n"
    "dropWhile is_decimal (render_nat n @ 93 # rest) = 93 # rest"
    by (simp_all add: takeWhile_append2 dropWhile_append2 bracket_not_decimal)
  then show ?thesis
    by (subst citation_group.simps) (simp add: Let_def render_nat_nonempty bracket_not_decimal)
qed

lemma citation_at_number: "citation_at (91 # render_nat n @ 93 # rest) = Some (render_nat n, rest)"
  by (simp add: citation_at_def citation_group_number)

lemma find_groups_none:
  "(\<And>c cs. c \<in> set s \<Longrightarrow> match (c # cs) = None) \<Longrightarrow> find_groups match n s = []"
proof (induction n arbitrary: s)
  case (Suc n)
  then show ?case by (cases s) auto
qed simp

lemma find_groups_skip:
  "(\<And>c cs. c \<in> set t \<Longrightarrow> match (c # cs) = None) \<Longrightarrow> find_groups match (length t + n) (t @ s) = find_groups match n s"
  by (induction t) auto

lemma citation_at_other: "c \<noteq> 91 \<Longrightarrow> citation_at (c # cs) = None"
  and nonstandard_at_other: "c \<noteq> 12304 \<Longrightarrow> nonstandard_at (c # cs) = None"
  by (simp_all add: citation_at_def nonstandard_at_def)

text \<open>A text with citations in the required form: pieces of plain text, each followed by a number.\<close>

definition plain_text :: "str \<Rightarrow> bool" where
  "plain_text t \<longleftrightarrow> 91 \<notin> set t \<and> 12304 \<notin> set t"

definition cited_text :: "(str \<times> nat) list \<Rightarrow> str \<Rightarrow> str" where
  "cited_text ps tail = concat (map (\<lambda>(t, n). t @ 91 # render_nat n @ [93]) ps) @ tail"

lemma cited_text_Cons: "cited_text ((t, n) # ps) tail = t @ 91 # render_nat n @ 93 # cited_text ps tail"
  by (simp add: cited_text_def)

lemma find_citations:
  assumes "\<forall>(t, n)\<in>set ps. plain_text t" "plain_text tail" "length (cited_text ps tail) \<le> k"
  shows "find_groups citation_at k (cited_text ps tail) = map (render_nat \<circ> snd) ps"
  using assms
proof (induction ps arbitrary: k)
  case Nil
  have "find_groups citation_at k tail = []"
    by (rule find_groups_none, rule citation_at_other) (use Nil in \<open>auto simp: plain_text_def\<close>)
  then show ?case by (simp add: cited_text_def)
next
  case (Cons p ps)
  obtain t n where p: "p = (t, n)" by (cases p)
  have plain: "\<And>c cs. c \<in> set t \<Longrightarrow> citation_at (c # cs) = None"
    using Cons.prems(1) by (auto simp: p plain_text_def intro!: citation_at_other)
  define j where "j = k - Suc (length t)"
  have k: "k = length t + Suc j" "length (cited_text ps tail) \<le> j"
    using Cons.prems(3) by (auto simp: p cited_text_Cons j_def)
  have "find_groups citation_at j (cited_text ps tail) = map (render_nat \<circ> snd) ps"
    using Cons.IH [OF _ Cons.prems(2) k(2)] Cons.prems(1) by simp
  then show ?case
    unfolding p cited_text_Cons k(1)
    by (simp only: find_groups_skip [where match = citation_at and t = t, OF plain]) (simp add: citation_at_number)
qed

lemma decimal_int_render_nat:
  assumes "length (render_nat n) \<le> 4300" shows "decimal_int (render_nat n) = Some n"
proof -
  have dig: "\<And>c. c \<in> set (render_nat n) \<Longrightarrow> digit c" using render_nat_digits by blast
  have strip: "py_strip (render_nat n) = render_nat n"
    unfolding py_strip_def
    by (rule strip_by_idle, drule dig) (simp add: is_space_def digit_def)
  have "foldl (\<lambda>n c. 10 * n + the (decimal_value c)) a xs = foldl (\<lambda>n d. 10 * n + (d - 48)) a xs"
    if "\<And>c. c \<in> set xs \<Longrightarrow> digit c" for a xs
    using that by (induction xs arbitrary: a) (simp_all add: digit_decimal)
  then have "foldl (\<lambda>n c. 10 * n + the (decimal_value c)) 0 (render_nat n) = nat_of_digits (render_nat n)"
    using dig by (simp add: nat_of_digits_def)
  then show ?thesis using assms
    by (simp add: decimal_int_def strip render_nat_nonempty render_nat_decimal)
qed

lemma split_on_single: "c \<notin> set s \<Longrightarrow> split_on c s = [s]"
  by (induction s) auto

lemma citation_numbers_render:
  assumes "\<forall>n\<in>set ns. length (render_nat n) \<le> 4300"
  shows "citation_numbers (map render_nat ns) = first_distinct (length ns) [] ns"
proof -
  have "split_on 44 (render_nat n) = [render_nat n]" for n
    by (rule split_on_single, rule render_nat_other) (simp add: digit_def)
  then have "List.map_filter decimal_int (concat (map (split_on 44) (map render_nat ns))) = ns"
    using assms by (induction ns) (simp_all add: decimal_int_render_nat List.map_filter_simps)
  then show ?thesis by (simp add: citation_numbers_def)
qed

lemma set_first_distinct: "length xs \<le> n \<Longrightarrow> set (first_distinct n seen xs) = set xs - set seen"
proof (induction n seen xs rule: first_distinct.induct)
  case (3 n seen x xs)
  then show ?case by (cases "x \<in> set seen") auto
qed auto

lemma nonstandard_free:
  assumes "\<forall>(t, n)\<in>set ps. plain_text t" "plain_text tail" shows "find_all nonstandard_at (cited_text ps tail) = []"
proof -
  have "12304 \<notin> set (render_nat n)" for n by (rule render_nat_other) (simp add: digit_def)
  then have "12304 \<notin> set (cited_text ps tail)"
    using assms by (auto simp: cited_text_def plain_text_def)
  then show ?thesis unfolding find_all_def
    by (intro find_groups_none) (metis nonstandard_at_other)
qed

text \<open>
  Citations in the required form are read back. An answer of plain pieces of text, each followed by a
  number in square brackets, cites exactly these numbers, in the order of their first use; it is
  accepted exactly when each of them is the number of a retrieved source.
\<close>

theorem citations_read_back:
  assumes "ps \<noteq> []" "\<forall>(t, n)\<in>set ps. plain_text t \<and> length (render_nat n) \<le> 4300" "plain_text tail"
  shows "cited_sources (check_citations (cited_text ps tail) valid) = first_distinct (length ps) [] (map snd ps)
    \<and> (check_ok (check_citations (cited_text ps tail) valid) \<longleftrightarrow> snd ` set ps \<subseteq> set valid)"
proof -
  have plain: "\<forall>(t, n)\<in>set ps. plain_text t" and short: "\<forall>n\<in>set (map snd ps). length (render_nat n) \<le> 4300"
    using assms(2) by auto
  let ?cited = "first_distinct (length ps) [] (map snd ps)"
  have cited: "citation_numbers (find_all citation_at (cited_text ps tail)) = ?cited"
    using citation_numbers_render [OF short]
    by (simp add: find_all_def find_citations [OF plain assms(3)] map_map [symmetric] del: map_map)
  have "set ?cited = snd ` set ps" by (simp add: set_first_distinct)
  moreover have "citation_numbers [] = []" by (simp add: citation_numbers_def List.map_filter_simps)
  moreover have "?cited \<noteq> []" using calculation(1) assms(1) by (metis image_is_empty set_empty)
  ultimately show ?thesis
    by (auto simp: check_citations_def Let_def cited nonstandard_free [OF plain assms(3)] filter_empty_conv)
qed

theorem citations_read_back_witness:
  "check_ok (check_citations (cited_text [(lit ''Seen '', 2), (lit '' and '', 1)] (lit ''.'')) [1, 2])
   \<and> \<not> check_ok (check_citations (cited_text [(lit ''Seen '', 3)] (lit ''.'')) [1, 2])"
proof -
  have plain: "plain_text (lit ''Seen '')" "plain_text (lit '' and '')" "plain_text (lit ''.'')"
    "length (render_nat 1) \<le> 4300" "length (render_nat 2) \<le> 4300" "length (render_nat 3) \<le> 4300" by code_simp+
  show ?thesis
    using citations_read_back [of "[(lit ''Seen '', 2), (lit '' and '', 1)]" "lit ''.''" "[1, 2]"]
      citations_read_back [of "[(lit ''Seen '', 3)]" "lit ''.''" "[1, 2]"] plain by simp
qed

end
