(* ===== verification/Model_Backend_Props.thy ===== *)
theory Model_Backend_Props
  imports Model_Backend Rag_Core_Props
begin

text \<open>
  What the client of the model services promises: bounded generation requests with falling budgets and a
  closed set of outcomes, planning that ends in a useful plan or the fallback, and a wait for readiness
  that returns.
\<close>

section \<open>Generation\<close>

text \<open>The same session with a log of what is posted.\<close>

definition logged :: "'h http \<Rightarrow> (pyjson list \<times> 'h) http" where
  "logged ht = \<lparr>ht_post = (\<lambda>url payload t (posted, h). let (r, h') = ht_post ht url payload t h in (r, (posted @ [payload], h'))),
     ht_get = (\<lambda>url t (posted, h). let (r, h') = ht_get ht url t h in (r, (posted, h'))),
     ht_sleep = (\<lambda>d (posted, h). (posted, ht_sleep ht d h)),
     ht_clock = (\<lambda>(posted, h). let (t, h') = ht_clock ht h in (t, (posted, h')))\<rparr>"

lemma logged_post: "ht_post (logged ht) url payload t (posted, h) = (fst (ht_post ht url payload t h), (posted @ [payload], snd (ht_post ht url payload t h)))"
  by (simp add: logged_def split: prod.split)

text \<open>A response the service can give, and one whose choices are a JSON object.\<close>

definition can_answer :: "'h http \<Rightarrow> service_response \<Rightarrow> bool" where
  "can_answer ht response \<longleftrightarrow> (\<exists>url payload t h h'. ht_post ht url payload t h = (Some response, h'))"

definition keyed_choices :: "service_response \<Rightarrow> bool" where
  "keyed_choices response \<longleftrightarrow> (\<exists>doc fs. hp_json response = Some (PObj doc) \<and> field_of doc ''choices'' = PObj fs)"

lemma posted_answer: "fst (ht_post ht url payload t h) = Some response \<Longrightarrow> can_answer ht response"
  unfolding can_answer_def by (metis prod.collapse)

definition budgets :: "int \<Rightarrow> nat \<Rightarrow> int list" where
  "budgets budget n = map (\<lambda>i. (reduced_budget ^^ i) budget) [0..<n]"

lemma budgets_Suc: "budgets budget (Suc n) = budget # budgets (reduced_budget budget) n"
  by (simp add: budgets_def upt_conv_Cons map_Suc_upt [symmetric] funpow_swap1 del: upt_Suc)

lemma attempts_logged:
  assumes "generation_attempts (logged ht) b messages left budget (posted, h) = (r, (posted', h'))"
  shows "\<exists>n. 1 \<le> n \<and> n \<le> Suc left \<and> posted' = posted @ map (generation_payload b messages) (budgets budget n)
    \<and> sorted_wrt (>) (budgets budget n) \<and> (\<forall>k\<in>set (tl (budgets budget n)). 64 \<le> k)
    \<and> (\<forall>e. r = Inl e \<longrightarrow> e = generation_unavailable \<or> e = context_length_exceeded)
    \<and> (\<forall>x. r = Inr x \<longrightarrow> can_answer ht x)"
  using assms
proof (induction left arbitrary: budget posted h)
  case 0
  have one: "budgets budget (Suc 0) = [budget]" by (simp add: budgets_def)
  show ?case
    using 0 by (intro exI [of _ "Suc 0"]) (auto simp: one generation_attempts.simps [where left = 0] logged_post intro: posted_answer split: option.splits if_splits prod.splits)
next
  case (Suc left)
  let ?answer = "ht_post ht (chat_url b) (generation_payload b messages budget) (gb_timeout b) h"
  have one: "budgets budget (Suc 0) = [budget]" by (simp add: budgets_def)
  show ?case
  proof (cases "\<exists>answer. fst ?answer = Some answer \<and> 400 \<le> hp_status answer \<and> reduced_budget budget < budget
      \<and> (is_valid_context_overflow answer budget (gb_max_model_len b) \<or> \<not> http_error_status (hp_status answer))")
    case True
    then have "generation_attempts (logged ht) b messages left (reduced_budget budget)
        (posted @ [generation_payload b messages budget], snd ?answer) = (r, (posted', h'))"
      using Suc.prems by (auto simp: generation_attempts.simps [where left = "Suc left"] logged_post)
    from Suc.IH [OF this] obtain n where n: "1 \<le> n" "n \<le> Suc left"
      "posted' = (posted @ [generation_payload b messages budget]) @ map (generation_payload b messages) (budgets (reduced_budget budget) n)"
      "sorted_wrt (>) (budgets (reduced_budget budget) n)" "\<forall>k\<in>set (tl (budgets (reduced_budget budget) n)). 64 \<le> k"
      and e: "\<forall>e. r = Inl e \<longrightarrow> e = generation_unavailable \<or> e = context_length_exceeded" "\<forall>x. r = Inr x \<longrightarrow> can_answer ht x" by blast
    from n(1) obtain m where m: "n = Suc m" by (cases n) auto
    have first: "budgets (reduced_budget budget) n = reduced_budget budget # budgets (reduced_budget (reduced_budget budget)) m"
      by (simp add: m budgets_Suc)
    have less: "reduced_budget budget < budget" "64 \<le> reduced_budget budget" using True by (auto simp: reduced_budget_def)
    have "sorted_wrt (>) (budgets budget (Suc n)) \<and> (\<forall>k\<in>set (tl (budgets budget (Suc n))). 64 \<le> k)"
      using n(4,5) less unfolding budgets_Suc first by fastforce
    then show ?thesis using n(2,3) e by (intro exI [of _ "Suc n"]) (simp add: budgets_Suc)
  next
    case False
    have "posted' = posted @ [generation_payload b messages budget]
        \<and> (\<forall>e. r = Inl e \<longrightarrow> e = generation_unavailable \<or> e = context_length_exceeded) \<and> (\<forall>x. r = Inr x \<longrightarrow> can_answer ht x)"
    proof (cases "fst ?answer")
      case None
      then show ?thesis using Suc.prems by (auto simp: generation_attempts.simps [where left = "Suc left"] logged_post)
    next
      case (Some answer)
      then show ?thesis using Suc.prems False
        by (auto simp: generation_attempts.simps [where left = "Suc left"] logged_post not_less intro: posted_answer split: if_splits)
    qed
    then show ?thesis by (intro exI [of _ "Suc 0"]) (simp add: one)
  qed
qed

lemma choice_content_stripped: "choice_content text_of doc = Inr body \<Longrightarrow> py_strip body = body"
  unfolding choice_content_def and_then_Inr by (auto simp: py_strip_def strip_by_idem)

lemma first_choice_unlisted: "first_choice doc = Inl Unlisted \<Longrightarrow> \<exists>fs. field_of doc ''choices'' = PObj fs"
  by (auto simp: first_choice_def Let_def split: if_splits pyjson.splits list.splits)

lemma choice_content_unlisted: "choice_content text_of doc = Inl Unlisted \<Longrightarrow> \<exists>fs. field_of doc ''choices'' = PObj fs"
  using first_choice_unlisted [of doc] unfolding choice_content_def and_then_Inl
  by (auto simp: Let_def split: if_splits pyjson.splits)

lemma read_generation_stripped: "read_generation text_of b x = Inr (body, timings) \<Longrightarrow> py_strip body = body"
  unfolding read_generation_def
  by (auto simp: and_then_Inr split: option.splits pyjson.splits dest: choice_content_stripped)

lemma read_generation_unlisted:
  "read_generation text_of b x = Inl Unlisted \<Longrightarrow> keyed_choices x"
  unfolding read_generation_def keyed_choices_def
  by (auto simp: and_then_Inl or_raise_Inl split: option.splits pyjson.splits dest!: choice_content_unlisted)

text \<open>
  C16: generation. Whatever the service answers, at most four requests are posted, equal but for their token
  budgets: first the configured one, then each the half of the one before but at least 64, strictly falling.
  The outcome is a stripped, nonempty answer or one of three errors of the backend; an error of another
  kind comes only of a response with a JSON object for its choices.
\<close>

theorem generation_budgets:
  assumes "generate (logged ht) chunk_text_of text_of doc asked hits model_id limit ([], h) = (r, (posted, h'))"
    and "map_of (bd_models doc) model_id = Some b" "hits \<noteq> []"
  shows "(\<exists>n. 1 \<le> n \<and> n \<le> 4 \<and> sorted_wrt (>) (budgets (gb_max_tokens b) n) \<and> (\<forall>k\<in>set (tl (budgets (gb_max_tokens b) n)). 64 \<le> k)
        \<and> posted = map (generation_payload b (generation_messages chunk_text_of asked hits limit)) (budgets (gb_max_tokens b) n))
    \<and> (case r of
        Inr g \<Rightarrow> \<exists>body timings. g = Typed body timings \<and> body \<noteq> [] \<and> py_strip body = body
      | Inl e \<Rightarrow> e \<in> {generation_unavailable, context_length_exceeded, generation_empty}
          \<or> e = Other_Error \<and> (\<exists>response. can_answer ht response \<and> keyed_choices response))"
proof -
  let ?messages = "generation_messages chunk_text_of asked hits limit"
  obtain answer st where run: "generation_attempts (logged ht) b ?messages 3 (gb_max_tokens b) ([], h) = (answer, st)"
    by (rule prod.exhaust)
  have st: "st = (posted, h')" and r: "r = and_then answer (\<lambda>r. case read_generation text_of b r of
        Inl Listed \<Rightarrow> Inl generation_unavailable | Inl Unlisted \<Rightarrow> Inl Other_Error
      | Inr (body, timings) \<Rightarrow> demand generation_empty (body \<noteq> []) (Inr (Typed body timings)))"
    using assms(1) unfolding generate_def by (simp_all add: assms(2,3) run)
  note stripped = read_generation_stripped [of text_of b] and keyed = read_generation_unlisted [of text_of b]
  from attempts_logged [OF run [unfolded st]] obtain n where n: "1 \<le> n" "n \<le> Suc 3"
      "posted = [] @ map (generation_payload b ?messages) (budgets (gb_max_tokens b) n)"
      "sorted_wrt (>) (budgets (gb_max_tokens b) n)" "\<forall>k\<in>set (tl (budgets (gb_max_tokens b) n)). 64 \<le> k"
    and errors: "\<forall>e. answer = Inl e \<longrightarrow> e = generation_unavailable \<or> e = context_length_exceeded"
    and answers: "\<forall>x. answer = Inr x \<longrightarrow> can_answer ht x" by blast
  have posts: "\<exists>n. 1 \<le> n \<and> n \<le> 4 \<and> sorted_wrt (>) (budgets (gb_max_tokens b) n) \<and> (\<forall>k\<in>set (tl (budgets (gb_max_tokens b) n)). 64 \<le> k)
        \<and> posted = map (generation_payload b ?messages) (budgets (gb_max_tokens b) n)"
    using n by (intro exI [of _ n]) simp
  have "case r of Inr g \<Rightarrow> \<exists>body timings. g = Typed body timings \<and> body \<noteq> [] \<and> py_strip body = body
      | Inl e \<Rightarrow> e \<in> {generation_unavailable, context_length_exceeded, generation_empty}
          \<or> e = Other_Error \<and> (\<exists>response. can_answer ht response \<and> keyed_choices response)"
  proof (cases answer)
    case (Inl e)
    then show ?thesis using errors unfolding r by auto
  next
    case answered: (Inr x)
    show ?thesis
    proof (cases "read_generation text_of b x")
      case (Inl e)
      then show ?thesis using keyed [of x] answers answered unfolding r by (cases e) (auto simp: answered)
    next
      case (Inr bt)
      then obtain body timings where bt: "read_generation text_of b x = Inr (body, timings)" by (cases bt) simp
      show ?thesis unfolding r using stripped [OF bt] by (cases "body = []") (simp_all add: answered bt)
    qed
  qed
  with posts show ?thesis by blast
qed

text \<open>A service that answers from the list it has as state, and one configured model.\<close>

definition ex_model :: generation_backend where
  "ex_model = \<lparr>gb_base_url = lit ''http://127.0.0.1:8000'', gb_served_model = lit ''m'', gb_model_size = None, gb_max_tokens = 100,
     gb_temperature = PFloat (lit ''0.2''), gb_top_p = None, gb_top_k = None, gb_max_model_len = Some 4096, gb_thinking = None,
     gb_total_vram_gb = None, gb_timeout = 840, gb_template_kwargs = []\<rparr>"

definition ex_backend :: model_backend_document where
  "ex_backend = \<lparr>bd_version = 1,
     bd_embedding = \<lparr>eb_base_url = lit ''http://127.0.0.1:11434'', eb_model = lit ''e'', eb_max_characters = 2400,
       eb_document_keep_alive = lit ''10m'', eb_query_keep_alive = lit ''0'', eb_timeout = 120\<rparr>,
     bd_models = [(lit ''m'', ex_model)]\<rparr>"

definition ex_service :: "service_response list http" where
  "ex_service = \<lparr>ht_post = (\<lambda>url payload t h. case h of [] \<Rightarrow> (None, []) | r # rs \<Rightarrow> (Some r, rs)),
     ht_get = (\<lambda>url t h. (None, h)), ht_sleep = (\<lambda>d h. h), ht_clock = (\<lambda>h. (0, h))\<rparr>"

definition ex_overflow :: service_response where
  "ex_overflow = \<lparr>hp_status = 400, hp_json = Some (PObj [(lit ''message'', PStr (lit (''This model's maximum context length is 4096 tokens. ''
     @ ''However, you requested 100 output tokens and your prompt contains at least 4000 input tokens, for a total of at least 4100 tokens.'')))])\<rparr>"

definition ex_completion :: "str \<Rightarrow> service_response" where
  "ex_completion content = \<lparr>hp_status = 200, hp_json = Some (PObj
     [(lit ''choices'', PArr [PObj [(lit ''message'', PObj [(lit ''content'', PStr content)])]]),
      (lit ''usage'', PObj [(lit ''prompt_tokens'', PInt 4000), (lit ''completion_tokens'', PInt 12)])])\<rparr>"

definition ex_generation :: "(exn + generated) \<times> pyjson list \<times> service_response list" where
  "ex_generation = generate (logged ex_service) (\<lambda>v. []) (\<lambda>v. []) ex_backend (lit ''Why?'') [(1, [])] (lit ''m'') 5
     ([], [ex_overflow, ex_completion (lit ''Because [1].'')])"

lemma ex_generation_answers: "is_ok (fst ex_generation) \<and> length (fst (snd ex_generation)) = 2"
  by code_simp

theorem generation_budgets_witness: "\<exists>n. 1 \<le> n \<and> n \<le> 4 \<and> length (fst (snd ex_generation)) = length (budgets 100 n)"
proof -
  obtain r posted h' where run: "ex_generation = (r, (posted, h'))" by (metis prod.collapse)
  have "map_of (bd_models ex_backend) (lit ''m'') = Some ex_model" by (simp add: ex_backend_def)
  from generation_budgets [OF run [unfolded ex_generation_def] this]
  obtain n where "1 \<le> n" "n \<le> 4" "length posted = length (budgets (gb_max_tokens ex_model) n)" by auto
  then show ?thesis by (auto simp: run ex_model_def)
qed

section \<open>Planning\<close>

lemma planner_parse_listed: "(case j of Inl e \<Rightarrow> Inl Listed | Inr v \<Rightarrow> or_raise Listed (f v)) \<noteq> Inl Unlisted"
  by (cases j) (auto simp: or_raise_Inl)

lemma read_plan_unlisted: "read_plan text_of planner_model answer = Inl Unlisted \<Longrightarrow> \<exists>response. answer = Some response \<and> keyed_choices response"
  unfolding read_plan_def keyed_choices_def
  by (auto simp: and_then_Inl planner_parse_listed split: option.split_asm pyjson.split_asm if_split_asm dest!: choice_content_unlisted)

lemma request_plan_unlisted:
  assumes "request_plan ht text_of planner_model b document h = (Inl Unlisted, h')"
  shows "\<exists>response. can_answer ht response \<and> keyed_choices response"
proof -
  have "read_plan text_of planner_model (fst (ht_post ht (chat_url b) (planner_payload b document) (min 30 (gb_timeout b)) h)) = Inl Unlisted"
    using assms by (simp add: request_plan_def split: prod.split_asm)
  from read_plan_unlisted [OF this] show ?thesis by (auto dest: posted_answer)
qed

text \<open>What a plan of the planner has: the question, four to twelve terms, each with a word that is new, and new tokens.\<close>

definition plan_for :: "(str \<Rightarrow> str) \<Rightarrow> str \<Rightarrow> retrieval_plan \<Rightarrow> bool" where
  "plan_for casefold asked p \<longleftrightarrow> plan_mode p = PLANNED \<and> original_question p = asked
     \<and> 4 \<le> length (bm25_terms p) \<and> length (bm25_terms p) \<le> 12
     \<and> retrieval_plan_adds_signal casefold asked (semantic_query p) (bm25_terms p) 2
     \<and> (\<forall>i < length (bm25_terms p). \<exists>w\<in>set (meaningful_search_tokens (bm25_terms p ! i)).
         w \<notin> set (tokenize asked) \<and> (\<forall>j < i. w \<notin> set (meaningful_search_tokens (bm25_terms p ! j))))"

lemma planned_or_cases:
  "planned_or fallback casefold asked semantic (sanitize_bm25_expansion_terms casefold asked raw 12) = fallback
   \<or> plan_for casefold asked (planned_or fallback casefold asked semantic (sanitize_bm25_expansion_terms casefold asked raw 12))"
proof -
  let ?ts = "sanitize_bm25_expansion_terms casefold asked raw 12"
  have spec: "length ?ts \<le> 12 \<and> set ?ts \<subseteq> py_strip ` set raw \<and> adds_words (tokenize asked) ?ts"
    using sanitize_terms_spec [of ?ts casefold "tokenize asked" "question_keys casefold asked" 12 0 "[]" "[]" raw]
    by (simp add: sanitize_bm25_expansion_terms_def)
  then have "map py_strip ?ts = ?ts" by (intro map_idI) (auto simp: py_strip_def strip_by_idem)
  then have "make_plan casefold asked semantic ?ts PLANNED = Some p \<Longrightarrow>
      p = \<lparr>original_question = asked, semantic_query = semantic, bm25_terms = ?ts, plan_mode = PLANNED\<rparr>" for p
    by (auto simp: make_plan_def validate_bm25_terms_def Let_def split: if_splits)
  then show ?thesis
    using spec unfolding planned_or_def useful_plan_def plan_for_def adds_words_def by (auto split: option.splits)
qed

text \<open>
  C17: planning never fails a query. Where the fallback exists, and as long as no response has a JSON object
  for its choices, the planner gives the fallback or a plan for the question whose terms each add a word.
\<close>

theorem planning_never_fails:
  assumes "fallback_retrieval_plan casefold asked contextual = Some fallback"
    and "\<forall>response. can_answer ht response \<longrightarrow> \<not> keyed_choices response"
  shows "\<exists>p h'. plan_query ht casefold text_of planner_model doc asked contextual model_id h = (Inr p, h')
    \<and> (p = fallback \<or> plan_for casefold asked p)"
proof (cases "map_of (bd_models doc) model_id")
  case None
  then show ?thesis using assms(1) by (simp add: plan_query_def)
next
  case (Some b)
  have never: "request_plan ht text_of planner_model b document h \<noteq> (Inl Unlisted, h')" for document h h'
    using assms(2) by (auto dest!: request_plan_unlisted)
  obtain r h1 where first: "request_plan ht text_of planner_model b (planner_document asked contextual) h = (r, h1)" by fastforce
  show ?thesis
  proof (cases r)
    case (Inl e)
    then show ?thesis using never assms(1) first Some by (cases e) (auto simp: plan_query_def)
  next
    case (Inr plan)
    obtain semantic raw where plan: "plan = (semantic, raw)" by fastforce
    obtain r' h2 where second: "request_plan ht text_of planner_model b
        (correction_document (planner_document asked contextual) semantic raw) h1 = (r', h2)" by fastforce
    show ?thesis
    proof (cases r')
      case (Inl e)
      then show ?thesis using never assms(1) first second Some planned_or_cases [of fallback]
        by (cases e) (auto simp: plan_query_def Inr plan Let_def)
    next
      case again: (Inr plan')
      then show ?thesis using assms(1) first second Some planned_or_cases [of fallback]
        by (cases plan') (auto simp: plan_query_def Inr plan Let_def)
    qed
  qed
qed

definition ex_planner :: "str \<Rightarrow> unit http" where
  "ex_planner content = \<lparr>ht_post = (\<lambda>url payload t h. (Some (ex_completion content), h)), ht_get = (\<lambda>url t h. (None, h)),
     ht_sleep = (\<lambda>d h. h), ht_clock = (\<lambda>h. (0, h))\<rparr>"

definition ex_planner_model :: "pyjson \<Rightarrow> (str \<times> str list) option" where
  "ex_planner_model v = (case v of
     PObj [(_, PStr s), (_, PArr ts)] \<Rightarrow> Some (s, map (\<lambda>t. case t of PStr x \<Rightarrow> x | _ \<Rightarrow> []) ts) | _ \<Rightarrow> None)"

definition ex_plan_text :: str where
  "ex_plan_text = lit (''```json {'' @ [CHR 0x22] @ ''semantic_query'' @ [CHR 0x22] @ '':'' @ [CHR 0x22] @ ''Mina trouble difficulty blocked'' @ [CHR 0x22]
     @ '','' @ [CHR 0x22] @ ''bm25_terms'' @ [CHR 0x22] @ '':['' @ [CHR 0x22] @ ''trouble'' @ [CHR 0x22] @ '','' @ [CHR 0x22] @ ''difficulty'' @ [CHR 0x22]
     @ '','' @ [CHR 0x22] @ ''blocked'' @ [CHR 0x22] @ '','' @ [CHR 0x22] @ ''unsure'' @ [CHR 0x22] @ '']}```'')"

definition ex_plan :: "(exn + retrieval_plan) \<times> unit" where
  "ex_plan = plan_query (ex_planner ex_plan_text) (\<lambda>s. s) (\<lambda>v. []) ex_planner_model ex_backend (lit ''Is Mina stuck?'') None (lit ''m'') ()"

lemma ex_plan_planned: "(case fst ex_plan of Inr p \<Rightarrow> plan_mode p = PLANNED | Inl e \<Rightarrow> False)"
  by code_simp

lemma ex_planner_unkeyed: "can_answer (ex_planner content) response \<Longrightarrow> \<not> keyed_choices response"
  by (auto simp: can_answer_def ex_planner_def keyed_choices_def ex_completion_def field_of_def)

theorem planning_never_fails_witness: "\<exists>p. ex_plan = (Inr p, ()) \<and> plan_for (\<lambda>s. s) (lit ''Is Mina stuck?'') p"
proof -
  have "fallback_retrieval_plan (\<lambda>s. s) (lit ''Is Mina stuck?'') None \<noteq> None" by code_simp
  then obtain fallback where fallback: "fallback_retrieval_plan (\<lambda>s. s) (lit ''Is Mina stuck?'') None = Some fallback" by blast
  then have "plan_mode fallback = FALLBACK" by (auto simp: fallback_retrieval_plan_def make_plan_def split: if_splits)
  moreover obtain p where p: "ex_plan = (Inr p, ())" "p = fallback \<or> plan_for (\<lambda>s. s) (lit ''Is Mina stuck?'') p"
    using planning_never_fails [OF fallback, of "ex_planner ex_plan_text" "\<lambda>v. []" ex_planner_model ex_backend "lit ''m''" "()"]
      ex_planner_unkeyed unfolding ex_plan_def by fastforce
  moreover have "plan_mode p = PLANNED" using ex_plan_planned unfolding p(1) by simp
  ultimately show ?thesis by auto
qed

section \<open>Waiting until a model is ready\<close>

text \<open>
  How time passes: \<open>now h\<close> is the time at a state, a reading lies between the times before and after it, nothing
  turns the time back, and a pause lasts at least as long as asked for.
\<close>

definition time_passes :: "'h http \<Rightarrow> ('h \<Rightarrow> (exn + unit) \<times> 'h) \<Rightarrow> ('h \<Rightarrow> rat) \<Rightarrow> bool" where
  "time_passes ht notify now \<longleftrightarrow>
     (\<forall>h t h'. ht_clock ht h = (t, h') \<longrightarrow> now h \<le> t \<and> t \<le> now h')
     \<and> (\<forall>url t h r h'. ht_get ht url t h = (r, h') \<longrightarrow> now h \<le> now h')
     \<and> (\<forall>h r h'. notify h = (r, h') \<longrightarrow> now h \<le> now h')
     \<and> (\<forall>d h. 0 \<le> d \<longrightarrow> now h + d \<le> now (ht_sleep ht d h))"

lemma is_ready_time: "time_passes ht notify now \<Longrightarrow> is_ready ht doc model_id h = (r, h') \<Longrightarrow> now h \<le> now h'"
  by (auto simp: is_ready_def time_passes_def split: option.splits prod.splits)

text \<open>The answers: only a probe that succeeded says ready, and only after the deadline is not ready the answer.\<close>

definition wait_answer :: "'h http \<Rightarrow> model_backend_document \<Rightarrow> ('h \<Rightarrow> rat) \<Rightarrow> str \<Rightarrow> rat \<Rightarrow> exn + bool \<Rightarrow> 'h \<Rightarrow> bool" where
  "wait_answer ht doc now model_id deadline r h' \<longleftrightarrow>
     (r = Inr True \<longrightarrow> (\<exists>h. is_ready ht doc model_id h = (True, h'))) \<and> (r = Inr False \<longrightarrow> deadline \<le> now h')"

lemma wait_loop_returns:
  assumes time: "time_passes ht notify now"
  shows "deadline \<le> now h + 2 * of_nat n \<Longrightarrow>
    \<exists>r h'. wait_loop ht doc notify model_id deadline (Suc n) h = Some (r, h') \<and> wait_answer ht doc now model_id deadline r h'"
proof (induction n arbitrary: h)
  case 0
  obtain t h1 where clock: "ht_clock ht h = (t, h1)" by fastforce
  obtain ready h2 where probe: "is_ready ht doc model_id h1 = (ready, h2)" by fastforce
  have "now h \<le> t" "t \<le> now h1" using time clock by (auto simp: time_passes_def)
  moreover have "now h1 \<le> now h2" using is_ready_time [OF time probe] .
  ultimately show ?case using 0 probe by (auto simp: clock wait_answer_def)
next
  case (Suc n)
  obtain t h1 where clock: "ht_clock ht h = (t, h1)" by fastforce
  obtain ready h2 where probe: "is_ready ht doc model_id h1 = (ready, h2)" by fastforce
  obtain u h3 where callback: "notify h2 = (u, h3)" by fastforce
  obtain t' h4 where again: "ht_clock ht h3 = (t', h4)" by fastforce
  let ?pause = "min 2 (max 0 (deadline - t'))"
  have times: "now h \<le> t" "t \<le> now h1" "now h2 \<le> now h3" "now h3 \<le> t'" "t' \<le> now h4"
      "now h4 + ?pause \<le> now (ht_sleep ht ?pause h4)"
    using time clock callback again by (auto simp: time_passes_def)
  have mono: "now h1 \<le> now h2" using is_ready_time [OF time probe] .
  show ?case
  proof (cases "t < deadline \<and> \<not> ready \<and> is_ok u")
    case True
    have "deadline \<le> now (ht_sleep ht ?pause h4) + 2 * of_nat n"
      using Suc.prems times mono by (auto simp: min_def max_def split: if_splits)
    from Suc.IH [OF this] show ?thesis
      using True by (auto simp: clock probe callback again is_ok_iff Let_def)
  next
    case False
    then show ?thesis
      using times mono probe by (cases u) (auto simp: clock callback wait_answer_def is_ok_iff split: bool.splits)
  qed
qed

text \<open>
  C18: the wait returns. If time passes as it should, one probe for every two seconds of the timeout and two more
  are enough; the answer is ready only after a probe that succeeded, and not ready only once the timeout is over.
\<close>

theorem wait_until_ready_returns:
  assumes "time_passes ht notify now"
  shows "\<exists>r h'. wait_until_ready ht doc notify (nat \<lceil>max 0 timeout / 2\<rceil> + 1) model_id timeout h = Some (r, h')
    \<and> wait_answer ht doc now model_id (now h + timeout) r h'"
proof -
  obtain start h1 where clock: "ht_clock ht h = (start, h1)" by fastforce
  have times: "now h \<le> start" "start \<le> now h1" using assms clock by (auto simp: time_passes_def)
  have "max 0 timeout / 2 \<le> of_nat (nat \<lceil>max 0 timeout / 2\<rceil>)" by linarith
  then have "start + max 0 timeout \<le> now h1 + 2 * of_nat (nat \<lceil>max 0 timeout / 2\<rceil>)" using times by linarith
  from wait_loop_returns [OF assms this, of doc model_id] obtain r h' where
    "wait_loop ht doc notify model_id (start + max 0 timeout) (Suc (nat \<lceil>max 0 timeout / 2\<rceil>)) h1 = Some (r, h')"
    "wait_answer ht doc now model_id (start + max 0 timeout) r h'" by blast
  then show ?thesis using times by (auto simp: wait_until_ready_def clock wait_answer_def)
qed

definition ex_waiting :: "rat http" where
  "ex_waiting = \<lparr>ht_post = (\<lambda>url payload t h. (None, h)), ht_get = (\<lambda>url t h. (Some (if h < 3 then 503 else 200), h)),
     ht_sleep = (\<lambda>d h. h + d), ht_clock = (\<lambda>h. (h, h))\<rparr>"

theorem wait_until_ready_returns_witness:
  "wait_until_ready ex_waiting ex_backend (\<lambda>h. (Inr (), h)) 6 (lit ''m'') 10 0 = Some (Inr True, 4)
   \<and> wait_answer ex_waiting ex_backend id (lit ''m'') 10 (Inr True) (4 :: rat)"
proof -
  have time: "time_passes ex_waiting (\<lambda>h. (Inr (), h)) id" by (simp add: time_passes_def ex_waiting_def)
  have fuel: "nat \<lceil>max 0 (10 :: rat) / 2\<rceil> + 1 = 6" by simp
  obtain r h' where "wait_until_ready ex_waiting ex_backend (\<lambda>h. (Inr (), h)) 6 (lit ''m'') 10 0 = Some (r, h')"
    "wait_answer ex_waiting ex_backend id (lit ''m'') (id 0 + 10) r h'"
    using wait_until_ready_returns [OF time, of ex_backend 10 "lit ''m''" 0] unfolding fuel by blast
  moreover have "wait_until_ready ex_waiting ex_backend (\<lambda>h. (Inr (), h)) 6 (lit ''m'') 10 0 = Some (Inr True, 4)" by code_simp
  ultimately show ?thesis by simp
qed

end
