(* ===== verification/Runtime_Props.thy ===== *)
theory Runtime_Props
  imports Runtime Model_Backend_Props
begin

text \<open>
  What a deployment that starts has: both roles on the literal loopback address, upstream URLs that still name
  it after normalisation, distinct secrets and keys, and names that the protocol accepts.
\<close>

section \<open>Trailing slashes\<close>

lemma strip_slashes_split: "\<exists>n. s = strip_slashes s @ replicate n 47"
proof -
  have "s = rev (dropWhile (\<lambda>c. c = 47) (rev s)) @ rev (takeWhile (\<lambda>c. c = 47) (rev s))"
    by (simp flip: rev_append)
  moreover have "rev (takeWhile (\<lambda>c. c = 47) (rev s)) = replicate (length (takeWhile (\<lambda>c. c = 47) (rev s))) 47"
    by (intro replicate_eqI) (auto dest: set_takeWhileD)
  ultimately show ?thesis unfolding strip_slashes_def rstrip_by_def by metis
qed

lemma strip_slashes_idem [simp]: "strip_slashes (strip_slashes s) = strip_slashes s"
  by (simp add: strip_slashes_def rstrip_by_def dropWhile_idem)

lemma cleaned_slashes:
  assumes "\<exists>c\<in>set r. \<not> c \<le> 32"
  shows "cleaned_url (r @ replicate n 47) = cleaned_url r @ replicate n 47"
proof -
  have "dropWhile (\<lambda>c. c \<le> 32) (r @ replicate n 47) = dropWhile (\<lambda>c. c \<le> 32) r @ replicate n 47"
    using assms by (metis dropWhile_append1)
  then show ?thesis by (simp add: cleaned_url_def)
qed

lemma cleaned_slashes_only: "\<forall>c\<in>set r. c \<le> 32 \<Longrightarrow> cleaned_url (r @ replicate n 47) = replicate n 47"
  by (cases n) (simp_all add: cleaned_url_def dropWhile_append2 dropWhile_eq_Nil_conv [THEN iffD2])

lemma has_scheme_slashes: "has_scheme (c @ replicate n 47) = has_scheme c"
proof (cases "58 \<in> set c")
  case True
  then have "before 58 (c @ replicate n 47) = before 58 c" "c \<noteq> []" by (auto simp: before_def takeWhile_append1)
  then show ?thesis using True by (simp add: has_scheme_def)
qed (auto simp: has_scheme_def)

lemma has_scheme_colon: "has_scheme c \<Longrightarrow> 58 \<in> set c"
  by (simp add: has_scheme_def)

lemma after_first_slashes: "x \<in> set c \<Longrightarrow> after_first x (c @ s) = after_first x c @ s"
proof -
  assume x: "x \<in> set c"
  then have "dropWhile (\<lambda>y. y \<noteq> x) c \<noteq> []" by (auto simp: dropWhile_eq_Nil_conv)
  then show ?thesis using x by (simp add: after_first_def dropWhile_append1)
qed

text \<open>An authority is not touched by slashes at the end of the URL.\<close>

lemma authority_slashes:
  assumes "take 2 (c @ replicate n 47) = [47, 47]" "takeWhile (\<lambda>x. \<not> url_delimiter x) (drop 2 (c @ replicate n 47)) = netloc" "netloc \<noteq> []"
  shows "take 2 c = [47, 47] \<and> takeWhile (\<lambda>x. \<not> url_delimiter x) (drop 2 c) = netloc"
proof -
  define tail where "tail = dropWhile (\<lambda>x. \<not> url_delimiter x) (drop 2 (c @ replicate n 47))"
  have "c @ replicate n 47 = take 2 (c @ replicate n 47) @ drop 2 (c @ replicate n 47)" by (rule append_take_drop_id [symmetric])
  then have whole: "c @ replicate n 47 = ([47, 47] @ netloc) @ tail"
    unfolding tail_def assms(1) using assms(2) takeWhile_dropWhile_id [of "\<lambda>x. \<not> url_delimiter x" "drop 2 (c @ replicate n 47)"] by simp
  have plain: "\<forall>x\<in>set netloc. \<not> url_delimiter x" using assms(2) by (auto dest: set_takeWhileD)
  have first: "tail = [] \<or> url_delimiter (hd tail)" unfolding tail_def using hd_dropWhile by blast
  obtain us where us: "c = ([47, 47] @ netloc) @ us" "us @ replicate n 47 = tail"
  proof -
    from whole obtain vs where "c = ([47, 47] @ netloc) @ vs \<and> vs @ replicate n 47 = tail
        \<or> c @ vs = [47, 47] @ netloc \<and> replicate n 47 = vs @ tail"
      unfolding append_eq_append_conv2 by blast
    moreover have "vs = []" if "c @ vs = [47, 47] @ netloc" "replicate n 47 = vs @ tail"
    proof (rule ccontr)
      assume "vs \<noteq> []"
      then have "last netloc = last vs" using that(1) assms(3) by (metis last_appendR)
      moreover have "last vs \<in> set (replicate n (47::nat))" unfolding that(2) using \<open>vs \<noteq> []\<close> by simp
      ultimately show False using plain assms(3) by (auto simp: url_delimiter_def split: if_splits)
    qed
    ultimately show ?thesis using that by force
  qed
  have "us = [] \<or> url_delimiter (hd us)" using first us(2) by (cases us) auto
  then have "takeWhile (\<lambda>x. \<not> url_delimiter x) (netloc @ us) = netloc"
    using plain by (cases us) (auto simp: takeWhile_append2 takeWhile_eq_all_conv)
  then show ?thesis using us(1) by simp
qed

lemma split_url_Some:
  "split_url ul v = Some u \<Longrightarrow> su_scheme u = url_scheme (cleaned_url v) \<and> su_netloc u = url_netloc (url_rest (cleaned_url v))
     \<and> netloc_fine ul (su_netloc u)"
  by (auto simp: split_url_def Let_def split: if_split_asm)

lemma split_url_ex: "netloc_fine ul (url_netloc (url_rest (cleaned_url v))) \<Longrightarrow> \<exists>u. split_url ul v = Some u"
  by (simp add: split_url_def Let_def)

lemma url_scheme_slashes: "url_scheme (c @ replicate n 47) = url_scheme c"
proof -
  have "has_scheme c \<Longrightarrow> before 58 (c @ replicate n 47) = before 58 c"
    using has_scheme_colon [of c] takeWhile_append1 [of 58 c "\<lambda>x. x \<noteq> 58"] by (auto simp: before_def)
  then show ?thesis by (simp add: url_scheme_def has_scheme_slashes)
qed

lemma url_rest_slashes: "url_rest (c @ replicate n 47) = url_rest c @ replicate n 47"
  by (simp add: url_rest_def has_scheme_slashes after_first_slashes has_scheme_colon)

lemma url_netloc_slashes: "url_netloc (c @ replicate n 47) \<noteq> [] \<Longrightarrow> url_netloc c = url_netloc (c @ replicate n 47)"
  using authority_slashes [of c n] unfolding url_netloc_def by (metis (no_types, lifting))

lemma url_netloc_only_slashes: "url_netloc (url_rest (replicate n 47)) = []"
proof -
  have "url_rest (replicate n 47) = replicate n 47" using url_rest_slashes [of "[]" n] by (simp add: url_rest_def has_scheme_def)
  then show ?thesis by (cases n; cases "n - 1"; cases "n - 2") (auto simp: url_netloc_def url_delimiter_def)
qed

lemma split_url_slashes:
  assumes "split_url ul given = Some u" "su_netloc u \<noteq> []"
  shows "\<exists>u'. split_url ul (strip_slashes given) = Some u' \<and> su_scheme u' = su_scheme u \<and> su_netloc u' = su_netloc u"
proof -
  obtain n where n: "given = strip_slashes given @ replicate n 47" using strip_slashes_split by blast
  let ?c = "cleaned_url (strip_slashes given)"
  have u: "su_scheme u = url_scheme (cleaned_url given)" "su_netloc u = url_netloc (url_rest (cleaned_url given))" "netloc_fine ul (su_netloc u)"
    using split_url_Some [OF assms(1)] by auto
  have "\<exists>c\<in>set (strip_slashes given). \<not> c \<le> 32"
  proof (rule ccontr)
    assume "\<not> ?thesis"
    then have "cleaned_url (strip_slashes given @ replicate n 47) = replicate n 47" by (intro cleaned_slashes_only) blast
    then show False using assms(2) u(2) n url_netloc_only_slashes by metis
  qed
  from cleaned_slashes [OF this, of n] have clean: "cleaned_url given = ?c @ replicate n 47" using n by metis
  have same: "url_scheme ?c = su_scheme u" "url_netloc (url_rest ?c) = su_netloc u"
    using assms(2) unfolding u(1,2) clean url_scheme_slashes url_rest_slashes by (simp_all add: url_netloc_slashes)
  obtain u' where u': "split_url ul (strip_slashes given) = Some u'" using split_url_ex u(3) same(2) by metis
  then show ?thesis using split_url_Some [OF u'] same by auto
qed

lemma url_parts_cong:
  assumes same: "su_netloc u' = su_netloc u"
  shows "host_name u' = host_name u" and "port_of u' = port_of u" and "has_user u' = has_user u"
  using same by (simp_all add: host_name_def port_of_def has_user_def)

text \<open>A URL that names the literal loopback address and the port, in the clear and without a user.\<close>

definition names_loopback :: "url_library \<Rightarrow> nat \<Rightarrow> str \<Rightarrow> bool" where
  "names_loopback ul port value \<longleftrightarrow> (\<exists>u. split_url ul value = Some u \<and> su_scheme u = lit ''http'' \<and> host_name u = lit ''127.0.0.1''
     \<and> port_of u = Inr (Some port) \<and> \<not> has_user u)"

lemma deployment_url_loopback:
  assumes "deployment_url ul env name port path = Inr v"
  shows "names_loopback ul port v \<and> strip_slashes v = v"
proof -
  obtain raw where raw: "(case split_url ul raw of None \<Rightarrow> Inl name | Some u \<Rightarrow> deployment_url_of name port path raw u) = Inr v"
    using assms unfolding deployment_url_def and_then_Inr by blast
  then obtain u where u: "split_url ul raw = Some u" and checks: "deployment_url_of name port path raw u = Inr v"
    by (auto split: option.split_asm)
  from checks have "su_scheme u = lit ''http''" "host_name u = lit ''127.0.0.1''" "port_of u = Inr (Some port)" "\<not> has_user u"
    and v: "v = strip_slashes raw"
    by (cases "port_of u"; auto simp: deployment_url_of_def demand_Inr)+
  note u = u this(1-4)
  have "su_netloc u \<noteq> []"
    using u(3) by (auto simp: host_name_def host_info_def after_last_def before_def lower_def)
  from split_url_slashes [OF u(1) this] obtain u' where
    "split_url ul (strip_slashes raw) = Some u'" "su_scheme u' = su_scheme u" "su_netloc u' = su_netloc u" by blast
  then show ?thesis using u v url_parts_cong [of u' u] by (auto simp: names_loopback_def)
qed

section \<open>The settings that are built\<close>

lemma settings_of_Some:
  assumes "settings_of ul s = Some s'"
  shows "gs_novo_api_base_url s' = strip_slashes (gs_novo_api_base_url s) \<and> gs_worker_base_url s' = strip_slashes (gs_worker_base_url s)
    \<and> gs_environment s' = gs_environment s \<and> gs_request_key_id s' = gs_request_key_id s \<and> gs_response_key_id s' = gs_response_key_id s
    \<and> gs_integration_secret_file s' = gs_integration_secret_file s \<and> gs_csrf_secret_file s' = gs_csrf_secret_file s
    \<and> gs_signing_secret_file s' = gs_signing_secret_file s \<and> gs_response_secret_file s' = gs_response_secret_file s
    \<and> settings_in_bounds s'"
proof -
  obtain base novo_url worker_url where urls: "base_path_of (gs_base_path s) = Some base" "loopback_url ul (gs_novo_api_base_url s) = Some novo_url"
      "loopback_url ul (gs_worker_base_url s) = Some worker_url"
    using assms by (auto simp: settings_of_def split: option.split_asm)
  then have "novo_url = strip_slashes (gs_novo_api_base_url s)" "worker_url = strip_slashes (gs_worker_base_url s)"
    by (auto simp: loopback_url_def split: option.split_asm if_split_asm)
  then show ?thesis
    using assms urls by (auto simp: settings_of_def settings_in_bounds_def split: option.split_asm if_split_asm)
qed

lemma map_err_list_all2: "map_err f xs = Inr ys \<Longrightarrow> list_all2 (\<lambda>x y. f x = Inr y) xs ys"
  by (induction xs arbitrary: ys) (auto split: sum.split_asm)

lemma open_secret_long: "open_secret fsys name path = Inr v \<Longrightarrow> 32 \<le> length v"
  by (auto simp: open_secret_def demand_Inr Let_def split: option.split_asm)

lemma secrets_long:
  "list_all2 (\<lambda>p v. \<exists>name. open_secret fsys name p = Inr v) files secrets \<Longrightarrow> \<forall>v\<in>set secrets. 32 \<le> length v"
  by (induction rule: list_all2_induct) (auto dest: open_secret_long)

text \<open>Files of secrets: different ones, with different contents of at least 32 bytes.\<close>

definition secret_files :: "file_system \<Rightarrow> posix_path list \<Rightarrow> bool" where
  "secret_files fsys files \<longleftrightarrow> distinct files \<and> (\<exists>secrets. distinct secrets \<and> (\<forall>v\<in>set secrets. 32 \<le> length v)
     \<and> list_all2 (\<lambda>p v. \<exists>name. open_secret fsys name p = Inr v) files secrets)"

lemma gateway_secrets_Inr:
  assumes "gateway_secrets fsys env = Inr files"
  shows "length files = 4 \<and> secret_files fsys files"
proof -
  obtain secrets where files: "map_err (absolute_path env) gateway_secret_names = Inr files" "distinct files" "distinct secrets"
    and opened: "map_err (\<lambda>(name, path). open_secret fsys name path) (zip gateway_secret_names files) = Inr secrets"
    using assms by (auto simp: gateway_secrets_def and_then_Inr demand_Inr)
  have names: "length gateway_secret_names = 4" by (simp add: gateway_secret_names_def)
  have len: "length files = 4" using list_all2_lengthD [OF map_err_list_all2 [OF files(1)]] by (simp add: names)
  have "list_all2 (\<lambda>np v. open_secret fsys (fst np) (snd np) = Inr v) (zip gateway_secret_names files) secrets"
    using map_err_list_all2 [OF opened] by (simp add: case_prod_beta)
  then have all: "list_all2 (\<lambda>p v. \<exists>name. open_secret fsys name p = Inr v) files secrets"
    using len names by (auto simp: list_all2_conv_all_nth)
  from secrets_long [OF this] have "\<forall>v\<in>set secrets. 32 \<le> length v" .
  then show ?thesis using files len all unfolding secret_files_def by blast
qed

section \<open>Both roles\<close>

text \<open>The four files of a gateway in the order they are read.\<close>

definition secret_paths :: "gateway_settings \<Rightarrow> posix_path list" where
  "secret_paths s = [gs_integration_secret_file s, effective_csrf_secret_file s, gs_signing_secret_file s, effective_response_secret_file s]"

lemma list_of_four: "length xs = 4 \<Longrightarrow> [xs ! 0, xs ! 1, xs ! 2, xs ! 3] = xs"
  by (rule nth_equalityI) (auto simp: less_Suc_eq numeral_eq_Suc)

lemma gateway_runtime_parts:
  assumes "load_gateway_runtime ul read_float fsys env = Inr gr"
  shows "\<exists>d. read_environment env = Inr d \<and> read_bind env Gateway_Role d = Inr (gr_host gr, gr_port gr)
    \<and> names_loopback ul (novo_port d) (gs_novo_api_base_url (gr_settings gr))
    \<and> names_loopback ul (reverse_forward_port d) (gs_worker_base_url (gr_settings gr))
    \<and> secret_files fsys (secret_paths (gr_settings gr))
    \<and> key_ids env = Inr (gs_request_key_id (gr_settings gr), gs_response_key_id (gr_settings gr))
    \<and> gs_environment (gr_settings gr) = deployment_text d \<and> settings_in_bounds (gr_settings gr)"
  using assms
  by (clarsimp simp: load_gateway_runtime_def and_then_Inr or_raise_Inr secret_paths_def effective_csrf_secret_file_def
       effective_response_secret_file_def)
     (auto dest!: settings_of_Some deployment_url_loopback gateway_secrets_Inr simp: list_of_four [simplified])

lemma worker_runtime_parts:
  assumes "load_worker_runtime fsys read_float parse require_socket env = Inr wr"
  shows "\<exists>d request_secret response_secret request_key. read_environment env = Inr d \<and> read_bind env Worker_Role d = Inr (wr_host wr, wr_port wr)
    \<and> worker_config_ok (wr_config wr) \<and> cf_environment (wr_config wr) = deployment_text d
    \<and> cf_audience (wr_config wr) = lit ''novo-chat-worker''
    \<and> map fst (cf_model_details (wr_config wr)) = cf_approved_models (wr_config wr)
    \<and> key_ids env = Inr (request_key, cf_response_key_id (wr_config wr))
    \<and> cf_request_secrets (wr_config wr) = [(request_key, SecretBytes request_secret)] \<and> cf_response_secret (wr_config wr) = SecretBytes response_secret
    \<and> worker_secrets fsys env = Inr (request_secret, response_secret)"
proof -
  have names: "read_backend fsys parse env models = Inr doc \<Longrightarrow> map fst (model_details doc) = models" for models doc
    by (auto simp: read_backend_def and_then_Inr approved_models_def model_details_def)
  show ?thesis
    using assms by (clarsimp simp: load_worker_runtime_def and_then_Inr Let_def) (auto dest: names)
qed

lemma read_bind_host: "read_bind env r d = Inr (host, port) \<Longrightarrow> host = lit ''127.0.0.1'' \<and> port = deployment_port r d"
  by (auto simp: read_bind_def and_then_Inr)

lemma key_ids_Inr: "key_ids env = Inr (k, k') \<Longrightarrow> safe_key_id k \<and> safe_key_id k' \<and> k \<noteq> k'"
  by (auto simp: key_ids_def read_identifier_def and_then_Inr settings_key_id_def safe_key_id_def)

lemma worker_secrets_Inr: "worker_secrets fsys env = Inr (a, b) \<Longrightarrow> a \<noteq> b \<and> 32 \<le> length a \<and> 32 \<le> length b"
  by (auto simp: worker_secrets_def and_then_Inr dest: open_secret_long)

lemma deployment_environment: "safe_environment (deployment_text d)"
  by (cases d) (simp_all add: deployment_text_def; code_simp)+

lemma worker_audience: "safe_token (lit ''novo-chat-worker'')"
  by code_simp

text \<open>
  C15: a gateway and a worker that start in the same environment are wired to each other and to nothing else. Both bind the
  literal loopback address at the ports of their deployment; the URLs the gateway is left with, as \<open>urlsplit\<close> reads them,
  name that address at the ports of Novo and of the reverse forward, in the clear and without a user; its four secrets, and
  the two of the worker, are distinct files of distinct contents; and whatever request ID is admissible, the gateway's
  key ID and environment are accepted for signing to the audience of the worker.
\<close>

theorem started_roles_are_wired:
  assumes "load_gateway_runtime ul read_float fsys env = Inr gr"
    and "load_worker_runtime fsys' read_float' parse require_socket env' = Inr wr"
    and "env ''NOVO_CHAT_ENVIRONMENT'' = env' ''NOVO_CHAT_ENVIRONMENT''"
  shows "\<exists>d. gr_host gr = lit ''127.0.0.1'' \<and> wr_host wr = lit ''127.0.0.1''
    \<and> gr_port gr = deployment_port Gateway_Role d \<and> wr_port wr = deployment_port Worker_Role d
    \<and> names_loopback ul (novo_port d) (gs_novo_api_base_url (gr_settings gr))
    \<and> names_loopback ul (reverse_forward_port d) (gs_worker_base_url (gr_settings gr))
    \<and> secret_files fsys (secret_paths (gr_settings gr))
    \<and> cf_request_secrets (wr_config wr) \<noteq> [] \<and> cf_response_secret (wr_config wr) \<notin> snd ` set (cf_request_secrets (wr_config wr))
    \<and> gs_environment (gr_settings gr) = cf_environment (wr_config wr)
    \<and> (\<forall>rid. validate_request_id rid \<noteq> None \<longrightarrow>
         validate_signing_metadata (gs_request_key_id (gr_settings gr)) (gs_environment (gr_settings gr)) (cf_audience (wr_config wr)) rid)"
proof -
  obtain d where d: "read_environment env = Inr d" "read_bind env Gateway_Role d = Inr (gr_host gr, gr_port gr)"
    "names_loopback ul (novo_port d) (gs_novo_api_base_url (gr_settings gr))"
    "names_loopback ul (reverse_forward_port d) (gs_worker_base_url (gr_settings gr))" "secret_files fsys (secret_paths (gr_settings gr))"
    "key_ids env = Inr (gs_request_key_id (gr_settings gr), gs_response_key_id (gr_settings gr))"
    "gs_environment (gr_settings gr) = deployment_text d"
    using gateway_runtime_parts [OF assms(1)] by blast
  obtain d' a b k where w: "read_environment env' = Inr d'" "read_bind env' Worker_Role d' = Inr (wr_host wr, wr_port wr)"
    "cf_environment (wr_config wr) = deployment_text d'" "cf_audience (wr_config wr) = lit ''novo-chat-worker''"
    "cf_request_secrets (wr_config wr) = [(k, SecretBytes a)]" "cf_response_secret (wr_config wr) = SecretBytes b"
    "worker_secrets fsys' env' = Inr (a, b)"
    using worker_runtime_parts [OF assms(2)] by blast
  have "d' = d" using d(1) w(1) assms(3) by (simp add: read_environment_def value_or_def)
  then show ?thesis
    using d w read_bind_host [OF d(2)] read_bind_host [OF w(2)] key_ids_Inr [OF d(6)] worker_secrets_Inr [OF w(7)]
    by (intro exI [of _ d]) (auto simp: validate_signing_metadata_def deployment_environment worker_audience)
qed

section \<open>An example\<close>

definition ex_url_library :: url_library where
  "ex_url_library = \<lparr>ul_netloc_ok = (\<lambda>netloc. True), ul_loopback = (\<lambda>h. if h = lit ''127.0.0.1'' then Some True else None)\<rparr>"

definition ex_read_float :: "str \<Rightarrow> double option" where
  "ex_read_float s = map_option (\<lambda>i. Finite (of_int i)) (py_int 10 s)"

definition ex_variables :: "(string \<times> string) list \<Rightarrow> variables" where
  "ex_variables vars name = map_option lit (map_of vars name)"

definition ex_gateway_variables :: "(string \<times> string) list" where
  "ex_gateway_variables =
     [(''NOVO_CHAT_ENVIRONMENT'', ''staging''), (''NOVO_CHAT_BIND_HOST'', ''127.0.0.1''), (''NOVO_CHAT_PORT'', ''3181''),
      (''NOVO_CHAT_BASE_PATH'', ''/chat-staging''), (''NOVO_CHAT_PUBLIC_ORIGIN'', ''https://novo.lab/''),
      (''NOVO_INTEGRATION_API_URL'', ''http://127.0.0.1:3155/api/integrations/v1/''), (''NOVO_CHAT_WORKER_URL'', ''http://127.0.0.1:8196/internal/v1''),
      (''NOVO_INTEGRATION_SECRET_FILE'', ''/run/integration''), (''NOVO_CHAT_CSRF_SECRET_FILE'', ''/run/csrf''),
      (''NOVO_CHAT_WORKER_SIGNING_KEY_FILE'', ''/run/request''), (''NOVO_CHAT_WORKER_RESPONSE_KEY_FILE'', ''/run/response''),
      (''NOVO_CHAT_WORKER_REQUEST_KEY_ID'', ''gateway''), (''NOVO_CHAT_WORKER_RESPONSE_KEY_ID'', ''worker''), (''NOVO_CHAT_JOB_DB'', ''/var/jobs''),
      (''NOVO_SESSION_COOKIE_NAME'', ''eln''), (''NOVO_HOME_PATH'', ''/''), (''NOVO_LOGIN_PATH'', ''/''), (''NOVO_LOGOUT_PATH'', ''/''),
      (''NOVO_LOGIN_RETURN_PARAMETER'', ''returnTo''), (''NOVO_CHAT_INDEX_SCHEMA_VERSION'', ''v1'')]"

definition ex_worker_variables :: "(string \<times> string) list" where
  "ex_worker_variables =
     [(''NOVO_CHAT_ENVIRONMENT'', ''staging''), (''NOVO_CHAT_BIND_HOST'', ''127.0.0.1''), (''NOVO_CHAT_PORT'', ''8096''),
      (''NOVO_CHAT_WORKER_STATE_DB'', ''/var/state''), (''NOVO_CHAT_WORKER_STATE_DIR'', ''/var/files''),
      (''NOVO_CHAT_WORKER_REQUEST_KEY_ID'', ''gateway''), (''NOVO_CHAT_WORKER_RESPONSE_KEY_ID'', ''worker''),
      (''NOVO_CHAT_WORKER_REQUEST_KEY_FILE'', ''/run/request''), (''NOVO_CHAT_WORKER_RESPONSE_KEY_FILE'', ''/run/response''),
      (''NOVO_CHAT_APPROVED_MODELS'', ''m''), (''NOVO_CHAT_INDEX_SCHEMA_VERSIONS'', ''v1''), (''NOVO_CHAT_MODEL_BACKENDS_FILE'', ''/etc/backends''),
      (''NOVO_CHAT_MODELCTL_SOCKET'', ''/run/novo-chat/staging-modelctl.sock''), (''NOVO_CHAT_EXECUTOR_POLL_SECONDS'', ''1'')]"

definition ex_stat :: "bool \<Rightarrow> bool \<Rightarrow> bool \<Rightarrow> file_stat" where
  "ex_stat regular directory sock = \<lparr>st_regular = regular, st_directory = directory, st_socket = sock, st_uid = 0, st_mode = 288, st_nlink = 1, st_size = 40\<rparr>"

definition ex_files :: file_system where
  "ex_files = \<lparr>fsys_open = (\<lambda>p. Some (ex_stat True False False, take 40 (concat (replicate 10 (last (snd p)))))),
     fsys_stat = (\<lambda>p. if snd p = [] then Some (ex_stat False True False) else if length (snd p) = 3 then Some (ex_stat False False True) else None),
     fsys_lstat = (\<lambda>p. Some (ex_stat True False False)), fsys_symlink = (\<lambda>p. False), fsys_access = (\<lambda>p. True), fsys_writable = (\<lambda>p. True),
     fsys_text = (\<lambda>p. Some (lit ''{}'')), fsys_euid = 10001\<rparr>"

lemma ex_gateway_starts: "is_ok (load_gateway_runtime ex_url_library ex_read_float ex_files (ex_variables ex_gateway_variables))"
  by code_simp

lemma ex_worker_starts: "is_ok (load_worker_runtime ex_files ex_read_float (\<lambda>v. Some ex_backend) True (ex_variables ex_worker_variables))"
  by code_simp

text \<open>The defaults of \<open>from_env\<close> pass every check of the settings.\<close>

lemma default_settings_valid: "settings_from_env ex_url_library ex_read_float (\<lambda>name. None) \<noteq> None"
  by code_simp

theorem started_roles_are_wired_witness:
  "\<exists>gr wr d. load_gateway_runtime ex_url_library ex_read_float ex_files (ex_variables ex_gateway_variables) = Inr gr
     \<and> load_worker_runtime ex_files ex_read_float (\<lambda>v. Some ex_backend) True (ex_variables ex_worker_variables) = Inr wr
     \<and> names_loopback ex_url_library (reverse_forward_port d) (gs_worker_base_url (gr_settings gr))
     \<and> gs_environment (gr_settings gr) = cf_environment (wr_config wr)"
proof -
  obtain gr where gr: "load_gateway_runtime ex_url_library ex_read_float ex_files (ex_variables ex_gateway_variables) = Inr gr"
    using ex_gateway_starts by (auto simp: is_ok_iff)
  obtain wr where wr: "load_worker_runtime ex_files ex_read_float (\<lambda>v. Some ex_backend) True (ex_variables ex_worker_variables) = Inr wr"
    using ex_worker_starts by (auto simp: is_ok_iff)
  have "ex_variables ex_gateway_variables ''NOVO_CHAT_ENVIRONMENT'' = ex_variables ex_worker_variables ''NOVO_CHAT_ENVIRONMENT''"
    by (simp add: ex_variables_def ex_gateway_variables_def ex_worker_variables_def)
  from started_roles_are_wired [OF gr wr this] show ?thesis using gr wr by blast
qed

end
