(* ===== verification/Query_Props.thy ===== *)
theory Query_Props
  imports Query_Engine Rag_Core_Props
begin

text \<open>
  Properties of the query pipeline: fusion against its closed form, what a retrieval returns, and
  the confinement of answers to the requested notebooks and the sources shown to the model.
\<close>

section \<open>Ranking\<close>

lemma mset_insert_ranked: "mset (insert_ranked score i js) = add_mset i (mset js)"
  by (induction js) auto

lemma mset_rank_by [simp]: "mset (rank_by score is) = mset is"
  by (induction "is") (simp_all add: rank_by_def mset_insert_ranked)

lemma set_rank_by [simp]: "set (rank_by score is) = set is"
  by (metis mset_rank_by set_mset_mset)

lemma distinct_rank_by [simp]: "distinct (rank_by score is) = distinct is"
  by (metis mset_rank_by mset_eq_imp_distinct_iff)

lemma distinct_sub_mset: "mset xs \<subseteq># mset ys \<Longrightarrow> distinct ys \<Longrightarrow> distinct xs"
proof -
  assume "mset xs \<subseteq># mset ys" "distinct ys"
  then obtain zs where "mset ys = mset (xs @ zs)" by (metis ex_mset mset_append mset_subset_eq_exists_conv)
  then have "distinct (xs @ zs)" using \<open>distinct ys\<close> by (metis mset_eq_imp_distinct_iff)
  then show ?thesis by simp
qed

lemma sorted_insert_ranked:
  "sorted_wrt (\<lambda>i j. score j \<le> score i) js \<Longrightarrow> sorted_wrt (\<lambda>i j. score j \<le> score i) (insert_ranked score i js)"
proof (induction js)
  case (Cons j js)
  have "set (insert_ranked score i js) = insert i (set js)"
    using arg_cong [OF mset_insert_ranked, of set_mset score i js] by simp
  with Cons show ?case by fastforce
qed simp

lemma sorted_rank_by: "sorted_wrt (\<lambda>i j. score j \<le> score i) (rank_by score is)"
  by (induction "is") (simp_all add: rank_by_def sorted_insert_ranked)

section \<open>Dictionaries of scores\<close>

definition keys :: "(nat \<times> 'x) list \<Rightarrow> nat list" where
  "keys m = map fst m"

lemma keys_set_score: "keys (set_score i x m) = (if i \<in> set (keys m) then keys m else keys m @ [i])"
proof -
  have "keys (update_where (\<lambda>(j, _). j = i) (\<lambda>(j, _). (j, x)) m) = keys m"
    unfolding keys_def by (rule map_update_where) (simp add: split_beta)
  then show ?thesis by (simp add: set_score_def keys_def)
qed

lemma keys_map_of: "i \<in> set (keys m) \<longleftrightarrow> map_of m i \<noteq> None"
  by (simp add: keys_def map_of_eq_None_iff)

lemma map_of_set_score: "map_of (set_score i x m) j = (if j = i then Some x else map_of m j)"
proof (cases "i \<in> set (keys m)")
  case True
  have "map_of (update_where (\<lambda>(k, _). k = i) (\<lambda>(k, _). (k, x)) m) j = (if j = i then map_option (\<lambda>_. x) (map_of m j) else map_of m j)" for m
    by (induction m) auto
  moreover have "map_of m i \<noteq> None" using True by (simp add: keys_map_of)
  ultimately show ?thesis using True by (auto simp: set_score_def keys_def)
next
  case False
  then have "map_of m i = None" by (simp add: keys_map_of)
  then show ?thesis using False by (auto simp: set_score_def map_add_def keys_def split: option.splits)
qed

lemma score_at_set_score: "score_at ops (set_score i x m) j = (if j = i then x else score_at ops m j)"
  by (simp add: score_at_def map_of_set_score)

text \<open>Steps that set one score each keep the keys distinct and add only keys from their list.\<close>

definition scores_of :: "nat set \<Rightarrow> (nat \<times> 'x) list \<Rightarrow> bool" where
  "scores_of A m \<longleftrightarrow> distinct (keys m) \<and> set (keys m) \<subseteq> A"

lemma scores_of_Nil [simp]: "scores_of A []"
  by (simp add: scores_of_def keys_def)

lemma scores_of_set: "scores_of A m \<Longrightarrow> i \<in> A \<Longrightarrow> scores_of A (set_score i x m)"
  by (simp add: scores_of_def keys_set_score)

lemma scores_of_foldl:
  "scores_of A m \<Longrightarrow> (\<And>m i. scores_of A m \<Longrightarrow> i \<in> set xs \<Longrightarrow> scores_of A (step m i)) \<Longrightarrow> scores_of A (foldl step m xs)"
  by (induction xs arbitrary: m) auto

lemma in_set_enumerateD: "(k, x) \<in> set (enumerate n xs) \<Longrightarrow> x \<in> set xs"
  by (metis map_snd_enumerate image_eqI set_map snd_conv)

lemma scores_of_add_ranks: "scores_of A m \<Longrightarrow> set best \<subseteq> A \<Longrightarrow> scores_of A (add_ranks ops e best m)"
  unfolding add_ranks_def
  by (rule scores_of_foldl) (auto simp: add_score_def split_beta dest: in_set_enumerateD intro!: scores_of_set)

lemma set_take_rank_by: "set (take n (rank_by score is)) \<subseteq> set is"
  using set_take_subset [of n "rank_by score is"] by simp

lemma dense_search_scores:
  assumes "scores_of {0..<n} original" "scores_of {0..<n} expansion"
    and "dense_search en vectors n pool queries original expansion sets = Inr (original', expansion', sets')"
  shows "scores_of {0..<n} original' \<and> scores_of {0..<n} expansion'"
  using assms
proof (induction queries arbitrary: original expansion sets)
  case (Cons q queries)
  obtain t e where q: "q = (t, e)" by (cases q)
  from Cons.prems(3) obtain v where v: "en_embed_query en t = Inr v"
    by (auto simp: q and_then_Inr)
  let ?best = "take pool (rank_by (value_at (en_scores en) (en_dense en vectors v)) [0..<n])"
  have best: "set ?best \<subseteq> {0..<n}" using set_take_rank_by [of pool _ "[0..<n]"] by simp
  show ?case
    using Cons.prems Cons.IH scores_of_add_ranks [OF Cons.prems(1) best, of "en_scores en" e]
      scores_of_add_ranks [OF Cons.prems(2) best, of "en_scores en" e]
    by (auto simp: q v Let_def split: if_splits)
qed simp

lemma scores_of_ranking:
  assumes "scores_of {0..<n} m" shows "scores_of {0..<n} (add_ranks ops e (take pool (rank_by f (filter p [0..<n]))) m)"
  by (rule scores_of_add_ranks [OF assms]) (use set_take_rank_by [of pool f "filter p [0..<n]"] in auto)

lemma lexical_round_scores:
  fixes tokenized :: "str list list"
  defines "n \<equiv> length tokenized"
  assumes "scores_of {0..<n} target"
  shows "scores_of {0..<n} (fst (lexical_round en qs tokenized pool tokens e target))"
proof -
  have "scores_of {0..<n} (foldl (\<lambda>m i. add_score (en_scores en) i (g i) m) m (filter p [0..<n]))"
    if "scores_of {0..<n} m" for g m p
    by (rule scores_of_foldl [OF that]) (auto simp: add_score_def intro!: scores_of_set)
  note more = this
  show ?thesis
    unfolding lexical_round_def Let_def n_def [symmetric] using assms(2) by (auto intro: scores_of_ranking more)
qed

section \<open>Fusion\<close>

lemma foldl_max_scores:
  "distinct is \<Longrightarrow> score_at ops (foldl (\<lambda>m i. set_score i (max (score_at ops m i) (g i)) m) m is) j =
     (if j \<in> set is then max (score_at ops m j) (g j) else score_at ops m j)"
  by (induction "is" arbitrary: m) (auto simp: score_at_set_score)


lemma scores_of_fuse:
  assumes "scores_of A original" "scores_of A semantic" "scores_of A lexical"
  shows "scores_of A (fuse ops original semantic lexical)"
proof -
  have "i \<in> A" if "i \<in> set (remdups (map fst semantic @ map fst lexical))" for i
    using that assms(2,3) by (auto simp: scores_of_def keys_def)
  then show ?thesis unfolding fuse_def by (intro scores_of_foldl [OF assms(1)] scores_of_set)
qed

section \<open>What a retrieval returns\<close>

lemma retrieve_hits:
  assumes "retrieve en chunks vectors asked plan qs wanted = Inr hits" "0 < wanted" "chunks \<noteq> []"
  shows "length hits \<le> min wanted (length chunks) \<and> map hit_source hits = [1..<Suc (length hits)]
    \<and> distinct (map hit_index hits) \<and> (\<forall>h\<in>set hits. hit_index h < length chunks \<and> hit_chunk h = chunks ! hit_index h)"
proof -
  let ?n = "length chunks" and ?ops = "en_scores en"
  define tokenized where "tokenized = map (\<lambda>c. tokenize (str_or_empty (en_text_of en) (map_of c (lit ''indexed_text'')))) chunks"
  have len: "?n = length tokenized" by (simp add: tokenized_def)
  from assms(1) obtain o1 sem dsets where
    dense: "(if qs = HYBRID \<or> qs = SEMANTIC
        then dense_search en vectors ?n (min 240 ?n) (dense_queries (en_casefold en) asked (semantic_query plan)) [] [] []
        else Inr ([], [], [])) = Inr (o1, sem, dsets)"
    by (auto simp: retrieve_def Let_def and_then_Inr)
  have d: "scores_of {0..<?n} o1" "scores_of {0..<?n} sem"
    using dense dense_search_scores [of ?n "[]" "[]" en vectors "min 240 ?n" _ "[]" o1 sem dsets] by (auto split: if_splits)
  obtain o2 sets1 where l1: "(if qs = HYBRID \<or> qs = LEXICAL
      then lexical_round en qs tokenized (min 240 ?n) (original_tokens asked) Original o1 else (o1, [])) = (o2, sets1)"
    by fastforce
  obtain lex sets2 where l2: "(if qs = HYBRID \<or> qs = LEXICAL
      then lexical_round en qs tokenized (min 240 ?n) (expansion_tokens asked (bm25_terms plan)) Lexical_Expansion [] else ([], [])) = (lex, sets2)"
    by fastforce
  have "scores_of {0..<?n} o2"
    using l1 d(1) lexical_round_scores [of tokenized o1 en, folded len, OF d(1), of qs "min 240 ?n" "original_tokens asked" Original] by (auto split: if_splits)
  moreover have "scores_of {0..<?n} lex"
    using l2 lexical_round_scores [of tokenized "[]" en, folded len, OF scores_of_Nil, of qs "min 240 ?n" "expansion_tokens asked (bm25_terms plan)" Lexical_Expansion]
    by (auto split: if_splits)
  ultimately have fused: "scores_of {0..<?n} (fuse ?ops o2 sem lex)" using d(2) by (intro scores_of_fuse)
  define ranked where "ranked = map (\<lambda>i. (i, score_at ?ops (fuse ?ops o2 sem lex) i))
      (rank_by (score_at ?ops (fuse ?ops o2 sem lex)) (map fst (fuse ?ops o2 sem lex)))"
  have rk: "distinct (map fst ranked)" "fst ` set ranked \<subseteq> {0..<?n}"
    using fused by (auto simp: ranked_def scores_of_def keys_def comp_def)
  define selected where "selected = diversify_by_page (chunk_page (en_text_of en) chunks) MAX_CHUNKS_PER_PAGE (min wanted ?n) ranked"
  have pos: "0 < min wanted ?n" using assms(2,3) by simp
  have sel: "mset selected \<subseteq># mset ranked" "length selected \<le> min wanted ?n"
    using diversify_spec [of "chunk_page (en_text_of en) chunks" MAX_CHUNKS_PER_PAGE "min wanted ?n" "[]" "[]" "\<lambda>_. 0" ranked ranked] pos
    by (simp_all add: selected_def diversify_by_page_def diversifying_def del: min.bounded_iff)
  have "mset (map fst selected) \<subseteq># mset (map fst ranked)" using image_mset_subseteq_mono [OF sel(1), of fst] by simp
  then have idx: "distinct (map fst selected)" "set (map fst selected) \<subseteq> {0..<?n}"
    using rk distinct_sub_mset set_mset_mono by (metis, metis set_map set_mset_mset subset_trans)
  have hits: "\<exists>f g. hits = map (\<lambda>(k, (i, score)). \<lparr>hit_index = i, hit_source = k, hit_chunk = chunks ! i, hit_score = score,
                        hit_dense = f i, hit_bm25 = g i\<rparr>) (enumerate 1 selected)"
    using assms(1) dense l1 l2
    by (auto simp: retrieve_def Let_def and_then_Inr tokenized_def [symmetric] ranked_def selected_def)
  then obtain f g where hits: "hits = map (\<lambda>(k, (i, score)). \<lparr>hit_index = i, hit_source = k, hit_chunk = chunks ! i, hit_score = score,
                        hit_dense = f i, hit_bm25 = g i\<rparr>) (enumerate 1 selected)" by blast
  have index: "map hit_index hits = map fst selected"
    by (rule nth_equalityI) (auto simp: hits nth_enumerate_eq split_beta)
  have "map hit_source hits = [1..<Suc (length hits)]"
    by (rule nth_equalityI) (auto simp: hits nth_enumerate_eq split_beta simp del: upt_Suc)
  moreover have "\<forall>h\<in>set hits. hit_chunk h = chunks ! hit_index h" by (auto simp: hits)
  moreover have "hit_index h < ?n" if "h \<in> set hits" for h
  proof -
    have "hit_index h \<in> set (map fst selected)" using that unfolding index [symmetric] by simp
    then show ?thesis using idx(2) by auto
  qed
  moreover have "length hits \<le> min wanted ?n" using sel(2) by (simp add: hits)
  moreover have "distinct (map hit_index hits)" using idx(1) unfolding index .
  ultimately show ?thesis by blast
qed

section \<open>What an answer may cite\<close>

lemma map_err_Inr: "map_err f xs = Inr ys \<Longrightarrow> list_all2 (\<lambda>x y. f x = Inr y) xs ys"
  by (induction xs arbitrary: ys) (auto split: sum.splits)

lemma gather_allowed:
  "gather en allowed d as = Inr (chunks, vectors) \<Longrightarrow> c \<in> set chunks \<Longrightarrow>
     str_or_empty (en_text_of en) (map_of c (lit ''notebook_id'')) \<in> set allowed"
proof (induction as arbitrary: d chunks vectors)
  case (Cons a as)
  from Cons.prems(1) obtain cs vs d' where rest: "gather en allowed d' as = Inr (cs, vs)" "chunks = la_chunks a @ cs"
    and here: "\<forall>c\<in>set (la_chunks a). str_or_empty (en_text_of en) (map_of c (lit ''notebook_id'')) \<in> set allowed"
    by (auto simp: and_then_Inr Let_def split: if_splits)
  from Cons.IH [OF rest(1)] here Cons.prems(2) rest(2) show ?case by auto
qed simp

lemma citation_of_Inr:
  assumes "citation_of text_of used (position, h) = Inr ct"
  shows "ct_source_idx ct = hit_source h \<and> (ct_used ct \<longleftrightarrow> position \<le> used)
    \<and> (\<exists>nb. map_of (hit_chunk h) (lit ''notebook_id'') = Some nb \<and> ct_notebook ct = py_str text_of nb)"
  using assms by (auto simp: citation_of_def Let_def and_then_Inr)

lemma notebook_allowed:
  assumes "map_of c (lit ''notebook_id'') = Some nb" "str_or_empty text_of (map_of c (lit ''notebook_id'')) \<in> A" "[] \<notin> A"
  shows "py_str text_of nb \<in> A"
  using assms by (auto simp: str_or_empty_def split: if_splits)

lemma sort_remdups_Nil [simp]: "sort (remdups xs) = [] \<longleftrightarrow> xs = []"
  by (metis remdups_eq_nil_iff set_empty set_sort)

lemma validated_answer_Inr:
  "validated_answer raw ids = Inr answer \<Longrightarrow>
     set (citation_numbers (find_all citation_at answer)) \<subseteq> set ids
     \<and> (citation_numbers (find_all citation_at answer) \<noteq> [] \<or> disclaims answer)"
  by (auto simp: validated_answer_def check_citations_def Let_def filter_empty_conv)

text \<open>The hits shown to the model are the first ones, numbered from one.\<close>

lemma answer_query_spec:
  assumes "answer_query en asked model_id max_used plan hits notify s = (Inr result, s')"
    and "map hit_source hits = [1..<Suc (length hits)]" "length hits \<le> k"
    and "\<forall>h\<in>set hits. str_or_empty (en_text_of en) (map_of (hit_chunk h) (lit ''notebook_id'')) \<in> A" "[] \<notin> A"
  shows "ct_notebook ` set (qr_citations result) \<subseteq> A \<and> length (qr_citations result) \<le> k
    \<and> (\<forall>n\<in>set (citation_numbers (find_all citation_at (qr_answer result))).
         n \<le> max_used \<and> (\<exists>ct\<in>set (qr_citations result). ct_source_idx ct = n \<and> ct_used ct))
    \<and> (citation_numbers (find_all citation_at (qr_answer result)) \<noteq> [] \<or> disclaims (qr_answer result))"
proof -
  let ?used = "length (take max_used hits)"
  from assms(1) obtain raw timings citations where
    answer: "validated_answer raw (map hit_source (take max_used hits)) = Inr (qr_answer result)"
    and cites: "map_err (citation_of (en_text_of en) ?used) (enumerate 1 hits) = Inr citations" "qr_citations result = citations"
    unfolding answer_query_def by (auto simp: Let_def and_then_Inr split: prod.splits sum.splits)
  note pairs = map_err_Inr [OF cites(1)]
  have len: "length citations = length hits" using list_all2_lengthD [OF pairs] by simp
  have nth: "citation_of (en_text_of en) ?used (Suc i, hits ! i) = Inr (citations ! i)" if "i < length hits" for i
    using list_all2_nthD2 [OF pairs, of i] that len by (simp add: nth_enumerate_eq)
  have src: "hit_source (hits ! i) = Suc i" if "i < length hits" for i
    using arg_cong [OF assms(2), of "\<lambda>xs. xs ! i"] that by (simp del: upt_Suc)
  have "ct_notebook ct \<in> A" if ct: "ct \<in> set citations" for ct
  proof -
    from ct len obtain i where i: "i < length hits" "ct = citations ! i" by (auto simp: in_set_conv_nth)
    from citation_of_Inr [OF nth [OF i(1)]] i obtain nb where
      "map_of (hit_chunk (hits ! i)) (lit ''notebook_id'') = Some nb" "ct_notebook ct = py_str (en_text_of en) nb" by auto
    moreover have "hits ! i \<in> set hits" using i(1) by simp
    ultimately show ?thesis using notebook_allowed [of "hit_chunk (hits ! i)" nb "en_text_of en" A] assms(4,5) by metis
  qed
  moreover have "n \<le> max_used \<and> (\<exists>ct\<in>set citations. ct_source_idx ct = n \<and> ct_used ct)"
    if "n \<in> set (citation_numbers (find_all citation_at (qr_answer result)))" for n
  proof -
    have "n \<in> set (map hit_source (take max_used hits))" using validated_answer_Inr [OF answer] that by auto
    then obtain i where i: "i < ?used" "n = hit_source (hits ! i)" by (auto simp: in_set_conv_nth)
    then have "n = Suc i" using src by simp
    moreover have "ct_source_idx (citations ! i) = n \<and> ct_used (citations ! i)"
      using citation_of_Inr [OF nth, of i] i \<open>n = Suc i\<close> by simp
    ultimately show ?thesis using i(1) len by (intro conjI bexI [of _ "citations ! i"]) auto
  qed
  ultimately show ?thesis using validated_answer_Inr [OF answer] cites(2) len assms(3) by auto
qed

text \<open>
  C37: answers are confined. A successful query cites only pages of the requested notebooks and at most
  \<open>retrievalTopK\<close> of them; every number its answer cites is one of the sources the model was shown,
  at most \<open>maxSources\<close> of them, and an answer that cites nothing says that there is no information.
\<close>

theorem query_confined:
  assumes "query_artifacts en as asked contextual model_id qs max_used top_k notify s = (Inr result, s')"
    and "\<forall>a\<in>set as. notebook_id (la_scope a) \<noteq> []"
  shows "ct_notebook ` set (qr_citations result) \<subseteq> (\<lambda>a. notebook_id (la_scope a)) ` set as
    \<and> length (qr_citations result) \<le> nat top_k
    \<and> (\<forall>n\<in>set (citation_numbers (find_all citation_at (qr_answer result))).
         n \<le> nat max_used \<and> (\<exists>ct\<in>set (qr_citations result). ct_source_idx ct = n \<and> ct_used ct))
    \<and> (citation_numbers (find_all citation_at (qr_answer result)) \<noteq> [] \<or> disclaims (qr_answer result))"
proof -
  let ?A = "(\<lambda>a. notebook_id (la_scope a)) ` set as"
  have ne: "[] \<notin> ?A" using assms(2) by auto
  from assms(1) obtain chunks vectors plan s1 where g: "gather en (map (notebook_id \<circ> la_scope) as) None as = Inr (chunks, vectors)"
    and opts: "1 \<le> top_k"
    and rest: "(if chunks = [] then answer_query en asked model_id (nat max_used) plan [] notify s1
       else (case retrieve en chunks vectors asked plan qs (nat top_k) of Inl e \<Rightarrow> (Inl e, s1)
         | Inr hits \<Rightarrow> answer_query en asked model_id (nat max_used) plan hits notify s1)) = (Inr result, s')"
    unfolding query_artifacts_def by (auto simp: and_then_Inr and_then_Inl demand_Inl split: sum.splits prod.splits)
  have allowed: "str_or_empty (en_text_of en) (map_of c (lit ''notebook_id'')) \<in> ?A" if "c \<in> set chunks" for c
    using gather_allowed [OF g that] by auto
  show ?thesis
  proof (cases "chunks = []")
    case True
    then show ?thesis using answer_query_spec [of en asked model_id "nat max_used" plan "[]" notify s1 result s' "nat top_k" ?A] rest ne
      by simp
  next
    case False
    then obtain hits where hits: "retrieve en chunks vectors asked plan qs (nat top_k) = Inr hits"
      and run: "answer_query en asked model_id (nat max_used) plan hits notify s1 = (Inr result, s')"
      using rest by (auto split: sum.splits)
    note h = retrieve_hits [OF hits _ False]
    have pos: "0 < nat top_k" using opts by simp
    have "length hits \<le> nat top_k" using h [OF pos] by simp
    moreover have "\<forall>x\<in>set hits. str_or_empty (en_text_of en) (map_of (hit_chunk x) (lit ''notebook_id'')) \<in> ?A"
      using h [OF pos] allowed by simp
    ultimately show ?thesis using answer_query_spec [OF run _ _ _ ne] h [OF pos] by blast
  qed
qed

definition ex_query_scope :: notebook_scope where
  "ex_query_scope = \<lparr>notebook_id = lit ''nb'', content_revision = lit ''r1'', index_schema_version = lit ''v1''\<rparr>"

text \<open>An engine for the witnesses: arrays are row counts, scores integers, the answer is fixed.\<close>

definition ex_engine :: "(nat, int, unit) engine" where
  "ex_engine =
     \<lparr>en_scores = \<lparr>sc_zero = 0, sc_add = (+), sc_rrf = (\<lambda>e rank. 1000 - int rank), sc_of_count = int,
        sc_weigh_expansion = (\<lambda>x. x), sc_bonus = (\<lambda>x m. x), sc_bonus_count = (\<lambda>n m. int n)\<rparr>,
      en_numpy = \<lparr>nd_shape = (\<lambda>v. [v, 3]), nd_finite = (\<lambda>v. True), nd_unit_rows = (\<lambda>v. v), nd_bytes = (\<lambda>v. v), nd_saved = (\<lambda>v. v)\<rparr>,
      en_embed_query = (\<lambda>t. Inr ()), en_query_ok = (\<lambda>vs q. True), en_dense = (\<lambda>vs q. [7]),
      en_bm25 = (\<lambda>chunks tokens. [5]), en_planner = None,
      en_generate = (\<lambda>q hits m k. Inr (Answer (lit ''Noted [1].''))),
      en_casefold = (\<lambda>t. t), en_text_of = (\<lambda>j. [])\<rparr>"

definition ex_query_chunk :: chunk where
  "ex_query_chunk = page_chunk ex_query_scope
     \<lparr>page_id = lit ''p1'', title = lit ''T'', page_text = lit ''cell text'', page_status = None, page_created_at = None,
      page_updated_at = None, tags = [], attachments = [], source_url = lit ''/p1''\<rparr> 0 (lit ''cell text'')"

definition ex_loaded :: "nat loaded_index" where
  "ex_loaded = \<lparr>la_scope = ex_query_scope, la_artifact = lit ''a'', la_chunks = [ex_query_chunk], la_vectors = 1\<rparr>"

definition ex_answer :: "(exn + int query_result) \<times> unit" where
  "ex_answer = query_artifacts ex_engine [ex_loaded] (lit ''cell'') (lit ''cell'') (lit ''m'') HYBRID 4 8 (\<lambda>d s. (Inr (), s)) ()"

lemma ex_answer_ok: "is_ok (fst ex_answer)"
  by code_simp

theorem query_confined_witness:
  "\<exists>result. fst ex_answer = Inr result \<and> ct_notebook ` set (qr_citations result) \<subseteq> {lit ''nb''}"
proof -
  obtain result where "fst ex_answer = Inr result" using ex_answer_ok by (auto simp: is_ok_iff)
  then have run: "ex_answer = (Inr result, snd ex_answer)" by (metis prod.collapse)
  have "\<forall>a\<in>set [ex_loaded]. notebook_id (la_scope a) \<noteq> []" by (simp add: ex_loaded_def ex_query_scope_def)
  from query_confined [OF run [unfolded ex_answer_def] this]
  have "ct_notebook ` set (qr_citations result) \<subseteq> {lit ''nb''}" by (simp add: ex_loaded_def ex_query_scope_def)
  then show ?thesis using \<open>fst ex_answer = Inr result\<close> by blast
qed

text \<open>
  A long word defeats a query. When one of the first 32 different words of the question is longer
  than 128 characters, the query fails with a \<open>ValueError\<close>, whatever the indexes hold and whichever model
  plans, once its options and indexes pass: the fallback plan is built first and cannot be.
\<close>

theorem long_word_defeats_query:
  assumes "1 \<le> max_used" "max_used \<le> 100" "1 \<le> top_k" "top_k \<le> 32"
    and "gather en (map (notebook_id \<circ> la_scope) as) None as = Inr gathered"
    and "t \<in> set (first_distinct 32 [] (tokenize asked))" "128 < length t"
  shows "query_artifacts en as asked contextual model_id qs max_used top_k notify s = (Inl Value_Error, s)"
proof -
  have "\<not> bm25_term_ok (py_strip t)"
  proof -
    have "list_all word_char t" using assms(6) first_distinct_spec [of 32 "[]" "tokenize asked"] tokenize_words by blast
    then show ?thesis using assms(7) by (simp add: strip_word bm25_term_ok_def)
  qed
  then have "validate_bm25_terms c (first_distinct 32 [] (tokenize asked)) = None" for c
    using assms(6) by (auto simp: validate_bm25_terms_def list_all_iff)
  then have "fallback_retrieval_plan c asked q = None" for c q
    by (simp add: fallback_retrieval_plan_def make_plan_def)
  then have "query_plan en asked contextual model_id use = Inl Value_Error" for use by (simp add: query_plan_def)
  then show ?thesis using assms(1-5) by (cases gathered) (simp add: query_artifacts_def)
qed

theorem long_word_defeats_query_witness:
  "fst (query_artifacts ex_engine [] (lit ''map '' @ replicate 129 97) [] (lit ''m'') HYBRID 4 8 (\<lambda>d s. (Inr (), s)) ()) = Inl Value_Error"
proof -
  have "replicate 129 97 \<in> set (first_distinct 32 [] (tokenize (lit ''map '' @ replicate 129 97)))" by code_simp
  then have "query_artifacts ex_engine [] (lit ''map '' @ replicate 129 97) [] (lit ''m'') HYBRID 4 8 (\<lambda>d s. (Inr (), s)) ()
      = (Inl Value_Error, ())"
    by (intro long_word_defeats_query [where gathered = "([], [])" and t = "replicate 129 97"]) simp_all
  then show ?thesis by simp
qed

end
