(* ===== verification/Repo_Props.thy ===== *)
theory Repo_Props
  imports Repo_Env Query_Props
begin

text \<open>
  The properties of the worker's runner with its index repository and query engine: what a run
  does to the job store, that the queue drains, that rebuilds switch all or nothing, and what a
  query may cite.
\<close>

section \<open>A concrete worker\<close>

text \<open>
  For the witnesses: digests are constant, nothing waits, and the engine is that of the query witnesses.
\<close>

definition ex_hex :: "bytes \<Rightarrow> str" where "ex_hex b = replicate 64 97"

definition ex_services :: "(nat, int, unit, unit) services" where
  "ex_services =
     \<lparr>sv_name = staging_env, sv_clock = (\<lambda>n. 100 + int n), sv_sha = ex_hex, sv_scope_model = ex_scope_model,
      sv_page_model = ex_page_model, sv_embed = (\<lambda>texts s. ([(1, 2)], Inr (length texts))), sv_nonce = (\<lambda>k i. lit ''n''),
      sv_suffix = (\<lambda>k i. lit ''tmp''), sv_built_at = (\<lambda>k i. 9000000), sv_engine = ex_engine,
      sv_dump = (\<lambda>r. JObj []), sv_control = (\<lambda>a i operation m. (Inr \<lparr>cr_state = lit ''stopped'', cr_progress = None\<rparr>, m)),
      sv_ready = (\<lambda>i m. True), sv_wait = (\<lambda>i m. (0, True)), sv_approved = []\<rparr>"

definition ex_worker :: "job_store \<Rightarrow> document_store \<Rightarrow> (nat index_store, unit) worker" where
  "ex_worker jobs docs = \<lparr>w_jobs = jobs, w_docs = docs,
     w_index = \<lparr>candidates = [], artifacts = [], ix_bytes = 0, ix_max = 1000000\<rparr>, w_control = (), w_ticks = 0\<rparr>"

lemma repo_env_simps [simp]:
  "we_name (repo_env sv) = sv_name sv" "we_clock (repo_env sv) = sv_clock sv"
  "we_load (repo_env sv) = load_active (sv_text_of sv) (sv_scope_model sv) (sv_numpy sv)"
  by (simp_all add: repo_env_def)

section \<open>Runs and the job store\<close>

text \<open>A property of the job store that everything the runner does to it keeps.\<close>

definition runner_stable :: "(job_store \<Rightarrow> bool) \<Rightarrow> bool" where
  "runner_stable P \<longleftrightarrow> (\<forall>st. P st \<longrightarrow>
     (\<forall>environment now. P (snd (claim_next_operation environment now st)))
     \<and> (\<forall>i p d now. P (snd (set_progress i p d now st)))
     \<and> (\<forall>i r now. P (snd (succeed i r now st)))
     \<and> (\<forall>i code message retryable now. P (snd (fail i code message retryable now st)))
     \<and> (\<forall>entries environment now. P (activate_indexes entries environment now st)))"

lemma runner_stableD:
  assumes "runner_stable P" "P st"
  shows "P (snd (claim_next_operation environment now st))" "P (snd (set_progress i p d now st))"
    "P (snd (succeed i r now st))" "P (snd (fail i code message retryable now st))"
    "P (activate_indexes entries environment now st)"
  using assms by (auto simp: runner_stable_def)

lemma runner_progress_stable: "runner_stable P \<Longrightarrow> progress_stable i P"
  by (simp add: progress_stable_def runner_stable_def)

lemma record_failure_stable:
  assumes "runner_stable P" "P (w_jobs w)"
  shows "P (w_jobs (snd (record_failure env i e w)))"
proof -
  obtain c m r where f: "failure_of e = (c, m, r)" by (cases "failure_of e")
  obtain x jobs where s: "fail i c m r (we_clock env (w_ticks w)) (w_jobs w) = (x, jobs)"
    by (cases "fail i c m r (we_clock env (w_ticks w)) (w_jobs w)")
  then have "P jobs" using runner_stableD(4) [OF assms] by (metis snd_conv)
  then show ?thesis by (cases x) (simp_all add: record_failure_def f s set_jobs_def)
qed

lemma complete_stable:
  assumes "runner_stable P" "P (w_jobs w)" shows "P (w_jobs (snd (complete env i answer w)))"
proof (cases answer)
  case (Inl e)
  then show ?thesis using record_failure_stable [OF assms] by (simp add: complete_def)
next
  case (Inr result)
  obtain x jobs where s: "succeed i result (we_clock env (w_ticks w)) (w_jobs w) = (x, jobs)"
    by (cases "succeed i result (we_clock env (w_ticks w)) (w_jobs w)")
  then have "P jobs" using runner_stableD(3) [OF assms] by (metis snd_conv)
  then show ?thesis using Inr s record_failure_stable [OF assms(1), of "set_jobs jobs w"]
    by (cases x) (simp_all add: complete_def set_jobs_def)
qed

lemma run_once_stable:
  fixes sv :: "('v, 'x::linorder, 'q, 'm) services"
  assumes "runner_stable P" "P (w_jobs w)"
  shows "P (w_jobs (snd (run_once (repo_env sv) w)))"
proof -
  obtain x jobs where claim: "claim_next_operation (sv_name sv) (sv_clock sv (w_ticks w)) (w_jobs w) = (x, jobs)"
    by (cases "claim_next_operation (sv_name sv) (sv_clock sv (w_ticks w)) (w_jobs w)")
  then have claimed: "P (w_jobs (set_jobs jobs w))"
    using runner_stableD(1) [OF assms] by (simp add: set_jobs_def) (metis snd_conv)
  have run: "P (w_jobs w')" if "execute (repo_env sv) operation (set_jobs jobs w) = (answer, w')" for operation answer w'
    using repo.execute_frame [OF runner_progress_stable [OF assms(1)] claimed that] runner_stableD(5) [OF assms(1)] by metis
  show ?thesis
    using claim claimed complete_stable [OF assms(1) run]
    by (cases x) (auto simp: run_once_def split: option.splits prod.splits)
qed

lemma reachable_stable: "runner_stable (job_reachable sha)"
  by (auto simp: runner_stable_def intro: reach_step job_step.intros)



text \<open>
  C39: the queue drains. In a well-formed store whose handles and live keys are plain, with nothing
  running in the worker's environment, a run that may process as many operations as are queued
  processes exactly those, never raises, and leaves every one of them succeeded or failed and every
  other row untouched.
\<close>

theorem run_until_idle_drains_queue:
  fixes sv :: "('v, 'x::linorder, 'q, 'm) services"
  assumes "store_ok (w_jobs w)" "keys_plain (w_jobs w)" "ids_in (sv_name sv) RUNNING (w_jobs w) = {}"
    and "card (ids_in (sv_name sv) QUEUED (w_jobs w)) \<le> k"
  shows "\<exists>w'. run_until_idle (repo_env sv) k w = (Inr (card (ids_in (sv_name sv) QUEUED (w_jobs w))), w')
    \<and> (\<forall>i\<in>ids_in (sv_name sv) QUEUED (w_jobs w).
         \<exists>r. row_of (w_jobs w') i = Some r \<and> (op_state r = SUCCEEDED \<or> op_state r = FAILED))
    \<and> (\<forall>i. i \<notin> ids_in (sv_name sv) QUEUED (w_jobs w) \<longrightarrow> row_of (w_jobs w') i = row_of (w_jobs w) i)"
  using repo.run_until_idle_drains [of w sv k] assms by auto

theorem run_until_idle_drains_queue_witness:
  "\<exists>w'. run_until_idle (repo_env ex_services) 5 (ex_worker store_queued (empty_documents 5000)) = (Inr 1, w')"
proof -
  let ?w = "ex_worker store_queued (empty_documents 5000)"
  have ids: "ids_in (sv_name ex_services) QUEUED (w_jobs ?w) = set [lit ''op_1'']"
    "ids_in (sv_name ex_services) RUNNING (w_jobs ?w) = set []"
    unfolding ex_worker_def ex_services_def worker.simps services.simps ids_in_rows [OF example_store_ok(1)] by code_simp+
  then have "card (ids_in (sv_name ex_services) QUEUED (w_jobs ?w)) = 1" by simp
  then show ?thesis
    using run_until_idle_drains_queue [of ?w ex_services 5] ids example_store_ok(1) example_keys_plain(1)
    by (auto simp: ex_worker_def)
qed

section \<open>Rebuilds\<close>

text \<open>
  C40: a rebuild switches all of its notebooks or none. If it fails, the table of active indexes is
  as before; if it succeeds, every notebook of the request has an active index at the requested
  revision whose artifact loads. In both cases every artifact that could be loaded still can.
\<close>

theorem rebuild_all_or_nothing:
  fixes sv :: "('v, 'x::linorder, 'q, 'm) services"
  assumes "rebuild (repo_env sv) operation docs r s = (answer, r', s')" "store_ok (rn_jobs s)"
    and "distinct (map (\<lambda>sc. (notebook_id sc, index_schema_version sc)) (so_scope operation))"
    and "\<forall>b. storage_name (sv_sha sv b)"
  shows "(case answer of Inl e \<Rightarrow> active_indexes (rn_jobs s') = active_indexes (rn_jobs s)
     | Inr j \<Rightarrow> \<forall>sc\<in>set (so_scope operation). \<exists>a t x. active_index sc (sv_name sv) (rn_jobs s') = Some (sc, a, t)
         \<and> load_active (sv_text_of sv) (sv_scope_model sv) (sv_numpy sv) sc a r' = Inr x)
   \<and> (\<forall>sc a x. load_active (sv_text_of sv) (sv_scope_model sv) (sv_numpy sv) sc a r = Inr x \<longrightarrow>
        load_active (sv_text_of sv) (sv_scope_model sv) (sv_numpy sv) sc a r' = Inr x)"
proof -
  have "case answer of Inl e \<Rightarrow> active_indexes (rn_jobs s') = active_indexes (rn_jobs s)
     | Inr j \<Rightarrow> \<forall>sc\<in>set (so_scope operation). \<exists>a t x. active_index sc (sv_name sv) (rn_jobs s') = Some (sc, a, t)
         \<and> load_active (sv_text_of sv) (sv_scope_model sv) (sv_numpy sv) sc a r' = Inr x"
  proof (cases answer)
    case (Inl e)
    then show ?thesis using repo.rebuild_failure_keeps [of sv operation docs r s e r' s'] assms(1) by simp
  next
    case (Inr j)
    have "rebuild (repo_env sv) operation docs r s = (Inr j, r', s')" using assms(1) Inr by simp
    from repo.rebuild_success_loads [OF this assms(2,3)] assms(4) show ?thesis by (auto simp: Inr)
  qed
  moreover have "load_active (sv_text_of sv) (sv_scope_model sv) (sv_numpy sv) sc a r' = Inr x"
    if "load_active (sv_text_of sv) (sv_scope_model sv) (sv_numpy sv) sc a r = Inr x" for sc a x
    using repo.rebuild_keeps_loadable [OF assms(1), of sc a x] that by simp
  ultimately show ?thesis by blast
qed

definition ex_docs :: document_store where
  "ex_docs = \<lparr>staging = [], finalized =
     [\<lparr>dir_name = replicate 64 97, dir_plain = True, dir_mtime = 7,
       dir_files = [(lit ''document.json'',
         Json (sort_keys (final_payload ex_scope (lit ''sha256:'' @ replicate 64 97) [ex_page] 1)))]\<rparr>],
     bytes_used = 900, max_bytes = 5000\<rparr>"

definition ex_operation :: "job_operation \<Rightarrow> json \<Rightarrow> stored_operation" where
  "ex_operation kind payload =
     \<lparr>so_operation_id = lit ''op_1'', so_environment = staging_env, so_actor_user_id = lit ''alice'', so_request_id = lit ''r'',
      so_operation = kind, so_scope = [ex_scope], so_payload = payload, so_state = RUNNING, so_progress = 0,
      so_created_at = 10, so_updated_at = 20\<rparr>"

definition ex_rebuilt :: "(exn + json) \<times> nat index_store \<times> run_state" where
  "ex_rebuilt = rebuild (repo_env ex_services) (ex_operation INDEX_REBUILD (JObj [])) ex_docs
     \<lparr>candidates = [], artifacts = [], ix_bytes = 0, ix_max = 1000000\<rparr> \<lparr>rn_jobs = store_running, rn_ticks = 0, rn_last = 0\<rparr>"

lemma ex_rebuilt_ok: "is_ok (fst ex_rebuilt)"
  by code_simp

theorem rebuild_all_or_nothing_witness:
  "\<exists>a t. active_index ex_scope staging_env (rn_jobs (snd (snd ex_rebuilt))) = Some (ex_scope, a, t)"
proof -
  obtain j where "fst ex_rebuilt = Inr j" using ex_rebuilt_ok by (auto simp: is_ok_iff)
  then obtain r' s' where run: "ex_rebuilt = (Inr j, r', s')" by (metis prod.collapse)
  have "storage_name (sv_sha ex_services b)" for b
    by (simp add: ex_services_def ex_hex_def storage_name_def char_class_defs list_all_length)
  moreover have "store_ok (rn_jobs \<lparr>rn_jobs = store_running, rn_ticks = 0, rn_last = 0\<rparr>)"
    using example_store_ok(2) by simp
  ultimately have "\<exists>a t. active_index ex_scope (sv_name ex_services) (rn_jobs s') = Some (ex_scope, a, t)"
    using rebuild_all_or_nothing [OF run [unfolded ex_rebuilt_def]] by (auto simp: ex_operation_def)
  then show ?thesis by (simp add: run ex_services_def)
qed

end
