(* ===== verification/Framing_Props.thy ===== *)
theory Framing_Props
  imports Framing
begin

text \<open>
  What passes the framing checks: exactly the bodies whose declared length is the number of
  bytes received and within the limit. The comparison of digit strings by length and then by
  characters is the comparison of the numbers they denote, for lengths of any size.
\<close>

section \<open>Digit strings as numbers\<close>

definition normal_digits :: "str \<Rightarrow> bool" where
  "normal_digits s \<longleftrightarrow> s \<noteq> [] \<and> list_all is_digit s \<and> (s = [48] \<or> hd s \<noteq> 48)"

lemma foldl_digits_start: "foldl (\<lambda>n d. 10 * n + (d - 48)) a ds = a * 10 ^ length ds + nat_of_digits ds"
proof (induction ds arbitrary: a)
  case (Cons d ds)
  show ?case
    using Cons [of "10 * a + (d - 48)"] Cons [of "d - 48"] by (simp add: nat_of_digits_def algebra_simps)
qed (simp add: nat_of_digits_def)

lemma nat_of_digits_Cons: "nat_of_digits (d # ds) = (d - 48) * 10 ^ length ds + nat_of_digits ds"
  using foldl_digits_start [of "d - 48" ds] by (simp add: nat_of_digits_def)

lemma nat_of_digits_bound: "list_all is_digit ds \<Longrightarrow> nat_of_digits ds < 10 ^ length ds"
proof (induction ds)
  case (Cons d ds)
  then have "d - 48 \<le> 9" "nat_of_digits ds < 10 ^ length ds" by (auto simp: is_digit_def)
  then have "(d - 48) * 10 ^ length ds + nat_of_digits ds < 9 * 10 ^ length ds + 10 ^ length ds"
    by (intro add_le_less_mono mult_le_mono1)
  then show ?case by (simp add: nat_of_digits_Cons)
qed (simp add: nat_of_digits_def)

lemma nat_of_digits_large: "d \<noteq> 48 \<Longrightarrow> is_digit d \<Longrightarrow> 10 ^ length ds \<le> nat_of_digits (d # ds)"
proof -
  assume "d \<noteq> 48" "is_digit d"
  then have "1 \<le> d - 48" by (auto simp: is_digit_def)
  then have "1 * 10 ^ length ds \<le> (d - 48) * 10 ^ length ds" by (rule mult_le_mono1)
  then show ?thesis by (simp add: nat_of_digits_Cons trans_le_add1)
qed

lemma shorter_digits_less:
  assumes "normal_digits s" "normal_digits t" "length s < length t"
  shows "nat_of_digits s < nat_of_digits t"
proof -
  have "s \<noteq> []" using assms(1) by (simp add: normal_digits_def)
  then have "1 < length t" using assms(3) by (cases s) auto
  then obtain d ds where t: "t = d # ds" "d \<noteq> 48" "is_digit d" "length s \<le> length ds"
    using assms by (cases t) (auto simp: normal_digits_def)
  have "nat_of_digits s < 10 ^ length s" using assms(1) by (simp add: normal_digits_def nat_of_digits_bound)
  also have "\<dots> \<le> 10 ^ length ds" using t(4) by (simp add: power_increasing)
  also have "\<dots> \<le> nat_of_digits t" using nat_of_digits_large [OF t(2,3)] t(1) by simp
  finally show ?thesis .
qed

lemma same_length_digits_less:
  "length s = length t \<Longrightarrow> list_all is_digit s \<Longrightarrow> list_all is_digit t \<Longrightarrow>
     s < t \<longleftrightarrow> nat_of_digits s < nat_of_digits t"
proof (induction s t rule: list_induct2)
  case (Cons x xs y ys)
  have bounds: "nat_of_digits xs < 10 ^ length ys" "nat_of_digits ys < 10 ^ length ys"
    using nat_of_digits_bound [of xs] nat_of_digits_bound [of ys] Cons by auto
  have less: "nat_of_digits (x # xs) < nat_of_digits (y # ys)"
    if "x < y" "nat_of_digits xs < 10 ^ length ys" "length xs = length ys" "48 \<le> x" for x y :: nat and xs ys
  proof -
    have "nat_of_digits (x # xs) < Suc (x - 48) * 10 ^ length ys"
      using that(2,3) by (simp add: nat_of_digits_Cons)
    also have "\<dots> \<le> (y - 48) * 10 ^ length ys" using that(1,4) by (intro mult_le_mono1) simp
    finally show ?thesis by (simp add: nat_of_digits_Cons)
  qed
  have digits: "48 \<le> x" "48 \<le> y" using Cons.prems by (auto simp: is_digit_def)
  consider "x < y" | "y < x" | "x = y" by linarith
  then show ?case
  proof cases
    case 1
    then show ?thesis using less [OF 1 bounds(1) Cons.hyps digits(1)] by (simp only: Cons_less_Cons) simp
  next
    case 2
    have "nat_of_digits (y # ys) < nat_of_digits (x # xs)"
      by (rule less [OF 2 _ Cons.hyps [symmetric] digits(2)]) (use bounds(2) Cons.hyps in simp)
    with 2 show ?thesis by (simp only: Cons_less_Cons) simp
  next
    case 3
    then show ?thesis using Cons.IH Cons.prems Cons.hyps by (simp add: nat_of_digits_Cons)
  qed
qed simp

lemma render_nat_normal: "normal_digits (render_nat n)"
proof (induction n rule: render_nat.induct)
  case (1 n)
  show ?case
  proof (cases "n < 10")
    case True
    then show ?thesis by (simp add: render_nat.simps [of n] normal_digits_def is_digit_def) auto
  next
    case False
    then have "normal_digits (render_nat (n div 10))" "n div 10 \<noteq> 0" using 1 by auto
    moreover from this(2) have "render_nat (n div 10) \<noteq> [48]"
      using nat_of_digits_render_nat [of "n div 10"] by (auto simp: nat_of_digits_def)
    ultimately show ?thesis
      using False by (simp add: render_nat.simps [of n] normal_digits_def is_digit_def)
  qed
qed

lemma normalized_length_normal: "list_all is_digit raw \<Longrightarrow> normal_digits (normalized_length raw)"
  using hd_dropWhile [of "\<lambda>c. c = 48" raw]
  by (auto simp: normalized_length_def Let_def lstrip_by_def normal_digits_def is_digit_def list_all_iff
      dest: set_dropWhileD)

lemma nat_of_digits_normalized: "nat_of_digits (normalized_length raw) = nat_of_digits raw"
proof -
  have dropped: "nat_of_digits (dropWhile (\<lambda>c. c = 48) raw) = nat_of_digits raw"
    by (induction raw) (simp_all add: nat_of_digits_Cons)
  have zero: "nat_of_digits [48] = nat_of_digits []" by (simp add: nat_of_digits_def)
  show ?thesis unfolding normalized_length_def Let_def lstrip_by_def
    using dropped zero by (cases "dropWhile (\<lambda>c. c = 48) raw") simp_all
qed

lemma too_long_iff:
  assumes "list_all is_digit raw"
  shows "too_long (normalized_length raw) maximum \<longleftrightarrow> maximum < nat_of_digits raw"
proof -
  let ?n = "normalized_length raw" and ?m = "render_nat maximum"
  note normal = normalized_length_normal [OF assms] render_nat_normal [of maximum]
  have numbers: "nat_of_digits ?n = nat_of_digits raw" "nat_of_digits ?m = maximum"
    by (simp_all add: nat_of_digits_normalized)
  consider "length ?n < length ?m" | "length ?m < length ?n" | "length ?n = length ?m" by linarith
  then show ?thesis
  proof cases
    case 3
    then show ?thesis
      using same_length_digits_less [of ?m ?n] normal numbers by (simp add: too_long_def Let_def normal_digits_def)
  qed (use shorter_digits_less normal numbers in \<open>fastforce simp: too_long_def Let_def\<close>)+
qed

section \<open>Reading the stream\<close>

lemma read_stream_Body:
  "length so_far \<le> limit \<Longrightarrow> read_stream limit ending so_far cs = Body b \<longleftrightarrow>
     ending = Complete \<and> b = so_far @ concat cs \<and> length b \<le> limit"
  by (induction cs arbitrary: so_far) (auto split: stream_end.splits)

text \<open>The body that was read, if it was.\<close>

definition body_read :: "nat \<Rightarrow> http_request \<Rightarrow> bytes option" where
  "body_read limit r = (case read_stream limit (hr_end r) [] (hr_chunks r) of Body b \<Rightarrow> Some b | _ \<Rightarrow> None)"

lemma body_read_Some:
  "body_read limit r = Some b \<longleftrightarrow> hr_end r = Complete \<and> b = concat (hr_chunks r) \<and> length b \<le> limit"
  using read_stream_Body [of "[]" limit "hr_end r" "hr_chunks r" b]
  by (cases "read_stream limit (hr_end r) [] (hr_chunks r)") (auto simp: body_read_def)

section \<open>The framing checks\<close>

text \<open>A request is framed when its headers declare the length \<open>n\<close> as one decimal number.\<close>

definition declares :: "http_request \<Rightarrow> nat \<Rightarrow> bool" where
  "declares r n \<longleftrightarrow> getlist (hr_headers r) ''transfer-encoding'' = []
     \<and> (\<exists>v. getlist (hr_headers r) ''content-length'' = [v] \<and> 44 \<notin> set v
          \<and> py_strip v \<noteq> [] \<and> list_all is_digit (py_strip v) \<and> nat_of_digits (py_strip v) = n)"

lemma declared_length_Inr:
  "declared_length limit r = Inr n \<longleftrightarrow> n \<le> limit \<and> (declares r n \<or>
     getlist (hr_headers r) ''transfer-encoding'' = [] \<and> getlist (hr_headers r) ''content-length'' = []
     \<and> \<not> has_body (hr_method r) \<and> n = 0)"
proof (cases "getlist (hr_headers r) ''content-length''")
  case (Cons v vs)
  then show ?thesis
    by (auto simp: declared_length_def declares_def Let_def nat_of_digits_normalized too_long_iff)
qed (auto simp: declared_length_def declares_def)

lemma worker_body_Inr:
  "worker_body limit r = Inr body \<longleftrightarrow> declared_length limit r = Inr (length body) \<and> body_read limit r = Some body"
  by (cases "declared_length limit r") (auto simp: worker_body_def body_read_def split: read_result.splits)

lemma read_bounded_json_body_Inr:
  "read_bounded_json_body limit r = Inr body \<longleftrightarrow>
     (declares r (length body) \<and> length body \<le> limit) \<and> body_read limit r = Some body"
proof (cases "getlist (hr_headers r) ''content-length''")
  case (Cons v vs)
  then show ?thesis
    by (auto simp: read_bounded_json_body_def declares_def body_read_def Let_def nat_of_digits_normalized too_long_iff
        split: read_result.splits)
qed (simp add: read_bounded_json_body_def declares_def)

text \<open>
  The worker reads exactly the framed bodies. A body is accepted exactly when the stream
  is complete and the body is what it carried, no longer than the limit, and the headers declare
  its length as one decimal number, or declare none for an empty body of a method without one.
\<close>

theorem worker_body_framed:
  "worker_body limit r = Inr body \<longleftrightarrow> hr_end r = Complete \<and> body = concat (hr_chunks r) \<and> length body \<le> limit
     \<and> (declares r (length body) \<or>
        getlist (hr_headers r) ''transfer-encoding'' = [] \<and> getlist (hr_headers r) ''content-length'' = []
        \<and> \<not> has_body (hr_method r) \<and> body = [])"
  by (auto simp: worker_body_Inr declared_length_Inr body_read_Some)

text \<open>
  Both readers frame alike. The gateway accepts exactly the bodies with a declared
  length that the worker accepts under the same limit.
\<close>

theorem gateway_body_framed:
  "read_bounded_json_body limit r = Inr body \<longleftrightarrow>
     getlist (hr_headers r) ''content-length'' \<noteq> [] \<and> worker_body limit r = Inr body"
  by (auto simp: read_bounded_json_body_Inr worker_body_Inr declared_length_Inr body_read_Some declares_def)

end
