(* ===== verification/Worker_Examples.thy ===== *)
theory Worker_Examples
  imports Worker Framing_Props Repo_Props
begin

text \<open>
  A concrete worker for the witnesses of its properties: the keys, digests and request ID of the
  signing examples, a clock that starts at 1010 seconds and gains 100 with every reading, and requests
  signed under one nonce.
\<close>

definition ex_config :: worker_config where
  "ex_config =
     \<lparr>cf_environment = lit ''staging'', cf_request_secrets = [(lit ''k1'', example_secret)],
      cf_response_key_id = lit ''k1'', cf_response_secret = example_secret, cf_audience = lit ''worker'',
      cf_approved_models = [lit ''m''], cf_model_details = [], cf_index_schema_versions = [lit ''v1''],
      cf_max_clock_skew = 60, cf_max_request_bytes = 1024, cf_max_scope_entries = 4, cf_max_ingest_pages = 10,
      cf_max_active_operations = 8, cf_executor_poll = 1, cf_model_start_timeout = 10, cf_job_retention = 600,
      cf_orphan_grace = 300, cf_document_quota = 5000, cf_index_quota = 5000\<rparr>"

definition ex_app :: "(nat, int, unit, unit) app" where
  "ex_app =
     \<lparr>ap_config = ex_config, ap_services = ex_services\<lparr>sv_clock := \<lambda>n. 1010000000 + 100000000 * int n, sv_sha := example_sha\<rparr>,
      ap_mac = example_mac, ap_parse_index_status = (\<lambda>b. None), ap_parse_ingest_batch = (\<lambda>b. None),
      ap_parse_ingest_finalize = (\<lambda>b. None), ap_parse_rebuild = (\<lambda>b. None), ap_parse_query = (\<lambda>b. None),
      ap_parse_model_job = (\<lambda>b. None), ap_view_ok = (\<lambda>v. True), ap_unrouted = (\<lambda>r. (404, [])),
      ap_dump = (\<lambda>x. lit ''{}''), ap_headers = (\<lambda>x. []), ap_new_request_id = (\<lambda>n. example_id),
      ap_new_handles = (\<lambda>n. (lit ''op'', lit ''job'')), ap_timestamp = (\<lambda>t. lit ''t''),
      ap_health = (\<lambda>n. \<lparr>hl_jobs = True, hl_documents = True, hl_index = True, hl_execution = True\<rparr>),
      ap_model_status = (\<lambda>i rid m. (Inl Other_Error, m))\<rparr>"

definition ex_signed :: "string \<Rightarrow> string \<Rightarrow> int \<Rightarrow> (str \<times> str) list option" where
  "ex_signed verb path timestamp = sign_request example_sha example_mac example_secret (lit ''k1'') (lit ''staging'')
     (lit ''worker'') example_id (lit verb) (lit path) (QueryBytes []) [] timestamp (lit ''n'')"

definition ex_http :: "string \<Rightarrow> string \<Rightarrow> int \<Rightarrow> (str \<times> str) list \<Rightarrow> http_request" where
  "ex_http verb path timestamp extra = \<lparr>hr_method = lit verb, hr_path = lit path, hr_query = [],
     hr_headers = extra @ the (ex_signed verb path timestamp), hr_chunks = [], hr_end = Complete\<rparr>"

text \<open>A later header wins, so what stands before the signed headers hides none of them; those frame no body.\<close>

lemma header_map_append:
  "header_map (xs @ ys) n = (case header_map ys n of Some v \<Rightarrow> Some v | None \<Rightarrow> header_map xs n)"
  by (auto simp: header_map_def map_add_def split: option.splits)

lemma signed_headers_unframed:
  assumes "sign_request sha mac s key_id environment audience rid verb path query body timestamp nonce = Some headers"
  shows "getlist headers ''transfer-encoding'' = [] \<and> getlist headers ''content-length'' = []"
  using assms by (rule sign_request_Some) (simp add: getlist_def lower_headers)

declare getlist_append [simp]

lemma ex_http_framed:
  assumes "ex_signed verb path timestamp = Some h"
    and "extra = [(lit ''content-length'', lit ''0'')] \<or> extra = [] \<and> \<not> has_body (lit verb)"
  shows "worker_body 1024 (ex_http verb path timestamp extra) = Inr []"
proof -
  have "py_strip (lit ''0'') = lit ''0''" "lit ''0'' = [48]" "lower (lit ''content-length'') = lit ''content-length''" by code_simp+
  then show ?thesis
    using signed_headers_unframed [OF assms(1) [unfolded ex_signed_def]] assms
    by (auto simp: worker_body_Inr declared_length_Inr body_read_Some ex_http_def declares_def getlist_def nat_of_digits_def is_digit_def)
qed

lemma ex_http_authentic:
  assumes "ex_signed verb path timestamp = Some h" "\<bar>now - timestamp\<bar> \<le> 60" "timestamp = 1000 \<or> timestamp = 1200"
    and "ap_config app = ex_config" "sv_sha (ap_services app) = example_sha" "ap_mac app = example_mac"
  shows "authenticate_request (sv_sha (ap_services app)) (ap_mac app) (map_of (cf_request_secrets (ap_config app)))
      (cf_environment (ap_config app)) (cf_audience (ap_config app)) (hr_headers (ex_http verb path timestamp extra))
      (hr_method (ex_http verb path timestamp extra)) (hr_path (ex_http verb path timestamp extra))
      (QueryBytes (hr_query (ex_http verb path timestamp extra))) [] now (cf_max_clock_skew (ap_config app))
    = Inr (example_verified timestamp (lit ''n''))"
proof -
  have "length (render_nat (nat \<bar>timestamp\<bar>)) \<le> 4300" using assms(3) example_numbers by auto
  moreover have "map_of (cf_request_secrets ex_config) (lit ''k1'') = Some example_secret" by (simp add: ex_config_def)
  ultimately show ?thesis
    unfolding example_verified_def
    using signed_request_authenticates_among [OF assms(1) [unfolded ex_signed_def] example_id_canonical _ assms(2) example_mac_hex,
        where h = "extra @ h" and secrets = "map_of (cf_request_secrets ex_config)"]
    by (simp add: assms ex_http_def header_map_append ex_config_def)
qed

lemma ex_signed_exists:
  assumes "request_bytes example_sha (example_verified timestamp (lit ''n'')) (lit verb) (lit path) (QueryBytes []) [] \<noteq> None"
  shows "\<exists>h. ex_signed verb path timestamp = Some h"
proof -
  have "validate_signing_metadata (lit ''k1'') (lit ''staging'') (lit ''worker'') example_id" "safe_token (lit ''n'')"
    "secret_bytes example_secret \<noteq> None" by code_simp+
  then show ?thesis
    using assms unfolding ex_signed_def sign_request_def example_verified_def signature_def
    by (auto simp: Let_def example_id_canonical)
qed

lemma ex_signed_ok:
  "\<exists>h. ex_signed ''GET'' ''/internal/v1/health'' 1000 = Some h" "\<exists>h. ex_signed ''GET'' ''/internal/v1/health'' 1200 = Some h"
  "\<exists>h. ex_signed ''POST'' ''/internal/v1/models/start'' 1000 = Some h" "\<exists>h. ex_signed ''POST'' ''/internal/v1/query'' 1000 = Some h"
  by (rule ex_signed_exists, code_simp)+

text \<open>The application that parses a model job or a query, an empty worker, and one whose index is ready.\<close>

definition ex_model_request :: model_job_request where
  "ex_model_request = \<lparr>request_id = example_id, idempotency_key = lit ''key-00001'', actor_user_id = lit ''u1'', scope = [], model = lit ''m''\<rparr>"

definition ex_query_request :: query_request where
  "ex_query_request = \<lparr>request_id = example_id, idempotency_key = lit ''key-00001'', actor_user_id = lit ''u1'', scope = [ex_scope],
     question = lit ''why'', retrieval_question = None, query_model = lit ''m'', strategy = HYBRID, max_sources = 4, retrieval_top_k = 4\<rparr>"

definition ex_post_app :: "(nat, int, unit, unit) app" where
  "ex_post_app = ex_app\<lparr>ap_parse_model_job := \<lambda>b. Some ex_model_request, ap_parse_query := \<lambda>b. Some ex_query_request\<rparr>"

lemma ex_app_simps [simp]:
  "ap_config ex_app = ex_config" "sv_sha (ap_services ex_app) = example_sha" "ap_mac ex_app = example_mac"
  "ap_config ex_post_app = ex_config" "sv_sha (ap_services ex_post_app) = example_sha" "ap_mac ex_post_app = example_mac"
  "nat (cf_max_request_bytes ex_config) = 1024" "cf_environment ex_config = lit ''staging''" "cf_max_clock_skew ex_config = 60"
  by (simp_all add: ex_app_def ex_post_app_def ex_config_def)

definition ex_world :: "(nat index_store, unit) worker" where
  "ex_world = ex_worker empty_store (empty_documents 10)"

definition ex_ready :: "(nat index_store, unit) worker" where
  "ex_ready = \<lparr>w_jobs = empty_store\<lparr>active_indexes := [\<lparr>ax_env = lit ''staging'', ax_notebook = lit ''nb'', ax_schema = lit ''v1'',
      ax_revision = lit ''r1'', ax_artifact = replicate 64 97, ax_activated = 107\<rparr>]\<rparr>,
    w_docs = ex_docs,
    w_index = \<lparr>candidates = [], artifacts = [candidate_dir (sv_numpy ex_services) (replicate 64 97) (replicate 64 97)
      \<lparr>fd_scope = ex_scope, fd_checksum = lit ''sha256:'' @ replicate 64 97, fd_pages = [ex_page]\<rparr>
      (chunks_for_pages ex_scope [ex_page]) (1::nat) 9000000], ix_bytes = 634, ix_max = 1000000\<rparr>,
    w_control = (), w_ticks = 0\<rparr>"

text \<open>The worker after the first authentic request has claimed its nonce.\<close>

definition ex_claimed :: "(nat index_store, unit) worker \<Rightarrow> (nat index_store, unit) worker" where
  "ex_claimed w = (tick w)\<lparr>w_jobs := (w_jobs w)\<lparr>replay_nonces := [((lit ''staging'', lit ''k1'', lit ''n''), 1060)]\<rparr>\<rparr>"

definition ex_start :: http_request where
  "ex_start = ex_http ''POST'' ''/internal/v1/models/start'' 1000 [(lit ''content-length'', lit ''0'')]"

end
