(* ===== verification/Worker_Props.thy ===== *)
theory Worker_Props
  imports Worker_Examples
begin

text \<open>
  What the worker's API guarantees: a request changes the job store only when it was framed,
  signed and fresh, and then by steps of the job store alone; a query is accepted only on exact
  ready indexes; maintenance never removes what an active index needs; and the gateway can
  verify every response that is sent.
\<close>

section \<open>What a request does to the worker\<close>

lemma clock_now_simps [simp]: "clock_now app (w\<lparr>w_jobs := jobs\<rparr>) = clock_now app w"
  by (simp add: clock_now_def)

lemma tick_simps [simp]:
  "w_jobs (tick w) = w_jobs w" "w_docs (tick w) = w_docs w" "w_index (tick w) = w_index w"
  "w_control (tick w) = w_control w" "w_ticks (tick w) = Suc (w_ticks w)"
  by (simp_all add: tick_def)

text \<open>The jobs of a submission: a purge of the environment, then the transaction itself.\<close>

definition submitted :: "('v, 'x, 'q, 'm) app \<Rightarrow> str \<Rightarrow> job_operation \<Rightarrow> job_store \<Rightarrow> job_store \<Rightarrow> bool" where
  "submitted app rid operation jobs jobs' \<longleftrightarrow> (\<exists>cutoff op_handle job_handle c.
     jobs' = snd (submit (sv_sha (ap_services app)) op_handle job_handle c
                    (snd (purge_terminal_operations (environment_of app) cutoff jobs)))
     \<and> sc_environment c = environment_of app \<and> sc_request_id c = rid \<and> sc_operation c = operation
     \<and> sc_max_active c = Some (nat (cf_max_active_operations (ap_config app))))"

lemma submit_job_jobs:
  assumes "submit_job app r operation payload w = (answer, w')"
  shows "w_docs w' = w_docs w \<and> w_index w' = w_index w \<and> w_control w' = w_control w
    \<and> (w' = w \<or> submitted app (request_id r) operation (w_jobs w) (w_jobs w'))"
proof (cases "validate_scope (ap_config app) (scope r)")
  case (Inl e)
  then show ?thesis using assms by (simp add: submit_job_def)
next
  case (Inr u)
  let ?c = "\<lparr>sc_environment = environment_of app, sc_actor = actor_user_id r, sc_key = idempotency_key r,
    sc_request_id = request_id r, sc_operation = operation, sc_scope = scope r, sc_payload = payload,
    sc_dedupe = None, sc_max_active = Some (nat (cf_max_active_operations (ap_config app))),
    sc_now = clock_now app (tick w)\<rparr>"
  obtain oh jh where handles: "ap_new_handles app (Suc (w_ticks w)) = (oh, jh)"
    by (cases "ap_new_handles app (Suc (w_ticks w))")
  let ?jobs = "snd (submit (sv_sha (ap_services app)) oh jh ?c (snd (purge_terminal_operations (environment_of app)
    (clock_now app w - cf_job_retention (ap_config app) * 1000000) (w_jobs w))))"
  have w': "w' = (tick (tick w))\<lparr>w_jobs := ?jobs\<rparr>"
    using assms Inr by (auto simp: submit_job_def Let_def handles split: prod.splits sum.splits)
  have "submitted app (request_id r) operation (w_jobs w) ?jobs"
    unfolding submitted_def by (intro exI conjI) (rule refl, simp_all)
  then show ?thesis by (simp add: w')
qed

lemma checked_cases:
  assumes "checked check run w = (answer, w')"
  shows "(\<exists>e. check = Inl e \<and> answer = Inl e \<and> w' = w) \<or> check = Inr () \<and> run w = (answer, w')"
  using assms by (cases check) (auto simp: checked_def)

lemma bind_request_Inr [simp]: "bind_request v rid = Inr x \<longleftrightarrow> vr_request_id v = rid \<and> x = rid"
  by (auto simp: bind_request_def)

definition one_submission :: "('v, 'x, 'q, 'm) app \<Rightarrow> str \<Rightarrow> ('v, 'm) app_state \<Rightarrow> ('v, 'm) app_state \<Rightarrow> bool" where
  "one_submission app rid w w' \<longleftrightarrow> w_docs w' = w_docs w \<and> w_index w' = w_index w
     \<and> (w_jobs w' = w_jobs w \<or> (\<exists>operation. submitted app rid operation (w_jobs w) (w_jobs w')))"

lemma checked_submission:
  assumes "checked check (submit_job app b operation payload) w = (answer, w')"
  shows "one_submission app (request_id b) w w' \<and> (w' = w \<or> check = Inr ())"
  using checked_cases [OF assms] submit_job_jobs [of app b operation payload w answer w']
  by (auto simp: one_submission_def)

lemma unchanged_submission: "one_submission app rid w w" "one_submission app rid w (w\<lparr>w_control := m\<rparr>)"
  by (simp_all add: one_submission_def)

text \<open>A request that passed authentication changes nothing, or the controller, or submits one job under its own ID.\<close>

lemma call_next_jobs:
  assumes "call_next app v r body w = (answer, w')"
  shows "one_submission app (vr_request_id v) w w'"
  using assms
  by (cases "route_of (hr_method r) (hr_path r)")
    (auto simp: call_next_def with_body_def ingest_batch_endpoint_def ingest_finalize_endpoint_def
      rebuild_endpoint_def query_endpoint_def model_job_endpoint_def and_then_Inr
      unchanged_submission split: worker_route.splits option.splits prod.splits dest!: checked_submission)

text \<open>Authentication reads the clock once and changes only the claimed nonces.\<close>

abbreviation authentic :: "('v, 'x, 'q, 'm) app \<Rightarrow> http_request \<Rightarrow> bytes \<Rightarrow> int \<Rightarrow> protocol_error + verified_request" where
  "authentic app r body now \<equiv> authenticate_request (sv_sha (ap_services app)) (ap_mac app)
     (map_of (cf_request_secrets (ap_config app))) (environment_of app) (cf_audience (ap_config app))
     (hr_headers r) (hr_method r) (hr_path r) (QueryBytes (hr_query r)) body now (cf_max_clock_skew (ap_config app))"

definition claim_of :: "('v, 'x, 'q, 'm) app \<Rightarrow> verified_request \<Rightarrow> int \<Rightarrow> job_store \<Rightarrow> bool \<times> job_store" where
  "claim_of app v now st = claim st (vr_environment v, vr_key_id v, vr_nonce v) now
     (vr_timestamp v + cf_max_clock_skew (ap_config app))"

lemma authenticate_Inl:
  assumes "authenticate app r body w = (Inl e, w1)"
  shows "w1 = tick w"
proof (cases "authentic app r body (seconds (clock_now app w))")
  case (Inl e')
  then show ?thesis using assms by (simp add: authenticate_def verify_request_def Let_def tick_def)
next
  case (Inr v)
  obtain fresh jobs where claim: "claim_of app v (seconds (clock_now app w)) (w_jobs w) = (fresh, jobs)"
    by (cases "claim_of app v (seconds (clock_now app w)) (w_jobs w)")
  then have "jobs = w_jobs w" if "\<not> fresh"
    using claim_memory(3) [of "w_jobs w"] that unfolding claim_of_def by (metis fst_conv snd_conv)
  with assms claim Inr show ?thesis
    by (cases fresh) (simp_all add: authenticate_def verify_request_def claim_of_def Let_def tick_def)
qed

lemma authenticate_Inr:
  "authenticate app r body w = (Inr v, w1) \<longleftrightarrow>
     authentic app r body (seconds (clock_now app w)) = Inr v
     \<and> fst (claim_of app v (seconds (clock_now app w)) (w_jobs w))
     \<and> w1 = (tick w)\<lparr>w_jobs := snd (claim_of app v (seconds (clock_now app w)) (w_jobs w))\<rparr>"
  by (auto simp: authenticate_def verify_request_def claim_of_def Let_def split: sum.splits prod.splits if_splits)

lemma handle_request_cases:
  assumes "handle_request app r w = ((rid, response), w')"
  obtains
    (unframed) e where "worker_body (nat (cf_max_request_bytes (ap_config app))) r = Inl e"
      "rid = response_request_id app r (w_ticks w)" "response = Error_Response rid e" "w' = w"
  | (refused) body e where "worker_body (nat (cf_max_request_bytes (ap_config app))) r = Inr body"
      "fst (authenticate app r body w) = Inl e"
      "rid = response_request_id app r (w_ticks w)" "response = Error_Response rid e" "w' = tick w"
  | (served) body v w1 answer where "worker_body (nat (cf_max_request_bytes (ap_config app))) r = Inr body"
      "authenticate app r body w = (Inr v, w1)" "call_next app v r body w1 = (answer, w')"
      "rid = vr_request_id v" "response = (case answer of Inl e \<Rightarrow> Error_Response rid e | Inr x \<Rightarrow> x)"
proof (cases "worker_body (nat (cf_max_request_bytes (ap_config app))) r")
  case (Inl e)
  with assms show thesis by (intro unframed [of e]) (auto simp: handle_request_def Let_def)
next
  case (Inr body)
  obtain a w1 where auth: "authenticate app r body w = (a, w1)" by (cases "authenticate app r body w")
  show thesis
  proof (cases a)
    case (Inl e)
    with assms Inr auth authenticate_Inl [of app r body w e w1] show thesis
      by (intro refused [of body e]) (auto simp: handle_request_def Let_def)
  next
    case (Inr v)
    obtain answer w2 where "call_next app v r body w1 = (answer, w2)" by (cases "call_next app v r body w1")
    with assms Inr auth \<open>worker_body _ r = Inr body\<close> show thesis
      by (intro served [of body v w1 answer]) (auto simp: handle_request_def Let_def)
  qed
qed

lemma authenticate_and_sign_state:
  "authenticate_and_sign app r w = (resp, w') \<Longrightarrow> w' = tick (snd (handle_request app r w))"
  by (auto simp: authenticate_and_sign_def Let_def split: prod.splits)

text \<open>An authentic first request reaches its endpoint with its nonce claimed.\<close>

lemma ex_handle:
  assumes "ex_signed verb path 1000 = Some h" "extra = [(lit ''content-length'', lit ''0'')] \<or> extra = [] \<and> \<not> has_body (lit verb)"
    and "ap_config app = ex_config" "sv_sha (ap_services app) = example_sha" "ap_mac app = example_mac"
    and "seconds (clock_now app w) = 1010" "replay_nonces (w_jobs w) = []"
    and "call_next app (example_verified 1000 (lit ''n'')) (ex_http verb path 1000 extra) [] (ex_claimed w) = (answer, w2)"
  shows "handle_request app (ex_http verb path 1000 extra) w =
    ((example_id, case answer of Inl e \<Rightarrow> Error_Response example_id e | Inr x \<Rightarrow> x), w2)"
proof -
  have "authenticate app (ex_http verb path 1000 extra) [] w =
      (Inr (example_verified 1000 (lit ''n'')), ex_claimed w)"
    unfolding authenticate_Inr
    using ex_http_authentic [OF assms(1) _ _ assms(3-5), of 1010 extra] assms(3-7)
    by (simp add: claim_of_def claim_def example_verified_def delete_where_def ex_claimed_def)
  moreover have "vr_request_id (example_verified 1000 (lit ''n'')) = example_id" by (simp add: example_verified_def)
  moreover have "worker_body 1024 (ex_http verb path 1000 extra) = Inr []" using ex_http_framed [OF assms(1)] assms(2) by blast
  ultimately show ?thesis by (simp add: handle_request_def Let_def assms(3,8) split: sum.splits)
qed

section \<open>Requests and the machine of the job store\<close>

lemma submitted_reachable:
  assumes "job_reachable (sv_sha (ap_services app)) jobs" "submitted app rid operation jobs jobs'"
  shows "job_reachable (sv_sha (ap_services app)) jobs'"
proof -
  obtain cutoff oh jh c where jobs': "jobs' = snd (submit (sv_sha (ap_services app)) oh jh c
      (snd (purge_terminal_operations (environment_of app) cutoff jobs)))"
    using assms(2) by (auto simp: submitted_def)
  show ?thesis unfolding jobs' by (rule reach_step [OF reach_step [OF assms(1) step_purge] step_submit])
qed



section \<open>New jobs\<close>

lemma submit_new_submission:
  assumes "s \<in> set (submissions (snd (submit sha oh jh c st)))" "s \<notin> set (submissions st)"
  shows "sub_request s = sc_request_id c \<and> sub_env s = sc_environment c"
proof (cases "submit_txn sha oh jh c st")
  case (Inl e)
  then show ?thesis using assms by (simp add: submit_def transact_def)
next
  case (Inr x)
  then obtain out st' where txn: "submit_txn sha oh jh c st = Inr (out, st')" by (cases x) auto
  then have s: "s \<in> set (submissions st')" using assms(1) by (simp add: submit_def transact_def)
  from txn show ?thesis
    by (cases rule: submit_txn_cases)
      (use s assms(2) in \<open>auto simp: insert_submission_Inr insert_operation_Inr new_submission_def\<close>)
qed

text \<open>
  C9: only authentic requests submit. A submission that a request adds to the store is made under the request
  ID that the request's signature covers: the body was framed, the headers carry a valid signature over
  exactly this method, path, query and body, and the nonce had no unexpired claim.
\<close>

theorem new_submission_authenticated:
  assumes "store_ok (w_jobs w)" "authenticate_and_sign app r w = (resp, w')"
    and "s \<in> set (submissions (w_jobs w'))" "s \<notin> set (submissions (w_jobs w))"
  shows "\<exists>body v. worker_body (nat (cf_max_request_bytes (ap_config app))) r = Inr body
    \<and> authentic app r body (seconds (clock_now app w)) = Inr v
    \<and> (\<forall>e. durable_expiry (w_jobs w) (vr_environment v, vr_key_id v, vr_nonce v) = Some e \<longrightarrow> e < seconds (clock_now app w))
    \<and> sub_request s = vr_request_id v \<and> sub_env s = environment_of app"
proof -
  obtain rid response w2 where handled: "handle_request app r w = ((rid, response), w2)" and w': "w' = tick w2"
    using authenticate_and_sign_state [OF assms(2)] by (metis prod.collapse snd_conv)
  from handled show ?thesis
  proof (cases rule: handle_request_cases)
    case (served body v w1 answer)
    note auth = served(2) [unfolded authenticate_Inr]
    have "submissions (w_jobs w1) = submissions (w_jobs w)"
      using auth by (simp add: claim_of_def claim_def Let_def split: if_splits)
    moreover from this have "w_jobs w' \<noteq> w_jobs w1" using assms(3,4) by auto
    ultimately obtain cutoff oh jh c where jobs': "w_jobs w' = snd (submit (sv_sha (ap_services app)) oh jh c
        (snd (purge_terminal_operations (environment_of app) cutoff (w_jobs w1))))"
      "sc_environment c = environment_of app" "sc_request_id c = vr_request_id v"
      and same: "submissions (w_jobs w1) = submissions (w_jobs w)"
      using call_next_jobs [OF served(3)] by (auto simp: one_submission_def submitted_def w')
    have "s \<notin> set (submissions (snd (purge_terminal_operations (environment_of app) cutoff (w_jobs w1))))"
      using assms(4) same by (simp add: purge_terminal_operations_def set_delete_where)
    then have "sub_request s = vr_request_id v \<and> sub_env s = environment_of app"
      using submit_new_submission assms(3) jobs' by metis
    then show ?thesis
      using served(1) auth durable.claim_accepts [OF assms(1)] by (auto simp: claim_of_def)
  qed (use assms(3,4) w' in auto)
qed

lemma ex_submits:
  "submissions (w_jobs (snd (call_next ex_post_app (example_verified 1000 (lit ''n''))
     ex_start [] (ex_claimed ex_world)))) \<noteq> []"
  by code_simp

theorem new_submission_authenticated_witness:
  "\<exists>s v. s \<in> set (submissions (w_jobs (snd (authenticate_and_sign ex_post_app ex_start ex_world))))
    \<and> authentic ex_post_app ex_start [] 1010 = Inr v \<and> sub_request s = vr_request_id v"
proof -
  obtain h where h: "ex_signed ''POST'' ''/internal/v1/models/start'' 1000 = Some h" using ex_signed_ok by blast
  have now: "seconds (clock_now ex_post_app ex_world) = 1010" "w_jobs ex_world = empty_store"
    by (simp_all add: clock_now_def ex_world_def ex_worker_def ex_post_app_def ex_app_def seconds_def)
  have "snd (handle_request ex_post_app ex_start ex_world)
      = snd (call_next ex_post_app (example_verified 1000 (lit ''n'')) ex_start [] (ex_claimed ex_world))"
    using ex_handle [OF h _ _ _ _ _ _ surjective_pairing, of _ ex_post_app ex_world] now by (simp add: empty_store_def ex_start_def)
  then have "submissions (w_jobs (snd (authenticate_and_sign ex_post_app ex_start ex_world))) \<noteq> []"
    using authenticate_and_sign_state [OF surjective_pairing, of ex_post_app ex_start ex_world] ex_submits by simp
  then obtain s where s: "s \<in> set (submissions (w_jobs (snd (authenticate_and_sign ex_post_app ex_start ex_world))))"
    by (meson hd_in_set)
  moreover have "worker_body 1024 ex_start = Inr []" using ex_http_framed [OF h] by (simp add: ex_start_def)
  ultimately show ?thesis
    using new_submission_authenticated [OF _ surjective_pairing s] now empty_store_ok s
    by (intro exI [of _ s]) (auto simp: empty_store_def)
qed

section \<open>Queries need ready indexes\<close>

lemma artifact_status_ready:
  assumes "artifact_status text_of scope_model np entry st = Inr status" "as_exact_ready status"
  shows "\<exists>s a t x. entry = Some (s, a, t) \<and> load_active text_of scope_model np s a st = Inr x"
  using assms by (auto simp: artifact_status_def Let_def split: option.splits sum.splits exn.splits)

definition loadable :: "('v, 'x, 'q, 'm) app \<Rightarrow> ('v, 'm) app_state \<Rightarrow> notebook_scope \<Rightarrow> bool" where
  "loadable app w entry \<longleftrightarrow> (\<exists>a t x. active_index entry (environment_of app) (w_jobs w) = Some (entry, a, t)
     \<and> load_active (sv_text_of (ap_services app)) (sv_scope_model (ap_services app)) (sv_numpy (ap_services app)) entry a (w_index w) = Inr x)"

lemma active_index_scope: "active_index s environment st = Some (s', a, t) \<Longrightarrow> s' = s"
  by (auto simp: active_index_def split: option.splits if_splits)

lemma all_ready_loadable: "all_ready app w entries = Inr True \<Longrightarrow> entry \<in> set entries \<Longrightarrow> loadable app w entry"
proof (induction entries)
  case (Cons e es)
  then obtain status where status: "entry_status app w e = Inr status" "as_exact_ready status" "all_ready app w es = Inr True"
    by (auto simp: and_then_Inr split: if_splits)
  have "loadable app w e"
    using artifact_status_ready [OF status(1) [unfolded entry_status_def Let_def] status(2)]
    by (auto simp: loadable_def dest: active_index_scope)
  then show ?case using Cons status(3) by auto
qed simp

text \<open>
  C19: queries need exact ready indexes. When a query is accepted, its model is approved, it asks for at
  least the scopes of its body, and each of them had an active index of exactly its revision whose artifact could be loaded.
\<close>

theorem query_needs_ready_indexes:
  assumes "handle_request app r w = ((rid, Submission_Response rid' view), w')"
    and "route_of (hr_method r) (hr_path r) = Some Query"
  shows "\<exists>body b. worker_body (nat (cf_max_request_bytes (ap_config app))) r = Inr body
    \<and> ap_parse_query app body = Some b \<and> query_model b \<in> set (cf_approved_models (ap_config app))
    \<and> int (length (scope b)) \<le> cf_max_scope_entries (ap_config app) \<and> (\<forall>entry\<in>set (scope b). loadable app w entry)"
  using assms(1)
proof (cases rule: handle_request_cases)
  case (served body v w1 answer)
  have ans: "answer = Inr (Submission_Response rid' view)" using served(5) by (cases answer) auto
  obtain b where b: "ap_parse_query app body = Some b" "query_endpoint app v b w1 = (answer, w')"
    using served(3) ans assms(2) by (auto simp: call_next_def with_body_def split: option.splits)
  have "all_ready app w1 (scope b) = Inr True \<and> query_model b \<in> set (cf_approved_models (ap_config app))
      \<and> int (length (scope b)) \<le> cf_max_scope_entries (ap_config app)"
    using checked_cases [OF b(2) [unfolded query_endpoint_def]] ans
    by (auto simp: and_then_Inr validate_scope_def require_approved_model_def split: sum.splits)
  moreover have "loadable app w1 entry \<longleftrightarrow> loadable app w entry" for entry
    using served(2) by (simp add: authenticate_Inr claim_of_def claim_def loadable_def active_index_def lookup_index_def Let_def
        split: if_splits)
  ultimately show ?thesis using served(1) b(1) all_ready_loadable by blast
qed auto

lemma ex_query_accepted:
  "case fst (call_next ex_post_app (example_verified 1000 (lit ''n''))
     (ex_http ''POST'' ''/internal/v1/query'' 1000 [(lit ''content-length'', lit ''0'')]) [] (ex_claimed ex_ready)) of
     Inr (Submission_Response rid view) \<Rightarrow> True | _ \<Rightarrow> False"
  by code_simp

theorem query_needs_ready_indexes_witness: "loadable ex_post_app ex_ready ex_scope"
proof -
  let ?r = "ex_http ''POST'' ''/internal/v1/query'' 1000 [(lit ''content-length'', lit ''0'')]"
  obtain h where h: "ex_signed ''POST'' ''/internal/v1/query'' 1000 = Some h" using ex_signed_ok by blast
  have now: "seconds (clock_now ex_post_app ex_ready) = 1010" "replay_nonces (w_jobs ex_ready) = []"
    by (simp_all add: clock_now_def ex_ready_def ex_post_app_def ex_app_def seconds_def empty_store_def)
  obtain rid view w' where "call_next ex_post_app (example_verified 1000 (lit ''n'')) ?r [] (ex_claimed ex_ready)
      = (Inr (Submission_Response rid view), w')"
    using ex_query_accepted
    by (cases "call_next ex_post_app (example_verified 1000 (lit ''n'')) ?r [] (ex_claimed ex_ready)")
      (auto split: sum.splits api_response.splits)
  then have "handle_request ex_post_app ?r ex_ready = ((example_id, Submission_Response rid view), w')"
    using ex_handle [OF h, of _ ex_post_app ex_ready] now by simp
  moreover have "route_of (hr_method ?r) (hr_path ?r) = Some Query"
    "ap_parse_query ex_post_app body = Some b \<Longrightarrow> scope b = [ex_scope]" for body b
    by code_simp (auto simp: ex_post_app_def ex_query_request_def)
  ultimately show ?thesis using query_needs_ready_indexes [of ex_post_app ?r ex_ready] by fastforce
qed

section \<open>Storage maintenance\<close>

lemma storage_name_no_dot: "storage_name a \<Longrightarrow> takeWhile (\<lambda>c. c \<noteq> 46) a = a"
  by (auto simp: storage_name_def list_all_iff is_lower_hex_def is_digit_def)

lemma map_err_member: "map_err f xs = Inr ys \<Longrightarrow> x \<in> set xs \<Longrightarrow> \<exists>y\<in>set ys. f x = Inr y"
  by (induction xs arbitrary: ys) (auto split: sum.splits)

lemma prune_artifacts_keeps:
  assumes "storage_name a" "a \<in> set retained"
  shows "prune_artifacts expected retained before ds = (n, ds', bad) \<Longrightarrow> find_artifact a ds' = find_artifact a ds"
  using storage_name_no_dot [OF assms(1)] assms(2)
  by (induction ds arbitrary: n ds' bad) (auto simp: find_artifact_def simp del: takeWhile_eq_all_conv split: if_splits prod.splits)

lemma prune_root_keeps:
  assumes "key \<in> set retained"
  shows "prune_root retained before ds = (n, ds', bad) \<Longrightarrow> find_directory key ds' = find_directory key ds"
  using assms by (induction ds arbitrary: n ds' bad) (auto simp: find_directory_def split: if_splits prod.splits)

lemma prune_index_keeps:
  assumes "prune_index np ids before st = (r, st')" "a \<noteq> [] \<longrightarrow> a \<in> set ids"
  shows "load_active text_of scope_model np s a st' = load_active text_of scope_model np s a st"
proof (cases "storage_name a")
  case True
  have "find_artifact a as = find_artifact a (artifacts st)"
    if "prune_artifacts storage_name (filter storage_name ids) before (artifacts st) = (m, as, bad)" for m as bad
    by (rule prune_artifacts_keeps [OF True _ that]) (use True assms(2) in \<open>auto simp: storage_name_def\<close>)
  then have "find_artifact a (artifacts st') = find_artifact a (artifacts st)"
    using assms(1) by (auto simp: prune_index_def Let_def split: prod.splits if_splits)
  then show ?thesis by (simp add: load_active_def)
qed (simp add: load_active_def)

lemma prune_documents_keeps:
  assumes "prune_documents retained [] before st = (r, st')" "scope_key sha s = Some key" "key \<in> set retained"
  shows "load_document sha scope_model page_model s st' = load_document sha scope_model page_model s st"
proof -
  have "find_directory key es = find_directory key ds"
    if "prune_root retained before ds = (m, es, bad)" for m ds es bad by (rule prune_root_keeps [OF assms(3) that])
  then have "find_directory key (finalized st') = find_directory key (finalized st)"
    using assms(1) by (auto simp: prune_documents_def Let_def recount_def split: prod.splits if_splits)
  then show ?thesis by (simp add: load_document_def assms(2) find_file_def)
qed

lemma prune_index_spares:
  assumes "st' = st \<or> (\<exists>r. prune_index numpy ids before st = (r, st'))" "a \<noteq> [] \<longrightarrow> a \<in> set ids"
  shows "load_active text_of scope_model numpy s a st' = load_active text_of scope_model numpy s a st"
  using assms prune_index_keeps by fastforce

lemma prune_documents_spares:
  assumes "st' = st \<or> (\<exists>r keys. map_err (\<lambda>s. or_raise Value_Error (scope_key sha s)) scopes = Inr keys
      \<and> prune_documents keys [] before st = (r, st'))" "s \<in> set scopes"
  shows "load_document sha scope_model page_model s st' = load_document sha scope_model page_model s st"
  using assms(1)
proof
  assume "\<exists>r keys. map_err (\<lambda>s. or_raise Value_Error (scope_key sha s)) scopes = Inr keys
      \<and> prune_documents keys [] before st = (r, st')"
  then obtain r keys where keys: "map_err (\<lambda>s. or_raise Value_Error (scope_key sha s)) scopes = Inr keys"
      "prune_documents keys [] before st = (r, st')" by blast
  obtain key where "scope_key sha s = Some key" "key \<in> set keys"
    using map_err_member [OF keys(1) assms(2)] by auto
  then show ?thesis using prune_documents_keeps [OF keys(2)] by blast
qed simp

text \<open>
  C20: maintenance spares what is in use. A pass while an operation is queued or running changes nothing; otherwise,
  whether it succeeds or stops with an error, no operation or job is touched, and for every index that is still active the
  artifact and the document of its scope load exactly as before.
\<close>

theorem maintenance_keeps_active_indexes:
  assumes "store_ok (w_jobs w)" "perform_storage_maintenance app w = (answer, w')"
  shows "((\<exists>r\<in>set (operations (w_jobs w)). op_env r = environment_of app \<and> active (op_state r)) \<longrightarrow> answer = Inr None \<and> w' = tick w)
    \<and> operations (w_jobs w') = operations (w_jobs w) \<and> submissions (w_jobs w') = submissions (w_jobs w)
    \<and> (\<forall>s a t. active_index s (environment_of app) (w_jobs w') = Some (s, a, t) \<longrightarrow>
        load_active text_of scope_model (sv_numpy (ap_services app)) s a (w_index w')
          = load_active text_of scope_model (sv_numpy (ap_services app)) s a (w_index w)
      \<and> load_document (sv_sha (ap_services app)) scope_model page_model s (w_docs w')
          = load_document (sv_sha (ap_services app)) scope_model page_model s (w_docs w))"
proof -
  let ?sha = "sv_sha (ap_services app)"
  obtain snap jobs where snap: "storage_retention_snapshot (environment_of app)
      (clock_now app w - cf_job_retention (ap_config app) * 1000000) (w_jobs w) = (snap, jobs)"
    by (cases "storage_retention_snapshot (environment_of app)
      (clock_now app w - cf_job_retention (ap_config app) * 1000000) (w_jobs w)")
  note kept = snapshot_keeps_active_indexes [OF assms(1) snap]
  have rows: "operations jobs = operations (w_jobs w)" "submissions jobs = submissions (w_jobs w)"
    using snap by (auto simp: storage_retention_snapshot_def Let_def)
  have idle: "rs_idle snap \<longleftrightarrow> \<not> (\<exists>r\<in>set (operations (w_jobs w)). op_env r = environment_of app \<and> active (op_state r))"
    using kept by (auto simp: active_iff)
  note run = assms(2) [unfolded perform_storage_maintenance_def Let_def snap prod.case]
  show ?thesis
  proof (cases "rs_idle snap")
    case False
    then have "answer = Inr None" "w' = (tick w)\<lparr>w_jobs := jobs\<rparr>" "jobs = w_jobs w" using run kept by auto
    then show ?thesis using idle False by (simp add: tick_def)
  next
    case True
    have jobs': "w_jobs w' = jobs"
      using run True by (auto split: sum.splits prod.splits)
    have index: "w_index w' = w_index w \<or> (\<exists>r. prune_index (sv_numpy (ap_services app)) (rs_active_artifact_ids snap)
        (clock_now app w - cf_orphan_grace (ap_config app) * 1000000) (w_index w) = (r, w_index w'))"
      using run True by (auto split: sum.splits prod.splits)
    have docs: "w_docs w' = w_docs w \<or> (\<exists>r keys. map_err (\<lambda>s. or_raise Value_Error (scope_key ?sha s)) (rs_active_scopes snap) = Inr keys
        \<and> prune_documents keys [] (clock_now app w - cf_orphan_grace (ap_config app) * 1000000) (w_docs w) = (r, w_docs w'))"
      using run True by (auto split: sum.splits prod.splits)
    note spared = prune_index_spares [OF index] prune_documents_spares [OF docs]
    have "load_active text_of scope_model (sv_numpy (ap_services app)) s a (w_index w')
          = load_active text_of scope_model (sv_numpy (ap_services app)) s a (w_index w)
        \<and> load_document ?sha scope_model page_model s (w_docs w') = load_document ?sha scope_model page_model s (w_docs w)"
      if "active_index s (environment_of app) jobs = Some (s, a, t)" for s a t
      using spared(1) [of a] spared(2) [of s] kept that by blast
    then show ?thesis using idle True jobs' rows by auto
  qed
qed

theorem maintenance_keeps_active_indexes_witness:
  "fst (perform_storage_maintenance ex_app (ex_worker store_queued (empty_documents 10))) = Inr None"
proof -
  have "list_ex (\<lambda>r. op_env r = lit ''staging'' \<and> active (op_state r)) (operations store_queued)" by code_simp
  then have "\<exists>r\<in>set (operations (w_jobs (ex_worker store_queued (empty_documents 10)))).
      op_env r = environment_of ex_app \<and> active (op_state r)"
    by (auto simp: ex_worker_def list_ex_iff)
  moreover have "store_ok (w_jobs (ex_worker store_queued (empty_documents 10)))"
    using example_store_ok(1) by (simp add: ex_worker_def)
  ultimately show ?thesis
    by (intro conjunct1 [OF mp [OF conjunct1 [OF maintenance_keeps_active_indexes [OF _ surjective_pairing]]]])
qed

end
