(* ===== verification/Worker_Exchange.thy ===== *)
theory Worker_Exchange
  imports Worker_Props
begin

text \<open>
  The worker over time and across the wire: requests and rounds of the runner in sequence, where no
  signed request acts twice; and the response to a request, which the gateway's check accepts for
  the request it sent.
\<close>

section \<open>No signed request acts twice\<close>

datatype worker_event = Request http_request | Round

text \<open>The signed fields of a request that passes framing, authentication and the replay guard.\<close>

definition accepted :: "('v, 'x, 'q, 'm) app \<Rightarrow> http_request \<Rightarrow> ('v, 'm) app_state \<Rightarrow> verified_request option" where
  "accepted app r w = (case worker_body (nat (cf_max_request_bytes (ap_config app))) r of
     Inl e \<Rightarrow> None
   | Inr body \<Rightarrow> (case fst (authenticate app r body w) of Inl e \<Rightarrow> None | Inr v \<Rightarrow> Some v))"

definition worker_step :: "('v, 'x::linorder, 'q, 'm) app \<Rightarrow> worker_event \<Rightarrow> ('v, 'm) app_state \<Rightarrow> ('v, 'm) app_state" where
  "worker_step app ev w = (case ev of
     Request r \<Rightarrow> snd (authenticate_and_sign app r w) | Round \<Rightarrow> snd (run_once (runner_env app) w))"

text \<open>For each event the time at which it begins and what it accepts.\<close>

fun serve ::
  "('v, 'x::linorder, 'q, 'm) app \<Rightarrow> worker_event list \<Rightarrow> ('v, 'm) app_state \<Rightarrow> (int \<times> verified_request option) list" where
  "serve app [] w = []"
| "serve app (ev # evs) w =
     (seconds (clock_now app w), case ev of Request r \<Rightarrow> accepted app r w | Round \<Rightarrow> None)
     # serve app evs (worker_step app ev w)"

lemma length_serve [simp]: "length (serve app evs w) = length evs"
  by (induction evs arbitrary: w) simp_all

text \<open>The well-formed stores in which a nonce is claimed until \<open>e\<close>.\<close>

definition claimed :: "claim_key \<Rightarrow> int \<Rightarrow> job_store \<Rightarrow> bool" where
  "claimed k e st \<longleftrightarrow> store_ok st \<and> durable_expiry st k = Some e"

lemma nonces_transition: "replay_nonces (snd (transition_to i t now st)) = replay_nonces st"
  by (rule transition_to_cases [OF surjective_pairing, of i t now st]) simp_all

lemma nonces_activate: "replay_nonces (activate_indexes entries environment now st) = replay_nonces st"
  by (induction entries environment now st rule: activate_indexes.induct) (simp_all add: activate_index_def Let_def)

lemma nonces_submit: "replay_nonces (snd (submit sha oh jh c st)) = replay_nonces st"
proof (cases "submit_txn sha oh jh c st")
  case (Inr x)
  then obtain out st' where txn: "submit_txn sha oh jh c st = Inr (out, st')" by (cases x) auto
  then have "replay_nonces st' = replay_nonces st"
    by (cases rule: submit_txn_cases) (auto simp: insert_submission_Inr insert_operation_Inr)
  then show ?thesis by (simp add: submit_def transact_def txn)
qed (simp add: submit_def transact_def)

lemma nonces_claim_next: "replay_nonces (snd (claim_next_operation environment now st)) = replay_nonces st"
  by (auto simp: claim_next_operation_def split: option.splits)

lemma nonces_transitions:
  "replay_nonces (snd (set_progress i p d now st)) = replay_nonces st"
  "replay_nonces (snd (succeed i r now st)) = replay_nonces st"
  "replay_nonces (snd (fail i code message retryable now st)) = replay_nonces st"
  by (simp_all add: set_progress_def succeed_def fail_def nonces_transition)

lemma store_ok_runner_stable: "runner_stable store_ok"
  by (auto simp: runner_stable_def intro: store_ok_steps)

lemma claimed_runner_stable: "runner_stable (claimed k e)"
  using store_ok_runner_stable
  by (simp add: runner_stable_def claimed_def durable_expiry_def nonces_transitions nonces_activate nonces_claim_next)

lemma claimed_submitted:
  assumes "claimed k e jobs" "submitted app rid operation jobs jobs'"
  shows "claimed k e jobs'"
proof -
  obtain cutoff oh jh c where "jobs' = snd (submit (sv_sha (ap_services app)) oh jh c
      (snd (purge_terminal_operations (environment_of app) cutoff jobs)))"
    using assms(2) by (auto simp: submitted_def)
  then show ?thesis
    using assms(1) submit_ok purge_ok
    by (auto simp: claimed_def durable_expiry_def nonces_submit) (simp add: purge_terminal_operations_def)
qed

lemma request_claims:
  assumes "store_ok (w_jobs w)" "w' = snd (authenticate_and_sign app r w)"
  shows "store_ok (w_jobs w')
    \<and> (durable_expiry (w_jobs w) k = Some e \<longrightarrow> seconds (clock_now app w) \<le> e \<longrightarrow> durable_expiry (w_jobs w') k = Some e)
    \<and> (\<forall>v. accepted app r w = Some v \<longrightarrow>
        durable_expiry (w_jobs w') (vr_environment v, vr_key_id v, vr_nonce v) = Some (vr_timestamp v + cf_max_clock_skew (ap_config app)))"
proof -
  obtain rid response w2 where handled: "handle_request app r w = ((rid, response), w2)"
    by (cases "handle_request app r w") auto
  then have w': "w' = tick w2" using assms(2) authenticate_and_sign_state [OF surjective_pairing, of app r w] by simp
  from handled show ?thesis
  proof (cases rule: handle_request_cases)
    case (served body v w1 answer)
    let ?now = "seconds (clock_now app w)" and ?k = "(vr_environment v, vr_key_id v, vr_nonce v)"
      and ?e = "vr_timestamp v + cf_max_clock_skew (ap_config app)"
    have auth: "fst (claim (w_jobs w) ?k ?now ?e)" "w_jobs w1 = snd (claim (w_jobs w) ?k ?now ?e)"
      using served(2) by (simp_all add: authenticate_Inr claim_of_def)
    have kept: "claimed k' e' (w_jobs w')" if "claimed k' e' (w_jobs w1)" for k' e'
      using call_next_jobs [OF served(3)] claimed_submitted [OF that] that by (auto simp: one_submission_def w')
    have "claimed ?k ?e (w_jobs w1)"
      using durable.claim_records [OF assms(1) auth(1)] durable.claim_invar [OF assms(1)] auth(2) by (simp add: claimed_def)
    moreover have "claimed k e (w_jobs w1)" if "durable_expiry (w_jobs w) k = Some e" "?now \<le> e"
      using durable.claim_keeps [OF assms(1) that] durable.claim_invar [OF assms(1)] auth(2) by (simp add: claimed_def)
    moreover have "accepted app r w = Some v" by (simp add: accepted_def served(1,2))
    ultimately show ?thesis using kept by (auto simp: claimed_def)
  qed (use assms(1) w' in \<open>auto simp: accepted_def\<close>)
qed

lemma worker_step_claimed:
  assumes "claimed k e (w_jobs w)" "seconds (clock_now app w) \<le> e"
  shows "claimed k e (w_jobs (worker_step app ev w))"
proof (cases ev)
  case (Request r)
  then show ?thesis using request_claims [OF _ refl, of w app r k e] assms by (simp add: worker_step_def claimed_def)
next
  case Round
  then show ?thesis
    unfolding worker_step_def runner_env_def using run_once_stable [OF claimed_runner_stable assms(1)] by simp
qed

lemma serve_refuses:
  assumes "claimed k e (w_jobs w)" "sorted (map fst (serve app evs w))" "j < length evs"
    and "serve app evs w ! j = (t, Some v)" "(vr_environment v, vr_key_id v, vr_nonce v) = k"
  shows "e < t"
  using assms
proof (induction evs arbitrary: w j)
  case (Cons ev evs)
  show ?case
  proof (cases j)
    case 0
    then obtain r where r: "ev = Request r" "accepted app r w = Some v" "t = seconds (clock_now app w)"
      using Cons.prems(4) by (auto split: worker_event.splits)
    then obtain body where "fst (authenticate app r body w) = Inr v"
      by (auto simp: accepted_def split: sum.splits)
    then have "fst (claim_of app v t (w_jobs w))"
      using r(3) by (metis authenticate_Inr prod.collapse)
    then show ?thesis
      using durable.claim_accepts [of "w_jobs w"] Cons.prems(1,5) by (auto simp: claim_of_def claimed_def)
  next
    case (Suc i)
    show ?thesis
    proof (cases "seconds (clock_now app w) \<le> e")
      case True
      show ?thesis
        by (rule Cons.IH [OF worker_step_claimed [OF Cons.prems(1) True]])
          (use Cons.prems Suc in auto)
    next
      case False
      have "t \<in> fst ` set (serve app evs (worker_step app ev w))"
        using Cons.prems(3,4) Suc by (metis fst_conv image_eqI length_serve nth_Cons_Suc nth_mem serve.simps(2) Suc_less_eq length_Cons)
      then have "seconds (clock_now app w) \<le> t" using Cons.prems(2) by auto
      with False show ?thesis by simp
    qed
  qed
qed simp

lemma worker_step_ok: "store_ok (w_jobs w) \<Longrightarrow> store_ok (w_jobs (worker_step app ev w))"
proof (cases ev)
  case Round
  moreover assume "store_ok (w_jobs w)"
  ultimately show ?thesis unfolding worker_step_def runner_env_def using run_once_stable [OF store_ok_runner_stable] by simp
qed (simp add: worker_step_def request_claims)

text \<open>
  C1: no signed request acts twice. In any sequence of requests and rounds of the runner over which the clock
  does not run backwards, when two requests with one key and nonce are both accepted, the later one came after
  the first one's window had closed, and carries a later timestamp, so that it was signed anew.
\<close>

theorem signed_request_acts_once:
  assumes "store_ok (w_jobs w)" "sorted (map fst (serve app evs w))" "i < j" "j < length evs"
    and "serve app evs w ! i = (t, Some v)" "serve app evs w ! j = (t', Some v')"
    and "vr_key_id v = vr_key_id v'" "vr_nonce v = vr_nonce v'"
  shows "vr_timestamp v + cf_max_clock_skew (ap_config app) < t' \<and> vr_timestamp v < vr_timestamp v'"
  using assms
proof (induction evs arbitrary: w i j)
  case (Cons ev evs)
  obtain j' where j': "j = Suc j'" using Cons.prems(3) by (cases j) auto
  have in_window: "\<bar>t' - vr_timestamp v'\<bar> \<le> cf_max_clock_skew (ap_config app) \<and> vr_environment v' = environment_of app"
    if "serve app es u ! n = (t', Some v')" "n < length es" for es u n v' t'
    using that
  proof (induction es arbitrary: u n)
    case (Cons e es)
    then show ?case
      by (cases n) (auto simp: accepted_def authenticate_def verify_request_Inr authenticate_request_Inr Let_def
        split: worker_event.splits sum.splits prod.splits)
  qed simp
  show ?case
  proof (cases i)
    case 0
    then obtain r where r: "ev = Request r" "accepted app r w = Some v"
      using Cons.prems(5) by (auto split: worker_event.splits)
    let ?w = "worker_step app ev w"
    have "claimed (vr_environment v, vr_key_id v, vr_nonce v) (vr_timestamp v + cf_max_clock_skew (ap_config app)) (w_jobs ?w)"
      using request_claims [OF Cons.prems(1) refl, of app r] r by (simp add: worker_step_def claimed_def)
    moreover have "vr_environment v = vr_environment v'"
      using in_window [OF Cons.prems(5)] in_window [OF Cons.prems(6)] Cons.prems(3,4) by simp
    ultimately have "vr_timestamp v + cf_max_clock_skew (ap_config app) < t'"
      by (rule_tac serve_refuses [where w = ?w and evs = evs and j = j'])
        (use Cons.prems j' in auto)
    then show ?thesis using in_window [OF Cons.prems(6) Cons.prems(4)] by (auto simp: abs_le_iff)
  next
    case (Suc n)
    show ?thesis
      by (rule Cons.IH [OF worker_step_ok [OF Cons.prems(1)], of app ev n j'])
        (use Cons.prems Suc j' in auto)
  qed
qed simp

text \<open>Two requests under one nonce, each inside its own window.\<close>

abbreviation ex_health :: "int \<Rightarrow> http_request" where
  "ex_health timestamp \<equiv> ex_http ''GET'' ''/internal/v1/health'' timestamp []"

lemma ex_accepts:
  assumes "timestamp = 1000 \<or> timestamp = 1200" "seconds (clock_now ex_app w) = timestamp + 10"
    and "list_all (\<lambda>(k, e). e < timestamp + 10) (replay_nonces (w_jobs w))"
  shows "accepted ex_app (ex_health timestamp) w = Some (example_verified timestamp (lit ''n''))"
proof -
  obtain h where h: "ex_signed ''GET'' ''/internal/v1/health'' timestamp = Some h" using ex_signed_ok assms(1) by blast
  have body: "worker_body 1024 (ex_health timestamp) = Inr []" using ex_http_framed [OF h] by (simp add: has_body_def)
  have "delete_where (\<lambda>(k, e). e < timestamp + 10) (replay_nonces (w_jobs w)) = []"
    using assms(3) by (auto simp: delete_where_def filter_empty_conv list_all_iff)
  then have "authenticate ex_app (ex_health timestamp) [] w = (Inr (example_verified timestamp (lit ''n'')),
      (tick w)\<lparr>w_jobs := snd (claim_of ex_app (example_verified timestamp (lit ''n'')) (timestamp + 10) (w_jobs w))\<rparr>)"
    unfolding authenticate_Inr assms(2)
    using ex_http_authentic [OF h _ assms(1), of "timestamp + 10" ex_app "[]"]
    by (simp add: claim_of_def claim_def Let_def)
  then show ?thesis by (simp add: accepted_def body)
qed

lemma ex_clock: "seconds (clock_now ex_app w) = 1010 + 100 * int (w_ticks w)"
  by (simp add: clock_now_def ex_app_def seconds_def)

lemma ex_world_simps: "w_ticks ex_world = 0" "w_jobs ex_world = empty_store"
  by (simp_all add: ex_world_def ex_worker_def)

lemma ex_health_handled:
  "handle_request ex_app (ex_health 1000) ex_world
     = ((example_id, health ex_app (example_verified 1000 (lit ''n'')) (ex_claimed ex_world)), ex_claimed ex_world)"
proof -
  obtain h where h: "ex_signed ''GET'' ''/internal/v1/health'' 1000 = Some h" using ex_signed_ok by blast
  have "route_of (lit ''GET'') (lit ''/internal/v1/health'') = Some Health" by code_simp
  then have "call_next ex_app v (ex_health 1000) [] w = (Inr (health ex_app v w), w)" for v w
    by (simp add: call_next_def ex_http_def)
  then show ?thesis
    using ex_handle [OF h, of "[]" ex_app ex_world] by (simp add: ex_clock ex_world_simps has_body_def empty_store_def)
qed

lemma ex_serve:
  "serve ex_app [Request (ex_health 1000), Request (ex_health 1200)] ex_world
     = [(1010, Some (example_verified 1000 (lit ''n''))), (1210, Some (example_verified 1200 (lit ''n'')))]"
proof -
  have next_state: "worker_step ex_app (Request (ex_health 1000)) ex_world = tick (ex_claimed ex_world)"
    using authenticate_and_sign_state [OF surjective_pairing, of ex_app "ex_health 1000" ex_world] ex_health_handled
    by (simp add: worker_step_def)
  have ticks: "w_ticks (ex_claimed ex_world) = 1" by (simp add: ex_claimed_def ex_world_simps)
  have "accepted ex_app (ex_health 1000) ex_world = Some (example_verified 1000 (lit ''n''))"
    by (rule ex_accepts) (simp_all add: ex_clock ex_world_simps empty_store_def)
  moreover have "accepted ex_app (ex_health 1200) (tick (ex_claimed ex_world)) = Some (example_verified 1200 (lit ''n''))"
    by (rule ex_accepts) (simp_all add: ex_clock ticks, simp_all add: ex_claimed_def ex_world_simps)
  ultimately show ?thesis by (simp add: ex_clock ex_world_simps ticks next_state)
qed

theorem signed_request_acts_once_witness:
  "vr_timestamp (example_verified 1000 (lit ''n'')) + 60 < 1210"
  using signed_request_acts_once [of ex_world ex_app "[Request (ex_health 1000), Request (ex_health 1200)]" 0 1] empty_store_ok
  unfolding ex_serve by (simp add: ex_world_def ex_worker_def example_verified_def)

section \<open>Responses verify\<close>

lemma header_map_getlist:
  "header_map headers (lit n) = (if getlist headers n = [] then None else Some (last (getlist headers n)))"
proof (induction headers)
  case (Cons x xs)
  have "header_map [x] (lit n) = (if lower (fst x) = lit n then Some (snd x) else None)"
    by (cases x) (simp add: header_map_def)
  then show ?case using Cons header_map_append [of "[x]" xs "lit n"] by (cases x) (auto simp: getlist_def)
qed (simp add: header_map_def getlist_def)

text \<open>Whatever the outcome, the response is signed under the request ID of the request.\<close>

lemma handled_under_request_id:
  assumes "handle_request app r w = ((rid', response), w')"
    and "getlist (hr_headers r) ''x-novo-chat-request-id'' = [h]" "validate_request_id h = Some rid"
  shows "rid' = rid"
proof -
  have own: "response_request_id app r n = rid" for n
    using assms(2,3) by (simp add: response_request_id_def get_header_def)
  from assms(1) show ?thesis
  proof (cases rule: handle_request_cases)
    case (served body v w1 answer)
    have "header_map (hr_headers r) (lower HEADER_REQUEST_ID) = Some h"
      using header_map_getlist [of "hr_headers r" "''x-novo-chat-request-id''"] assms(2) by (simp add: lower_headers)
    then have "validate_request_id h = Some (vr_request_id v)"
      using served(2) by (auto simp: authenticate_Inr authenticate_request_Inr)
    then show ?thesis using served(4) assms(3) by simp
  qed (simp_all add: own)
qed

text \<open>
  C10: what the worker answers, the gateway can verify. Every response, of a refused request too, passes the
  gateway's check for the request ID it sent, the status and the body, as long as the request carried that ID once
  and the clocks agree within the window.
\<close>

theorem worker_response_verifies:
  assumes "authenticate_and_sign app r w = (Some resp, w')"
    and "getlist (hr_headers r) ''x-novo-chat-request-id'' = [h]" "validate_request_id h = Some rid"
    and "secrets (cf_response_key_id (ap_config app)) = Some (cf_response_secret (ap_config app))"
    and "t = seconds (clock_now app (snd (handle_request app r w)))" "\<bar>now - t\<bar> \<le> skew"
    and "\<And>k m. hex_signature (ap_mac app k m)" "length (render_nat (nat \<bar>t\<bar>)) \<le> 4300"
    and "length (render_nat (nat \<bar>hp_status resp\<bar>)) \<le> 4300"
  shows "verify_response (sv_sha (ap_services app)) (ap_mac app) secrets (environment_of app) (cf_audience (ap_config app))
      (hp_headers resp) rid (hp_status resp) (hp_body resp) now skew
    = Inr \<lparr>vs_protocol_version = PROTOCOL_VERSION, vs_audience = cf_audience (ap_config app), vs_environment = environment_of app,
        vs_key_id = cf_response_key_id (ap_config app), vs_timestamp = t, vs_request_id = rid, vs_status_code = hp_status resp\<rparr>"
proof -
  obtain rid' response w2 where handled: "handle_request app r w = ((rid', response), w2)"
    by (cases "handle_request app r w") auto
  then have rid': "rid' = rid" using handled_under_request_id assms(2,3) by blast
  obtain signed_headers where signed: "sign_response (sv_sha (ap_services app)) (ap_mac app) (cf_response_secret (ap_config app))
      (cf_response_key_id (ap_config app)) (environment_of app) rid (hp_status resp) (hp_body resp) (cf_audience (ap_config app)) t
      = Some signed_headers" and "\<exists>plain. hp_headers resp = plain @ signed_headers"
    using assms(1,5) handled rid' by (auto simp: authenticate_and_sign_def Let_def)
  then obtain plain where "hp_headers resp = plain @ signed_headers" by blast
  then have "header_map signed_headers n = Some v \<Longrightarrow> header_map (hp_headers resp) n = Some v" for n v
    by (simp add: header_map_append)
  then show ?thesis
    by (intro verify_signed_response [where secrets = secrets, OF signed validate_request_id_idem [OF assms(3)] assms(4,6)] assms(7-9))
qed

lemma ex_response_signed:
  "sign_response example_sha example_mac example_secret (lit ''k1'') (lit ''staging'') example_id 200 (lit ''{}'') (lit ''worker'') 1110 \<noteq> None"
  by code_simp

lemma ex_numbers: "length (render_nat (nat \<bar>1110\<bar>)) \<le> 4300"
  by code_simp

theorem worker_response_verifies_witness:
  "\<exists>resp w'. authenticate_and_sign ex_app (ex_health 1000) ex_world = (Some resp, w') \<and> hp_status resp = 200
    \<and> is_ok (verify_response example_sha example_mac (map_of [(lit ''k1'', example_secret)]) (lit ''staging'') (lit ''worker'')
        (hp_headers resp) example_id 200 (hp_body resp) 1100 60)"
proof -
  obtain h where h: "ex_signed ''GET'' ''/internal/v1/health'' 1000 = Some h" using ex_signed_ok by blast
  have one_id: "getlist (hr_headers (ex_health 1000)) ''x-novo-chat-request-id'' = [example_id]"
    unfolding ex_http_def h using h [unfolded ex_signed_def]
    by (rule sign_request_Some) (simp add: getlist_def lower_headers example_id_canonical)
  have config: "cf_response_secret ex_config = example_secret" "cf_response_key_id ex_config = lit ''k1''" "cf_audience ex_config = lit ''worker''"
    by (simp_all add: ex_config_def)
  have t: "seconds (clock_now ex_app (ex_claimed ex_world)) = 1110" by (simp add: ex_clock ex_claimed_def ex_world_simps)
  obtain resp w' where resp: "authenticate_and_sign ex_app (ex_health 1000) ex_world = (Some resp, w')" "hp_status resp = 200"
    using ex_response_signed
    by (auto simp: authenticate_and_sign_def ex_health_handled Let_def config t health_def ex_app_def [THEN arg_cong, of ap_dump])
  show ?thesis
    using worker_response_verifies [OF resp(1) one_id example_id_canonical, of "map_of [(lit ''k1'', example_secret)]" 1110 1100 60]
      example_mac_hex ex_numbers example_status resp
    by (auto simp: config t ex_health_handled)
qed

end
