(* ===== verification/Spec2Isabelle.thy ===== *)
theory Spec2Isabelle
  imports Gateway_Pages Model_Exclusive Runtime_Props Query_Props Repo_Props Signing Jobs_Props Worker_Exchange
begin

text \<open>
  \<^bold>\<open>Novo Chat: a formal model of the gateway, the worker and the model controller\<close>

  Novo Chat answers questions about the notebooks of a Novo installation. A \<^emph>\<open>gateway\<close> beside Novo takes a
  user's command, asks Novo which notebooks that user may see, exports their pages, and talks over a signed
  protocol to a \<^emph>\<open>worker\<close> on a compute host. The worker queues operations in a durable job store, keeps
  documents and indexes, answers queries with the help of model services, and starts and stops models through
  a small privileged \<^emph>\<open>model controller\<close>. The model follows the Python files one by one; each theory names
  the file it translates, and its definitions stand in the order of the code.

  \<^bold>\<open>Shared vocabulary.\<close> \<open>Prelude\<close> has Python strings as lists of code points, exceptions as the left side of a
  sum (\<open>and_then\<close>, \<open>demand\<close>, \<open>or_raise\<close> are the sequencing, the guard and the \<open>None\<close> check of the code), the
  exception type \<open>exn\<close> and SQL tables as lists of rows with \<open>INSERT\<close>, \<open>UPDATE ... WHERE\<close>, \<open>DELETE\<close> and
  \<open>UNIQUE\<close>. \<open>Json\<close>, \<open>PyText\<close> and \<open>Url\<close> are the pieces of the standard library the code rests on: canonical JSON over
  UTF-8 with its unambiguity, \<open>int\<close>, \<open>uuid.UUID\<close>, the percent coding. \<open>Json_Loads\<close> is CPython's \<open>json.loads\<close>
  and \<open>json.dumps\<close> with floats as IEEE doubles, and \<open>Json_Round_Trip\<close> shows that the one reads the other back.

  \<^bold>\<open>Protocol\<close> (\<open>novo_chat/protocol.py\<close>). \<open>Protocol\<close>: documents, validators, page checksum. \<open>Results\<close>: retrieval plans,
  progress, results. \<open>Replay\<close>: the replay guard as a locale with the in-memory guard as its instance; \<open>Jobs_Inv\<close>
  interprets it for the durable guard. \<open>Signing\<close>: requests and responses; what is signed verifies, what verifies
  was signed field by field unless a digest collides. \<open>Framing\<close>, \<open>Framing_Props\<close>: body framing of the two APIs.

  \<^bold>\<open>Worker.\<close> \<open>Jobs\<close> is \<open>jobs.py\<close>: every method of the store as a transaction on its tables. \<open>Jobs_Inv\<close> has
  its invariant \<open>store_ok\<close>, \<open>Jobs_Steps\<close> the step relation \<open>job_step\<close> with reachability, the abstract life cycle and the
  exclusivity of running operations, \<open>Jobs_Props\<close> what each method promises. \<open>Documents\<close> and
  \<open>Documents_Props\<close> are \<open>documents.py\<close>: files with modification times under a quota. \<open>Rag_Core\<close> and
  \<open>Rag_Core_Props\<close> are \<open>rag_core.py\<close>. \<open>Index_Repo\<close> and \<open>Query_Engine\<close> (with \<open>Query_Props\<close>) are the two halves of
  \<open>compute.py\<close>. \<open>Executor\<close> is \<open>executor.py\<close> over a record of what it calls; \<open>Executor_Props\<close> states these interfaces as
  locales (\<open>progress_provider\<close>, \<open>index_provider\<close>) and proves inside them that a claimed operation is always settled, that the queue
  drains and that a rebuild switches all or nothing; \<open>Repo_Env\<close> interprets them with the index repository and the
  query engine, and \<open>Repo_Props\<close> states the results on the assembled runner. \<open>Worker\<close> is \<open>worker.py\<close>, the
  middleware and every endpoint on the state of the app; \<open>Worker_Props\<close> treats one request, \<open>Worker_Exchange\<close> any sequence of requests
  and rounds of the runner and the answer on its way back; \<open>Worker_Examples\<close> is a concrete worker for the witnesses.

  \<^bold>\<open>Gateway.\<close> \<open>Gateway_Store\<close> (\<open>gateway/store.py\<close>): who owns a job. \<open>Gateway_Client\<close>: the clients of worker and Novo, request models,
  file secrets, browser checks. \<open>Gateway_Sync\<close> (\<open>gateway/sync.py\<close>): export and ingestion, with Novo and
  the worker as two separate worlds \<open>'n\<close> and \<open>'w\<close>. \<open>Gateway_App\<close> (\<open>gateway/app.py\<close>): commands, status and results.
  \<open>Gateway_Sync_Props\<close> connects the export to the worker's document store; \<open>Gateway_Props\<close> has what leaves the gateway and
  for whom; \<open>Gateway_Pages\<close> has the pages, the endpoints that only read, and the headers that every answer carries.

  \<^bold>\<open>Models.\<close> \<open>Model_Server\<close> is \<open>deploy/compute-host/modelctl_server.py\<close> from the inventory to one served connection, and
  \<open>Model_Client\<close> is \<open>model_controller.py\<close>. \<open>Model_Control_Props\<close> proves the two ends against each other, byte by
  byte; \<open>Model_Exclusive\<close> has the at-most-one invariant over any sequence of connections, the confinement to a few Docker commands
  and the configuration. \<open>Model_Backend\<close> with \<open>Model_Backend_Props\<close> is \<open>model_backend.py\<close>: embeddings, planning, generation, readiness.

  \<^bold>\<open>Start-up.\<close> \<open>Settings\<close> is \<open>gateway/config.py\<close> over a model of \<open>urlsplit\<close>, \<open>Runtime\<close> is \<open>runtime.py\<close>, and
  \<open>Runtime_Props\<close> shows that a gateway and a worker that start are wired to each other on the loopback address.

  \<^bold>\<open>How code becomes definitions.\<close> A method is a function from its arguments and the state it changes to a result, \<open>Inl\<close>
  for the exception, and the state after it, which is kept where the code has changed it before raising. Times are integers in
  microseconds, and the clock, random names and what services answer are arguments. A SQL transaction that raises leaves the store as it
  was (\<open>transact\<close>). Scores of the query engine live in an ordered type with the operations the code uses, so that no rounding
  is idealised.

  \<^bold>\<open>Bounds and fuel.\<close> The decoder of \<open>Json_Loads\<close> recurses on fuel \<open>2 * length + 2\<close>, and every call consumes a
  character or descends once, so it never runs out. The polling of a job (\<open>poll_job\<close>) takes its fuel \<open>up_polls\<close> as the number of polls before
  \<open>asyncio\<close> times out, and running out is that timeout. \<open>run_until_idle\<close> drains the queue with as much fuel as there are queued operations,
  \<open>run_until_idle_drains_queue\<close>. The wait for readiness needs one probe for every two seconds and one more,
  \<open>wait_until_ready_returns\<close>. All other loops are structural or have a measure.

  \<^bold>\<open>Parameters and what is assumed of them.\<close> SHA-256 and HMAC (claims about forgery name the collision that would be needed), pydantic's parsing of a
  request into the typed documents, FastAPI's rendering, NFKC and case folding, \<open>str\<close> of a value that is no string, NumPy,
  BM25, embeddings and language models, HTTP transport, files of the host and \<open>ipaddress\<close>. Docker is a parameter too: exclusivity assumes that
  only \<open>docker start c\<close> makes a container run and that it does so before it returns, that a container
  inspected as not running does not run, and that the inventory file stays as it is; containers may stop at any time.

  \<^bold>\<open>Not modelled.\<close> The browser code and the deployment templates (other languages and other software's configuration); routing of unknown paths, static
  files and the event loop of the servers; the thread that wakes the executor; opening and migrating the SQLite files; command-line parsing, socket
  activation and signals. JSON nesting is unlimited in the model, where CPython raises \<open>RecursionError\<close>.
  Failures of single file operations inside the document store and the index repository appear only where the code handles them.
\<close>

end
